(* ===== verification/Prelude.thy ===== *)
theory Prelude
  imports Main "HOL-Library.Word" "HOL-Library.Char_ord" "HOL-Library.List_Lexorder"
begin

text \<open>
  Shared vocabulary of the development: the faults a C++ run can end in, the result type and its
  sequencing, byte buffers with bounds-checked \<open>memcpy\<close>, the two's-complement 32-bit \<open>int\<close> and its
  little-endian memory image, and key-ordered association lists (the abstract content of one
  key-value database).
\<close>

unbundle bit_operations_syntax

named_theorems fault_simps \<open>how the result type is sequenced\<close>
named_theorems mem_simps \<open>bounds-checked reads and writes of byte buffers\<close>
named_theorems kv_simps \<open>updates, deletions and look-ups of key-ordered association lists\<close>

section \<open>Results\<close>

text \<open>
  The undefined behaviours, failed assertions, endless waits and deadly signals the sources can run
  into (\<open>Broken_pipe\<close> is the process ended by \<open>SIGPIPE\<close>). A definition whose C++ counterpart can do
  one of these returns it as the left summand.
\<close>

datatype fault =
    Out_of_bounds_read
  | Buffer_overflow
  | Uninitialised_read
  | Null_pointer
  | Assertion_failed
  | Invalid_iterator
  | Bad_descriptor
  | Blocked_forever
  | Broken_pipe
  | Endless_loop
  | Out_of_fuel

type_synonym 'a result = "fault + 'a"

fun bindr :: "'a result \<Rightarrow> ('a \<Rightarrow> 'b result) \<Rightarrow> 'b result" where
  "bindr (Inl e) f = Inl e"
| "bindr (Inr x) f = f x"

declare bindr.simps [fault_simps]

definition guard :: "fault \<Rightarrow> bool \<Rightarrow> unit result" where
  "guard e b = (if b then Inr () else Inl e)"

definition deref :: "'a option \<Rightarrow> 'a result" where
  "deref p = (case p of None \<Rightarrow> Inl Null_pointer | Some x \<Rightarrow> Inr x)"

text \<open>A loop modelled by a partial function: no result means it never ends.\<close>

definition of_loop :: "'a option \<Rightarrow> 'a result" where
  "of_loop r = (case r of None \<Rightarrow> Inl Endless_loop | Some x \<Rightarrow> Inr x)"

lemma of_loop_simps [simp]: "of_loop None = Inl Endless_loop" "of_loop (Some x) = Inr x"
  by (simp_all add: of_loop_def)

lemma bindr_eq_Inr [fault_simps]: "bindr r f = Inr y \<longleftrightarrow> (\<exists>x. r = Inr x \<and> f x = Inr y)"
  by (cases r) auto

lemma guard_simps [simp, fault_simps]:
  "guard e True = Inr ()" "guard e False = Inl e" "guard e b = Inr u \<longleftrightarrow> b"
  by (auto simp: guard_def)

lemma deref_simps [simp, fault_simps]:
  "deref None = Inl Null_pointer" "deref (Some x) = Inr x" "deref p = Inr x \<longleftrightarrow> p = Some x"
  by (auto simp: deref_def split: option.splits)

section \<open>Bytes, buffers and the 32-bit int\<close>

type_synonym byte = char
type_synonym bytes = "char list"
type_synonym c_int = "32 word"

definition NUL :: byte where
  "NUL = CHR 0x00"

text \<open>\<open>memcpy\<close> out of a buffer at an offset, and into it.\<close>

definition mem_read :: "bytes \<Rightarrow> nat \<Rightarrow> nat \<Rightarrow> bytes result" where
  "mem_read m p n = (if p + n \<le> length m then Inr (take n (drop p m)) else Inl Out_of_bounds_read)"

definition mem_write :: "bytes \<Rightarrow> nat \<Rightarrow> bytes \<Rightarrow> bytes result" where
  "mem_write m p bs =
     (if p + length bs \<le> length m
      then Inr (take p m @ bs @ drop (p + length bs) m) else Inl Buffer_overflow)"

text \<open>\<open>memcpy\<close> to a pointer; the pointer it returns is the one to the memory written.\<close>

definition c_memcpy :: "bytes option \<Rightarrow> bytes \<Rightarrow> bytes option result" where
  "c_memcpy dest src = bindr (deref dest) (\<lambda>m. bindr (mem_write m 0 src) (\<lambda>m. Inr (Some m)))"

lemma mem_read_append [mem_simps]:
  "mem_read (as @ bs @ cs) (length as) (length bs) = Inr bs"
  by (simp add: mem_read_def)

lemma mem_read_at [mem_simps]:
  "p = length as \<Longrightarrow> n = length bs \<Longrightarrow> mem_read (as @ bs @ cs) p n = Inr bs"
  by (simp add: mem_read_def)

lemma mem_write_at [mem_simps]:
  assumes "p = length as" "length bs \<le> length rest"
  shows "mem_write (as @ rest) p bs = Inr (as @ bs @ drop (length bs) rest)"
  using assms by (simp add: mem_write_def)

lemma mem_write_length: "mem_write m p bs = Inr m' \<Longrightarrow> length m' = length m"
  by (auto simp: mem_write_def split: if_splits)

lemma mem_write_overflow: "length m < p + length bs \<Longrightarrow> mem_write m p bs = Inl Buffer_overflow"
  by (simp add: mem_write_def)

text \<open>The memory image of an \<open>int\<close> (little-endian, as on the platforms the build links for).\<close>

definition int_bytes :: "c_int \<Rightarrow> bytes" where
  "int_bytes w =
     [char_of (unat w), char_of (unat (drop_bit 8 w)),
      char_of (unat (drop_bit 16 w)), char_of (unat (drop_bit 24 w))]"

fun bytes_int :: "bytes \<Rightarrow> c_int" where
  "bytes_int [b0, b1, b2, b3] =
     of_char b0 OR push_bit 8 (of_char b1) OR push_bit 16 (of_char b2) OR push_bit 24 (of_char b3)"
| "bytes_int _ = 0"

text \<open>An \<open>int\<close> passed where a \<open>size_t\<close> is expected is sign-extended to 64 bits.\<close>

definition size_of_int :: "c_int \<Rightarrow> nat" where
  "size_of_int w = unat (scast w :: 64 word)"

lemma length_int_bytes [simp]: "length (int_bytes w) = 4"
  by (simp add: int_bytes_def)

lemma bytes_int_int_bytes [simp]: "bytes_int (int_bytes w) = w"
proof -
  have low: "(of_char (char_of (unat v)) :: c_int) = take_bit 8 v" for v :: c_int
  proof -
    have "(of_char (char_of (unat v)) :: c_int) = of_nat (of_char (char_of (unat v)))"
      by (simp only: of_nat_of_char)
    also have "\<dots> = of_nat (take_bit 8 (unat v))"
      by (simp add: take_bit_eq_mod)
    also have "\<dots> = take_bit 8 v"
      by (simp add: of_nat_take_bit)
    finally show ?thesis .
  qed
  show ?thesis
    unfolding int_bytes_def bytes_int.simps low
  proof (rule bit_word_eqI)
    fix n
    assume "n < LENGTH(32)"
    then show "bit (take_bit 8 w OR push_bit 8 (take_bit 8 (drop_bit 8 w)) OR
        push_bit 16 (take_bit 8 (drop_bit 16 w)) OR push_bit 24 (take_bit 8 (drop_bit 24 w))) n
        = bit w n"
      by (cases "n < 24"; cases "n < 16"; auto simp: bit_simps)
  qed
qed

lemma size_of_int_small:
  assumes "n < 2 ^ 31"
  shows "size_of_int (word_of_nat n) = n"
proof -
  have "sint (word_of_nat n :: c_int) = int n"
    using assms by (simp add: signed_of_nat signed_take_bit_int_eq_self)
  then have "uint (scast (word_of_nat n :: c_int) :: 64 word) = int n"
    using assms by (simp add: scast_eq unsigned_of_nat take_bit_nat_eq_self)
  then show ?thesis
    by (simp add: size_of_int_def unat_eq_nat_uint)
qed

section \<open>C strings\<close>

text \<open>The text of a NUL-terminated string: what \<open>std::string(const char *)\<close> copies.\<close>

definition c_str_text :: "bytes \<Rightarrow> string" where
  "c_str_text bs = takeWhile (\<lambda>c. c \<noteq> NUL) bs"

definition nul_free :: "string \<Rightarrow> bool" where
  "nul_free s \<longleftrightarrow> NUL \<notin> set s"

lemma c_str_text_nul_free [simp]: "nul_free s \<Longrightarrow> c_str_text (s @ NUL # rest) = s"
  by (auto simp: c_str_text_def nul_free_def takeWhile_append)

lemma c_str_split: "NUL \<in> set bs \<Longrightarrow> \<exists>rest. bs = c_str_text bs @ NUL # rest"
  by (induction bs) (auto simp: c_str_text_def)

lemma c_str_text_is_nul_free: "nul_free (c_str_text bs)"
  by (auto simp: c_str_text_def nul_free_def dest: set_takeWhileD)

section \<open>Decimal numerals\<close>

text \<open>\<open>std::to_string\<close> on unsigned and signed integers.\<close>

fun to_string_nat :: "nat \<Rightarrow> string" where
  "to_string_nat n =
     (if n < 10 then [char_of (48 + n)] else to_string_nat (n div 10) @ [char_of (48 + n mod 10)])"

declare to_string_nat.simps [simp del]

definition to_string_int :: "int \<Rightarrow> string" where
  "to_string_int i = (if i < 0 then CHR ''-'' # to_string_nat (nat (- i)) else to_string_nat (nat i))"

lemma to_string_nat_digits: "set (to_string_nat n) \<subseteq> set ''0123456789''"
proof (induction n rule: to_string_nat.induct)
  case (1 n)
  have "\<forall>m \<in> set [0..<10]. char_of (48 + m) \<in> set ''0123456789''"
    by code_simp
  then have digit: "char_of (48 + m) \<in> set ''0123456789''" if "m < 10" for m :: nat
    using that by simp
  show ?case
    by (cases "n < 10") (use 1 digit in \<open>auto simp: to_string_nat.simps [of n]\<close>)
qed

lemma to_string_nat_nonempty [simp]: "to_string_nat n \<noteq> []"
  by (subst to_string_nat.simps) simp

section \<open>Key-ordered association lists\<close>

text \<open>
  Keys are ordered bytewise (\<open>memcmp\<close>): the lexicographic order of lists over the unsigned
  order of bytes. The string order of \<open>std::string\<close> is the same order.
\<close>

type_synonym kv = "(string \<times> string) list"

abbreviation kv_keys :: "('a \<times> 'b) list \<Rightarrow> 'a list" where
  "kv_keys xs \<equiv> map fst xs"

definition kv_sorted :: "('a::linorder \<times> 'b) list \<Rightarrow> bool" where
  "kv_sorted xs \<longleftrightarrow> sorted_wrt (<) (kv_keys xs)"

fun kv_put :: "'a::linorder \<Rightarrow> 'b \<Rightarrow> ('a \<times> 'b) list \<Rightarrow> ('a \<times> 'b) list" where
  "kv_put k v [] = [(k, v)]"
| "kv_put k v ((k', v') # xs) =
     (if k < k' then (k, v) # (k', v') # xs
      else if k = k' then (k, v) # xs
      else (k', v') # kv_put k v xs)"

definition kv_del :: "'a \<Rightarrow> ('a \<times> 'b) list \<Rightarrow> ('a \<times> 'b) list" where
  "kv_del k xs = filter (\<lambda>e. fst e \<noteq> k) xs"

definition kv_get :: "'a \<Rightarrow> ('a \<times> 'b) list \<Rightarrow> 'b option" where
  "kv_get k xs = map_of xs k"

lemma kv_sorted_simps [simp, kv_simps]:
  "kv_sorted []"
  "kv_sorted (e # xs) \<longleftrightarrow> (\<forall>k \<in> set (kv_keys xs). fst e < k) \<and> kv_sorted xs"
  by (simp_all add: kv_sorted_def)

lemma kv_sorted_append [kv_simps]:
  "kv_sorted (xs @ ys) \<longleftrightarrow> kv_sorted xs \<and> kv_sorted ys \<and>
     (\<forall>a \<in> set (kv_keys xs). \<forall>b \<in> set (kv_keys ys). a < b)"
  by (simp add: kv_sorted_def sorted_wrt_append)

lemma kv_sorted_distinct: "kv_sorted xs \<Longrightarrow> distinct (kv_keys xs)"
  by (simp add: kv_sorted_def strict_sorted_iff)

lemma kv_keys_put [simp, kv_simps]: "set (kv_keys (kv_put k v xs)) = insert k (set (kv_keys xs))"
  by (induction k v xs rule: kv_put.induct) auto

lemma set_kv_put: "set (kv_put k v xs) \<subseteq> insert (k, v) (set xs)"
  by (induction k v xs rule: kv_put.induct) auto

lemma fst_set_kv_put [simp]: "fst ` set (kv_put k v xs) = insert k (fst ` set xs)"
  using kv_keys_put [of k v xs] by simp

lemma kv_sorted_put [simp, kv_simps]: "kv_sorted xs \<Longrightarrow> kv_sorted (kv_put k v xs)"
  by (induction k v xs rule: kv_put.induct) (auto simp: kv_sorted_def)

lemma kv_sorted_del [simp, kv_simps]: "kv_sorted xs \<Longrightarrow> kv_sorted (kv_del k xs)"
  by (induction xs) (auto simp: kv_del_def)

lemma kv_keys_del [simp, kv_simps]: "set (kv_keys (kv_del k xs)) = set (kv_keys xs) - {k}"
  by (auto simp: kv_del_def)

lemma map_of_kv_put [simp, kv_simps]: "map_of (kv_put k v xs) = (map_of xs)(k \<mapsto> v)"
  by (induction k v xs rule: kv_put.induct) auto

lemma map_of_kv_del [simp, kv_simps]: "map_of (kv_del k xs) = (map_of xs)(k := None)"
  by (induction xs) (auto simp: kv_del_def)

lemma kv_del_absent [kv_simps]: "k \<notin> set (kv_keys xs) \<Longrightarrow> kv_del k xs = xs"
  by (induction xs) (auto simp: kv_del_def)

lemma kv_put_nonempty [simp]: "kv_put k v xs \<noteq> []"
  by (induction k v xs rule: kv_put.induct) auto

lemma kv_get_put [kv_simps]: "kv_get k' (kv_put k v xs) = (if k' = k then Some v else kv_get k' xs)"
  by (simp add: kv_get_def)

lemma kv_get_del [kv_simps]: "kv_get k' (kv_del k xs) = (if k' = k then None else kv_get k' xs)"
  by (simp add: kv_get_def)

text \<open>The first and the last key are the least and the greatest one.\<close>

lemma kv_sorted_hd_le: "kv_sorted xs \<Longrightarrow> k \<in> set (kv_keys xs) \<Longrightarrow> fst (hd xs) \<le> k"
  by (cases xs) (auto simp: less_imp_le)

lemma kv_sorted_le_last: "kv_sorted xs \<Longrightarrow> k \<in> set (kv_keys xs) \<Longrightarrow> k \<le> fst (last xs)"
  by (induction xs) (auto simp: less_imp_le)

section \<open>The bytewise order of strings\<close>

lemma string_less_snoc: "(k :: 'a::linorder list) < k @ [c]"
  by (induction k) auto

text \<open>
  Nothing lies strictly between a string and the string with a NUL byte appended: seeking the
  latter is seeking the first key strictly above the former.
\<close>

lemma NUL_least: "NUL \<le> c"
  by (simp add: NUL_def less_eq_char_def)

lemma snoc_NUL_le_iff: "k @ [NUL] \<le> x \<longleftrightarrow> k < x"
proof (induction k arbitrary: x)
  case Nil
  then show ?case
  proof (cases x)
    case (Cons a xs)
    have "[] \<le> xs"
      by (cases xs) auto
    then show ?thesis
      using Cons NUL_least [of a] by (auto simp: le_less)
  qed simp
next
  case (Cons a k)
  then show ?case
    by (cases x) auto
qed

end
