(* ===== verification/Handle_Buff.thy ===== *)
theory Handle_Buff
  imports Prelude
begin

text \<open>
  The wire format (\<open>my_code/handle_buff\<close>) and the command words (\<open>my_code/const_values\<close>). A buffer
  is a list of bytes and a pointer into it an offset; every \<open>memcpy\<close> is bounds-checked, so an
  overrun of the C++ code is a fault of the model. The locale \<open>buff_codec\<close> is what the users of
  the format rely on: what was inserted at a position is read back from it, and the pointers
  advance by the encoded length. It is interpreted for strings and for ints.
\<close>

section \<open>const\_values: command words and buffer size\<close>

definition MAXLINE :: nat where
  "MAXLINE = 40960"

definition get_PUT :: string where
  "get_PUT = ''put''"

definition get_GET :: string where
  "get_GET = ''get''"

definition get_DEL :: string where
  "get_DEL = ''del''"

definition get_DEL_LOG :: string where
  "get_DEL_LOG = ''dlg''"

definition get_COMMIT_LOG :: string where
  "get_COMMIT_LOG = ''CLG''"

definition get_SIZE :: string where
  "get_SIZE = ''size''"

definition get_QUIT :: string where
  "get_QUIT = ''quit''"

definition get_LOG :: string where
  "get_LOG = ''log''"

definition get_TEST :: string where
  "get_TEST = ''test''"

definition get_OK :: string where
  "get_OK = ''ok''"

definition get_MAX_KEY :: string where
  "get_MAX_KEY = ''max''"

definition get_MIN_KEY :: string where
  "get_MIN_KEY = ''min''"

definition get_LESS_OR_EQUAL_ONE :: string where
  "get_LESS_OR_EQUAL_ONE = ''LEO''"

lemmas command_defs =
  get_PUT_def get_GET_def get_DEL_def get_DEL_LOG_def get_COMMIT_LOG_def get_SIZE_def get_QUIT_def
  get_LOG_def get_TEST_def get_OK_def get_MAX_KEY_def get_MIN_KEY_def get_LESS_OR_EQUAL_ONE_def

section \<open>handle\_buff: strings and ints in a buffer\<close>

definition get_string_from_buff :: "bytes \<Rightarrow> nat \<Rightarrow> (string \<times> nat) result" where
  "get_string_from_buff buff p =
     bindr (mem_read buff p 4) (\<lambda>len_bytes.
     let len = bytes_int len_bytes; new_buff = p + 4 in
     bindr (guard Buffer_overflow (size_of_int len \<le> MAXLINE)) (\<lambda>_.
     bindr (mem_read buff new_buff (size_of_int len)) (\<lambda>tmp.
     bindr (guard Uninitialised_read (NUL \<in> set tmp)) (\<lambda>_.
     Inr (c_str_text tmp, new_buff + size_of_int len)))))"

definition insert_str_to_buff :: "bytes \<Rightarrow> nat \<Rightarrow> string \<Rightarrow> c_int \<Rightarrow> (bytes \<times> nat \<times> c_int) result" where
  "insert_str_to_buff buff start_address str total_len =
     (let len = (word_of_nat (length str) :: c_int) + 1 in
     bindr (mem_write buff start_address (int_bytes len)) (\<lambda>buff.
     bindr (mem_read (str @ [NUL]) 0 (size_of_int len)) (\<lambda>src.
     bindr (mem_write buff (start_address + 4) src) (\<lambda>buff.
     Inr (buff, start_address + 4 + size_of_int len, total_len + (len + 4))))))"

definition insert_int_to_buff :: "bytes \<Rightarrow> nat \<Rightarrow> c_int \<Rightarrow> c_int \<Rightarrow> (bytes \<times> nat \<times> c_int) result" where
  "insert_int_to_buff buff start_address a total_len =
     bindr (mem_write buff start_address (int_bytes a)) (\<lambda>buff.
     Inr (buff, start_address + 4, total_len + 4))"

definition get_int_from_buff :: "bytes \<Rightarrow> nat \<Rightarrow> (c_int \<times> nat) result" where
  "get_int_from_buff buff p =
     bindr (mem_read buff p 4) (\<lambda>tmp. Inr (bytes_int tmp, p + 4))"

text \<open>The loop of \<open>insert_str_s_to_buff\<close>, with its local total.\<close>

fun insert_str_s_loop :: "bytes \<Rightarrow> nat \<Rightarrow> string list \<Rightarrow> c_int \<Rightarrow> (bytes \<times> nat \<times> c_int) result" where
  "insert_str_s_loop buff p [] total_size_t = Inr (buff, p, total_size_t)"
| "insert_str_s_loop buff p (s # str_s) total_size_t =
     bindr (insert_str_to_buff buff p s total_size_t) (\<lambda>(buff, p, total_size_t).
     insert_str_s_loop buff p str_s total_size_t)"

definition insert_str_s_to_buff ::
    "bytes \<Rightarrow> nat \<Rightarrow> string list \<Rightarrow> c_int \<Rightarrow> (bytes \<times> nat \<times> c_int) result" where
  "insert_str_s_to_buff buff start_address str_s total_size =
     bindr (insert_str_s_loop buff start_address str_s 0) (\<lambda>(buff, p, total_size_t).
     Inr (buff, p, total_size + total_size_t))"

section \<open>The encoding as a pure function\<close>

definition enc_int :: "c_int \<Rightarrow> bytes" where
  "enc_int a = int_bytes a"

definition enc_str :: "string \<Rightarrow> bytes" where
  "enc_str s = int_bytes (word_of_nat (length s + 1)) @ s @ [NUL]"

text \<open>The strings that fit the reader's stack buffer and survive C-string truncation.\<close>

definition wire_str :: "string \<Rightarrow> bool" where
  "wire_str s \<longleftrightarrow> nul_free s \<and> length s < MAXLINE"

lemma length_enc_int [simp]: "length (enc_int a) = 4"
  by (simp add: enc_int_def)

lemma length_enc_str [simp]: "length (enc_str s) = length s + 5"
  by (simp add: enc_str_def)

lemma enc_str_nonempty [simp]: "enc_str s \<noteq> []"
  by (simp add: enc_str_def)

lemma insert_str_at:
  assumes "p = length pre" "length s + 5 \<le> length rest" "length s < 2 ^ 31 - 1"
  shows "insert_str_to_buff (pre @ rest) p s t =
    Inr (pre @ enc_str s @ drop (length s + 5) rest, p + length (enc_str s),
         t + word_of_nat (length (enc_str s)))"
proof -
  have len: "(word_of_nat (length s) :: c_int) + 1 = word_of_nat (length s + 1)"
    by simp
  have sz: "size_of_int (word_of_nat (length s + 1)) = length s + 1"
    using assms(3) by (intro size_of_int_small) simp
  have w1: "mem_write (pre @ rest) p (int_bytes l) = Inr (pre @ int_bytes l @ drop 4 rest)" for l
    using assms by (simp add: mem_write_at)
  have w2: "mem_write (pre @ int_bytes l @ drop 4 rest) (p + 4) (s @ [NUL])
      = Inr (pre @ int_bytes l @ s @ NUL # drop (length s + 5) rest)" for l
    using mem_write_at [of "p + 4" "pre @ int_bytes l" "s @ [NUL]" "drop 4 rest"] assms
    by (simp add: add.commute)
  show ?thesis
    unfolding insert_str_to_buff_def Let_def len sz w1 bindr.simps
    by (simp add: mem_read_def w2 enc_str_def algebra_simps)
qed

lemma insert_int_at:
  assumes "p = length pre" "4 \<le> length rest"
  shows "insert_int_to_buff (pre @ rest) p a t =
    Inr (pre @ enc_int a @ drop 4 rest, p + length (enc_int a), t + word_of_nat (length (enc_int a)))"
  using assms by (simp add: insert_int_to_buff_def mem_write_at enc_int_def)

lemma get_int_at:
  "p = length pre \<Longrightarrow> get_int_from_buff (pre @ enc_int a @ rest) p = Inr (a, p + length (enc_int a))"
  by (simp add: get_int_from_buff_def enc_int_def mem_read_at)

text \<open>Reading an encoded string gives its text up to the first NUL.\<close>

lemma get_string_enc:
  assumes "p = length pre" "length s < MAXLINE"
  shows "get_string_from_buff (pre @ enc_str s @ rest) p = Inr (c_str_text (s @ [NUL]), p + length (enc_str s))"
proof -
  have sz: "size_of_int (word_of_nat (length s + 1)) = length s + 1"
    using assms(2) by (intro size_of_int_small) (simp add: MAXLINE_def)
  have r1: "mem_read (pre @ enc_str s @ rest) p 4 = Inr (int_bytes (word_of_nat (length s + 1)))"
    using assms(1) by (simp add: enc_str_def mem_read_at)
  have r2: "mem_read (pre @ enc_str s @ rest) (p + 4) (length s + 1) = Inr (s @ [NUL])"
    using mem_read_at [of "p + 4" "pre @ int_bytes (word_of_nat (length s + 1))" "length s + 1" "s @ [NUL]" rest]
      assms(1) by (simp add: enc_str_def)
  show ?thesis
    unfolding get_string_from_buff_def r1 bindr.simps Let_def bytes_int_int_bytes sz r2
    using assms(2) by simp
qed

lemma get_string_at:
  assumes "p = length pre" "wire_str s"
  shows "get_string_from_buff (pre @ enc_str s @ rest) p = Inr (s, p + length (enc_str s))"
  using get_string_enc [OF assms(1), of s rest] assms(2) by (simp add: wire_str_def)

section \<open>The codec interface\<close>

locale buff_codec =
  fixes put :: "bytes \<Rightarrow> nat \<Rightarrow> 'a \<Rightarrow> c_int \<Rightarrow> (bytes \<times> nat \<times> c_int) result"
    and get :: "bytes \<Rightarrow> nat \<Rightarrow> ('a \<times> nat) result"
    and enc :: "'a \<Rightarrow> bytes"
    and ok :: "'a \<Rightarrow> bool"
  assumes put_at: "ok x \<Longrightarrow> p = length pre \<Longrightarrow> length (enc x) \<le> length rest \<Longrightarrow>
      put (pre @ rest) p x t =
        Inr (pre @ enc x @ drop (length (enc x)) rest, p + length (enc x), t + word_of_nat (length (enc x)))"
    and get_at: "ok x \<Longrightarrow> p = length pre \<Longrightarrow> get (pre @ enc x @ rest) p = Inr (x, p + length (enc x))"
begin

text \<open>Insertion at any offset of a large enough buffer, in terms of the whole buffer.\<close>

lemma put_in:
  assumes "ok x" "p + length (enc x) \<le> length m"
  shows "put m p x t =
    Inr (take p m @ enc x @ drop (p + length (enc x)) m, p + length (enc x),
         t + word_of_nat (length (enc x)))"
proof -
  have "put (take p m @ drop p m) p x t = Inr (take p m @ enc x @ drop (length (enc x)) (drop p m),
      p + length (enc x), t + word_of_nat (length (enc x)))"
    by (rule put_at) (use assms in auto)
  then show ?thesis
    by (simp add: add.commute)
qed

lemma round_trip:
  assumes "ok x" "p + length (enc x) \<le> length m"
  shows "\<exists>m' q t'. put m p x t = Inr (m', q, t') \<and> get m' p = Inr (x, q) \<and> length m' = length m"
proof -
  have "get (take p m @ enc x @ drop (p + length (enc x)) m) p = Inr (x, p + length (enc x))"
    using assms by (intro get_at) auto
  then show ?thesis
    using put_in [OF assms] assms by auto
qed

end

interpretation str_codec: buff_codec insert_str_to_buff get_string_from_buff enc_str wire_str
proof unfold_locales
  fix x :: string and p :: nat and pre rest :: bytes and t :: c_int
  assume "wire_str x" and "p = length pre" and "length (enc_str x) \<le> length rest"
  then show "insert_str_to_buff (pre @ rest) p x t = Inr (pre @ enc_str x @ drop (length (enc_str x)) rest,
      p + length (enc_str x), t + word_of_nat (length (enc_str x)))"
    using insert_str_at [of p pre x rest t] by (simp add: wire_str_def MAXLINE_def)
qed (rule get_string_at)

interpretation int_codec: buff_codec insert_int_to_buff get_int_from_buff enc_int "\<lambda>_. True"
  by unfold_locales (simp_all add: insert_int_at get_int_at)

text \<open>The concatenation a list of strings is sent as, and reading it back one by one.\<close>

definition enc_strs :: "string list \<Rightarrow> bytes" where
  "enc_strs ss = concat (map enc_str ss)"

fun get_strings :: "nat \<Rightarrow> bytes \<Rightarrow> nat \<Rightarrow> (string list \<times> nat) result" where
  "get_strings 0 buff p = Inr ([], p)"
| "get_strings (Suc n) buff p =
     bindr (get_string_from_buff buff p) (\<lambda>(s, p).
     bindr (get_strings n buff p) (\<lambda>(ss, p). Inr (s # ss, p)))"

lemma insert_str_s_loop_at:
  assumes "p = length pre" "length (enc_strs ss) \<le> length rest" "\<forall>s \<in> set ss. wire_str s"
  shows "insert_str_s_loop (pre @ rest) p ss t =
    Inr (pre @ enc_strs ss @ drop (length (enc_strs ss)) rest, p + length (enc_strs ss),
         t + word_of_nat (length (enc_strs ss)))"
  using assms
proof (induction ss arbitrary: p pre rest t)
  case Nil
  then show ?case by (simp add: enc_strs_def)
next
  case (Cons s ss)
  have one: "insert_str_to_buff (pre @ rest) p s t = Inr (pre @ enc_str s @ drop (length (enc_str s)) rest,
      p + length (enc_str s), t + word_of_nat (length (enc_str s)))"
    using Cons.prems by (intro str_codec.put_at) (auto simp: enc_strs_def)
  have "insert_str_s_loop ((pre @ enc_str s) @ drop (length (enc_str s)) rest) (p + length (enc_str s)) ss
      (t + word_of_nat (length (enc_str s))) =
    Inr ((pre @ enc_str s) @ enc_strs ss @ drop (length (enc_strs ss)) (drop (length (enc_str s)) rest),
      p + length (enc_str s) + length (enc_strs ss),
      t + word_of_nat (length (enc_str s)) + word_of_nat (length (enc_strs ss)))"
    by (rule Cons.IH) (use Cons.prems in \<open>auto simp: enc_strs_def\<close>)
  with one show ?case
    by (simp add: enc_strs_def algebra_simps)
qed

lemma get_strings_at:
  assumes "p = length pre" "\<forall>s \<in> set ss. wire_str s"
  shows "get_strings (length ss) (pre @ enc_strs ss @ rest) p = Inr (ss, p + length (enc_strs ss))"
  using assms
proof (induction ss arbitrary: p pre)
  case Nil
  then show ?case by (simp add: enc_strs_def)
next
  case (Cons s ss)
  have "get_string_from_buff (pre @ enc_str s @ enc_strs ss @ rest) p = Inr (s, p + length (enc_str s))"
    using Cons.prems by (intro str_codec.get_at) auto
  moreover have "get_strings (length ss) ((pre @ enc_str s) @ enc_strs ss @ rest) (p + length (enc_str s))
      = Inr (ss, p + length (enc_str s) + length (enc_strs ss))"
    by (rule Cons.IH) (use Cons.prems in auto)
  ultimately show ?case
    by (simp add: enc_strs_def)
qed

section \<open>Properties\<close>

text \<open>
  A string without NUL bytes that fits the buffer is written without a fault at any offset,
  leaves every byte outside its own cells untouched, and is read back from that offset unchanged;
  the reader's returned pointer is the writer's returned pointer.
\<close>

lemma string_buffer_round_trip:
  assumes "nul_free s" "length s < MAXLINE" "p + length s + 5 \<le> length m"
  shows "\<exists>m' q t'. insert_str_to_buff m p s t = Inr (m', q, t') \<and> get_string_from_buff m' p = Inr (s, q) \<and>
    length m' = length m \<and> take p m' = take p m \<and> drop q m' = drop q m"
proof -
  have ok: "wire_str s" and fits: "p + length (enc_str s) \<le> length m"
    using assms by (auto simp: wire_str_def)
  obtain m' q t' where put: "insert_str_to_buff m p s t = Inr (m', q, t')"
    and get: "get_string_from_buff m' p = Inr (s, q)" "length m' = length m"
    using str_codec.round_trip [OF ok fits] by blast
  moreover from put have "take p m' = take p m \<and> drop q m' = drop q m"
    using str_codec.put_in [OF ok fits, of t] fits by auto
  ultimately show ?thesis by blast
qed

lemma string_buffer_round_trip_witness:
  "\<exists>m' q t'. insert_str_to_buff (replicate 12 NUL) 2 ''abc'' 0 = Inr (m', q, t') \<and>
    get_string_from_buff m' 2 = Inr (''abc'', q) \<and> length m' = 12"
  using string_buffer_round_trip [of "''abc''" 2 "replicate 12 NUL" 0]
  by (auto simp: nul_free_def NUL_def MAXLINE_def)

text \<open>
  C13: a message of several strings written by \<open>insert_str_s_to_buff\<close> is read back string by string
  in the same order, and the running total grows by exactly the number of bytes written.
\<close>

theorem message_round_trip:
  assumes "\<forall>s \<in> set ss. nul_free s \<and> length s < MAXLINE" "length (enc_strs ss) \<le> length m"
  shows "\<exists>m' q. insert_str_s_to_buff m 0 ss t = Inr (m', q, t + word_of_nat (length (enc_strs ss))) \<and>
    get_strings (length ss) m' 0 = Inr (ss, q) \<and> q = length (enc_strs ss)"
proof -
  have wire: "\<forall>s \<in> set ss. wire_str s"
    using assms(1) by (simp add: wire_str_def)
  show ?thesis
    using insert_str_s_loop_at [of 0 "[]" ss m 0] get_strings_at [of 0 "[]" ss] assms(2) wire
    by (simp add: insert_str_s_to_buff_def)
qed

theorem message_round_trip_witness:
  "\<exists>m' q. insert_str_s_to_buff (replicate 20 NUL) 0 [''test'', ''x''] 0 = Inr (m', q, 15) \<and>
    get_strings 2 m' 0 = Inr ([''test'', ''x''], q)"
  using message_round_trip [of "[''test'', ''x'']" "replicate 20 NUL" 0]
  by (auto simp: nul_free_def NUL_def MAXLINE_def enc_strs_def numeral_2_eq_2)

text \<open>
  C17: writing a string (shorter than \<open>2^31 - 1\<close> bytes) overruns the buffer exactly when the length
  word, the text and its terminator do not fit behind the start address: the writer has no bounds
  check of its own.
\<close>

theorem insert_str_overflow_iff:
  assumes "length s < 2 ^ 31 - 1"
  shows "insert_str_to_buff m p s t = Inl Buffer_overflow \<longleftrightarrow> length m < p + length s + 5"
proof (cases "length m < p + length s + 5")
  case False
  then show ?thesis
    using insert_str_at [of p "take p m" s "drop p m" t] assms by simp
next
  case True
  have sz: "size_of_int ((word_of_nat (length s) :: c_int) + 1) = length s + 1"
    using size_of_int_small [of "length s + 1"] assms by (simp add: add.commute)
  have "mem_write m' (p + 4) (s @ [NUL]) = Inl Buffer_overflow" if "length m' = length m" for m'
    using True that by (simp add: mem_write_def)
  with True show ?thesis
    by (auto simp: insert_str_to_buff_def sz mem_read_def Let_def mem_write_def)
qed

theorem insert_str_overflow_iff_witness:
  "insert_str_to_buff (replicate 7 NUL) 0 ''abc'' 0 = Inl Buffer_overflow"
  using insert_str_overflow_iff [of "''abc''" "replicate 7 NUL" 0 0] by simp

text \<open>The length word as \<open>memcpy\<close> takes it: a negative \<open>int\<close> becomes a \<open>size_t\<close> of almost \<open>2^64\<close>.\<close>

lemma size_of_int_sint: "int (size_of_int len) = (if sint len < 0 then sint len + 2 ^ 64 else sint len)"
proof -
  have range: "- (2 ^ 31) \<le> sint len" "sint len < 2 ^ 31"
    using sint_greater_eq [of len] sint_less [of len] by simp_all
  have "sint len mod 2 ^ 64 = (if sint len < 0 then sint len + 2 ^ 64 else sint len)"
  proof (cases "sint len < 0")
    case True
    then have "(sint len + 2 ^ 64) mod 2 ^ 64 = sint len + 2 ^ 64"
      using range by (intro mod_pos_pos_trivial) auto
    then show ?thesis
      using True by (simp only: mod_add_self2 if_True)
  next
    case False
    then show ?thesis
      using range by (simp add: mod_pos_pos_trivial)
  qed
  then have "uint (scast len :: 64 word) = (if sint len < 0 then sint len + 2 ^ 64 else sint len)"
    by (simp only: scast_eq uint_word_of_int) simp
  then show ?thesis
    using range(1) by (simp add: size_of_int_def unat_eq_nat_uint split: if_splits)
qed

text \<open>
  C29: the reader trusts the length word it finds: it overruns its stack buffer exactly when that
  word is negative or above \<open>MAXLINE\<close>, whatever bytes follow, and however many there are.
\<close>

theorem hostile_length_overflows:
  assumes "mem_read buff p 4 = Inr (int_bytes len)"
  shows "get_string_from_buff buff p = Inl Buffer_overflow \<longleftrightarrow> sint len < 0 \<or> int MAXLINE < sint len"
proof -
  have "size_of_int len \<le> MAXLINE \<longleftrightarrow> 0 \<le> sint len \<and> sint len \<le> int MAXLINE"
    using size_of_int_sint [of len] sint_greater_eq [of len] by (auto simp: MAXLINE_def split: if_splits)
  then show ?thesis
    using assms by (cases "NUL \<in> set (take (size_of_int len) (drop (p + 4) buff))") (auto simp: get_string_from_buff_def mem_read_def Let_def guard_def split: if_splits)
qed

theorem hostile_length_overflows_witness:
  "get_string_from_buff (int_bytes (- 1) @ ''xyz'') 0 = Inl Buffer_overflow"
  using hostile_length_overflows [of "int_bytes (- 1) @ ''xyz''" 0 "- 1"] by (simp add: mem_read_def)

end
