(* ===== verification/Slices.thy ===== *)
theory Slices
  imports Prelude "HOL-Library.Sublist"
begin

text \<open>
  \<open>rocksdb/slice.h\<close> and \<open>rocksdb/cleanable.h\<close>: the byte-range type every database call takes and
  returns. A slice is the memory readable from its data pointer (\<open>None\<close> for a null pointer) and a
  size; the bytes it denotes are the first \<open>sl_size\<close> ones. The asserts of the header are guards that
  end in \<open>Assertion_failed\<close>. Out-of-line members (\<open>ToString\<close>, \<open>DecodeHex\<close>, \<open>RegisterCleanup\<close>) are
  code of the library and parameters where they are used.
\<close>

section \<open>Slice\<close>

record Slice =
  sl_data :: "bytes option"
  sl_size :: nat

text \<open>The constructors. The memory of a \<open>std::string\<close> ends in a NUL byte.\<close>

definition Slice_default :: Slice where
  "Slice_default = \<lparr>sl_data = Some [NUL], sl_size = 0\<rparr>"

definition Slice_of_buff :: "bytes \<Rightarrow> nat \<Rightarrow> Slice" where
  "Slice_of_buff d n = \<lparr>sl_data = Some d, sl_size = n\<rparr>"

definition Slice_of_string :: "string \<Rightarrow> Slice" where
  "Slice_of_string s = \<lparr>sl_data = Some (s @ [NUL]), sl_size = length s\<rparr>"

definition strlen :: "bytes \<Rightarrow> nat result" where
  "strlen s = (if NUL \<in> set s then Inr (length (c_str_text s)) else Inl Out_of_bounds_read)"

definition Slice_of_c_str :: "bytes option \<Rightarrow> Slice result" where
  "Slice_of_c_str s = (case s of
       None \<Rightarrow> Inr \<lparr>sl_data = None, sl_size = 0\<rparr>
     | Some m \<Rightarrow> bindr (strlen m) (\<lambda>n. Inr \<lparr>sl_data = Some m, sl_size = n\<rparr>))"

text \<open>The readable bytes: what \<open>memcmp\<close> and \<open>memcpy\<close> over the whole slice see.\<close>

definition slice_read :: "Slice \<Rightarrow> nat \<Rightarrow> nat \<Rightarrow> bytes result" where
  "slice_read s p n = bindr (deref (sl_data s)) (\<lambda>m. mem_read m p n)"

definition slice_bytes :: "Slice \<Rightarrow> bytes" where
  "slice_bytes s = (case sl_data s of None \<Rightarrow> [] | Some m \<Rightarrow> take (sl_size s) m)"

definition slice_ok :: "Slice \<Rightarrow> bool" where
  "slice_ok s \<longleftrightarrow> (\<exists>m. sl_data s = Some m \<and> sl_size s \<le> length m)"

definition Slice_data :: "Slice \<Rightarrow> bytes option" where
  "Slice_data s = sl_data s"

definition Slice_size :: "Slice \<Rightarrow> nat" where
  "Slice_size s = sl_size s"

definition Slice_empty :: "Slice \<Rightarrow> bool" where
  "Slice_empty s \<longleftrightarrow> sl_size s = 0"

definition Slice_nth :: "Slice \<Rightarrow> nat \<Rightarrow> byte result" where
  "Slice_nth s n =
     bindr (guard Assertion_failed (n < Slice_size s)) (\<lambda>_.
     bindr (slice_read s n 1) (\<lambda>bs. Inr (hd bs)))"

definition Slice_clear :: "Slice \<Rightarrow> Slice" where
  "Slice_clear s = s\<lparr>sl_data := Some [NUL], sl_size := 0\<rparr>"

definition Slice_remove_prefix :: "Slice \<Rightarrow> nat \<Rightarrow> Slice result" where
  "Slice_remove_prefix s n =
     bindr (guard Assertion_failed (n \<le> Slice_size s)) (\<lambda>_.
     Inr (s\<lparr>sl_data := map_option (drop n) (sl_data s), sl_size := sl_size s - n\<rparr>))"

definition Slice_remove_suffix :: "Slice \<Rightarrow> nat \<Rightarrow> Slice result" where
  "Slice_remove_suffix s n =
     bindr (guard Assertion_failed (n \<le> Slice_size s)) (\<lambda>_.
     Inr (s\<lparr>sl_size := sl_size s - n\<rparr>))"

text \<open>\<open>memcmp\<close>: the sign of the difference at the first differing byte, as unsigned values.\<close>

fun memcmp :: "bytes \<Rightarrow> bytes \<Rightarrow> int" where
  "memcmp (a # as) (b # bs) = (if a < b then - 1 else if b < a then 1 else memcmp as bs)"
| "memcmp _ _ = 0"

definition Slice_memcmp :: "Slice \<Rightarrow> nat \<Rightarrow> Slice \<Rightarrow> nat \<Rightarrow> int result" where
  "Slice_memcmp x p y n =
     bindr (slice_read x p n) (\<lambda>a. bindr (slice_read y 0 n) (\<lambda>b. Inr (memcmp a b)))"

definition Slice_starts_with :: "Slice \<Rightarrow> Slice \<Rightarrow> bool result" where
  "Slice_starts_with s x =
     (if sl_size s \<ge> sl_size x then bindr (Slice_memcmp s 0 x (sl_size x)) (\<lambda>r. Inr (r = 0)) else Inr False)"

definition Slice_ends_with :: "Slice \<Rightarrow> Slice \<Rightarrow> bool result" where
  "Slice_ends_with s x =
     (if sl_size s \<ge> sl_size x
      then bindr (Slice_memcmp s (sl_size s - sl_size x) x (sl_size x)) (\<lambda>r. Inr (r = 0)) else Inr False)"

definition Slice_eq :: "Slice \<Rightarrow> Slice \<Rightarrow> bool result" where
  "Slice_eq x y =
     (if Slice_size x = Slice_size y
      then bindr (Slice_memcmp x 0 y (Slice_size x)) (\<lambda>r. Inr (r = 0)) else Inr False)"

definition Slice_neq :: "Slice \<Rightarrow> Slice \<Rightarrow> bool result" where
  "Slice_neq x y = bindr (Slice_eq x y) (\<lambda>b. Inr (\<not> b))"

definition Slice_compare :: "Slice \<Rightarrow> Slice \<Rightarrow> int result" where
  "Slice_compare a b =
     bindr (guard Assertion_failed (sl_data a \<noteq> None \<and> sl_data b \<noteq> None)) (\<lambda>_.
     let min_len = (if sl_size a < sl_size b then sl_size a else sl_size b) in
     bindr (Slice_memcmp a 0 b min_len) (\<lambda>r.
     Inr (if r = 0 then (if sl_size a < sl_size b then - 1 else if sl_size a > sl_size b then 1 else r) else r)))"

text \<open>The loop of \<open>difference_offset\<close> over the two common prefixes.\<close>

function difference_loop :: "bytes \<Rightarrow> bytes \<Rightarrow> nat \<Rightarrow> nat \<Rightarrow> nat" where
  "difference_loop a b len off =
     (if off < len then (if a ! off \<noteq> b ! off then off else difference_loop a b len (Suc off)) else off)"
  by pat_completeness auto
termination
  by (relation "measure (\<lambda>(a, b, len, off). len - off)") auto

declare difference_loop.simps [simp del]

definition Slice_difference_offset :: "Slice \<Rightarrow> Slice \<Rightarrow> nat result" where
  "Slice_difference_offset a b =
     (let len = (if sl_size a < sl_size b then sl_size a else sl_size b) in
      bindr (slice_read a 0 len) (\<lambda>x. bindr (slice_read b 0 len) (\<lambda>y.
      Inr (difference_loop x y len 0))))"

record SliceParts =
  parts :: "Slice list option"
  num_parts :: "32 word"

definition SliceParts_of :: "Slice list \<Rightarrow> 32 word \<Rightarrow> SliceParts" where
  "SliceParts_of ps n = \<lparr>parts = Some ps, num_parts = n\<rparr>"

definition SliceParts_default :: SliceParts where
  "SliceParts_default = \<lparr>parts = None, num_parts = 0\<rparr>"

section \<open>Cleanable\<close>

text \<open>
  The head node lives in the object, the others on the heap; a cleanup is a function with its two
  arguments, here an element of \<open>'c\<close>. Running cleanups is recorded as the list of calls made.
\<close>

record 'c Cleanable =
  cleanup_function :: "'c option"
  cleanup_next :: "'c list"

definition Cleanable_DoCleanup :: "('c, 'm) Cleanable_scheme \<Rightarrow> 'c list" where
  "Cleanable_DoCleanup c = (case cleanup_function c of None \<Rightarrow> [] | Some f \<Rightarrow> f # cleanup_next c)"

definition Cleanable_Reset :: "('c, 'm) Cleanable_scheme \<Rightarrow> ('c, 'm) Cleanable_scheme \<times> 'c list" where
  "Cleanable_Reset c = (c\<lparr>cleanup_function := None, cleanup_next := []\<rparr>, Cleanable_DoCleanup c)"

section \<open>PinnableSlice\<close>

text \<open>
  \<open>buf_\<close> points to the object's own \<open>self_space\<close> (\<open>None\<close>) or to a string of the caller, whose
  content is then part of the state. \<open>RegisterCleanup\<close> and \<open>DelegateCleanupsTo\<close> are library code:
  parameters that give the object's new cleanups.
\<close>

record 'c PinnableSlice = "'c Cleanable" +
  pin_slice :: Slice
  self_space :: string
  buf_ext :: "string option"
  pinned :: bool

definition PinnableSlice_default :: "'c PinnableSlice" where
  "PinnableSlice_default =
     \<lparr>cleanup_function = None, cleanup_next = [], pin_slice = Slice_default,
      self_space = [], buf_ext = None, pinned = False\<rparr>"

definition PinnableSlice_of_buf :: "string \<Rightarrow> 'c PinnableSlice" where
  "PinnableSlice_of_buf buf = PinnableSlice_default\<lparr>buf_ext := Some buf\<rparr>"

definition PinnableSlice_GetSelf :: "'c PinnableSlice \<Rightarrow> string" where
  "PinnableSlice_GetSelf p = (case buf_ext p of None \<Rightarrow> self_space p | Some s \<Rightarrow> s)"

definition pin_set_buf :: "'c PinnableSlice \<Rightarrow> string \<Rightarrow> 'c PinnableSlice" where
  "pin_set_buf p s = (case buf_ext p of
       None \<Rightarrow> p\<lparr>self_space := s\<rparr> | Some _ \<Rightarrow> p\<lparr>buf_ext := Some s\<rparr>)"

definition PinnableSlice_IsPinned :: "'c PinnableSlice \<Rightarrow> bool" where
  "PinnableSlice_IsPinned p \<longleftrightarrow> pinned p"

definition PinnableSlice_PinSlice ::
    "('c PinnableSlice \<Rightarrow> 'c PinnableSlice) \<Rightarrow> 'c PinnableSlice \<Rightarrow> Slice \<Rightarrow> 'c PinnableSlice result" where
  "PinnableSlice_PinSlice register p s =
     bindr (guard Assertion_failed (\<not> pinned p)) (\<lambda>_.
     let p = register (p\<lparr>pinned := True, pin_slice := \<lparr>sl_data = Slice_data s, sl_size = Slice_size s\<rparr>\<rparr>) in
     bindr (guard Assertion_failed (pinned p)) (\<lambda>_. Inr p))"

definition PinnableSlice_PinSelf :: "'c PinnableSlice \<Rightarrow> 'c PinnableSlice result" where
  "PinnableSlice_PinSelf p =
     bindr (guard Assertion_failed (\<not> pinned p)) (\<lambda>_.
     Inr (p\<lparr>pin_slice := Slice_of_string (PinnableSlice_GetSelf p)\<rparr>))"

definition PinnableSlice_PinSelf_slice :: "'c PinnableSlice \<Rightarrow> Slice \<Rightarrow> 'c PinnableSlice result" where
  "PinnableSlice_PinSelf_slice p s =
     bindr (guard Assertion_failed (\<not> pinned p)) (\<lambda>_.
     bindr (slice_read s 0 (Slice_size s)) (\<lambda>bs.
     let p = pin_set_buf p bs in
     Inr (p\<lparr>pin_slice := Slice_of_string (PinnableSlice_GetSelf p)\<rparr>)))"

definition PinnableSlice_remove_suffix :: "'c PinnableSlice \<Rightarrow> nat \<Rightarrow> 'c PinnableSlice result" where
  "PinnableSlice_remove_suffix p n =
     bindr (guard Assertion_failed (n \<le> sl_size (pin_slice p))) (\<lambda>_.
     if pinned p then Inr (p\<lparr>pin_slice := (pin_slice p)\<lparr>sl_size := sl_size (pin_slice p) - n\<rparr>\<rparr>)
     else
       let s = PinnableSlice_GetSelf p; at = sl_size (pin_slice p) - n in
       PinnableSlice_PinSelf (pin_set_buf p (take at s @ drop (at + n) s)))"

definition PinnableSlice_remove_prefix :: "'c PinnableSlice \<Rightarrow> nat \<Rightarrow> 'c PinnableSlice result" where
  "PinnableSlice_remove_prefix p n =
     bindr (guard Assertion_failed (n \<le> sl_size (pin_slice p))) (\<lambda>_.
     if pinned p
     then Inr (p\<lparr>pin_slice := \<lparr>sl_data = map_option (drop n) (sl_data (pin_slice p)),
                                sl_size = sl_size (pin_slice p) - n\<rparr>\<rparr>)
     else PinnableSlice_PinSelf (pin_set_buf p (drop n (PinnableSlice_GetSelf p))))"

definition PinnableSlice_Reset :: "'c PinnableSlice \<Rightarrow> 'c PinnableSlice \<times> 'c list" where
  "PinnableSlice_Reset p =
     (let (p, ran) = Cleanable_Reset p in
      (p\<lparr>pinned := False, pin_slice := (pin_slice p)\<lparr>sl_size := 0\<rparr>\<rparr>, ran))"

section \<open>Facts\<close>

lemma slice_of_string_ok [simp]: "slice_ok (Slice_of_string s)" "slice_bytes (Slice_of_string s) = s"
  by (simp_all add: slice_ok_def slice_bytes_def Slice_of_string_def)

lemma slice_of_buff_ok [simp]: "slice_ok (Slice_of_buff d n) \<longleftrightarrow> n \<le> length d"
  "slice_bytes (Slice_of_buff d n) = take n d"
  by (simp_all add: slice_ok_def slice_bytes_def Slice_of_buff_def)

lemma length_slice_bytes [simp]: "slice_ok s \<Longrightarrow> length (slice_bytes s) = sl_size s"
  by (auto simp: slice_ok_def slice_bytes_def)

lemma slice_read_ok: "slice_ok s \<Longrightarrow> p + n \<le> sl_size s \<Longrightarrow> slice_read s p n = Inr (take n (drop p (slice_bytes s)))"
  by (auto simp: slice_ok_def slice_read_def slice_bytes_def mem_read_def take_drop)

lemma memcmp_eq_0: "length a = length b \<Longrightarrow> memcmp a b = 0 \<longleftrightarrow> a = b"
  by (induction a b rule: memcmp.induct) auto

lemma memcmp_less: "length a = length b \<Longrightarrow> memcmp a b < 0 \<longleftrightarrow> a < b"
  by (induction a b rule: memcmp.induct) auto

lemma memcmp_greater: "length a = length b \<Longrightarrow> memcmp a b > 0 \<longleftrightarrow> b < a"
  by (induction a b rule: memcmp.induct) auto

lemma Slice_memcmp_ok:
  "slice_ok x \<Longrightarrow> slice_ok y \<Longrightarrow> p + n \<le> sl_size x \<Longrightarrow> n \<le> sl_size y \<Longrightarrow>
    Slice_memcmp x p y n = Inr (memcmp (take n (drop p (slice_bytes x))) (take n (slice_bytes y)))"
  by (simp add: Slice_memcmp_def slice_read_ok)

lemma Slice_eq_ok: "slice_ok x \<Longrightarrow> slice_ok y \<Longrightarrow> Slice_eq x y = Inr (slice_bytes x = slice_bytes y)"
  by (auto simp: Slice_eq_def Slice_size_def Slice_memcmp_ok memcmp_eq_0)
    (metis length_slice_bytes)

text \<open>Comparing common prefixes first and lengths second is comparing the whole strings.\<close>

lemma list_less_by_prefix:
  fixes a b :: "'a::linorder list"
  assumes "n = min (length a) (length b)"
  shows "a < b \<longleftrightarrow> take n a < take n b \<or> take n a = take n b \<and> length a < length b"
  using assms
proof (induction a arbitrary: b n)
  case Nil
  then show ?case by (cases b) auto
next
  case (Cons x a)
  then show ?case by (cases b) auto
qed

lemma Slice_compare_order:
  assumes "slice_ok a" "slice_ok b"
  shows "\<exists>r. Slice_compare a b = Inr r \<and> (r < 0 \<longleftrightarrow> slice_bytes a < slice_bytes b) \<and>
    (r = 0 \<longleftrightarrow> slice_bytes a = slice_bytes b) \<and> (r > 0 \<longleftrightarrow> slice_bytes b < slice_bytes a)"
proof -
  let ?a = "slice_bytes a" and ?b = "slice_bytes b"
  let ?n = "if sl_size a < sl_size b then sl_size a else sl_size b"
  have n: "?n = min (length ?a) (length ?b)" "?n \<le> sl_size a" "?n \<le> sl_size b"
    using assms by auto
  have len: "length (take ?n ?a) = length (take ?n ?b)"
    using assms by auto
  have data: "sl_data a \<noteq> None \<and> sl_data b \<noteq> None"
    using assms by (auto simp: slice_ok_def)
  define c where "c = memcmp (take ?n ?a) (take ?n ?b)"
  have c: "c < 0 \<longleftrightarrow> take ?n ?a < take ?n ?b" "c = 0 \<longleftrightarrow> take ?n ?a = take ?n ?b"
    "c > 0 \<longleftrightarrow> take ?n ?b < take ?n ?a"
    unfolding c_def using len by (simp_all add: memcmp_less memcmp_eq_0 memcmp_greater)
  have cmp: "Slice_compare a b = Inr (if c = 0 then (if sl_size a < sl_size b then - 1
      else if sl_size a > sl_size b then 1 else c) else c)"
    using assms data n by (simp add: Slice_compare_def Slice_memcmp_ok c_def Let_def)
  have sizes: "sl_size a = length ?a" "sl_size b = length ?b"
    using assms by simp_all
  have lt: "?a < ?b \<longleftrightarrow> take ?n ?a < take ?n ?b \<or> take ?n ?a = take ?n ?b \<and> length ?a < length ?b"
    by (rule list_less_by_prefix [OF n(1)])
  have gt: "?b < ?a \<longleftrightarrow> take ?n ?b < take ?n ?a \<or> take ?n ?b = take ?n ?a \<and> length ?b < length ?a"
    using n(1) by (intro list_less_by_prefix) simp
  have eq: "?a = ?b \<longleftrightarrow> \<not> ?a < ?b \<and> \<not> ?b < ?a"
    by auto
  have order: "?a < ?b \<longleftrightarrow> c < 0 \<or> c = 0 \<and> sl_size a < sl_size b"
    "?b < ?a \<longleftrightarrow> c > 0 \<or> c = 0 \<and> sl_size b < sl_size a"
    using lt gt c sizes by (metis, metis)
  show ?thesis
    unfolding cmp eq order by auto
qed

section \<open>Properties\<close>

text \<open>
  On readable slices \<open>Slice::compare\<close> never faults and its sign is the bytewise order of the
  two contents: negative exactly for less, zero exactly for equal, positive exactly for greater.
\<close>

lemma Slice_compare_sign:
  assumes "slice_ok a" "slice_ok b"
  shows "\<exists>r. Slice_compare a b = Inr r \<and> (r < 0 \<longleftrightarrow> slice_bytes a < slice_bytes b) \<and>
    (r = 0 \<longleftrightarrow> slice_bytes a = slice_bytes b) \<and> (r > 0 \<longleftrightarrow> slice_bytes b < slice_bytes a)"
  by (rule Slice_compare_order [OF assms])

lemma Slice_compare_sign_witness:
  "\<exists>r. Slice_compare (Slice_of_string ''ab'') (Slice_of_buff ''abcd'' 3) = Inr r \<and> r < 0"
  using Slice_compare_sign [of "Slice_of_string ''ab''" "Slice_of_buff ''abcd'' 3"] by auto

text \<open>
  \<open>starts_with\<close> and \<open>ends_with\<close> on readable slices decide the prefix and the suffix relation
  of the contents.
\<close>

lemma Slice_starts_ends_with:
  assumes "slice_ok s" "slice_ok x"
  shows "Slice_starts_with s x = Inr (prefix (slice_bytes x) (slice_bytes s)) \<and>
    Slice_ends_with s x = Inr (suffix (slice_bytes x) (slice_bytes s))"
proof (intro conjI)
  let ?s = "slice_bytes s" and ?x = "slice_bytes x"
  have len: "length ?s = sl_size s" "length ?x = sl_size x"
    using assms by simp_all
  have "prefix ?x ?s \<longleftrightarrow> length ?x \<le> length ?s \<and> take (length ?x) ?s = ?x"
    by (auto simp: prefix_def) (metis append_take_drop_id)
  then show "Slice_starts_with s x = Inr (prefix ?x ?s)"
    using assms len by (auto simp: Slice_starts_with_def Slice_memcmp_ok memcmp_eq_0)
  have "suffix ?x ?s \<longleftrightarrow> length ?x \<le> length ?s \<and> drop (length ?s - length ?x) ?s = ?x"
    by (auto simp: suffix_def) (metis append_take_drop_id)
  then show "Slice_ends_with s x = Inr (suffix ?x ?s)"
    using assms len by (auto simp: Slice_ends_with_def Slice_memcmp_ok memcmp_eq_0)
qed

lemma Slice_starts_ends_with_witness:
  "Slice_starts_with (Slice_of_string ''abc'') (Slice_of_string ''ab'') = Inr True \<and>
   Slice_ends_with (Slice_of_string ''abc'') (Slice_of_string ''ab'') = Inr False"
  using Slice_starts_ends_with [of "Slice_of_string ''abc''" "Slice_of_string ''ab''"]
  by (simp add: suffix_def Cons_eq_append_conv)

end
