(* ===== verification/Statuses.thy ===== *)
theory Statuses
  imports Slices
begin

text \<open>
  \<open>rocksdb/status.h\<close> and \<open>rocksdb/io_status.h\<close>: the result codes of every database call. The three
  enums keep their numeric values; every inline constructor, factory, predicate, copy and move of
  the two classes is a definition. The facts show that the predicates classify the codes, that the
  factories and predicates agree, what copies and moves keep, and how messages are formatted.
\<close>

section \<open>Status\<close>

datatype Code =
    kOk | kNotFound | kCorruption | kNotSupported | kInvalidArgument | kIOError
  | kMergeInProgress | kIncomplete | kShutdownInProgress | kTimedOut | kAborted | kBusy
  | kExpired | kTryAgain | kCompactionTooLarge | kColumnFamilyDropped | kMaxCode

fun code_value :: "Code \<Rightarrow> nat" where
  "code_value kOk = 0"
| "code_value kNotFound = 1"
| "code_value kCorruption = 2"
| "code_value kNotSupported = 3"
| "code_value kInvalidArgument = 4"
| "code_value kIOError = 5"
| "code_value kMergeInProgress = 6"
| "code_value kIncomplete = 7"
| "code_value kShutdownInProgress = 8"
| "code_value kTimedOut = 9"
| "code_value kAborted = 10"
| "code_value kBusy = 11"
| "code_value kExpired = 12"
| "code_value kTryAgain = 13"
| "code_value kCompactionTooLarge = 14"
| "code_value kColumnFamilyDropped = 15"
| "code_value kMaxCode = 16"

datatype SubCode =
    kNone | kMutexTimeout | kLockTimeout | kLockLimit | kNoSpace | kDeadlock | kStaleFile
  | kMemoryLimit | kSpaceLimit | kPathNotFound | KMergeOperandsInsufficientCapacity
  | kManualCompactionPaused | kOverwritten | kTxnNotPrepared | kIOFenced | kMaxSubCode

fun subcode_value :: "SubCode \<Rightarrow> nat" where
  "subcode_value kNone = 0"
| "subcode_value kMutexTimeout = 1"
| "subcode_value kLockTimeout = 2"
| "subcode_value kLockLimit = 3"
| "subcode_value kNoSpace = 4"
| "subcode_value kDeadlock = 5"
| "subcode_value kStaleFile = 6"
| "subcode_value kMemoryLimit = 7"
| "subcode_value kSpaceLimit = 8"
| "subcode_value kPathNotFound = 9"
| "subcode_value KMergeOperandsInsufficientCapacity = 10"
| "subcode_value kManualCompactionPaused = 11"
| "subcode_value kOverwritten = 12"
| "subcode_value kTxnNotPrepared = 13"
| "subcode_value kIOFenced = 14"
| "subcode_value kMaxSubCode = 15"

datatype Severity =
    kNoError | kSoftError | kHardError | kFatalError | kUnrecoverableError | kMaxSeverity

fun severity_value :: "Severity \<Rightarrow> nat" where
  "severity_value kNoError = 0"
| "severity_value kSoftError = 1"
| "severity_value kHardError = 2"
| "severity_value kFatalError = 3"
| "severity_value kUnrecoverableError = 4"
| "severity_value kMaxSeverity = 5"

text \<open>
  \<open>state_\<close> is a NUL-terminated message on the heap or null. The \<open>checked_\<close> flag exists only in builds
  with \<open>ROCKSDB_ASSERT_STATUS_CHECKED\<close>, which this one is not; \<open>MarkChecked\<close> and \<open>MustCheck\<close> do nothing.
\<close>

record Status =
  st_code :: Code
  st_subcode :: SubCode
  st_sev :: Severity
  st_state :: "bytes option"

definition Status_default :: "Status" where
  "Status_default = \<lparr>st_code = kOk, st_subcode = kNone, st_sev = kNoError, st_state = None\<rparr>"

definition Status_code_subcode :: "Code \<Rightarrow> SubCode \<Rightarrow> Status" where
  "Status_code_subcode c sc = \<lparr>st_code = c, st_subcode = sc, st_sev = kNoError, st_state = None\<rparr>"

text \<open>
  The constructor that formats two messages is out of line: \<open>ctor\<close> below, an argument of every
  operation that calls it. \<open>cp\<close> is the out-of-line \<open>CopyState\<close>.
\<close>

type_synonym status_ctor = "Code \<Rightarrow> SubCode \<Rightarrow> Slice \<Rightarrow> Slice \<Rightarrow> Severity \<Rightarrow> Status"

definition Status_code_msg :: "status_ctor \<Rightarrow> Code \<Rightarrow> Slice \<Rightarrow> Slice \<Rightarrow> Status" where
  "Status_code_msg ctor c msg msg2 = ctor c kNone msg msg2 kNoError"

definition Status_sev_msg :: "status_ctor \<Rightarrow> Code \<Rightarrow> SubCode \<Rightarrow> Severity \<Rightarrow> Slice \<Rightarrow> Status" where
  "Status_sev_msg ctor c sc sev msg = ctor c sc msg (Slice_of_string []) sev"

definition Status_code :: "Status \<Rightarrow> Code" where
  "Status_code s = st_code s"

definition Status_subcode :: "Status \<Rightarrow> SubCode" where
  "Status_subcode s = st_subcode s"

definition Status_severity :: "Status \<Rightarrow> Severity" where
  "Status_severity s = st_sev s"

definition Status_getState :: "Status \<Rightarrow> bytes option" where
  "Status_getState s = st_state s"

definition Status_OK :: "Status" where
  "Status_OK = Status_default"

definition Status_OkOverwritten :: "Status" where
  "Status_OkOverwritten = Status_code_subcode kOk kOverwritten"

definition Status_NotFound :: "SubCode \<Rightarrow> Status" where
  "Status_NotFound msg = Status_code_subcode kNotFound msg"

definition Status_NotFound_msg :: "status_ctor \<Rightarrow> Slice \<Rightarrow> Slice \<Rightarrow> Status" where
  "Status_NotFound_msg ctor msg msg2 = Status_code_msg ctor kNotFound msg msg2"

definition Status_NotFound_sub_msg :: "status_ctor \<Rightarrow> SubCode \<Rightarrow> Slice \<Rightarrow> Slice \<Rightarrow> Status" where
  "Status_NotFound_sub_msg ctor sc msg msg2 = ctor kNotFound sc msg msg2 kNoError"

definition Status_Corruption :: "SubCode \<Rightarrow> Status" where
  "Status_Corruption msg = Status_code_subcode kCorruption msg"

definition Status_Corruption_msg :: "status_ctor \<Rightarrow> Slice \<Rightarrow> Slice \<Rightarrow> Status" where
  "Status_Corruption_msg ctor msg msg2 = Status_code_msg ctor kCorruption msg msg2"

definition Status_NotSupported :: "SubCode \<Rightarrow> Status" where
  "Status_NotSupported msg = Status_code_subcode kNotSupported msg"

definition Status_NotSupported_msg :: "status_ctor \<Rightarrow> Slice \<Rightarrow> Slice \<Rightarrow> Status" where
  "Status_NotSupported_msg ctor msg msg2 = Status_code_msg ctor kNotSupported msg msg2"

definition Status_InvalidArgument :: "SubCode \<Rightarrow> Status" where
  "Status_InvalidArgument msg = Status_code_subcode kInvalidArgument msg"

definition Status_InvalidArgument_msg :: "status_ctor \<Rightarrow> Slice \<Rightarrow> Slice \<Rightarrow> Status" where
  "Status_InvalidArgument_msg ctor msg msg2 = Status_code_msg ctor kInvalidArgument msg msg2"

definition Status_IOError :: "SubCode \<Rightarrow> Status" where
  "Status_IOError msg = Status_code_subcode kIOError msg"

definition Status_IOError_msg :: "status_ctor \<Rightarrow> Slice \<Rightarrow> Slice \<Rightarrow> Status" where
  "Status_IOError_msg ctor msg msg2 = Status_code_msg ctor kIOError msg msg2"

definition Status_MergeInProgress :: "SubCode \<Rightarrow> Status" where
  "Status_MergeInProgress msg = Status_code_subcode kMergeInProgress msg"

definition Status_MergeInProgress_msg :: "status_ctor \<Rightarrow> Slice \<Rightarrow> Slice \<Rightarrow> Status" where
  "Status_MergeInProgress_msg ctor msg msg2 = Status_code_msg ctor kMergeInProgress msg msg2"

definition Status_Incomplete :: "SubCode \<Rightarrow> Status" where
  "Status_Incomplete msg = Status_code_subcode kIncomplete msg"

definition Status_Incomplete_msg :: "status_ctor \<Rightarrow> Slice \<Rightarrow> Slice \<Rightarrow> Status" where
  "Status_Incomplete_msg ctor msg msg2 = Status_code_msg ctor kIncomplete msg msg2"

definition Status_ShutdownInProgress :: "SubCode \<Rightarrow> Status" where
  "Status_ShutdownInProgress msg = Status_code_subcode kShutdownInProgress msg"

definition Status_ShutdownInProgress_msg :: "status_ctor \<Rightarrow> Slice \<Rightarrow> Slice \<Rightarrow> Status" where
  "Status_ShutdownInProgress_msg ctor msg msg2 = Status_code_msg ctor kShutdownInProgress msg msg2"

definition Status_Aborted :: "SubCode \<Rightarrow> Status" where
  "Status_Aborted msg = Status_code_subcode kAborted msg"

definition Status_Aborted_msg :: "status_ctor \<Rightarrow> Slice \<Rightarrow> Slice \<Rightarrow> Status" where
  "Status_Aborted_msg ctor msg msg2 = Status_code_msg ctor kAborted msg msg2"

definition Status_Busy :: "SubCode \<Rightarrow> Status" where
  "Status_Busy msg = Status_code_subcode kBusy msg"

definition Status_Busy_msg :: "status_ctor \<Rightarrow> Slice \<Rightarrow> Slice \<Rightarrow> Status" where
  "Status_Busy_msg ctor msg msg2 = Status_code_msg ctor kBusy msg msg2"

definition Status_TimedOut :: "SubCode \<Rightarrow> Status" where
  "Status_TimedOut msg = Status_code_subcode kTimedOut msg"

definition Status_TimedOut_msg :: "status_ctor \<Rightarrow> Slice \<Rightarrow> Slice \<Rightarrow> Status" where
  "Status_TimedOut_msg ctor msg msg2 = Status_code_msg ctor kTimedOut msg msg2"

definition Status_Expired :: "SubCode \<Rightarrow> Status" where
  "Status_Expired msg = Status_code_subcode kExpired msg"

definition Status_Expired_msg :: "status_ctor \<Rightarrow> Slice \<Rightarrow> Slice \<Rightarrow> Status" where
  "Status_Expired_msg ctor msg msg2 = Status_code_msg ctor kExpired msg msg2"

definition Status_TryAgain :: "SubCode \<Rightarrow> Status" where
  "Status_TryAgain msg = Status_code_subcode kTryAgain msg"

definition Status_TryAgain_msg :: "status_ctor \<Rightarrow> Slice \<Rightarrow> Slice \<Rightarrow> Status" where
  "Status_TryAgain_msg ctor msg msg2 = Status_code_msg ctor kTryAgain msg msg2"

definition Status_CompactionTooLarge :: "SubCode \<Rightarrow> Status" where
  "Status_CompactionTooLarge msg = Status_code_subcode kCompactionTooLarge msg"

definition Status_CompactionTooLarge_msg :: "status_ctor \<Rightarrow> Slice \<Rightarrow> Slice \<Rightarrow> Status" where
  "Status_CompactionTooLarge_msg ctor msg msg2 = Status_code_msg ctor kCompactionTooLarge msg msg2"

definition Status_ColumnFamilyDropped :: "SubCode \<Rightarrow> Status" where
  "Status_ColumnFamilyDropped msg = Status_code_subcode kColumnFamilyDropped msg"

definition Status_ColumnFamilyDropped_msg :: "status_ctor \<Rightarrow> Slice \<Rightarrow> Slice \<Rightarrow> Status" where
  "Status_ColumnFamilyDropped_msg ctor msg msg2 = Status_code_msg ctor kColumnFamilyDropped msg msg2"

definition Status_NoSpace :: "Status" where
  "Status_NoSpace = Status_code_subcode kIOError kNoSpace"

definition Status_NoSpace_msg :: "status_ctor \<Rightarrow> Slice \<Rightarrow> Slice \<Rightarrow> Status" where
  "Status_NoSpace_msg ctor msg msg2 = ctor kIOError kNoSpace msg msg2 kNoError"

definition Status_MemoryLimit :: "Status" where
  "Status_MemoryLimit = Status_code_subcode kAborted kMemoryLimit"

definition Status_MemoryLimit_msg :: "status_ctor \<Rightarrow> Slice \<Rightarrow> Slice \<Rightarrow> Status" where
  "Status_MemoryLimit_msg ctor msg msg2 = ctor kAborted kMemoryLimit msg msg2 kNoError"

definition Status_SpaceLimit :: "Status" where
  "Status_SpaceLimit = Status_code_subcode kIOError kSpaceLimit"

definition Status_SpaceLimit_msg :: "status_ctor \<Rightarrow> Slice \<Rightarrow> Slice \<Rightarrow> Status" where
  "Status_SpaceLimit_msg ctor msg msg2 = ctor kIOError kSpaceLimit msg msg2 kNoError"

definition Status_PathNotFound :: "Status" where
  "Status_PathNotFound = Status_code_subcode kIOError kPathNotFound"

definition Status_PathNotFound_msg :: "status_ctor \<Rightarrow> Slice \<Rightarrow> Slice \<Rightarrow> Status" where
  "Status_PathNotFound_msg ctor msg msg2 = ctor kIOError kPathNotFound msg msg2 kNoError"

definition Status_TxnNotPrepared :: "Status" where
  "Status_TxnNotPrepared = Status_code_subcode kInvalidArgument kTxnNotPrepared"

definition Status_TxnNotPrepared_msg :: "status_ctor \<Rightarrow> Slice \<Rightarrow> Slice \<Rightarrow> Status" where
  "Status_TxnNotPrepared_msg ctor msg msg2 = ctor kInvalidArgument kTxnNotPrepared msg msg2 kNoError"

definition Status_ok :: "Status \<Rightarrow> bool" where
  "Status_ok s \<longleftrightarrow> Status_code s = kOk"

definition Status_IsOkOverwritten :: "Status \<Rightarrow> bool" where
  "Status_IsOkOverwritten s \<longleftrightarrow> Status_code s = kOk \<and> Status_subcode s = kOverwritten"

definition Status_IsNotFound :: "Status \<Rightarrow> bool" where
  "Status_IsNotFound s \<longleftrightarrow> Status_code s = kNotFound"

definition Status_IsCorruption :: "Status \<Rightarrow> bool" where
  "Status_IsCorruption s \<longleftrightarrow> Status_code s = kCorruption"

definition Status_IsNotSupported :: "Status \<Rightarrow> bool" where
  "Status_IsNotSupported s \<longleftrightarrow> Status_code s = kNotSupported"

definition Status_IsInvalidArgument :: "Status \<Rightarrow> bool" where
  "Status_IsInvalidArgument s \<longleftrightarrow> Status_code s = kInvalidArgument"

definition Status_IsIOError :: "Status \<Rightarrow> bool" where
  "Status_IsIOError s \<longleftrightarrow> Status_code s = kIOError"

definition Status_IsMergeInProgress :: "Status \<Rightarrow> bool" where
  "Status_IsMergeInProgress s \<longleftrightarrow> Status_code s = kMergeInProgress"

definition Status_IsIncomplete :: "Status \<Rightarrow> bool" where
  "Status_IsIncomplete s \<longleftrightarrow> Status_code s = kIncomplete"

definition Status_IsShutdownInProgress :: "Status \<Rightarrow> bool" where
  "Status_IsShutdownInProgress s \<longleftrightarrow> Status_code s = kShutdownInProgress"

definition Status_IsTimedOut :: "Status \<Rightarrow> bool" where
  "Status_IsTimedOut s \<longleftrightarrow> Status_code s = kTimedOut"

definition Status_IsAborted :: "Status \<Rightarrow> bool" where
  "Status_IsAborted s \<longleftrightarrow> Status_code s = kAborted"

definition Status_IsLockLimit :: "Status \<Rightarrow> bool" where
  "Status_IsLockLimit s \<longleftrightarrow> Status_code s = kAborted \<and> Status_subcode s = kLockLimit"

definition Status_IsBusy :: "Status \<Rightarrow> bool" where
  "Status_IsBusy s \<longleftrightarrow> Status_code s = kBusy"

definition Status_IsDeadlock :: "Status \<Rightarrow> bool" where
  "Status_IsDeadlock s \<longleftrightarrow> Status_code s = kBusy \<and> Status_subcode s = kDeadlock"

definition Status_IsExpired :: "Status \<Rightarrow> bool" where
  "Status_IsExpired s \<longleftrightarrow> Status_code s = kExpired"

definition Status_IsTryAgain :: "Status \<Rightarrow> bool" where
  "Status_IsTryAgain s \<longleftrightarrow> Status_code s = kTryAgain"

definition Status_IsCompactionTooLarge :: "Status \<Rightarrow> bool" where
  "Status_IsCompactionTooLarge s \<longleftrightarrow> Status_code s = kCompactionTooLarge"

definition Status_IsColumnFamilyDropped :: "Status \<Rightarrow> bool" where
  "Status_IsColumnFamilyDropped s \<longleftrightarrow> Status_code s = kColumnFamilyDropped"

definition Status_IsNoSpace :: "Status \<Rightarrow> bool" where
  "Status_IsNoSpace s \<longleftrightarrow> Status_code s = kIOError \<and> Status_subcode s = kNoSpace"

definition Status_IsMemoryLimit :: "Status \<Rightarrow> bool" where
  "Status_IsMemoryLimit s \<longleftrightarrow> Status_code s = kAborted \<and> Status_subcode s = kMemoryLimit"

definition Status_IsPathNotFound :: "Status \<Rightarrow> bool" where
  "Status_IsPathNotFound s \<longleftrightarrow> (Status_code s = kIOError \<or> Status_code s = kNotFound) \<and>
     Status_subcode s = kPathNotFound"

definition Status_IsManualCompactionPaused :: "Status \<Rightarrow> bool" where
  "Status_IsManualCompactionPaused s \<longleftrightarrow> Status_code s = kIncomplete \<and> Status_subcode s = kManualCompactionPaused"

definition Status_IsTxnNotPrepared :: "Status \<Rightarrow> bool" where
  "Status_IsTxnNotPrepared s \<longleftrightarrow> Status_code s = kInvalidArgument \<and> Status_subcode s = kTxnNotPrepared"

definition Status_IsIOFenced :: "Status \<Rightarrow> bool" where
  "Status_IsIOFenced s \<longleftrightarrow> Status_code s = kIOError \<and> Status_subcode s = kIOFenced"

text \<open>
  Copying and moving. Assignment takes whether the two operands are the same object; a move also
  returns the moved-from object.
\<close>

definition Status_copy :: "(bytes \<Rightarrow> bytes) \<Rightarrow> Status \<Rightarrow> Status" where
  "Status_copy cp s = \<lparr>st_code = st_code s, st_subcode = st_subcode s, st_sev = st_sev s,
     st_state = (case st_state s of None \<Rightarrow> None | Some m \<Rightarrow> Some (cp m))\<rparr>"

definition Status_copy_sev :: "(bytes \<Rightarrow> bytes) \<Rightarrow> Status \<Rightarrow> Severity \<Rightarrow> Status" where
  "Status_copy_sev cp s sev = \<lparr>st_code = st_code s, st_subcode = st_subcode s, st_sev = sev,
     st_state = (case st_state s of None \<Rightarrow> None | Some m \<Rightarrow> Some (cp m))\<rparr>"

definition Status_assign :: "(bytes \<Rightarrow> bytes) \<Rightarrow> bool \<Rightarrow> Status \<Rightarrow> Status \<Rightarrow> Status" where
  "Status_assign cp same self s = (if \<not> same then
       self\<lparr>st_code := st_code s, st_subcode := st_subcode s, st_sev := st_sev s,
         st_state := (case st_state s of None \<Rightarrow> None | Some m \<Rightarrow> Some (cp m))\<rparr>
     else self)"

definition Status_move_assign :: "bool \<Rightarrow> Status \<Rightarrow> Status \<Rightarrow> Status \<times> Status" where
  "Status_move_assign same self s = (if \<not> same then
       (self\<lparr>st_code := st_code s, st_subcode := st_subcode s, st_sev := st_sev s, st_state := st_state s\<rparr>,
        s\<lparr>st_code := kOk, st_subcode := kNone, st_sev := kNoError, st_state := None\<rparr>)
     else (self, self))"

definition Status_move :: "Status \<Rightarrow> Status \<times> Status" where
  "Status_move s = Status_move_assign False Status_default s"

definition Status_eq :: "Status \<Rightarrow> Status \<Rightarrow> bool" where
  "Status_eq s rhs \<longleftrightarrow> st_code s = st_code rhs"

definition Status_neq :: "Status \<Rightarrow> Status \<Rightarrow> bool" where
  "Status_neq s rhs \<longleftrightarrow> \<not> Status_eq s rhs"

section \<open>IOStatus\<close>

datatype IOErrorScope =
    kIOErrorScopeFileSystem | kIOErrorScopeFile | kIOErrorScopeRange | kIOErrorScopeMax

text \<open>An \<open>IOStatus\<close> is a \<open>Status\<close> with three more fields.\<close>

record IOStatus = Status +
  io_retryable :: bool
  io_data_loss :: bool
  io_scope :: IOErrorScope

definition IOStatus_code_subcode :: "Code \<Rightarrow> SubCode \<Rightarrow> IOStatus" where
  "IOStatus_code_subcode c sc =
     \<lparr>st_code = c, st_subcode = sc, st_sev = kNoError, st_state = None,
      io_retryable = False, io_data_loss = False, io_scope = kIOErrorScopeFileSystem\<rparr>"

definition IOStatus_default :: "IOStatus" where
  "IOStatus_default = IOStatus_code_subcode kOk kNone"

definition io_status_message :: "bytes \<Rightarrow> bytes \<Rightarrow> bytes" where
  "io_status_message msg msg2 =
     msg @ (if length msg2 \<noteq> 0 then CHR '':'' # CHR '' '' # msg2 else []) @ [NUL]"

definition IOStatus_msgs :: "Code \<Rightarrow> SubCode \<Rightarrow> Slice \<Rightarrow> Slice \<Rightarrow> IOStatus result" where
  "IOStatus_msgs c sc msg msg2 =
     bindr (guard Assertion_failed (c \<noteq> kOk)) (\<lambda>_.
     bindr (guard Assertion_failed (sc \<noteq> kMaxSubCode)) (\<lambda>_.
     bindr (slice_read msg 0 (Slice_size msg)) (\<lambda>m1.
     bindr (if Slice_size msg2 \<noteq> 0 then slice_read msg2 0 (Slice_size msg2) else Inr []) (\<lambda>m2.
     Inr ((IOStatus_code_subcode c sc)\<lparr>st_state := Some (io_status_message m1 m2)\<rparr>)))))"

definition IOStatus_code_msg :: "Code \<Rightarrow> Slice \<Rightarrow> Slice \<Rightarrow> IOStatus result" where
  "IOStatus_code_msg c msg msg2 = IOStatus_msgs c kNone msg msg2"

definition IOStatus_SetRetryable :: "IOStatus \<Rightarrow> bool \<Rightarrow> IOStatus" where
  "IOStatus_SetRetryable s x = s\<lparr>io_retryable := x\<rparr>"

definition IOStatus_GetRetryable :: "IOStatus \<Rightarrow> bool" where
  "IOStatus_GetRetryable s = io_retryable s"

definition IOStatus_SetDataLoss :: "IOStatus \<Rightarrow> bool \<Rightarrow> IOStatus" where
  "IOStatus_SetDataLoss s x = s\<lparr>io_data_loss := x\<rparr>"

definition IOStatus_GetDataLoss :: "IOStatus \<Rightarrow> bool" where
  "IOStatus_GetDataLoss s = io_data_loss s"

definition IOStatus_SetScope :: "IOStatus \<Rightarrow> IOErrorScope \<Rightarrow> IOStatus" where
  "IOStatus_SetScope s x = s\<lparr>io_scope := x\<rparr>"

definition IOStatus_GetScope :: "IOStatus \<Rightarrow> IOErrorScope" where
  "IOStatus_GetScope s = io_scope s"

definition IOStatus_OK :: "IOStatus" where
  "IOStatus_OK = IOStatus_default"

definition IOStatus_NotSupported :: "SubCode \<Rightarrow> IOStatus" where
  "IOStatus_NotSupported msg = IOStatus_code_subcode kNotSupported msg"

definition IOStatus_NotSupported_msg :: "Slice \<Rightarrow> Slice \<Rightarrow> IOStatus result" where
  "IOStatus_NotSupported_msg msg msg2 = IOStatus_code_msg kNotSupported msg msg2"

definition IOStatus_NotFound :: "SubCode \<Rightarrow> IOStatus" where
  "IOStatus_NotFound msg = IOStatus_code_subcode kNotFound msg"

definition IOStatus_NotFound_msg :: "Slice \<Rightarrow> Slice \<Rightarrow> IOStatus result" where
  "IOStatus_NotFound_msg msg msg2 = IOStatus_code_msg kNotFound msg msg2"

definition IOStatus_Corruption :: "SubCode \<Rightarrow> IOStatus" where
  "IOStatus_Corruption msg = IOStatus_code_subcode kCorruption msg"

definition IOStatus_Corruption_msg :: "Slice \<Rightarrow> Slice \<Rightarrow> IOStatus result" where
  "IOStatus_Corruption_msg msg msg2 = IOStatus_code_msg kCorruption msg msg2"

definition IOStatus_InvalidArgument :: "SubCode \<Rightarrow> IOStatus" where
  "IOStatus_InvalidArgument msg = IOStatus_code_subcode kInvalidArgument msg"

definition IOStatus_InvalidArgument_msg :: "Slice \<Rightarrow> Slice \<Rightarrow> IOStatus result" where
  "IOStatus_InvalidArgument_msg msg msg2 = IOStatus_code_msg kInvalidArgument msg msg2"

definition IOStatus_IOError :: "SubCode \<Rightarrow> IOStatus" where
  "IOStatus_IOError msg = IOStatus_code_subcode kIOError msg"

definition IOStatus_IOError_msg :: "Slice \<Rightarrow> Slice \<Rightarrow> IOStatus result" where
  "IOStatus_IOError_msg msg msg2 = IOStatus_code_msg kIOError msg msg2"

definition IOStatus_Busy :: "SubCode \<Rightarrow> IOStatus" where
  "IOStatus_Busy msg = IOStatus_code_subcode kBusy msg"

definition IOStatus_Busy_msg :: "Slice \<Rightarrow> Slice \<Rightarrow> IOStatus result" where
  "IOStatus_Busy_msg msg msg2 = IOStatus_code_msg kBusy msg msg2"

definition IOStatus_TimedOut :: "SubCode \<Rightarrow> IOStatus" where
  "IOStatus_TimedOut msg = IOStatus_code_subcode kTimedOut msg"

definition IOStatus_TimedOut_msg :: "Slice \<Rightarrow> Slice \<Rightarrow> IOStatus result" where
  "IOStatus_TimedOut_msg msg msg2 = IOStatus_code_msg kTimedOut msg msg2"

definition IOStatus_NoSpace :: "IOStatus" where
  "IOStatus_NoSpace = IOStatus_code_subcode kIOError kNoSpace"

definition IOStatus_NoSpace_msg :: "Slice \<Rightarrow> Slice \<Rightarrow> IOStatus result" where
  "IOStatus_NoSpace_msg msg msg2 = IOStatus_msgs kIOError kNoSpace msg msg2"

definition IOStatus_PathNotFound :: "IOStatus" where
  "IOStatus_PathNotFound = IOStatus_code_subcode kIOError kPathNotFound"

definition IOStatus_PathNotFound_msg :: "Slice \<Rightarrow> Slice \<Rightarrow> IOStatus result" where
  "IOStatus_PathNotFound_msg msg msg2 = IOStatus_msgs kIOError kPathNotFound msg msg2"

definition IOStatus_IOFenced :: "IOStatus" where
  "IOStatus_IOFenced = IOStatus_code_subcode kIOError kIOFenced"

definition IOStatus_IOFenced_msg :: "Slice \<Rightarrow> Slice \<Rightarrow> IOStatus result" where
  "IOStatus_IOFenced_msg msg msg2 = IOStatus_msgs kIOError kIOFenced msg msg2"

definition IOStatus_copy :: "(bytes \<Rightarrow> bytes) \<Rightarrow> IOStatus \<Rightarrow> IOStatus" where
  "IOStatus_copy cp s =
     \<lparr>st_code = st_code s, st_subcode = st_subcode s, st_sev = kNoError,
      st_state = (case st_state s of None \<Rightarrow> None | Some m \<Rightarrow> Some (cp m)),
      io_retryable = io_retryable s, io_data_loss = io_data_loss s, io_scope = io_scope s\<rparr>"

definition IOStatus_assign :: "(bytes \<Rightarrow> bytes) \<Rightarrow> bool \<Rightarrow> IOStatus \<Rightarrow> IOStatus \<Rightarrow> IOStatus" where
  "IOStatus_assign cp same self s = (if \<not> same then
       self\<lparr>st_code := st_code s, st_subcode := st_subcode s,
         io_retryable := io_retryable s, io_data_loss := io_data_loss s, io_scope := io_scope s,
         st_state := (case st_state s of None \<Rightarrow> None | Some m \<Rightarrow> Some (cp m))\<rparr>
     else self)"

definition IOStatus_move_assign :: "bool \<Rightarrow> IOStatus \<Rightarrow> IOStatus \<Rightarrow> IOStatus \<times> IOStatus" where
  "IOStatus_move_assign same self s = (if \<not> same then
       (self\<lparr>st_code := st_code s, st_subcode := st_subcode s, io_retryable := io_retryable s,
          io_data_loss := io_data_loss s, io_scope := io_scope s, st_state := st_state s\<rparr>,
        s\<lparr>st_code := kOk, st_subcode := kNone, io_scope := kIOErrorScopeFileSystem, st_state := None\<rparr>)
     else (self, self))"

definition IOStatus_move :: "IOStatus \<Rightarrow> IOStatus \<times> IOStatus" where
  "IOStatus_move s = IOStatus_move_assign False IOStatus_default s"

definition IOStatus_eq :: "IOStatus \<Rightarrow> IOStatus \<Rightarrow> bool" where
  "IOStatus_eq s rhs \<longleftrightarrow> st_code s = st_code rhs"

definition IOStatus_neq :: "IOStatus \<Rightarrow> IOStatus \<Rightarrow> bool" where
  "IOStatus_neq s rhs \<longleftrightarrow> \<not> IOStatus_eq s rhs"

definition status_to_io_status :: "Status \<Rightarrow> IOStatus result" where
  "status_to_io_status s =
     (if Status_ok s then Inr IOStatus_OK
      else case Status_getState s of
          Some state \<Rightarrow> bindr (strlen state) (\<lambda>n.
            IOStatus_msgs (Status_code s) (Status_subcode s) (Slice_of_buff state (n + 1)) Slice_default)
        | None \<Rightarrow> Inr (IOStatus_code_subcode (Status_code s) (Status_subcode s)))"

section \<open>Facts\<close>

lemmas status_preds = Status_ok_def Status_IsNotFound_def Status_IsCorruption_def Status_IsNotSupported_def Status_IsInvalidArgument_def Status_IsIOError_def Status_IsMergeInProgress_def Status_IsIncomplete_def Status_IsShutdownInProgress_def Status_IsTimedOut_def Status_IsAborted_def Status_IsBusy_def Status_IsExpired_def Status_IsTryAgain_def Status_IsCompactionTooLarge_def Status_IsColumnFamilyDropped_def

lemmas status_factories = Status_NotFound_def Status_Corruption_def Status_NotSupported_def Status_InvalidArgument_def Status_IOError_def Status_MergeInProgress_def Status_Incomplete_def Status_ShutdownInProgress_def Status_Aborted_def Status_Busy_def Status_TimedOut_def Status_Expired_def Status_TryAgain_def Status_CompactionTooLarge_def Status_ColumnFamilyDropped_def

instantiation Severity :: linorder
begin

definition less_eq_Severity :: "Severity \<Rightarrow> Severity \<Rightarrow> bool" where
  "less_eq_Severity a b \<longleftrightarrow> severity_value a \<le> severity_value b"

definition less_Severity :: "Severity \<Rightarrow> Severity \<Rightarrow> bool" where
  "less_Severity a b \<longleftrightarrow> severity_value a < severity_value b"

instance
proof
  fix x y :: Severity
  show "x \<le> y \<Longrightarrow> y \<le> x \<Longrightarrow> x = y"
    unfolding less_eq_Severity_def by (cases x; cases y; simp)
qed (auto simp: less_eq_Severity_def less_Severity_def)

end

section \<open>Properties\<close>

text \<open>
  A status with a real code (not the sentinel) satisfies exactly one of the sixteen code
  predicates, the one of its code.
\<close>

lemma status_predicates_classify:
  assumes "st_code s \<noteq> kMaxCode"
  shows "map (\<lambda>p. p s) [Status_ok, Status_IsNotFound, Status_IsCorruption, Status_IsNotSupported, Status_IsInvalidArgument, Status_IsIOError, Status_IsMergeInProgress, Status_IsIncomplete, Status_IsShutdownInProgress, Status_IsTimedOut, Status_IsAborted, Status_IsBusy, Status_IsExpired, Status_IsTryAgain, Status_IsCompactionTooLarge, Status_IsColumnFamilyDropped] = map (\<lambda>n. n = code_value (st_code s)) [0..<16]"
  using assms by (cases "st_code s") (simp_all add: status_preds Status_code_def upt_rec numeral_eq_Suc)

lemma status_predicates_classify_witness:
  "st_code (Status_Busy kDeadlock) = kBusy \<and>
   map (\<lambda>p. p (Status_Busy kDeadlock)) [Status_ok, Status_IsNotFound] = [False, False]"
  using status_predicates_classify [of "Status_Busy kDeadlock"]
  by (simp add: Status_Busy_def Status_code_subcode_def Status_ok_def Status_IsNotFound_def Status_code_def)

text \<open>
  Moving a status transfers all four fields and leaves the source equal to a fresh OK status,
  while copying keeps subcode and severity; both results compare equal to the original under
  \<open>operator==\<close>, which looks at the code, and assigning from another object is the same as copying.
\<close>

lemma status_copy_and_move:
  "Status_move s = (s, Status_default) \<and>
   Status_eq (Status_copy cp s) s \<and> Status_eq (fst (Status_move s)) s \<and>
   st_sev (Status_copy cp s) = st_sev s \<and> st_subcode (Status_copy cp s) = st_subcode s \<and>
   Status_assign cp False t s = Status_copy cp s"
  by (simp_all add: Status_move_def Status_move_assign_def Status_default_def Status_eq_def
      Status_copy_def Status_assign_def)

text \<open>
  Converting a non-OK status whose message (if any) is NUL-terminated into an \<open>IOStatus\<close> succeeds
  and keeps the code, the subcode and the message text, but never the severity: the result's
  severity is \<open>kNoError\<close> whatever the source's was.
\<close>

lemma status_to_io_status_keeps_code:
  assumes "\<not> Status_ok s" "st_subcode s \<noteq> kMaxSubCode" "\<forall>m. st_state s = Some m \<longrightarrow> NUL \<in> set m"
  shows "\<exists>io. status_to_io_status s = Inr io \<and> st_code io = st_code s \<and> st_subcode io = st_subcode s \<and>
    map_option c_str_text (st_state io) = map_option c_str_text (st_state s) \<and> st_sev io = kNoError"
proof (cases "st_state s")
  case None
  then show ?thesis
    using assms(1) by (simp add: status_to_io_status_def Status_getState_def IOStatus_code_subcode_def
        Status_code_def Status_subcode_def)
next
  case (Some m)
  let ?t = "c_str_text m"
  obtain rest where m: "m = ?t @ NUL # rest"
    using assms(3) Some c_str_split by blast
  have len: "length ?t + 1 \<le> length m"
    by (subst (2) m) simp
  have "take (length ?t + 1) m = ?t @ [NUL]"
    by (subst (2) m) simp
  moreover have "st_code s \<noteq> kOk" "NUL \<in> set m"
    using assms Some by (auto simp: Status_ok_def Status_code_def)
  ultimately have "status_to_io_status s = Inr ((IOStatus_code_subcode (st_code s) (st_subcode s))
      \<lparr>st_state := Some (?t @ [NUL, NUL])\<rparr>)"
    using assms(1,2) Some len
    by (simp add: status_to_io_status_def Status_getState_def strlen_def IOStatus_msgs_def slice_read_def
        Slice_of_buff_def Slice_size_def Slice_default_def mem_read_def io_status_message_def
        Status_code_def Status_subcode_def)
  then show ?thesis
    using Some c_str_text_nul_free [OF c_str_text_is_nul_free, of m "[NUL]"]
    by (simp add: IOStatus_code_subcode_def)
qed

lemma status_to_io_status_keeps_code_witness:
  "\<exists>io. status_to_io_status (Status_Busy kDeadlock) = Inr io \<and> st_code io = kBusy \<and> st_subcode io = kDeadlock"
  using status_to_io_status_keeps_code [of "Status_Busy kDeadlock"]
  by (auto simp: Status_Busy_def Status_code_subcode_def Status_ok_def Status_code_def)

end
