(* ===== verification/Rocks_Adv_Options.thy ===== *)
theory Rocks_Adv_Options
  imports Complex_Main Slices
begin

text \<open>
  Configuration data of \<open>rocksdb/advanced_options.h\<close>, \<open>universal_compaction.h\<close>,
  \<open>compression_type.h\<close>, \<open>types.h\<close> and \<open>data_structure.h\<close>: the enums with their values, one record per
  struct (split by record extension where a struct is long) and one definition per set of in-class
  initialisers. A pointer to a library object is an optional opaque handle; \<open>double\<close> fields hold
  literals and are rationals. Members the header leaves to an out-of-line constructor, and objects
  made by library functions, are arguments of the defaults.
\<close>

type_synonym handle = nat

section \<open>types.h\<close>

type_synonym ColumnFamilyId = "32 word"
type_synonym SequenceNumber = "64 word"

definition kMinUnCommittedSeq :: SequenceNumber where
  "kMinUnCommittedSeq = 1"

datatype TableFileCreationReason = tf_kFlush | tf_kCompaction | tf_kRecovery | tf_kMisc

datatype BlobFileCreationReason = bf_kFlush | bf_kCompaction | bf_kRecovery

datatype FileType =
    kWalFile | kDBLockFile | kTableFile | kDescriptorFile | kCurrentFile | kTempFile
  | kInfoLogFile | kMetaDatabase | kIdentityFile | kOptionsFile | kBlobFile

fun file_type_value :: "FileType \<Rightarrow> nat" where
  "file_type_value kWalFile = 0"
| "file_type_value kDBLockFile = 1"
| "file_type_value kTableFile = 2"
| "file_type_value kDescriptorFile = 3"
| "file_type_value kCurrentFile = 4"
| "file_type_value kTempFile = 5"
| "file_type_value kInfoLogFile = 6"
| "file_type_value kMetaDatabase = 7"
| "file_type_value kIdentityFile = 8"
| "file_type_value kOptionsFile = 9"
| "file_type_value kBlobFile = 10"

datatype EntryType =
    kEntryPut | kEntryDelete | kEntrySingleDelete | kEntryMerge | kEntryRangeDeletion
  | kEntryBlobIndex | kEntryDeleteWithTimestamp | kEntryOther

fun entry_type_value :: "EntryType \<Rightarrow> nat" where
  "entry_type_value kEntryPut = 0"
| "entry_type_value kEntryDelete = 1"
| "entry_type_value kEntrySingleDelete = 2"
| "entry_type_value kEntryMerge = 3"
| "entry_type_value kEntryRangeDeletion = 4"
| "entry_type_value kEntryBlobIndex = 5"
| "entry_type_value kEntryDeleteWithTimestamp = 6"
| "entry_type_value kEntryOther = 7"

section \<open>data\_structure.h\<close>

text \<open>
  \<open>SmallEnumSet<ENUM_TYPE, MAX_VALUE>\<close>: a set of enum values as the bits of one 64-bit word. The enum
  enters through its numeric value, \<open>mx\<close> is the template argument \<open>MAX_VALUE\<close>; the \<open>static_assert\<close>
  rejects instances with \<open>mx > 63\<close> at compile time and is part of the guard here.
\<close>

record SmallEnumSet =
  ses_state :: "64 word"

definition SmallEnumSet_new :: SmallEnumSet where
  "SmallEnumSet_new = \<lparr>ses_state = 0\<rparr>"

definition SmallEnumSet_Add :: "nat \<Rightarrow> SmallEnumSet \<Rightarrow> nat \<Rightarrow> (bool \<times> SmallEnumSet) result" where
  "SmallEnumSet_Add mx s v =
     bindr (guard Assertion_failed (mx \<le> 63 \<and> v \<le> mx)) (\<lambda>_.
     let old_state = ses_state s; tmp = (1 :: 64 word); new_state = old_state OR push_bit v tmp in
     Inr (old_state \<noteq> new_state, s\<lparr>ses_state := new_state\<rparr>))"

definition SmallEnumSet_Contains :: "nat \<Rightarrow> SmallEnumSet \<Rightarrow> nat \<Rightarrow> bool result" where
  "SmallEnumSet_Contains mx s v =
     bindr (guard Assertion_failed (mx \<le> 63 \<and> v \<le> mx)) (\<lambda>_.
     let tmp = (1 :: 64 word) in Inr (ses_state s AND push_bit v tmp \<noteq> 0))"

type_synonym FileTypeSet = SmallEnumSet

section \<open>compression\_type.h, universal\_compaction.h\<close>

datatype CompressionType =
    kNoCompression | kSnappyCompression | kZlibCompression | kBZip2Compression | kLZ4Compression
  | kLZ4HCCompression | kXpressCompression | kZSTD | kZSTDNotFinalCompression | kDisableCompressionOption

fun compression_value :: "CompressionType \<Rightarrow> 8 word" where
  "compression_value kNoCompression = 0"
| "compression_value kSnappyCompression = 1"
| "compression_value kZlibCompression = 2"
| "compression_value kBZip2Compression = 3"
| "compression_value kLZ4Compression = 4"
| "compression_value kLZ4HCCompression = 5"
| "compression_value kXpressCompression = 6"
| "compression_value kZSTD = 7"
| "compression_value kZSTDNotFinalCompression = 0x40"
| "compression_value kDisableCompressionOption = 0xff"

datatype CompactionStopStyle = kCompactionStopStyleSimilarSize | kCompactionStopStyleTotalSize

record CompactionOptionsUniversal =
  cou_size_ratio :: "32 word"
  cou_min_merge_width :: "32 word"
  cou_max_merge_width :: "32 word"
  cou_max_size_amplification_percent :: "32 word"
  cou_compression_size_percent :: "c_int"
  cou_stop_style :: "CompactionStopStyle"
  cou_allow_trivial_move :: "bool"
  cou_incremental :: "bool"

definition CompactionOptionsUniversal_default :: "CompactionOptionsUniversal" where
  "CompactionOptionsUniversal_default =
    \<lparr>cou_size_ratio = 1, cou_min_merge_width = 2, cou_max_merge_width = 0xFFFFFFFF,
      cou_max_size_amplification_percent = 200, cou_compression_size_percent = - 1,
      cou_stop_style = kCompactionStopStyleTotalSize, cou_allow_trivial_move = False,
      cou_incremental = False\<rparr>"

section \<open>advanced\_options.h\<close>

datatype CompactionStyle =
    kCompactionStyleLevel | kCompactionStyleUniversal | kCompactionStyleFIFO | kCompactionStyleNone

fun compaction_style_value :: "CompactionStyle \<Rightarrow> 8 word" where
  "compaction_style_value kCompactionStyleLevel = 0"
| "compaction_style_value kCompactionStyleUniversal = 1"
| "compaction_style_value kCompactionStyleFIFO = 2"
| "compaction_style_value kCompactionStyleNone = 3"

datatype CompactionPri =
    kByCompensatedSize | kOldestLargestSeqFirst | kOldestSmallestSeqFirst | kMinOverlappingRatio

fun compaction_pri_value :: "CompactionPri \<Rightarrow> 8 word" where
  "compaction_pri_value kByCompensatedSize = 0"
| "compaction_pri_value kOldestLargestSeqFirst = 1"
| "compaction_pri_value kOldestSmallestSeqFirst = 2"
| "compaction_pri_value kMinOverlappingRatio = 3"

record CompactionOptionsFIFO =
  fifo_max_table_files_size :: "64 word"
  fifo_allow_compaction :: "bool"
  fifo_age_for_warm :: "64 word"

definition CompactionOptionsFIFO_default :: "CompactionOptionsFIFO" where
  "CompactionOptionsFIFO_default =
    \<lparr>fifo_max_table_files_size = 1 * 1024 * 1024 * 1024, fifo_allow_compaction = False,
      fifo_age_for_warm = 0\<rparr>"

definition CompactionOptionsFIFO_of :: "64 word \<Rightarrow> bool \<Rightarrow> CompactionOptionsFIFO" where
  "CompactionOptionsFIFO_of sz allow = CompactionOptionsFIFO_default
     \<lparr>fifo_max_table_files_size := sz, fifo_allow_compaction := allow\<rparr>"

definition kDefaultCompressionLevel :: c_int where
  "kDefaultCompressionLevel = 32767"

record CompressionOptions =
  co_window_bits :: "c_int"
  co_level :: "c_int"
  co_strategy :: "c_int"
  co_max_dict_bytes :: "32 word"
  co_zstd_max_train_bytes :: "32 word"
  co_parallel_threads :: "32 word"
  co_enabled :: "bool"
  co_max_dict_buffer_bytes :: "64 word"

definition CompressionOptions_default :: "CompressionOptions" where
  "CompressionOptions_default =
    \<lparr>co_window_bits = - 14, co_level = kDefaultCompressionLevel, co_strategy = 0,
      co_max_dict_bytes = 0, co_zstd_max_train_bytes = 0, co_parallel_threads = 1,
      co_enabled = False, co_max_dict_buffer_bytes = 0\<rparr>"

definition CompressionOptions_of :: "c_int \<Rightarrow> c_int \<Rightarrow> c_int \<Rightarrow> 32 word \<Rightarrow> 32 word \<Rightarrow> 32 word \<Rightarrow> bool \<Rightarrow>
    64 word \<Rightarrow> CompressionOptions" where
  "CompressionOptions_of wbits lev strategy max_dict zstd_train threads en max_buffer =
     \<lparr>co_window_bits = wbits, co_level = lev, co_strategy = strategy, co_max_dict_bytes = max_dict,
      co_zstd_max_train_bytes = zstd_train, co_parallel_threads = threads, co_enabled = en,
      co_max_dict_buffer_bytes = max_buffer\<rparr>"

datatype Temperature = kUnknown | kHot | kWarm | kCold

fun temperature_value :: "Temperature \<Rightarrow> 8 word" where
  "temperature_value kUnknown = 0"
| "temperature_value kHot = 0x04"
| "temperature_value kWarm = 0x08"
| "temperature_value kCold = 0x0C"

datatype CacheTier = kVolatileTier | kNonVolatileBlockTier

datatype UpdateStatus = UPDATE_FAILED | UPDATED_INPLACE | UPDATED

record AdvancedColumnFamilyOptions_1 =
  acf_max_write_buffer_number :: "c_int"
  acf_min_write_buffer_number_to_merge :: "c_int"
  acf_max_write_buffer_number_to_maintain :: "c_int"
  acf_max_write_buffer_size_to_maintain :: "64 word"
  acf_inplace_update_support :: "bool"
  acf_inplace_update_num_locks :: "64 word"
  acf_inplace_callback :: "handle option"

record AdvancedColumnFamilyOptions_2 = AdvancedColumnFamilyOptions_1 +
  acf_memtable_prefix_bloom_size_ratio :: "rat"
  acf_memtable_whole_key_filtering :: "bool"
  acf_memtable_huge_page_size :: "64 word"
  acf_memtable_insert_with_hint_prefix_extractor :: "handle option"
  acf_bloom_locality :: "32 word"
  acf_arena_block_size :: "64 word"
  acf_compression_per_level :: "CompressionType list"
  acf_num_levels :: "c_int"
  acf_level0_slowdown_writes_trigger :: "c_int"
  acf_level0_stop_writes_trigger :: "c_int"
  acf_target_file_size_base :: "64 word"
  acf_target_file_size_multiplier :: "c_int"

record AdvancedColumnFamilyOptions_3 = AdvancedColumnFamilyOptions_2 +
  acf_level_compaction_dynamic_level_bytes :: "bool"
  acf_max_bytes_for_level_multiplier :: "rat"
  acf_max_bytes_for_level_multiplier_additional :: "c_int list"
  acf_max_compaction_bytes :: "64 word"
  acf_soft_pending_compaction_bytes_limit :: "64 word"
  acf_hard_pending_compaction_bytes_limit :: "64 word"
  acf_compaction_style :: "CompactionStyle"
  acf_compaction_pri :: "CompactionPri"
  acf_compaction_options_universal :: "CompactionOptionsUniversal"
  acf_compaction_options_fifo :: "CompactionOptionsFIFO"

record AdvancedColumnFamilyOptions_4 = AdvancedColumnFamilyOptions_3 +
  acf_max_sequential_skip_in_iterations :: "64 word"
  acf_memtable_factory :: "handle option"
  acf_table_properties_collector_factories :: "(handle option) list"
  acf_max_successive_merges :: "64 word"
  acf_optimize_filters_for_hits :: "bool"
  acf_check_flush_compaction_key_order :: "bool"
  acf_paranoid_file_checks :: "bool"
  acf_force_consistency_checks :: "bool"
  acf_report_bg_io_stats :: "bool"
  acf_ttl :: "64 word"

record AdvancedColumnFamilyOptions_5 = AdvancedColumnFamilyOptions_4 +
  acf_periodic_compaction_seconds :: "64 word"
  acf_sample_for_compression :: "64 word"
  acf_bottommost_temperature :: "Temperature"
  acf_enable_blob_files :: "bool"
  acf_min_blob_size :: "64 word"
  acf_blob_file_size :: "64 word"
  acf_blob_compression_type :: "CompressionType"
  acf_enable_blob_garbage_collection :: "bool"
  acf_blob_garbage_collection_age_cutoff :: "rat"
  acf_blob_garbage_collection_force_threshold :: "rat"
  acf_blob_compaction_readahead_size :: "64 word"
  acf_max_mem_compaction_level :: "c_int"

record AdvancedColumnFamilyOptions = AdvancedColumnFamilyOptions_5 +
  acf_soft_rate_limit :: "rat"
  acf_hard_rate_limit :: "rat"
  acf_rate_limit_delay_max_milliseconds :: "32 word"
  acf_purge_redundant_kvs_while_flush :: "bool"

definition AdvancedColumnFamilyOptions_inits :: "handle \<Rightarrow> c_int \<Rightarrow> AdvancedColumnFamilyOptions" where
  "AdvancedColumnFamilyOptions_inits SkipListFactory p_max_mem_compaction_level =
    \<lparr>acf_max_write_buffer_number = 2, acf_min_write_buffer_number_to_merge = 1,
      acf_max_write_buffer_number_to_maintain = 0, acf_max_write_buffer_size_to_maintain = 0,
      acf_inplace_update_support = False, acf_inplace_update_num_locks = 10000,
      acf_inplace_callback = None, acf_memtable_prefix_bloom_size_ratio = 0,
      acf_memtable_whole_key_filtering = False, acf_memtable_huge_page_size = 0,
      acf_memtable_insert_with_hint_prefix_extractor = None, acf_bloom_locality = 0,
      acf_arena_block_size = 0, acf_compression_per_level = [], acf_num_levels = 7,
      acf_level0_slowdown_writes_trigger = 20, acf_level0_stop_writes_trigger = 36,
      acf_target_file_size_base = 64 * 1048576, acf_target_file_size_multiplier = 1,
      acf_level_compaction_dynamic_level_bytes = False, acf_max_bytes_for_level_multiplier = 10,
      acf_max_bytes_for_level_multiplier_additional = replicate 7 1, acf_max_compaction_bytes = 0,
      acf_soft_pending_compaction_bytes_limit = 64 * 1073741824,
      acf_hard_pending_compaction_bytes_limit = 256 * 1073741824,
      acf_compaction_style = kCompactionStyleLevel, acf_compaction_pri = kMinOverlappingRatio,
      acf_compaction_options_universal = CompactionOptionsUniversal_default,
      acf_compaction_options_fifo = CompactionOptionsFIFO_default,
      acf_max_sequential_skip_in_iterations = 8, acf_memtable_factory = Some SkipListFactory,
      acf_table_properties_collector_factories = [], acf_max_successive_merges = 0,
      acf_optimize_filters_for_hits = False, acf_check_flush_compaction_key_order = True,
      acf_paranoid_file_checks = False, acf_force_consistency_checks = True,
      acf_report_bg_io_stats = False, acf_ttl = 0xfffffffffffffffe,
      acf_periodic_compaction_seconds = 0xfffffffffffffffe, acf_sample_for_compression = 0,
      acf_bottommost_temperature = kUnknown, acf_enable_blob_files = False, acf_min_blob_size = 0,
      acf_blob_file_size = push_bit 28 1, acf_blob_compression_type = kNoCompression,
      acf_enable_blob_garbage_collection = False, acf_blob_garbage_collection_age_cutoff = 1 / 4,
      acf_blob_garbage_collection_force_threshold = 1, acf_blob_compaction_readahead_size = 0,
      acf_max_mem_compaction_level = p_max_mem_compaction_level, acf_soft_rate_limit = 0,
      acf_hard_rate_limit = 0, acf_rate_limit_delay_max_milliseconds = 100,
      acf_purge_redundant_kvs_while_flush = True\<rparr>"

section \<open>Properties\<close>

text \<open>
  \<open>SmallEnumSet\<close> behaves as a set of enum values up to the compile-time maximum: \<open>Add\<close> reports
  whether the value was new and \<open>Contains\<close> afterwards answers membership in the set with the value
  added, for every value in range; out-of-range values fail the assertion.
\<close>

lemma SmallEnumSet_is_set:
  assumes "mx \<le> 63" "v \<le> mx" "w \<le> mx"
  shows "\<exists>s'. SmallEnumSet_Add mx s v = Inr (SmallEnumSet_Contains mx s v = Inr False, s') \<and>
    SmallEnumSet_Contains mx s' w = Inr (w = v \<or> SmallEnumSet_Contains mx s w = Inr True)"
proof -
  have bit: "x AND 2 ^ n = 0 \<longleftrightarrow> \<not> bit x n" for x :: "64 word" and n
    by (simp add: bit_iff_and_push_bit_not_eq_0)
  have new: "x = x OR 2 ^ n \<longleftrightarrow> bit x n" if "n \<le> 63" for x :: "64 word" and n
  proof -
    have "x = x OR 2 ^ n" if "bit x n"
      using that by (intro bit_word_eqI) (auto simp: bit_or_iff bit_exp_iff)
    moreover have "bit (x OR 2 ^ n) n"
      using that by (simp add: bit_or_iff bit_exp_iff)
    ultimately show ?thesis
      by metis
  qed
  have step: "bit (x OR 2 ^ v) w \<longleftrightarrow> bit x w \<or> w = v" for x :: "64 word"
    using assms by (auto simp: bit_or_iff bit_exp_iff)
  show ?thesis
    using assms by (simp add: SmallEnumSet_Add_def SmallEnumSet_Contains_def Let_def bit new step disj_commute)
qed

lemma SmallEnumSet_is_set_witness:
  "\<exists>s'. SmallEnumSet_Add 10 SmallEnumSet_new 3 = Inr (True, s') \<and> SmallEnumSet_Contains 10 s' 3 = Inr True"
  using SmallEnumSet_is_set [of 10 3 3 SmallEnumSet_new]
  by (simp add: SmallEnumSet_Contains_def SmallEnumSet_new_def)

end
