(* ===== verification/Rocks_Options.thy ===== *)
theory Rocks_Options
  imports Rocks_Adv_Options
begin

text \<open>
  \<open>rocksdb/options.h\<close>: the option structs of the database interface, in particular the
  \<open>Options\<close>, \<open>ReadOptions\<close> and \<open>WriteOptions\<close> a \<open>DB_Handle\<close> holds. Long structs are split by record
  extension; \<open>X_inits\<close> collects the in-class initialisers of struct \<open>X\<close>, \<open>X_default\<close> an inline default
  constructor. The constructors of \<open>DBOptions\<close>, \<open>ColumnFamilyOptions\<close> and \<open>ReadOptions\<close> are out of line,
  so their results are parameters of the model that uses them. The build keeps asserts on
  (no \<open>NDEBUG\<close>), which selects \<open>DEBUG_LEVEL\<close>.
\<close>

datatype InfoLogLevel = DEBUG_LEVEL | INFO_LEVEL | WARN_LEVEL | ERROR_LEVEL | FATAL_LEVEL | HEADER_LEVEL | NUM_INFO_LOG_LEVELS

datatype WALRecoveryMode =
    kTolerateCorruptedTailRecords | kAbsoluteConsistency
  | kPointInTimeRecovery | kSkipAnyCorruptedRecords

record DbPath =
  dbp_path :: "string"
  dbp_target_size :: "64 word"

definition DbPath_default :: "DbPath" where
  "DbPath_default =
    \<lparr>dbp_path = [], dbp_target_size = 0\<rparr>"

definition DbPath_of :: "string \<Rightarrow> 64 word \<Rightarrow> DbPath" where
  "DbPath_of p t = \<lparr>dbp_path = p, dbp_target_size = t\<rparr>"

record ColumnFamilyOptions_1 = AdvancedColumnFamilyOptions +
  cf_comparator :: "handle option"
  cf_merge_operator :: "handle option"
  cf_compaction_filter :: "handle option"
  cf_compaction_filter_factory :: "handle option"
  cf_write_buffer_size :: "64 word"

record ColumnFamilyOptions = ColumnFamilyOptions_1 +
  cf_compression :: "CompressionType"
  cf_bottommost_compression :: "CompressionType"
  cf_bottommost_compression_opts :: "CompressionOptions"
  cf_compression_opts :: "CompressionOptions"
  cf_level0_file_num_compaction_trigger :: "c_int"
  cf_prefix_extractor :: "handle option"
  cf_max_bytes_for_level_base :: "64 word"
  cf_snap_refresh_nanos :: "64 word"
  cf_disable_auto_compactions :: "bool"
  cf_table_factory :: "handle option"
  cf_cf_paths :: "DbPath list"
  cf_compaction_thread_limiter :: "handle option"
  cf_sst_partitioner_factory :: "handle option"

text \<open>The inherited members are what the base class constructor left there.\<close>

definition ColumnFamilyOptions_inits :: "AdvancedColumnFamilyOptions \<Rightarrow> handle \<Rightarrow> CompressionType \<Rightarrow> (handle option) \<Rightarrow> ColumnFamilyOptions" where
  "ColumnFamilyOptions_inits base BytewiseComparator p_compression p_table_factory =
    \<lparr>acf_max_write_buffer_number = acf_max_write_buffer_number base,
      acf_min_write_buffer_number_to_merge = acf_min_write_buffer_number_to_merge base,
      acf_max_write_buffer_number_to_maintain = acf_max_write_buffer_number_to_maintain base,
      acf_max_write_buffer_size_to_maintain = acf_max_write_buffer_size_to_maintain base,
      acf_inplace_update_support = acf_inplace_update_support base,
      acf_inplace_update_num_locks = acf_inplace_update_num_locks base,
      acf_inplace_callback = acf_inplace_callback base,
      acf_memtable_prefix_bloom_size_ratio = acf_memtable_prefix_bloom_size_ratio base,
      acf_memtable_whole_key_filtering = acf_memtable_whole_key_filtering base,
      acf_memtable_huge_page_size = acf_memtable_huge_page_size base,
      acf_memtable_insert_with_hint_prefix_extractor = acf_memtable_insert_with_hint_prefix_extractor base,
      acf_bloom_locality = acf_bloom_locality base,
      acf_arena_block_size = acf_arena_block_size base,
      acf_compression_per_level = acf_compression_per_level base,
      acf_num_levels = acf_num_levels base,
      acf_level0_slowdown_writes_trigger = acf_level0_slowdown_writes_trigger base,
      acf_level0_stop_writes_trigger = acf_level0_stop_writes_trigger base,
      acf_target_file_size_base = acf_target_file_size_base base,
      acf_target_file_size_multiplier = acf_target_file_size_multiplier base,
      acf_level_compaction_dynamic_level_bytes = acf_level_compaction_dynamic_level_bytes base,
      acf_max_bytes_for_level_multiplier = acf_max_bytes_for_level_multiplier base,
      acf_max_bytes_for_level_multiplier_additional = acf_max_bytes_for_level_multiplier_additional base,
      acf_max_compaction_bytes = acf_max_compaction_bytes base,
      acf_soft_pending_compaction_bytes_limit = acf_soft_pending_compaction_bytes_limit base,
      acf_hard_pending_compaction_bytes_limit = acf_hard_pending_compaction_bytes_limit base,
      acf_compaction_style = acf_compaction_style base,
      acf_compaction_pri = acf_compaction_pri base,
      acf_compaction_options_universal = acf_compaction_options_universal base,
      acf_compaction_options_fifo = acf_compaction_options_fifo base,
      acf_max_sequential_skip_in_iterations = acf_max_sequential_skip_in_iterations base,
      acf_memtable_factory = acf_memtable_factory base,
      acf_table_properties_collector_factories = acf_table_properties_collector_factories base,
      acf_max_successive_merges = acf_max_successive_merges base,
      acf_optimize_filters_for_hits = acf_optimize_filters_for_hits base,
      acf_check_flush_compaction_key_order = acf_check_flush_compaction_key_order base,
      acf_paranoid_file_checks = acf_paranoid_file_checks base,
      acf_force_consistency_checks = acf_force_consistency_checks base,
      acf_report_bg_io_stats = acf_report_bg_io_stats base,
      acf_ttl = acf_ttl base,
      acf_periodic_compaction_seconds = acf_periodic_compaction_seconds base,
      acf_sample_for_compression = acf_sample_for_compression base,
      acf_bottommost_temperature = acf_bottommost_temperature base,
      acf_enable_blob_files = acf_enable_blob_files base,
      acf_min_blob_size = acf_min_blob_size base,
      acf_blob_file_size = acf_blob_file_size base,
      acf_blob_compression_type = acf_blob_compression_type base,
      acf_enable_blob_garbage_collection = acf_enable_blob_garbage_collection base,
      acf_blob_garbage_collection_age_cutoff = acf_blob_garbage_collection_age_cutoff base,
      acf_blob_garbage_collection_force_threshold = acf_blob_garbage_collection_force_threshold base,
      acf_blob_compaction_readahead_size = acf_blob_compaction_readahead_size base,
      acf_max_mem_compaction_level = acf_max_mem_compaction_level base,
      acf_soft_rate_limit = acf_soft_rate_limit base,
      acf_hard_rate_limit = acf_hard_rate_limit base,
      acf_rate_limit_delay_max_milliseconds = acf_rate_limit_delay_max_milliseconds base,
      acf_purge_redundant_kvs_while_flush = acf_purge_redundant_kvs_while_flush base,
      cf_comparator = Some BytewiseComparator,
      cf_merge_operator = None,
      cf_compaction_filter = None,
      cf_compaction_filter_factory = None,
      cf_write_buffer_size = push_bit 20 64,
      cf_compression = p_compression,
      cf_bottommost_compression = kDisableCompressionOption,
      cf_bottommost_compression_opts = CompressionOptions_default,
      cf_compression_opts = CompressionOptions_default,
      cf_level0_file_num_compaction_trigger = 4,
      cf_prefix_extractor = None,
      cf_max_bytes_for_level_base = 256 * 1048576,
      cf_snap_refresh_nanos = 0,
      cf_disable_auto_compactions = False,
      cf_table_factory = p_table_factory,
      cf_cf_paths = [],
      cf_compaction_thread_limiter = None,
      cf_sst_partitioner_factory = None\<rparr>"

datatype CompactionServiceJobStatus = kSuccess | kFailure | kUseLocal

datatype Priority = BOTTOM | LOW | HIGH | USER | PRI_TOTAL

record CompactionServiceJobInfo =
  csj_db_name :: "string"
  csj_db_id :: "string"
  csj_db_session_id :: "string"
  csj_job_id :: "64 word"
  csj_priority :: "Priority"

definition CompactionServiceJobInfo_of :: "string \<Rightarrow> string \<Rightarrow> string \<Rightarrow> (64 word) \<Rightarrow> Priority \<Rightarrow> CompactionServiceJobInfo" where
  "CompactionServiceJobInfo_of p_db_name p_db_id p_db_session_id p_job_id p_priority =
    \<lparr>csj_db_name = p_db_name, csj_db_id = p_db_id, csj_db_session_id = p_db_session_id,
      csj_job_id = p_job_id, csj_priority = p_priority\<rparr>"

text \<open>The base class of remote compaction services: every job is declined to local execution.
  The V2 calls dispatch to the virtual calls, which a subclass may have replaced.\<close>

definition CompactionService_Start :: "string \<Rightarrow> 64 word \<Rightarrow> CompactionServiceJobStatus" where
  "CompactionService_Start input job_id = kUseLocal"

definition CompactionService_StartV2 ::
    "(string \<Rightarrow> 64 word \<Rightarrow> CompactionServiceJobStatus) \<Rightarrow> CompactionServiceJobInfo \<Rightarrow> string \<Rightarrow> CompactionServiceJobStatus" where
  "CompactionService_StartV2 start info input = start input (csj_job_id info)"

definition CompactionService_WaitForComplete :: "64 word \<Rightarrow> string \<Rightarrow> CompactionServiceJobStatus \<times> string" where
  "CompactionService_WaitForComplete job_id res = (kUseLocal, res)"

definition CompactionService_WaitForCompleteV2 ::
    "(64 word \<Rightarrow> string \<Rightarrow> CompactionServiceJobStatus \<times> string) \<Rightarrow>
      CompactionServiceJobInfo \<Rightarrow> string \<Rightarrow> CompactionServiceJobStatus \<times> string" where
  "CompactionService_WaitForCompleteV2 wait info res = wait (csj_job_id info) res"

datatype AccessHint = NONE | NORMAL | SEQUENTIAL | WILLNEED

record DBOptions_1 =
  db_create_if_missing :: "bool"
  db_create_missing_column_families :: "bool"
  db_error_if_exists :: "bool"
  db_paranoid_checks :: "bool"
  db_flush_verify_memtable_count :: "bool"
  db_track_and_verify_wals_in_manifest :: "bool"
  db_env :: "handle option"
  db_rate_limiter :: "handle option"
  db_sst_file_manager :: "handle option"
  db_info_log :: "handle option"
  db_info_log_level :: "InfoLogLevel"
  db_max_open_files :: "c_int"
  db_max_file_opening_threads :: "c_int"
  db_max_total_wal_size :: "64 word"
  db_statistics :: "handle option"

record DBOptions_2 = DBOptions_1 +
  db_use_fsync :: "bool"
  db_db_paths :: "DbPath list"
  db_db_log_dir :: "string"
  db_wal_dir :: "string"
  db_delete_obsolete_files_period_micros :: "64 word"
  db_max_background_jobs :: "c_int"
  db_base_background_compactions :: "c_int"
  db_max_background_compactions :: "c_int"
  db_max_subcompactions :: "32 word"
  db_max_background_flushes :: "c_int"
  db_max_log_file_size :: "64 word"
  db_log_file_time_to_roll :: "64 word"
  db_keep_log_file_num :: "64 word"

record DBOptions_3 = DBOptions_2 +
  db_recycle_log_file_num :: "64 word"
  db_max_manifest_file_size :: "64 word"
  db_table_cache_numshardbits :: "c_int"
  db_WAL_ttl_seconds :: "64 word"
  db_WAL_size_limit_MB :: "64 word"
  db_manifest_preallocation_size :: "64 word"
  db_allow_mmap_reads :: "bool"
  db_allow_mmap_writes :: "bool"
  db_use_direct_reads :: "bool"
  db_use_direct_io_for_flush_and_compaction :: "bool"
  db_allow_fallocate :: "bool"
  db_is_fd_close_on_exec :: "bool"
  db_skip_log_error_on_recovery :: "bool"
  db_stats_dump_period_sec :: "32 word"
  db_stats_persist_period_sec :: "32 word"
  db_persist_stats_to_disk :: "bool"
  db_stats_history_buffer_size :: "64 word"
  db_advise_random_on_open :: "bool"
  db_experimental_mempurge_threshold :: "rat"

record DBOptions_4 = DBOptions_3 +
  db_db_write_buffer_size :: "64 word"
  db_write_buffer_manager :: "handle option"
  db_access_hint_on_compaction_start :: "AccessHint"
  db_new_table_reader_for_compaction_inputs :: "bool"
  db_compaction_readahead_size :: "64 word"
  db_random_access_max_buffer_size :: "64 word"
  db_writable_file_max_buffer_size :: "64 word"
  db_use_adaptive_mutex :: "bool"
  db_bytes_per_sync :: "64 word"
  db_wal_bytes_per_sync :: "64 word"

record DBOptions_5 = DBOptions_4 +
  db_strict_bytes_per_sync :: "bool"
  db_listeners :: "(handle option) list"
  db_enable_thread_tracking :: "bool"
  db_delayed_write_rate :: "64 word"
  db_enable_pipelined_write :: "bool"
  db_unordered_write :: "bool"
  db_allow_concurrent_memtable_write :: "bool"
  db_enable_write_thread_adaptive_yield :: "bool"
  db_max_write_batch_group_size_bytes :: "64 word"
  db_write_thread_max_yield_usec :: "64 word"
  db_write_thread_slow_yield_usec :: "64 word"
  db_skip_stats_update_on_db_open :: "bool"

record DBOptions_6 = DBOptions_5 +
  db_skip_checking_sst_file_sizes_on_db_open :: "bool"
  db_wal_recovery_mode :: "WALRecoveryMode"
  db_allow_2pc :: "bool"
  db_row_cache :: "handle option"
  db_wal_filter :: "handle option"
  db_fail_if_options_file_error :: "bool"
  db_dump_malloc_stats :: "bool"
  db_avoid_flush_during_recovery :: "bool"
  db_avoid_flush_during_shutdown :: "bool"
  db_allow_ingest_behind :: "bool"
  db_preserve_deletes :: "bool"
  db_two_write_queues :: "bool"
  db_manual_wal_flush :: "bool"
  db_atomic_flush :: "bool"
  db_avoid_unnecessary_blocking_io :: "bool"
  db_write_dbid_to_manifest :: "bool"
  db_log_readahead_size :: "64 word"
  db_file_checksum_gen_factory :: "handle option"

record DBOptions = DBOptions_6 +
  db_best_efforts_recovery :: "bool"
  db_max_bgerror_resume_count :: "c_int"
  db_bgerror_resume_retry_interval :: "64 word"
  db_allow_data_in_errors :: "bool"
  db_db_host_id :: "string"
  db_checksum_handoff_file_types :: "FileTypeSet"
  db_compaction_service :: "handle option"
  db_lowest_used_cache_tier :: "CacheTier"

definition DBOptions_inits :: "handle \<Rightarrow> string \<Rightarrow> DBOptions" where
  "DBOptions_inits Env_Default kHostnameForDbHostId =
    \<lparr>db_create_if_missing = False, db_create_missing_column_families = False,
      db_error_if_exists = False, db_paranoid_checks = True, db_flush_verify_memtable_count = True,
      db_track_and_verify_wals_in_manifest = False, db_env = Some Env_Default,
      db_rate_limiter = None, db_sst_file_manager = None, db_info_log = None,
      db_info_log_level = DEBUG_LEVEL, db_max_open_files = - 1, db_max_file_opening_threads = 16,
      db_max_total_wal_size = 0, db_statistics = None, db_use_fsync = False, db_db_paths = [],
      db_db_log_dir = [], db_wal_dir = [],
      db_delete_obsolete_files_period_micros = 6 * 60 * 60 * 1000000, db_max_background_jobs = 2,
      db_base_background_compactions = - 1, db_max_background_compactions = - 1,
      db_max_subcompactions = 1, db_max_background_flushes = - 1, db_max_log_file_size = 0,
      db_log_file_time_to_roll = 0, db_keep_log_file_num = 1000, db_recycle_log_file_num = 0,
      db_max_manifest_file_size = 1024 * 1024 * 1024, db_table_cache_numshardbits = 6,
      db_WAL_ttl_seconds = 0, db_WAL_size_limit_MB = 0,
      db_manifest_preallocation_size = 4 * 1024 * 1024, db_allow_mmap_reads = False,
      db_allow_mmap_writes = False, db_use_direct_reads = False,
      db_use_direct_io_for_flush_and_compaction = False, db_allow_fallocate = True,
      db_is_fd_close_on_exec = True, db_skip_log_error_on_recovery = False,
      db_stats_dump_period_sec = 600, db_stats_persist_period_sec = 600,
      db_persist_stats_to_disk = False, db_stats_history_buffer_size = 1024 * 1024,
      db_advise_random_on_open = True, db_experimental_mempurge_threshold = 0,
      db_db_write_buffer_size = 0, db_write_buffer_manager = None,
      db_access_hint_on_compaction_start = NORMAL,
      db_new_table_reader_for_compaction_inputs = False, db_compaction_readahead_size = 0,
      db_random_access_max_buffer_size = 1024 * 1024,
      db_writable_file_max_buffer_size = 1024 * 1024, db_use_adaptive_mutex = False,
      db_bytes_per_sync = 0, db_wal_bytes_per_sync = 0, db_strict_bytes_per_sync = False,
      db_listeners = [], db_enable_thread_tracking = False, db_delayed_write_rate = 0,
      db_enable_pipelined_write = False, db_unordered_write = False,
      db_allow_concurrent_memtable_write = True, db_enable_write_thread_adaptive_yield = True,
      db_max_write_batch_group_size_bytes = push_bit 20 1, db_write_thread_max_yield_usec = 100,
      db_write_thread_slow_yield_usec = 3, db_skip_stats_update_on_db_open = False,
      db_skip_checking_sst_file_sizes_on_db_open = False,
      db_wal_recovery_mode = kPointInTimeRecovery, db_allow_2pc = False, db_row_cache = None,
      db_wal_filter = None, db_fail_if_options_file_error = False, db_dump_malloc_stats = False,
      db_avoid_flush_during_recovery = False, db_avoid_flush_during_shutdown = False,
      db_allow_ingest_behind = False, db_preserve_deletes = False, db_two_write_queues = False,
      db_manual_wal_flush = False, db_atomic_flush = False,
      db_avoid_unnecessary_blocking_io = False, db_write_dbid_to_manifest = False,
      db_log_readahead_size = 0, db_file_checksum_gen_factory = None,
      db_best_efforts_recovery = False, db_max_bgerror_resume_count = 0x7FFFFFFF,
      db_bgerror_resume_retry_interval = 1000000, db_allow_data_in_errors = False,
      db_db_host_id = kHostnameForDbHostId, db_checksum_handoff_file_types = SmallEnumSet_new,
      db_compaction_service = None, db_lowest_used_cache_tier = kNonVolatileBlockTier\<rparr>"

record Options =
  opt_db :: DBOptions
  opt_cf :: ColumnFamilyOptions

definition Options_of :: "DBOptions \<Rightarrow> ColumnFamilyOptions \<Rightarrow> Options" where
  "Options_of db_options column_family_options = \<lparr>opt_db = db_options, opt_cf = column_family_options\<rparr>"

datatype ReadTier = kReadAllTier | kBlockCacheTier | kPersistedTier | kMemtableTier

fun read_tier_value :: "ReadTier \<Rightarrow> nat" where
  "read_tier_value kReadAllTier = 0"
| "read_tier_value kBlockCacheTier = 1"
| "read_tier_value kPersistedTier = 2"
| "read_tier_value kMemtableTier = 3"

record ReadOptions_1 =
  ro_snapshot :: "handle option"
  ro_iterate_lower_bound :: "Slice option"
  ro_iterate_upper_bound :: "Slice option"
  ro_readahead_size :: "64 word"
  ro_max_skippable_internal_keys :: "64 word"
  ro_read_tier :: "ReadTier"
  ro_verify_checksums :: "bool"
  ro_fill_cache :: "bool"
  ro_tailing :: "bool"
  ro_managed :: "bool"
  ro_total_order_seek :: "bool"
  ro_auto_prefix_mode :: "bool"
  ro_prefix_same_as_start :: "bool"
  ro_pin_data :: "bool"
  ro_background_purge_on_iterator_cleanup :: "bool"
  ro_ignore_range_deletions :: "bool"
  ro_table_filter :: "handle option"

record ReadOptions = ReadOptions_1 +
  ro_iter_start_seqnum :: "64 word"
  ro_timestamp :: "Slice option"
  ro_iter_start_ts :: "Slice option"
  ro_deadline :: "int"
  ro_io_timeout :: "int"
  ro_value_size_soft_limit :: "64 word"
  ro_adaptive_readahead :: "bool"

record WriteOptions =
  wo_sync :: "bool"
  wo_disableWAL :: "bool"
  wo_ignore_missing_column_families :: "bool"
  wo_no_slowdown :: "bool"
  wo_low_pri :: "bool"
  wo_memtable_insert_hint_per_batch :: "bool"
  wo_timestamp :: "Slice option"

definition WriteOptions_default :: "WriteOptions" where
  "WriteOptions_default =
    \<lparr>wo_sync = False, wo_disableWAL = False, wo_ignore_missing_column_families = False,
      wo_no_slowdown = False, wo_low_pri = False, wo_memtable_insert_hint_per_batch = False,
      wo_timestamp = None\<rparr>"

record FlushOptions =
  fo_wait :: "bool"
  fo_allow_write_stall :: "bool"

definition FlushOptions_default :: "FlushOptions" where
  "FlushOptions_default =
    \<lparr>fo_wait = True, fo_allow_write_stall = False\<rparr>"

record CompactionOptions =
  cmo_compression :: "CompressionType"
  cmo_output_file_size_limit :: "64 word"
  cmo_max_subcompactions :: "32 word"

definition CompactionOptions_default :: "CompactionOptions" where
  "CompactionOptions_default =
    \<lparr>cmo_compression = kSnappyCompression, cmo_output_file_size_limit = - 1,
      cmo_max_subcompactions = 0\<rparr>"

datatype BottommostLevelCompaction = blc_kSkip | blc_kIfHaveCompactionFilter | blc_kForce | blc_kForceOptimized

record CompactRangeOptions =
  cro_exclusive_manual_compaction :: "bool"
  cro_change_level :: "bool"
  cro_target_level :: "c_int"
  cro_target_path_id :: "32 word"
  cro_bottommost_level_compaction :: "BottommostLevelCompaction"
  cro_allow_write_stall :: "bool"
  cro_max_subcompactions :: "32 word"
  cro_full_history_ts_low :: "Slice option"
  cro_canceled :: "handle option"

definition CompactRangeOptions_default :: "CompactRangeOptions" where
  "CompactRangeOptions_default =
    \<lparr>cro_exclusive_manual_compaction = True, cro_change_level = False, cro_target_level = - 1,
      cro_target_path_id = 0, cro_bottommost_level_compaction = blc_kIfHaveCompactionFilter,
      cro_allow_write_stall = False, cro_max_subcompactions = 0, cro_full_history_ts_low = None,
      cro_canceled = None\<rparr>"

record IngestExternalFileOptions =
  ief_move_files :: "bool"
  ief_failed_move_fall_back_to_copy :: "bool"
  ief_snapshot_consistency :: "bool"
  ief_allow_global_seqno :: "bool"
  ief_allow_blocking_flush :: "bool"
  ief_ingest_behind :: "bool"
  ief_write_global_seqno :: "bool"
  ief_verify_checksums_before_ingest :: "bool"
  ief_verify_checksums_readahead_size :: "64 word"
  ief_verify_file_checksum :: "bool"

definition IngestExternalFileOptions_default :: "IngestExternalFileOptions" where
  "IngestExternalFileOptions_default =
    \<lparr>ief_move_files = False, ief_failed_move_fall_back_to_copy = True,
      ief_snapshot_consistency = True, ief_allow_global_seqno = True,
      ief_allow_blocking_flush = True, ief_ingest_behind = False, ief_write_global_seqno = True,
      ief_verify_checksums_before_ingest = False, ief_verify_checksums_readahead_size = 0,
      ief_verify_file_checksum = True\<rparr>"

definition kTraceFilterNone :: "64 word" where
  "kTraceFilterNone = 0"

definition kTraceFilterGet :: "64 word" where
  "kTraceFilterGet = push_bit 0 1"

definition kTraceFilterWrite :: "64 word" where
  "kTraceFilterWrite = push_bit 1 1"

definition kTraceFilterIteratorSeek :: "64 word" where
  "kTraceFilterIteratorSeek = push_bit 2 1"

definition kTraceFilterIteratorSeekForPrev :: "64 word" where
  "kTraceFilterIteratorSeekForPrev = push_bit 3 1"

definition kTraceFilterMultiGet :: "64 word" where
  "kTraceFilterMultiGet = push_bit 4 1"

record TraceOptions =
  to_max_trace_file_size :: "64 word"
  to_sampling_frequency :: "64 word"
  to_filter :: "64 word"
  to_preserve_write_order :: "bool"

definition TraceOptions_default :: "TraceOptions" where
  "TraceOptions_default =
    \<lparr>to_max_trace_file_size = 64 * 1024 * 1024 * 1024, to_sampling_frequency = 1,
      to_filter = kTraceFilterNone, to_preserve_write_order = False\<rparr>"

record ImportColumnFamilyOptions =
  icf_move_files :: "bool"

definition ImportColumnFamilyOptions_default :: "ImportColumnFamilyOptions" where
  "ImportColumnFamilyOptions_default =
    \<lparr>icf_move_files = False\<rparr>"

record SizeApproximationOptions =
  sa_include_memtabtles :: "bool"
  sa_include_files :: "bool"
  sa_files_size_error_margin :: "rat"

definition SizeApproximationOptions_default :: "SizeApproximationOptions" where
  "SizeApproximationOptions_default =
    \<lparr>sa_include_memtabtles = False, sa_include_files = True, sa_files_size_error_margin = - 1\<rparr>"

record CompactionServiceOptionsOverride =
  cso_env :: "handle option"
  cso_file_checksum_gen_factory :: "handle option"
  cso_comparator :: "handle option"
  cso_merge_operator :: "handle option"
  cso_compaction_filter :: "handle option"
  cso_compaction_filter_factory :: "handle option"
  cso_prefix_extractor :: "handle option"
  cso_table_factory :: "handle option"
  cso_sst_partitioner_factory :: "handle option"
  cso_statistics :: "handle option"

definition CompactionServiceOptionsOverride_default :: "handle \<Rightarrow> handle \<Rightarrow> (handle option) \<Rightarrow> CompactionServiceOptionsOverride" where
  "CompactionServiceOptionsOverride_default Env_Default BytewiseComparator p_table_factory =
    \<lparr>cso_env = Some Env_Default, cso_file_checksum_gen_factory = None,
      cso_comparator = Some BytewiseComparator, cso_merge_operator = None,
      cso_compaction_filter = None, cso_compaction_filter_factory = None,
      cso_prefix_extractor = None, cso_table_factory = p_table_factory,
      cso_sst_partitioner_factory = None, cso_statistics = None\<rparr>"

record LiveFilesStorageInfoOptions =
  lfs_include_checksum_info :: "bool"
  lfs_wal_size_for_flush :: "64 word"

definition LiveFilesStorageInfoOptions_default :: "LiveFilesStorageInfoOptions" where
  "LiveFilesStorageInfoOptions_default =
    \<lparr>lfs_include_checksum_info = False, lfs_wal_size_for_flush = 0\<rparr>"

end
