(* ===== verification/Rocks_DB.thy ===== *)
theory Rocks_DB
  imports Statuses Rocks_Options
begin

text \<open>
  The database interface the program is written against: the virtual members of \<open>rocksdb::DB\<close>
  (\<open>rocksdb/db.h\<close>) and \<open>rocksdb::Iterator\<close> (\<open>rocksdb/iterator.h\<close>) it calls, as a record of functions,
  one per member. The library behind them (\<open>librocksdb.a\<close>) is not part of the sources, so every
  definition that touches a database takes such a record as its argument, and what it relies on
  are the laws of the locale \<open>rocksdb_api\<close>: the documented behaviour of a bytewise-ordered map with
  snapshot iterators. The locale \<open>rocksdb_reliable\<close> adds that the calls report success. The last
  section instantiates the interface by key-ordered association lists.
\<close>

section \<open>The interface\<close>

text \<open>
  \<open>'db\<close> is the state of one open database, \<open>'it\<close> the state of one iterator. Writes return the new
  state and a status; \<open>Get\<close> takes the caller's string and returns it, overwritten or not. The three
  out-of-line option constructors and \<open>Slice::ToString\<close> belong to the library as well.
\<close>

record ('db, 'it) rocksdb =
  DB_Open :: "Options \<Rightarrow> string \<Rightarrow> Status \<times> 'db option"
  DB_Put :: "WriteOptions \<Rightarrow> 'db \<Rightarrow> Slice \<Rightarrow> Slice \<Rightarrow> Status \<times> 'db"
  DB_Delete :: "WriteOptions \<Rightarrow> 'db \<Rightarrow> Slice \<Rightarrow> Status \<times> 'db"
  DB_Get :: "ReadOptions \<Rightarrow> 'db \<Rightarrow> Slice \<Rightarrow> string \<Rightarrow> Status \<times> string"
  DB_NewIterator :: "ReadOptions \<Rightarrow> 'db \<Rightarrow> 'it"
  It_Valid :: "'it \<Rightarrow> bool"
  It_SeekToFirst :: "'it \<Rightarrow> 'it"
  It_SeekToLast :: "'it \<Rightarrow> 'it"
  It_Seek :: "'it \<Rightarrow> Slice \<Rightarrow> 'it"
  It_Next :: "'it \<Rightarrow> 'it"
  It_Prev :: "'it \<Rightarrow> 'it"
  It_key :: "'it \<Rightarrow> Slice"
  It_value :: "'it \<Rightarrow> Slice"
  Slice_ToString :: "Slice \<Rightarrow> string"
  DBOptions_ctor :: DBOptions
  ColumnFamilyOptions_ctor :: ColumnFamilyOptions
  ReadOptions_ctor :: ReadOptions

text \<open>The calls with a documented precondition \<open>REQUIRES: Valid()\<close> fault when it does not hold.\<close>

definition it_next :: "('db, 'it) rocksdb \<Rightarrow> 'it \<Rightarrow> 'it result" where
  "it_next R it = (if It_Valid R it then Inr (It_Next R it) else Inl Invalid_iterator)"

definition it_prev :: "('db, 'it) rocksdb \<Rightarrow> 'it \<Rightarrow> 'it result" where
  "it_prev R it = (if It_Valid R it then Inr (It_Prev R it) else Inl Invalid_iterator)"

definition it_key :: "('db, 'it) rocksdb \<Rightarrow> 'it \<Rightarrow> Slice result" where
  "it_key R it = (if It_Valid R it then Inr (It_key R it) else Inl Invalid_iterator)"

definition it_value :: "('db, 'it) rocksdb \<Rightarrow> 'it \<Rightarrow> Slice result" where
  "it_value R it = (if It_Valid R it then Inr (It_value R it) else Inl Invalid_iterator)"

text \<open>
  Read options under which an iterator sees the whole current state in order: no explicit
  snapshot, no bounds, no prefix mode, not tailing, no timestamp (the documented defaults).
\<close>

definition plain_read :: "ReadOptions \<Rightarrow> bool" where
  "plain_read ro \<longleftrightarrow> ro_snapshot ro = None \<and> ro_iterate_lower_bound ro = None \<and>
     ro_iterate_upper_bound ro = None \<and> ro_read_tier ro = kReadAllTier \<and> \<not> ro_tailing ro \<and>
     \<not> ro_prefix_same_as_start ro \<and> ro_table_filter ro = None \<and> ro_iter_start_seqnum ro = 0 \<and>
     ro_timestamp ro = None \<and> ro_iter_start_ts ro = None \<and> ro_max_skippable_internal_keys ro = 0"

section \<open>The documented behaviour\<close>

text \<open>The first position whose key is at or past a target, and the positions of an iterator.\<close>

definition seek_pos :: "kv \<Rightarrow> string \<Rightarrow> nat option" where
  "seek_pos xs k = (let n = length (takeWhile (\<lambda>e. fst e < k) xs) in if n < length xs then Some n else None)"

text \<open>
  \<open>cursor\<close> abstracts an iterator to the entries of its snapshot and its position. The laws quote
  \<open>iterator.h\<close>: the positions each call moves to and when the iterator is valid.
\<close>

locale rocksdb_iterators =
  fixes R :: "('db, 'it) rocksdb"
    and cursor :: "'it \<Rightarrow> kv \<times> nat option"
  assumes valid: "It_Valid R it \<longleftrightarrow> snd (cursor it) \<noteq> None"
    and in_range: "cursor it = (xs, Some n) \<Longrightarrow> n < length xs"
    and seek_first: "cursor (It_SeekToFirst R it) =
      (fst (cursor it), if fst (cursor it) = [] then None else Some 0)"
    and seek_last: "cursor (It_SeekToLast R it) =
      (fst (cursor it), if fst (cursor it) = [] then None else Some (length (fst (cursor it)) - 1))"
    and seek: "slice_ok k \<Longrightarrow>
      cursor (It_Seek R it k) = (fst (cursor it), seek_pos (fst (cursor it)) (slice_bytes k))"
    and nxt: "cursor it = (xs, Some n) \<Longrightarrow>
      cursor (It_Next R it) = (xs, if Suc n < length xs then Some (Suc n) else None)"
    and prev: "cursor it = (xs, Some n) \<Longrightarrow>
      cursor (It_Prev R it) = (xs, if n = 0 then None else Some (n - 1))"
    and key_at: "cursor it = (xs, Some n) \<Longrightarrow>
      slice_ok (It_key R it) \<and> slice_bytes (It_key R it) = fst (xs ! n)"
    and value_at: "cursor it = (xs, Some n) \<Longrightarrow>
      slice_ok (It_value R it) \<and> slice_bytes (It_value R it) = snd (xs ! n)"
    and to_string: "slice_ok sl \<Longrightarrow> Slice_ToString R sl = slice_bytes sl"
    and read_defaults: "plain_read (ReadOptions_ctor R)"

text \<open>
  \<open>content\<close> abstracts a database to its key-ordered entries. The laws quote \<open>db.h\<close> ("ordered map",
  "if key already exists, it will be overwritten", "it is not an error if key did not exist", "leave
  *value unchanged").
\<close>

locale rocksdb_api = rocksdb_iterators R cursor
  for R :: "('db, 'it) rocksdb" and content :: "'db \<Rightarrow> kv" and cursor +
  assumes ordered: "kv_sorted (content d)"
    and put_content: "slice_ok k \<Longrightarrow> slice_ok v \<Longrightarrow> DB_Put R wo d k v = (st, d') \<Longrightarrow> Status_ok st \<Longrightarrow>
      content d' = kv_put (slice_bytes k) (slice_bytes v) (content d)"
    and delete_content: "slice_ok k \<Longrightarrow> DB_Delete R wo d k = (st, d') \<Longrightarrow> Status_ok st \<Longrightarrow>
      content d' = kv_del (slice_bytes k) (content d)"
    and get_found: "plain_read ro \<Longrightarrow> slice_ok k \<Longrightarrow> DB_Get R ro d k s = (st, s') \<Longrightarrow> Status_ok st \<Longrightarrow>
      kv_get (slice_bytes k) (content d) = Some s'"
    and get_missing: "plain_read ro \<Longrightarrow> slice_ok k \<Longrightarrow> DB_Get R ro d k s = (st, s') \<Longrightarrow> Status_IsNotFound st \<Longrightarrow>
      kv_get (slice_bytes k) (content d) = None \<and> s' = s"
    and new_iterator: "plain_read ro \<Longrightarrow> fst (cursor (DB_NewIterator R ro d)) = content d"
begin

text \<open>The entry an iterator stands on, and what the guarded calls return there.\<close>

lemma valid_at: "cursor it = (xs, Some n) \<Longrightarrow> It_Valid R it"
  by (simp add: valid)

lemma not_valid_at: "cursor it = (xs, None) \<Longrightarrow> \<not> It_Valid R it"
  by (simp add: valid)

lemma it_key_at: "cursor it = (xs, Some n) \<Longrightarrow> \<exists>s. it_key R it = Inr s \<and> slice_ok s \<and> slice_bytes s = fst (xs ! n)"
  using key_at [of it xs n] by (simp add: it_key_def valid_at)

lemma it_value_at: "cursor it = (xs, Some n) \<Longrightarrow> \<exists>s. it_value R it = Inr s \<and> slice_ok s \<and> slice_bytes s = snd (xs ! n)"
  using value_at [of it xs n] by (simp add: it_value_def valid_at)

lemma it_next_at: "cursor it = (xs, Some n) \<Longrightarrow>
    it_next R it = Inr (It_Next R it) \<and> cursor (It_Next R it) = (xs, if Suc n < length xs then Some (Suc n) else None)"
  by (simp add: it_next_def valid_at nxt)

lemma it_prev_at: "cursor it = (xs, Some n) \<Longrightarrow>
    it_prev R it = Inr (It_Prev R it) \<and> cursor (It_Prev R it) = (xs, if n = 0 then None else Some (n - 1))"
  by (simp add: it_prev_def valid_at prev)

lemma key_string_at: "cursor it = (xs, Some n) \<Longrightarrow> Slice_ToString R (It_key R it) = fst (xs ! n)"
  using key_at [of it xs n] by (simp add: to_string)

lemma value_string_at: "cursor it = (xs, Some n) \<Longrightarrow> Slice_ToString R (It_value R it) = snd (xs ! n)"
  using value_at [of it xs n] by (simp add: to_string)

lemma first_cursor:
  "plain_read ro \<Longrightarrow> cursor (It_SeekToFirst R (DB_NewIterator R ro d)) =
    (content d, if content d = [] then None else Some 0)"
  by (simp add: seek_first new_iterator)

lemma last_cursor:
  "plain_read ro \<Longrightarrow> cursor (It_SeekToLast R (DB_NewIterator R ro d)) =
    (content d, if content d = [] then None else Some (length (content d) - 1))"
  by (simp add: seek_last new_iterator)

end

text \<open>Reading does not fail: a look-up finds the key or reports it missing, and a database can be opened.\<close>

locale rocksdb_readable = rocksdb_api +
  assumes get_ok: "Status_ok (fst (DB_Get R ro d k s)) \<or> Status_IsNotFound (fst (DB_Get R ro d k s))"
    and open_ok: "db_create_if_missing (opt_db opts) \<Longrightarrow>
      Status_ok (fst (DB_Open R opts n)) \<and> snd (DB_Open R opts n) \<noteq> None"
begin

lemma get_run:
  assumes "plain_read ro" "slice_ok k"
  shows "snd (DB_Get R ro d k s) = (case kv_get (slice_bytes k) (content d) of Some v \<Rightarrow> v | None \<Rightarrow> s)"
proof -
  obtain st s' where get: "DB_Get R ro d k s = (st, s')"
    by fastforce
  consider "Status_ok st" | "Status_IsNotFound st"
    using get_ok [of ro d k s] get by auto
  then show ?thesis
    using get_found [OF assms get] get_missing [OF assms get] get by cases auto
qed

end

text \<open>No I/O failure: every write succeeds as well.\<close>

locale rocksdb_reliable = rocksdb_readable +
  assumes put_ok: "Status_ok (fst (DB_Put R wo d k v))"
    and delete_ok: "Status_ok (fst (DB_Delete R wo d k))"
begin

lemma put_run:
  "slice_ok k \<Longrightarrow> slice_ok v \<Longrightarrow>
    content (snd (DB_Put R wo d k v)) = kv_put (slice_bytes k) (slice_bytes v) (content d)"
  using put_content put_ok by (metis prod.collapse)

lemma delete_run: "slice_ok k \<Longrightarrow> content (snd (DB_Delete R wo d k)) = kv_del (slice_bytes k) (content d)"
  using delete_content delete_ok by (metis prod.collapse)

end

lemma rocksdb_reliable_api: "rocksdb_reliable R content cursor \<Longrightarrow> rocksdb_api R content cursor"
  by (intro rocksdb_readable.axioms(1) rocksdb_reliable.axioms(1))

text \<open>
  Every write is refused with an error status, as by a full disk, and the entries stay as they are;
  reading goes on.
\<close>

locale rocksdb_full = rocksdb_readable +
  assumes put_refused: "\<not> Status_ok (fst (DB_Put R wo d k v))" "content (snd (DB_Put R wo d k v)) = content d"
    and delete_refused: "\<not> Status_ok (fst (DB_Delete R wo d k))" "content (snd (DB_Delete R wo d k)) = content d"

section \<open>An instance\<close>

text \<open>
  Key-ordered association lists with index cursors meet the laws. A list that is not key-ordered
  counts as the empty database, an index past the end as the invalid position.
\<close>

definition ref_content :: "kv \<Rightarrow> kv" where
  "ref_content d = (if kv_sorted d then d else [])"

definition ref_cursor :: "kv \<times> nat option \<Rightarrow> kv \<times> nat option" where
  "ref_cursor it = (fst it, case snd it of None \<Rightarrow> None | Some n \<Rightarrow> if n < length (fst it) then Some n else None)"

definition ref_at :: "kv \<times> nat option \<Rightarrow> string \<times> string" where
  "ref_at it = (case snd (ref_cursor it) of None \<Rightarrow> ([], []) | Some n \<Rightarrow> fst it ! n)"

definition ref_read_options :: ReadOptions where
  "ref_read_options =
    \<lparr>ro_snapshot = None, ro_iterate_lower_bound = None, ro_iterate_upper_bound = None, ro_readahead_size = 0,
     ro_max_skippable_internal_keys = 0, ro_read_tier = kReadAllTier, ro_verify_checksums = True,
     ro_fill_cache = True, ro_tailing = False, ro_managed = False, ro_total_order_seek = False,
     ro_auto_prefix_mode = False, ro_prefix_same_as_start = False, ro_pin_data = False,
     ro_background_purge_on_iterator_cleanup = False, ro_ignore_range_deletions = False,
     ro_table_filter = None, ro_iter_start_seqnum = 0, ro_timestamp = None, ro_iter_start_ts = None,
     ro_deadline = 0, ro_io_timeout = 0, ro_value_size_soft_limit = - 1, ro_adaptive_readahead = False\<rparr>"

definition ref_db :: "(string \<Rightarrow> kv) \<Rightarrow> DBOptions \<Rightarrow> ColumnFamilyOptions \<Rightarrow> (kv, kv \<times> nat option) rocksdb" where
  "ref_db disk dbo cfo =
    \<lparr>DB_Open = (\<lambda>opts n. (Status_OK, Some (disk n))),
     DB_Put = (\<lambda>wo d k v. (Status_OK, kv_put (slice_bytes k) (slice_bytes v) (ref_content d))),
     DB_Delete = (\<lambda>wo d k. (Status_OK, kv_del (slice_bytes k) (ref_content d))),
     DB_Get = (\<lambda>ro d k s. case kv_get (slice_bytes k) (ref_content d) of
        None \<Rightarrow> (Status_NotFound kNone, s) | Some v \<Rightarrow> (Status_OK, v)),
     DB_NewIterator = (\<lambda>ro d. (ref_content d, None)),
     It_Valid = (\<lambda>it. snd (ref_cursor it) \<noteq> None),
     It_SeekToFirst = (\<lambda>it. (fst it, if fst it = [] then None else Some 0)),
     It_SeekToLast = (\<lambda>it. (fst it, if fst it = [] then None else Some (length (fst it) - 1))),
     It_Seek = (\<lambda>it k. (fst it, seek_pos (fst it) (slice_bytes k))),
     It_Next = (\<lambda>it. (fst it, map_option Suc (snd it))),
     It_Prev = (\<lambda>it. (fst it, case snd it of None \<Rightarrow> None | Some n \<Rightarrow> if n = 0 then None else Some (n - 1))),
     It_key = (\<lambda>it. Slice_of_string (fst (ref_at it))),
     It_value = (\<lambda>it. Slice_of_string (snd (ref_at it))),
     Slice_ToString = slice_bytes,
     DBOptions_ctor = dbo, ColumnFamilyOptions_ctor = cfo, ReadOptions_ctor = ref_read_options\<rparr>"

text \<open>The same lists on a full disk.\<close>

definition ref_full_db :: "(string \<Rightarrow> kv) \<Rightarrow> DBOptions \<Rightarrow> ColumnFamilyOptions \<Rightarrow> (kv, kv \<times> nat option) rocksdb" where
  "ref_full_db disk dbo cfo = (ref_db disk dbo cfo)
    \<lparr>DB_Put := (\<lambda>wo d k v. (Status_NoSpace, d)), DB_Delete := (\<lambda>wo d k. (Status_NoSpace, d))\<rparr>"

definition ref_R :: "(kv, kv \<times> nat option) rocksdb" where
  "ref_R = ref_db (\<lambda>_. []) (DBOptions_inits 1 [])
     (ColumnFamilyOptions_inits (AdvancedColumnFamilyOptions_inits 2 0) 3 kSnappyCompression None)"

lemma status_OK_simps [simp]: "Status_ok Status_OK" "\<not> Status_IsNotFound Status_OK"
  "Status_IsNotFound (Status_NotFound sc)" "\<not> Status_ok (Status_NotFound sc)" "\<not> Status_ok Status_NoSpace"
  by (simp_all add: Status_ok_def Status_IsNotFound_def Status_OK_def Status_default_def Status_code_def
      Status_NotFound_def Status_NoSpace_def Status_code_subcode_def)

lemma ref_read_options_plain: "plain_read ref_read_options"
  by (simp add: plain_read_def ref_read_options_def)

interpretation ref: rocksdb_reliable "ref_db disk dbo cfo" ref_content ref_cursor
  for disk :: "string \<Rightarrow> kv" and dbo :: DBOptions and cfo :: ColumnFamilyOptions
proof unfold_locales
  show "kv_sorted (ref_content d)" for d
    by (simp add: ref_content_def)
qed (auto simp: ref_db_def ref_content_def ref_cursor_def ref_at_def seek_pos_def Let_def
    ref_read_options_plain split: option.splits if_splits)

interpretation ref_full: rocksdb_full "ref_full_db disk dbo cfo" ref_content ref_cursor
  for disk :: "string \<Rightarrow> kv" and dbo :: DBOptions and cfo :: ColumnFamilyOptions
proof unfold_locales
  show "kv_sorted (ref_content d)" for d
    by (simp add: ref_content_def)
qed (auto simp: ref_full_db_def ref_db_def ref_content_def ref_cursor_def ref_at_def seek_pos_def Let_def
    ref_read_options_plain split: option.splits if_splits)

lemma ref_R_reliable: "rocksdb_reliable ref_R ref_content ref_cursor"
  unfolding ref_R_def by (rule ref.rocksdb_reliable_axioms)

lemma ref_R_api: "rocksdb_api ref_R ref_content ref_cursor"
  unfolding ref_R_def by (rule ref.rocksdb_api_axioms)

end
