(* ===== verification/DB_Handle.thy ===== *)
theory DB_Handle
  imports Handle_Buff Rocks_DB
begin

text \<open>
  \<open>my_code/db_handle\<close>: the wrapper around one RocksDB instance. \<open>R\<close> is the database library. The
  wrapper drops every status the library returns except that of \<open>Open\<close>. Loops over an iterator are
  partial functions, since nothing in their text bounds them; the facts show that they return.
\<close>

section \<open>State and constructors\<close>

record 'db DB_Handle =
  dbh_db :: "'db option"
  dbh_write_options :: WriteOptions
  dbh_options :: Options
  dbh_read_options :: ReadOptions

definition DB_Handle_default :: "('db, 'it) rocksdb \<Rightarrow> 'db DB_Handle" where
  "DB_Handle_default R =
     \<lparr>dbh_db = None, dbh_write_options = WriteOptions_default,
      dbh_options = Options_of (DBOptions_ctor R) (ColumnFamilyOptions_ctor R),
      dbh_read_options = ReadOptions_ctor R\<rparr>"

definition DB_Handle_open :: "('db, 'it) rocksdb \<Rightarrow> string \<Rightarrow> 'db DB_Handle result" where
  "DB_Handle_open R db_location =
     (let opts = Options_of (DBOptions_ctor R) (ColumnFamilyOptions_ctor R);
          opts = opts\<lparr>opt_db := (opt_db opts)\<lparr>db_create_if_missing := True\<rparr>\<rparr>;
          (status, db) = DB_Open R opts db_location in
      bindr (guard Assertion_failed (Status_ok status)) (\<lambda>_.
      Inr \<lparr>dbh_db = db, dbh_write_options = WriteOptions_default, dbh_options = opts,
           dbh_read_options = ReadOptions_ctor R\<rparr>))"

definition DB_Handle_get_db :: "'db DB_Handle \<Rightarrow> 'db option" where
  "DB_Handle_get_db h = dbh_db h"

definition DB_Handle_get_read_options :: "'db DB_Handle \<Rightarrow> ReadOptions" where
  "DB_Handle_get_read_options h = dbh_read_options h"

section \<open>Writes\<close>

text \<open>\<open>db->Put(write_options, key, value)\<close> with the status discarded, and the same for \<open>Delete\<close>.\<close>

definition db_put :: "('db, 'it) rocksdb \<Rightarrow> 'db DB_Handle \<Rightarrow> Slice \<Rightarrow> Slice \<Rightarrow> 'db DB_Handle result" where
  "db_put R h key val =
     bindr (deref (dbh_db h)) (\<lambda>d.
     Inr (h\<lparr>dbh_db := Some (snd (DB_Put R (dbh_write_options h) d key val))\<rparr>))"

definition DB_Handle_put_cstring_slice ::
    "('db, 'it) rocksdb \<Rightarrow> 'db DB_Handle \<Rightarrow> string \<Rightarrow> Slice \<Rightarrow> 'db DB_Handle result" where
  "DB_Handle_put_cstring_slice R h key val = db_put R h (Slice_of_string key) val"

definition DB_Handle_put_buf_slice ::
    "('db, 'it) rocksdb \<Rightarrow> 'db DB_Handle \<Rightarrow> bytes \<Rightarrow> c_int \<Rightarrow> Slice \<Rightarrow> 'db DB_Handle result" where
  "DB_Handle_put_buf_slice R h key_buf key_len val =
     db_put R h (Slice_of_buff key_buf (size_of_int key_len)) val"

definition DB_Handle_put ::
    "('db, 'it) rocksdb \<Rightarrow> 'db DB_Handle \<Rightarrow> string \<Rightarrow> string \<Rightarrow> 'db DB_Handle result" where
  "DB_Handle_put R h key val = db_put R h (Slice_of_string key) (Slice_of_string val)"

definition DB_Handle_put_buf_buf ::
    "('db, 'it) rocksdb \<Rightarrow> 'db DB_Handle \<Rightarrow> bytes \<Rightarrow> c_int \<Rightarrow> bytes \<Rightarrow> c_int \<Rightarrow> 'db DB_Handle result" where
  "DB_Handle_put_buf_buf R h key_buf key_len value_buf value_len =
     db_put R h (Slice_of_buff key_buf (size_of_int key_len)) (Slice_of_buff value_buf (size_of_int value_len))"

definition DB_Handle_put_slice_string ::
    "('db, 'it) rocksdb \<Rightarrow> 'db DB_Handle \<Rightarrow> Slice \<Rightarrow> string \<Rightarrow> 'db DB_Handle result" where
  "DB_Handle_put_slice_string R h key val = db_put R h key (Slice_of_string val)"

definition DB_Handle_put_num_slice ::
    "('db, 'it) rocksdb \<Rightarrow> 'db DB_Handle \<Rightarrow> 32 word \<Rightarrow> Slice \<Rightarrow> 'db DB_Handle result" where
  "DB_Handle_put_num_slice R h num val =
     (let n = to_string_nat (unat num) in db_put R h (Slice_of_string n) val)"

definition DB_Handle_put_string_slice ::
    "('db, 'it) rocksdb \<Rightarrow> 'db DB_Handle \<Rightarrow> string \<Rightarrow> Slice \<Rightarrow> 'db DB_Handle result" where
  "DB_Handle_put_string_slice R h key val = db_put R h (Slice_of_string key) val"

definition DB_Handle_delete_1 :: "('db, 'it) rocksdb \<Rightarrow> 'db DB_Handle \<Rightarrow> Slice \<Rightarrow> 'db DB_Handle result" where
  "DB_Handle_delete_1 R h sl =
     bindr (deref (dbh_db h)) (\<lambda>d.
     Inr (h\<lparr>dbh_db := Some (snd (DB_Delete R (dbh_write_options h) d sl))\<rparr>))"

section \<open>Reads\<close>

definition DB_Handle_get :: "('db, 'it) rocksdb \<Rightarrow> 'db DB_Handle \<Rightarrow> string \<Rightarrow> string result" where
  "DB_Handle_get R h key =
     bindr (deref (dbh_db h)) (\<lambda>d.
     Inr (snd (DB_Get R (dbh_read_options h) d (Slice_of_string key) [])))"

definition new_iterator :: "('db, 'it) rocksdb \<Rightarrow> 'db DB_Handle \<Rightarrow> 'it result" where
  "new_iterator R h =
     bindr (deref (DB_Handle_get_db h)) (\<lambda>d. Inr (DB_NewIterator R (DB_Handle_get_read_options h) d))"

text \<open>
  The look-up by iterator. The source tests \<open>!memcpy(...)\<close>, not \<open>!memcmp(...)\<close>: the call copies the
  searched key over the memory behind the iterator's key and yields its destination. The third
  component is that memory after the copy; it belongs to the library, and what the library makes of
  the change is outside the model.
\<close>

definition DB_Handle_get_buf_iterator ::
    "('db, 'it) rocksdb \<Rightarrow> 'db DB_Handle \<Rightarrow> bytes \<Rightarrow> c_int \<Rightarrow> (bool \<times> 'it \<times> bytes option) result" where
  "DB_Handle_get_buf_iterator R h key_buf key_len =
     bindr (deref (dbh_db h)) (\<lambda>d.
     let it = It_Seek R (DB_NewIterator R (dbh_read_options h) d) (Slice_of_buff key_buf (size_of_int key_len)) in
     if It_Valid R it then
       bindr (it_key R it) (\<lambda>k.
       bindr (mem_read key_buf 0 (size_of_int key_len)) (\<lambda>src.
       bindr (c_memcpy (Slice_data k) src) (\<lambda>copied.
       if copied = None then Inr (True, it, copied) else Inr (False, it, copied))))
     else Inr (False, it, None))"


partial_function (option) get_num_loop :: "('db, 'it) rocksdb \<Rightarrow> 'it \<Rightarrow> c_int \<Rightarrow> c_int option" where
  "get_num_loop R it ret = (if It_Valid R it then get_num_loop R (It_Next R it) (ret + 1) else Some ret)"

definition DB_Handle_get_num :: "('db, 'it) rocksdb \<Rightarrow> 'db DB_Handle \<Rightarrow> c_int result" where
  "DB_Handle_get_num R h =
     bindr (new_iterator R h) (\<lambda>it. of_loop (get_num_loop R (It_SeekToFirst R it) 0))"

partial_function (option) get_size_loop :: "('db, 'it) rocksdb \<Rightarrow> 'it \<Rightarrow> c_int \<Rightarrow> c_int option" where
  "get_size_loop R it ret =
     (if It_Valid R it then
        get_size_loop R (It_Next R it)
          (ret + (word_of_nat (Slice_size (It_value R it)) + 1) + (word_of_nat (Slice_size (It_key R it)) + 1))
      else Some ret)"

definition DB_Handle_get_size :: "('db, 'it) rocksdb \<Rightarrow> 'db DB_Handle \<Rightarrow> c_int result" where
  "DB_Handle_get_size R h =
     bindr (new_iterator R h) (\<lambda>it. of_loop (get_size_loop R (It_SeekToFirst R it) 0))"

partial_function (option) less_or_equal_one_loop :: "('db, 'it) rocksdb \<Rightarrow> 'it \<Rightarrow> c_int \<Rightarrow> bool option" where
  "less_or_equal_one_loop R it ret =
     (if It_Valid R it then
        let ret = ret + 1; it = It_Next R it in
        if 2 \<le> sint ret then Some False else less_or_equal_one_loop R it ret
      else Some True)"

definition DB_Handle_store_less_or_equal_one :: "('db, 'it) rocksdb \<Rightarrow> 'db DB_Handle \<Rightarrow> bool result" where
  "DB_Handle_store_less_or_equal_one R h =
     bindr (new_iterator R h) (\<lambda>it. of_loop (less_or_equal_one_loop R (It_SeekToFirst R it) 0))"

text \<open>
  \<open>get_smaller_or_equal_but_as_large_as_possible\<close>: it seeks the key with its terminating NUL byte, so
  past the key itself, and steps back.
\<close>

definition DB_Handle_get_smaller_or_equal ::
    "('db, 'it) rocksdb \<Rightarrow> string \<Rightarrow> 'it \<Rightarrow> (bool \<times> 'it) result" where
  "DB_Handle_get_smaller_or_equal R key it =
     (let it = It_Seek R it (Slice_of_buff (key @ [NUL]) (length key + 1)) in
      if \<not> It_Valid R it then Inr (True, It_SeekToLast R it)
      else
        bindr (it_key R it) (\<lambda>k. bindr (Slice_eq k (Slice_of_string key)) (\<lambda>found.
        if found then Inr (True, it)
        else
          bindr (it_prev R it) (\<lambda>it.
          if \<not> It_Valid R it then Inr (False, It_SeekToFirst R it) else Inr (True, it)))))"

section \<open>What the operations do to the entries\<close>

text \<open>The entries behind a handle, when it is open and reads them plainly; their byte total.\<close>

definition hcontent :: "('db \<Rightarrow> kv) \<Rightarrow> 'db DB_Handle \<Rightarrow> kv" where
  "hcontent content h = (case dbh_db h of None \<Rightarrow> [] | Some d \<Rightarrow> content d)"

definition handle_ok :: "'db DB_Handle \<Rightarrow> bool" where
  "handle_ok h \<longleftrightarrow> dbh_db h \<noteq> None \<and> plain_read (dbh_read_options h)"

definition kv_bytes :: "kv \<Rightarrow> nat" where
  "kv_bytes xs = (\<Sum>(k, v) \<leftarrow> xs. length k + length v + 2)"

text \<open>The entries an iterator has still to visit, its own included.\<close>

definition ahead :: "('it \<Rightarrow> kv \<times> nat option) \<Rightarrow> 'it \<Rightarrow> kv" where
  "ahead cursor it = (case cursor it of (xs, Some n) \<Rightarrow> drop n xs | (xs, None) \<Rightarrow> [])"

text \<open>The position of the greatest key at or below a key, or the first position.\<close>

definition floor_pos :: "kv \<Rightarrow> string \<Rightarrow> nat option" where
  "floor_pos xs k = (if xs = [] then None else Some (length (takeWhile (\<lambda>e. fst e \<le> k) xs) - 1))"

lemma kv_bytes_simps [simp]: "kv_bytes [] = 0" "kv_bytes ((k, v) # xs) = length k + length v + 2 + kv_bytes xs"
  by (simp_all add: kv_bytes_def)

lemma below_snoc_NUL: "x < k @ [NUL] \<longleftrightarrow> x \<le> k"
  using snoc_NUL_le_iff [of k x] by (simp add: not_le [symmetric])

context rocksdb_api
begin

lemma hcontent_sorted: "kv_sorted (hcontent content h)"
  by (simp add: hcontent_def ordered split: option.split)

lemma new_iterator_run:
  "handle_ok h \<Longrightarrow> \<exists>it. DB_Handle.new_iterator R h = Inr it \<and> fst (cursor it) = hcontent content h"
  by (auto simp: handle_ok_def new_iterator_def DB_Handle_get_db_def DB_Handle_get_read_options_def
      hcontent_def new_iterator)

lemma ahead_Nil: "ahead cursor it = [] \<longleftrightarrow> \<not> It_Valid R it"
  using in_range [of it] by (cases "cursor it") (auto simp: ahead_def valid split: option.splits)

lemma ahead_Cons:
  assumes "ahead cursor it = (k, v) # ys"
  shows "It_Valid R it" "ahead cursor (It_Next R it) = ys"
    "Slice_size (It_key R it) = length k" "Slice_size (It_value R it) = length v"
proof -
  obtain xs n where at: "cursor it = (xs, Some n)" and ys: "drop n xs = (k, v) # ys"
    using assms by (cases "cursor it") (auto simp: ahead_def split: option.splits)
  have n: "n < length xs" "xs ! n = (k, v)" "drop (Suc n) xs = ys"
    using in_range [OF at] nth_via_drop [OF ys] ys by (simp_all add: drop_Suc tl_drop [symmetric])
  then show "It_Valid R it" "ahead cursor (It_Next R it) = ys"
    using at nxt [OF at] by (auto simp: valid ahead_def)
  show "Slice_size (It_key R it) = length k" "Slice_size (It_value R it) = length v"
    using key_at [OF at] value_at [OF at] n length_slice_bytes
    by (metis Slice_size_def fst_conv, metis Slice_size_def snd_conv)
qed

lemma ahead_first: "ahead cursor (It_SeekToFirst R it) = fst (cursor it)"
  by (simp add: ahead_def seek_first)

lemma get_num_loop_run: "ahead cursor it = ys \<Longrightarrow> get_num_loop R it ret = Some (ret + word_of_nat (length ys))"
proof (induction ys arbitrary: it ret)
  case Nil
  then show ?case
    by (simp add: ahead_Nil get_num_loop.simps [of R it])
next
  case (Cons e ys)
  then show ?case
    using ahead_Cons [of it "fst e" "snd e" ys] by (simp add: get_num_loop.simps [of R it] algebra_simps)
qed

lemma get_size_loop_run: "ahead cursor it = ys \<Longrightarrow> get_size_loop R it ret = Some (ret + word_of_nat (kv_bytes ys))"
proof (induction ys arbitrary: it ret)
  case Nil
  then show ?case
    by (simp add: ahead_Nil get_size_loop.simps [of R it])
next
  case (Cons e ys)
  then show ?case
    using ahead_Cons [of it "fst e" "snd e" ys]
    by (cases e) (simp add: get_size_loop.simps [of R it] algebra_simps)
qed

lemma less_or_equal_one_loop_run:
  "less_or_equal_one_loop R it 0 = Some (length (ahead cursor it) \<le> 1)"
proof (cases "ahead cursor it")
  case Nil
  then have "\<not> It_Valid R it"
    using ahead_Nil by blast
  then show ?thesis
    using Nil by (simp add: less_or_equal_one_loop.simps [of R it])
next
  case (Cons e ys)
  then have one: "It_Valid R it" "ahead cursor (It_Next R it) = ys"
    using ahead_Cons [of it "fst e" "snd e" ys] by simp_all
  have "less_or_equal_one_loop R (It_Next R it) 1 = Some (ys = [])"
    using one(2) ahead_Nil [of "It_Next R it"] by (simp add: less_or_equal_one_loop.simps [of R "It_Next R it"])
  then show ?thesis
    using one Cons by (simp add: less_or_equal_one_loop.simps [of R it])
qed

lemma get_num_run:
  "handle_ok h \<Longrightarrow> DB_Handle_get_num R h = Inr (word_of_nat (length (hcontent content h)))"
  using new_iterator_run [of h] get_num_loop_run [OF ahead_first] by (auto simp: DB_Handle_get_num_def)

lemma get_size_run:
  "handle_ok h \<Longrightarrow> DB_Handle_get_size R h = Inr (word_of_nat (kv_bytes (hcontent content h)))"
  using new_iterator_run [of h] get_size_loop_run [OF ahead_first] by (auto simp: DB_Handle_get_size_def)

lemma less_or_equal_one_run:
  "handle_ok h \<Longrightarrow> DB_Handle_store_less_or_equal_one R h = Inr (length (hcontent content h) \<le> 1)"
  using new_iterator_run [of h]
  by (auto simp: DB_Handle_store_less_or_equal_one_def less_or_equal_one_loop_run ahead_first)

lemma get_smaller_or_equal_run:
  assumes xs: "fst (cursor it) = xs" and sorted: "kv_sorted xs"
  shows "\<exists>it'. DB_Handle_get_smaller_or_equal R key it = Inr (xs = [] \<or> fst (hd xs) \<le> key, it') \<and>
    cursor it' = (xs, floor_pos xs key)"
proof -
  let ?t = "Slice_of_buff (key @ [NUL]) (length key + 1)"
  let ?it = "It_Seek R it ?t"
  let ?n = "length (takeWhile (\<lambda>e. fst e \<le> key) xs)"
  have at: "cursor ?it = (xs, if ?n < length xs then Some ?n else None)"
    by (subst seek) (simp_all add: xs seek_pos_def Let_def below_snoc_NUL)
  show ?thesis
  proof (cases "?n < length xs")
    case False
    then have all: "takeWhile (\<lambda>e. fst e \<le> key) xs = xs"
      by (metis length_takeWhile_le le_neq_implies_less takeWhile_eq_take take_all_iff)
    then have "xs = [] \<or> fst (hd xs) \<le> key"
      by (cases xs) (auto split: if_splits)
    moreover have "cursor (It_SeekToLast R ?it) = (xs, floor_pos xs key)"
      by (simp only: seek_last floor_pos_def all at fst_conv)
    moreover have "\<not> It_Valid R ?it"
      using at False by (simp add: valid)
    ultimately show ?thesis
      by (simp add: DB_Handle_get_smaller_or_equal_def Let_def)
  next
    case True
    then have pos: "cursor ?it = (xs, Some ?n)" and "xs \<noteq> []"
      using at by auto
    have above: "\<not> fst (xs ! ?n) \<le> key"
      using True nth_length_takeWhile [of "\<lambda>e. fst e \<le> key" xs] by simp
    obtain k where k: "it_key R ?it = Inr k" "slice_ok k" "slice_bytes k = fst (xs ! ?n)"
      using it_key_at [OF pos] by blast
    have neq: "Slice_eq k (Slice_of_string key) = Inr False"
      using k above by (auto simp: Slice_eq_ok)
    have prev: "it_prev R ?it = Inr (It_Prev R ?it)"
      "cursor (It_Prev R ?it) = (xs, if ?n = 0 then None else Some (?n - 1))"
      using it_prev_at [OF pos] by simp_all
    have zero: "?n = 0 \<longleftrightarrow> \<not> fst (hd xs) \<le> key"
      using \<open>xs \<noteq> []\<close> by (cases xs) auto
    show ?thesis
      using pos k neq prev zero \<open>xs \<noteq> []\<close>
      by (auto simp: DB_Handle_get_smaller_or_equal_def Let_def valid floor_pos_def seek_first split: if_splits)
  qed
qed

end

text \<open>What a database is known to hold when it is opened.\<close>

definition disk_holds :: "('db, 'it) rocksdb \<Rightarrow> ('db \<Rightarrow> kv) \<Rightarrow> string \<Rightarrow> kv \<Rightarrow> bool" where
  "disk_holds R content path xs \<longleftrightarrow> (\<forall>opts d. snd (DB_Open R opts path) = Some d \<longrightarrow> content d = xs)"

context rocksdb_readable
begin

lemma db_get_run:
  "handle_ok h \<Longrightarrow> DB_Handle_get R h k = Inr (case kv_get k (hcontent content h) of Some v \<Rightarrow> v | None \<Rightarrow> [])"
  by (auto simp: handle_ok_def DB_Handle_get_def hcontent_def get_run)

lemma open_run: "\<exists>h. DB_Handle_open R loc = Inr h \<and> handle_ok h"
proof -
  define opts where "opts = Options_of (DBOptions_ctor R) (ColumnFamilyOptions_ctor R)"
  define opts' where "opts' = opts\<lparr>opt_db := (opt_db opts)\<lparr>db_create_if_missing := True\<rparr>\<rparr>"
  have "db_create_if_missing (opt_db opts')"
    by (simp add: opts'_def)
  then have "Status_ok (fst (DB_Open R opts' loc))" "snd (DB_Open R opts' loc) \<noteq> None"
    using open_ok by blast+
  then show ?thesis
    using read_defaults
    by (simp add: DB_Handle_open_def handle_ok_def Let_def case_prod_unfold flip: opts_def opts'_def)
qed

lemma open_content:
  assumes "disk_holds R content path xs"
  shows "\<exists>h. DB_Handle_open R path = Inr h \<and> handle_ok h \<and> hcontent content h = xs"
proof -
  obtain h where h: "DB_Handle_open R path = Inr h" "handle_ok h"
    using open_run [of path] by blast
  then obtain opts where "dbh_db h = snd (DB_Open R opts path)"
    by (auto simp: DB_Handle_open_def Let_def case_prod_unfold bindr_eq_Inr)
  then show ?thesis
    using h assms by (auto simp: disk_holds_def hcontent_def handle_ok_def)
qed

end

context rocksdb_reliable
begin

lemma db_put_run:
  "handle_ok h \<Longrightarrow> slice_ok k \<Longrightarrow> slice_ok v \<Longrightarrow>
    \<exists>h'. db_put R h k v = Inr h' \<and> handle_ok h' \<and>
      hcontent content h' = kv_put (slice_bytes k) (slice_bytes v) (hcontent content h)"
  by (auto simp: handle_ok_def db_put_def hcontent_def put_run)

lemma db_delete_run:
  "handle_ok h \<Longrightarrow> slice_ok k \<Longrightarrow>
    \<exists>h'. DB_Handle_delete_1 R h k = Inr h' \<and> handle_ok h' \<and>
      hcontent content h' = kv_del (slice_bytes k) (hcontent content h)"
  by (auto simp: handle_ok_def DB_Handle_delete_1_def hcontent_def delete_run)

end

text \<open>The status of a refused write is not looked at: the handle goes on as after a write.\<close>

context rocksdb_full
begin

lemma db_put_refused:
  "handle_ok h \<Longrightarrow> \<exists>h'. db_put R h k v = Inr h' \<and> handle_ok h' \<and> hcontent content h' = hcontent content h"
  by (auto simp: handle_ok_def db_put_def hcontent_def put_refused)

end

section \<open>Properties\<close>

text \<open>
  C12: over any database that behaves as documented, the look-up
  \<open>get_smaller_or_equal_but_as_large_as_possible\<close> ends without a fault on an iterator over a non-empty
  database, on the greatest key at or below the searched one if there is one and on the first key
  otherwise, and its result tells which.
\<close>

theorem get_smaller_or_equal_is_floor:
  assumes "rocksdb_api R content cursor" "fst (cursor it) = xs" "kv_sorted xs" "xs \<noteq> []"
  shows "\<exists>it' b n. DB_Handle_get_smaller_or_equal R key it = Inr (b, it') \<and> cursor it' = (xs, Some n) \<and> n < length xs \<and>
    (b \<longleftrightarrow> fst (hd xs) \<le> key) \<and> (b \<longrightarrow> fst (xs ! n) \<le> key) \<and> (\<not> b \<longrightarrow> n = 0) \<and>
    (\<forall>j. n < j \<and> j < length xs \<longrightarrow> key < fst (xs ! j))"
proof -
  let ?n = "length (takeWhile (\<lambda>e. fst e \<le> key) xs)"
  obtain it' where it': "DB_Handle_get_smaller_or_equal R key it = Inr (fst (hd xs) \<le> key, it')"
    "cursor it' = (xs, Some (?n - 1))"
    using rocksdb_api.get_smaller_or_equal_run [OF assms(1-3)] assms(4) by (auto simp: floor_pos_def)
  have range: "?n - 1 < length xs"
    using assms(4) length_takeWhile_le [of "\<lambda>e. fst e \<le> key" xs] by (cases xs) (auto simp: less_Suc_eq_le)
  have at: "fst (xs ! (?n - 1)) \<le> key" if "fst (hd xs) \<le> key"
  proof -
    have "0 < ?n" using that assms(4) by (cases xs) auto
    then have "xs ! (?n - 1) \<in> set (takeWhile (\<lambda>e. fst e \<le> key) xs)"
      by (metis diff_less nth_mem takeWhile_nth zero_less_one)
    then show ?thesis by (auto dest: set_takeWhileD)
  qed
  have zero: "?n - 1 = 0" if "\<not> fst (hd xs) \<le> key"
    using that assms(4) by (cases xs) auto
  have "key < fst (xs ! j)" if j: "?n - 1 < j" "j < length xs" for j
  proof -
    have n: "?n < length xs" "\<not> fst (xs ! ?n) \<le> key"
      using j nth_length_takeWhile [of "\<lambda>e. fst e \<le> key" xs] by auto
    moreover have "fst (xs ! ?n) \<le> fst (xs ! j)"
    proof (cases "?n = j")
      case False
      then have "kv_keys xs ! ?n < kv_keys xs ! j"
        using j assms(3) unfolding kv_sorted_def by (intro sorted_wrt_nth_less [of "(<)"]) auto
      then show ?thesis using n j by simp
    qed simp
    ultimately show ?thesis by auto
  qed
  with it' range at zero show ?thesis by blast
qed

theorem get_smaller_or_equal_is_floor_witness:
  "\<exists>it' b n. DB_Handle_get_smaller_or_equal ref_R ''b'' ([(''a'', ''x''), (''c'', ''y'')], None) = Inr (b, it') \<and>
    ref_cursor it' = ([(''a'', ''x''), (''c'', ''y'')], Some n) \<and> (b \<longrightarrow> n < 2)"
proof -
  let ?xs = "[(''a'', ''x''), (''c'', ''y'')]"
  have "fst (ref_cursor (?xs, None)) = ?xs" "kv_sorted ?xs" "?xs \<noteq> []"
    by (simp_all add: ref_cursor_def)
  from get_smaller_or_equal_is_floor [OF ref_R_api this, of "''b''"] show ?thesis
    by (metis One_nat_def Suc_1 length_Cons list.size(3))
qed

text \<open>
  C16: the three iterator loops of an open handle return: \<open>get_num\<close> counts the entries and
  \<open>get_size\<close> sums key and value lengths with two terminators per entry (both modulo \<open>2^32\<close>), and
  \<open>store_less_or_equal_one\<close> tells whether there are fewer than two entries.
\<close>

theorem handle_scans_return:
  assumes "rocksdb_api R content cursor" "handle_ok h"
  shows "DB_Handle_get_num R h = Inr (word_of_nat (length (hcontent content h))) \<and>
    DB_Handle_get_size R h = Inr (word_of_nat (\<Sum>(k, v) \<leftarrow> hcontent content h. length k + length v + 2)) \<and>
    DB_Handle_store_less_or_equal_one R h = Inr (length (hcontent content h) < 2)"
  using rocksdb_api.get_num_run [OF assms] rocksdb_api.get_size_run [OF assms]
    rocksdb_api.less_or_equal_one_run [OF assms]
  by (auto simp: kv_bytes_def)

definition ref_handle :: "kv \<Rightarrow> kv DB_Handle" where
  "ref_handle d = (DB_Handle_default ref_R)\<lparr>dbh_db := Some d\<rparr>"

lemma ref_handle_ok: "handle_ok (ref_handle d)" "hcontent ref_content (ref_handle d) = ref_content d"
  by (simp_all add: handle_ok_def ref_handle_def DB_Handle_default_def ref_R_def ref_db_def hcontent_def
      ref_read_options_plain)

theorem handle_scans_return_witness:
  "DB_Handle_get_num ref_R (ref_handle [(''a'', ''x''), (''bc'', ''y'')]) = Inr 2 \<and>
   DB_Handle_get_size ref_R (ref_handle [(''a'', ''x''), (''bc'', ''y'')]) = Inr 9 \<and>
   DB_Handle_store_less_or_equal_one ref_R (ref_handle [(''a'', ''x''), (''bc'', ''y'')]) = Inr False"
  using handle_scans_return [OF ref_R_api ref_handle_ok(1), of "[(''a'', ''x''), (''bc'', ''y'')]"]
  by (simp add: ref_handle_ok ref_content_def)

text \<open>A key that is stored is where \<open>Seek\<close> stops.\<close>

lemma seek_pos_stored:
  assumes "kv_sorted xs" "(k, v) \<in> set xs"
  shows "\<exists>i. seek_pos xs k = Some i \<and> i < length xs \<and> xs ! i = (k, v)"
proof -
  obtain ys zs where xs: "xs = ys @ (k, v) # zs"
    using split_list [OF assms(2)] by blast
  then have "\<forall>e \<in> set ys. fst e < k"
    using assms(1) by (auto simp: kv_sorted_append)
  then have "takeWhile (\<lambda>e. fst e < k) xs = ys"
    using xs by (simp add: takeWhile_append2)
  then show ?thesis
    using xs by (simp add: seek_pos_def Let_def)
qed

context rocksdb_api
begin

lemma get_buf_iterator_stored:
  assumes h: "handle_ok h" and len: "size_of_int len \<le> length key_buf"
    and e: "(take (size_of_int len) key_buf, v) \<in> set (hcontent content h)"
  shows "\<exists>it mem i. DB_Handle_get_buf_iterator R h key_buf len = Inr (False, it, Some mem) \<and>
    cursor it = (hcontent content h, Some i) \<and> hcontent content h ! i = (take (size_of_int len) key_buf, v)"
proof -
  let ?k = "take (size_of_int len) key_buf" and ?xs = "hcontent content h"
  obtain d where d: "dbh_db h = Some d" "plain_read (dbh_read_options h)"
    using h by (auto simp: handle_ok_def)
  let ?it = "It_Seek R (DB_NewIterator R (dbh_read_options h) d) (Slice_of_buff key_buf (size_of_int len))"
  obtain i where i: "seek_pos ?xs ?k = Some i" "i < length ?xs" "?xs ! i = (?k, v)"
    using seek_pos_stored [OF hcontent_sorted e] by blast
  then have at: "cursor ?it = (?xs, Some i)"
    using new_iterator [OF d(2), of d] d(1) len by (simp add: seek hcontent_def)
  obtain k where k: "it_key R ?it = Inr k" "slice_ok k" "slice_bytes k = ?k"
    using it_key_at [OF at] i(3) by auto
  then obtain m where "Slice_data k = Some m" "length ?k \<le> length m"
    using length_slice_bytes [OF k(2)] by (auto simp: slice_ok_def Slice_data_def)
  then show ?thesis
    using at i(3) k(1) len d(1) valid_at [OF at]
    by (simp add: DB_Handle_get_buf_iterator_def mem_read_def c_memcpy_def mem_write_def Let_def)
qed

end



end
