(* ===== verification/Control_Meta.thy ===== *)
theory Control_Meta
  imports DB_Handle
begin

text \<open>
  \<open>my_code/control_node/control_meta\<close>: the routing record the control node keeps per store node (the
  key range it believes the node to hold, and the node's number) and its serialised form, the value
  of an entry of the meta database. Deserialising reads from the slice's data pointer and ignores the
  slice's size.
\<close>

record Control_meta =
  min_str :: string
  max_str :: string
  virtual_fd :: c_int

definition Control_meta_of_slice :: "Slice \<Rightarrow> Control_meta result" where
  "Control_meta_of_slice sl =
     bindr (deref (Slice_data sl)) (\<lambda>buff.
     bindr (get_string_from_buff buff 0) (\<lambda>(mn, p).
     bindr (get_string_from_buff buff p) (\<lambda>(mx, p).
     bindr (get_int_from_buff buff p) (\<lambda>(fd, _).
     Inr \<lparr>min_str = mn, max_str = mx, virtual_fd = fd\<rparr>))))"

text \<open>\<open>to_slice\<close> writes into the given buffer; the result refers to it.\<close>

definition Control_meta_to_slice :: "Control_meta \<Rightarrow> bytes \<Rightarrow> (Slice \<times> bytes) result" where
  "Control_meta_to_slice m buff =
     bindr (insert_str_to_buff buff 0 (min_str m) 0) (\<lambda>(buff, tmp, total_len).
     bindr (insert_str_to_buff buff tmp (max_str m) total_len) (\<lambda>(buff, tmp, total_len).
     bindr (insert_int_to_buff buff tmp (virtual_fd m) total_len) (\<lambda>(buff, tmp, total_len).
     Inr (Slice_of_buff buff (size_of_int total_len), buff))))"

definition Control_meta_of :: "string \<Rightarrow> string \<Rightarrow> c_int \<Rightarrow> Control_meta" where
  "Control_meta_of mn mx fd = \<lparr>min_str = mn, max_str = mx, virtual_fd = fd\<rparr>"

text \<open>\<open>show\<close> prints one line.\<close>

definition Control_meta_show :: "Control_meta \<Rightarrow> string" where
  "Control_meta_show m =
     ''min_str = '' @ min_str m @ '' max_str = '' @ max_str m @
     '' virtual_fd = '' @ to_string_int (sint (virtual_fd m))"

section \<open>The encoding\<close>

definition enc_meta :: "Control_meta \<Rightarrow> bytes" where
  "enc_meta m = enc_str (min_str m) @ enc_str (max_str m) @ enc_int (virtual_fd m)"

definition meta_fits :: "Control_meta \<Rightarrow> bool" where
  "meta_fits m \<longleftrightarrow> nul_free (min_str m) \<and> nul_free (max_str m) \<and>
     length (min_str m) + length (max_str m) + 14 \<le> MAXLINE"

lemma length_enc_meta: "length (enc_meta m) = length (min_str m) + length (max_str m) + 14"
  by (simp add: enc_meta_def)

lemma meta_fits_wire:
  "meta_fits m \<Longrightarrow> wire_str (min_str m)" "meta_fits m \<Longrightarrow> wire_str (max_str m)"
  by (auto simp: meta_fits_def wire_str_def)

lemma to_slice_run:
  assumes "meta_fits m" "length buff = MAXLINE"
  shows "\<exists>buff'. Control_meta_to_slice m buff = Inr (Slice_of_buff buff' (length (enc_meta m)), buff') \<and>
    buff' = enc_meta m @ drop (length (enc_meta m)) buff"
proof -
  let ?a = "enc_str (min_str m)" and ?b = "enc_str (max_str m)" and ?c = "enc_int (virtual_fd m)"
  have len: "length ?a + length ?b + 4 \<le> MAXLINE"
    using assms(1) by (simp add: meta_fits_def)
  note wire = meta_fits_wire [OF assms(1)]
  have 1: "insert_str_to_buff buff 0 (min_str m) 0
      = Inr (?a @ drop (length ?a) buff, length ?a, word_of_nat (length ?a))"
    using str_codec.put_at [OF wire(1), of 0 "[]" buff 0] len assms(2) by simp
  have 2: "insert_str_to_buff (?a @ drop (length ?a) buff) (length ?a) (max_str m) t
      = Inr (?a @ ?b @ drop (length ?a + length ?b) buff, length ?a + length ?b, t + word_of_nat (length ?b))" for t
    using str_codec.put_at [OF wire(2), of "length ?a" ?a "drop (length ?a) buff" t] len assms(2)
    by (simp add: add.commute)
  have 3: "insert_int_to_buff (?a @ ?b @ drop (length ?a + length ?b) buff) (length ?a + length ?b) (virtual_fd m) t
      = Inr (?a @ ?b @ ?c @ drop (length ?a + length ?b + 4) buff, length ?a + length ?b + 4, t + 4)" for t
    using int_codec.put_at [where x = "virtual_fd m" and p = "length ?a + length ?b" and pre = "?a @ ?b"
        and rest = "drop (length ?a + length ?b) buff" and t = t]
      len assms(2) by (simp add: add.commute)
  have "size_of_int (word_of_nat (length ?a) + word_of_nat (length ?b) + 4) = length ?a + length ?b + 4"
    using size_of_int_small [of "length ?a + length ?b + 4"] len by (simp add: MAXLINE_def)
  then show ?thesis
    unfolding Control_meta_to_slice_def 1 bindr.simps case_prod_conv 2 3
    by (simp add: enc_meta_def add.assoc)
qed

lemma of_slice_run:
  assumes "meta_fits m" "slice_ok sl" "slice_bytes sl = enc_meta m"
  shows "Control_meta_of_slice sl = Inr m"
proof -
  let ?a = "enc_str (min_str m)" and ?b = "enc_str (max_str m)" and ?c = "enc_int (virtual_fd m)"
  obtain mem where mem: "sl_data sl = Some mem" "take (sl_size sl) mem = enc_meta m"
    using assms(2,3) by (auto simp: slice_ok_def slice_bytes_def)
  then have mem': "mem = ?a @ ?b @ ?c @ drop (sl_size sl) mem"
    by (metis append_take_drop_id append.assoc enc_meta_def)
  note wire = meta_fits_wire [OF assms(1)]
  have "get_string_from_buff mem 0 = Inr (min_str m, length ?a)"
    using str_codec.get_at [OF wire(1), of 0 "[]"] mem' by (metis append_Nil add_0 list.size(3))
  moreover have "get_string_from_buff mem (length ?a) = Inr (max_str m, length ?a + length ?b)"
    using str_codec.get_at [OF wire(2), of "length ?a" ?a] mem' by metis
  moreover have "get_int_from_buff mem (length ?a + length ?b) = Inr (virtual_fd m, length ?a + length ?b + 4)"
    using int_codec.get_at [where x = "virtual_fd m" and p = "length ?a + length ?b" and pre = "?a @ ?b"] mem'
    by (metis TrueI append.assoc length_append length_enc_int)
  ultimately show ?thesis
    using mem(1) by (simp add: Control_meta_of_slice_def Slice_data_def)
qed

section \<open>Properties\<close>

text \<open>
  C14: a routing record whose strings have no NUL byte and fit the buffer is serialised without a
  fault into any buffer of the program's size and deserialised to itself, also from a copy of the
  slice's bytes as the meta database returns it.
\<close>

theorem control_meta_round_trip:
  assumes "nul_free (min_str m)" "nul_free (max_str m)" "length (min_str m) + length (max_str m) + 14 \<le> MAXLINE"
    "length buff = MAXLINE"
  shows "\<exists>sl buff'. Control_meta_to_slice m buff = Inr (sl, buff') \<and> Control_meta_of_slice sl = Inr m \<and>
    Control_meta_of_slice (Slice_of_string (slice_bytes sl)) = Inr m"
proof -
  have fits: "meta_fits m"
    using assms(1-3) by (simp add: meta_fits_def)
  obtain buff' where buff': "Control_meta_to_slice m buff = Inr (Slice_of_buff buff' (length (enc_meta m)), buff')"
    "buff' = enc_meta m @ drop (length (enc_meta m)) buff"
    using to_slice_run [OF fits assms(4)] by blast
  let ?sl = "Slice_of_buff buff' (length (enc_meta m))"
  have "slice_ok ?sl" "slice_bytes ?sl = enc_meta m"
    using buff'(2) by simp_all
  then show ?thesis
    using buff'(1) of_slice_run [OF fits] by (metis slice_of_string_ok)
qed

theorem control_meta_round_trip_witness:
  "\<exists>sl buff'. Control_meta_to_slice (Control_meta_of ''1'' ''9'' 2) (replicate MAXLINE NUL) = Inr (sl, buff') \<and>
    Control_meta_of_slice sl = Inr (Control_meta_of ''1'' ''9'' 2)"
  using control_meta_round_trip [of "Control_meta_of ''1'' ''9'' 2" "replicate MAXLINE NUL"]
  by (auto simp: Control_meta_of_def nul_free_def NUL_def MAXLINE_def)

end
