(* ===== verification/Store_Log.thy ===== *)
theory Store_Log
  imports DB_Handle
begin

text \<open>
  \<open>my_code/store_node/store_log\<close>: the write-ahead log of a store node, a database whose keys are the
  serialised log records (the values are empty). \<open>get_log\<close> and \<open>clear_log\<close> both act on the first key
  in byte order. \<open>enc_log\<close> is the serialised form as a pure function; the facts say what the log
  database holds after each operation.
\<close>

section \<open>Log records\<close>

text \<open>
  The enum of the source, and the values outside it that the cast from \<open>int\<close> can produce.
\<close>

datatype LOG_KIND = PUT | DELETE | ERROR | Other_kind c_int

definition kind_of_int :: "c_int \<Rightarrow> LOG_KIND" where
  "kind_of_int a = (if a = 0 then PUT else if a = 1 then DELETE else if a = 2 then ERROR else Other_kind a)"

fun int_of_kind :: "LOG_KIND \<Rightarrow> c_int" where
  "int_of_kind PUT = 0"
| "int_of_kind DELETE = 1"
| "int_of_kind ERROR = 2"
| "int_of_kind (Other_kind a) = a"

record LOG =
  log_kind :: LOG_KIND
  log_key :: string
  log_value :: string

definition LOG_of :: "LOG_KIND \<Rightarrow> string \<Rightarrow> string \<Rightarrow> LOG" where
  "LOG_of kind key val = \<lparr>log_kind = kind, log_key = key, log_value = val\<rparr>"

definition LOG_to_slice :: "LOG \<Rightarrow> bytes \<Rightarrow> nat \<Rightarrow> (Slice \<times> bytes) result" where
  "LOG_to_slice l mem p =
     bindr (insert_int_to_buff mem p (int_of_kind (log_kind l)) 0) (\<lambda>(mem, tmp, total_len).
     bindr (insert_str_to_buff mem tmp (log_key l) total_len) (\<lambda>(mem, tmp, total_len).
     bindr (insert_str_to_buff mem tmp (log_value l) total_len) (\<lambda>(mem, tmp, total_len).
     Inr (Slice_of_buff (drop p mem) (size_of_int total_len), mem))))"

definition LOG_of_buff :: "bytes \<Rightarrow> nat \<Rightarrow> LOG result" where
  "LOG_of_buff buff p =
     bindr (get_int_from_buff buff p) (\<lambda>(a, tmp).
     bindr (get_string_from_buff buff tmp) (\<lambda>(key, tmp).
     bindr (get_string_from_buff buff tmp) (\<lambda>(val, tmp).
     Inr \<lparr>log_kind = kind_of_int a, log_key = key, log_value = val\<rparr>)))"

definition LOG_of_slice :: "Slice \<Rightarrow> LOG result" where
  "LOG_of_slice sl =
     bindr (deref (Slice_data sl)) (\<lambda>mem.
     bindr (get_int_from_buff mem 0) (\<lambda>(a, tmp).
     bindr (get_string_from_buff mem tmp) (\<lambda>(key, tmp).
     bindr (get_string_from_buff mem tmp) (\<lambda>(val, tmp).
     Inr \<lparr>log_kind = kind_of_int a, log_key = key, log_value = val\<rparr>))))"

definition LOG_get_kind :: "LOG \<Rightarrow> LOG_KIND" where
  "LOG_get_kind l = log_kind l"

definition LOG_get_value :: "LOG \<Rightarrow> string" where
  "LOG_get_value l = log_value l"

definition LOG_get_key :: "LOG \<Rightarrow> string" where
  "LOG_get_key l = log_key l"

section \<open>The log of a store node\<close>

record 'db Store_Log =
  slog_db_handle :: "'db DB_Handle"
  slog_buff :: "bytes option"

definition Store_Log_default :: "('db, 'it) rocksdb \<Rightarrow> 'db Store_Log" where
  "Store_Log_default R = \<lparr>slog_db_handle = DB_Handle_default R, slog_buff = None\<rparr>"

text \<open>\<open>fresh\<close> is the content of the block \<open>malloc(MAXLINE)\<close> returns.\<close>

definition Store_Log_open :: "('db, 'it) rocksdb \<Rightarrow> string \<Rightarrow> bytes \<Rightarrow> 'db Store_Log result" where
  "Store_Log_open R location fresh =
     bindr (DB_Handle_open R location) (\<lambda>h. Inr \<lparr>slog_db_handle = h, slog_buff = Some fresh\<rparr>)"

definition Store_Log_write_log ::
    "('db, 'it) rocksdb \<Rightarrow> 'db Store_Log \<Rightarrow> LOG_KIND \<Rightarrow> string \<Rightarrow> string \<Rightarrow> 'db Store_Log result" where
  "Store_Log_write_log R s kind key val =
     bindr (deref (slog_buff s)) (\<lambda>buff.
     bindr (LOG_to_slice (LOG_of kind key val) buff 0) (\<lambda>(sl, buff).
     bindr (DB_Handle_put_slice_string R (slog_db_handle s) sl []) (\<lambda>h.
     Inr \<lparr>slog_db_handle = h, slog_buff = Some buff\<rparr>)))"

definition Store_Log_get_log :: "('db, 'it) rocksdb \<Rightarrow> 'db Store_Log \<Rightarrow> LOG result" where
  "Store_Log_get_log R s =
     bindr (new_iterator R (slog_db_handle s)) (\<lambda>it.
     let it = It_SeekToFirst R it in
     if It_Valid R it then bindr (it_key R it) LOG_of_slice
     else Inr (LOG_of ERROR [] []))"

definition Store_Log_clear_log :: "('db, 'it) rocksdb \<Rightarrow> 'db Store_Log \<Rightarrow> 'db Store_Log result" where
  "Store_Log_clear_log R s =
     bindr (new_iterator R (slog_db_handle s)) (\<lambda>it.
     let it = It_SeekToFirst R it in
     if It_Valid R it then
       bindr (it_key R it) (\<lambda>k.
       bindr (DB_Handle_delete_1 R (slog_db_handle s) k) (\<lambda>h.
       Inr (s\<lparr>slog_db_handle := h\<rparr>)))
     else Inr s)"

section \<open>The encoding\<close>

definition enc_log :: "LOG \<Rightarrow> bytes" where
  "enc_log l = enc_int (int_of_kind (log_kind l)) @ enc_str (log_key l) @ enc_str (log_value l)"

definition log_fits :: "LOG \<Rightarrow> bool" where
  "log_fits l \<longleftrightarrow> log_kind l \<in> {PUT, DELETE, ERROR} \<and> nul_free (log_key l) \<and> nul_free (log_value l) \<and>
     length (log_key l) + length (log_value l) + 14 \<le> MAXLINE"

lemma length_enc_log: "length (enc_log l) = length (log_key l) + length (log_value l) + 14"
  by (simp add: enc_log_def)

lemma log_fits_wire: "log_fits l \<Longrightarrow> wire_str (log_key l)" "log_fits l \<Longrightarrow> wire_str (log_value l)"
  by (auto simp: log_fits_def wire_str_def)

lemma kind_of_int_of_kind: "k \<in> {PUT, DELETE, ERROR} \<Longrightarrow> kind_of_int (int_of_kind k) = k"
  by (auto simp: kind_of_int_def)

lemma LOG_to_slice_at:
  assumes "log_fits l" "p = length pre" "length (enc_log l) \<le> length rest"
  shows "LOG_to_slice l (pre @ rest) p =
    (let out = enc_log l @ drop (length (enc_log l)) rest in
     Inr (Slice_of_buff out (length (enc_log l)), pre @ out))"
proof -
  let ?k = "enc_int (int_of_kind (log_kind l))" and ?a = "enc_str (log_key l)" and ?b = "enc_str (log_value l)"
  have len: "length ?a + length ?b + 4 \<le> length rest" and small: "length ?a + length ?b + 4 \<le> MAXLINE"
    using assms(1,3) by (simp_all add: enc_log_def log_fits_def)
  note wire = log_fits_wire [OF assms(1)]
  have 1: "insert_int_to_buff (pre @ rest) p (int_of_kind (log_kind l)) 0
      = Inr ((pre @ ?k) @ drop 4 rest, p + 4, 4)"
    using int_codec.put_at [of p pre "int_of_kind (log_kind l)" rest 0] assms(2) len by simp
  have 2: "insert_str_to_buff ((pre @ ?k) @ drop 4 rest) (p + 4) (log_key l) t
      = Inr ((pre @ ?k @ ?a) @ drop (4 + length ?a) rest, p + 4 + length ?a, t + word_of_nat (length ?a))" for t
    using str_codec.put_at [OF wire(1), of "p + 4" "pre @ ?k" "drop 4 rest" t] assms(2) len
    by (simp add: add.commute)
  have 3: "insert_str_to_buff ((pre @ ?k @ ?a) @ drop (4 + length ?a) rest) (p + 4 + length ?a) (log_value l) t
      = Inr (pre @ ?k @ ?a @ ?b @ drop (4 + length ?a + length ?b) rest, p + 4 + length ?a + length ?b,
             t + word_of_nat (length ?b))" for t
    using str_codec.put_at [OF wire(2), of "p + 4 + length ?a" "pre @ ?k @ ?a" "drop (4 + length ?a) rest" t]
      assms(2) len by (simp add: algebra_simps)
  have size: "size_of_int (4 + word_of_nat (length ?a) + word_of_nat (length ?b)) = 4 + length ?a + length ?b"
    using size_of_int_small [of "4 + length ?a + length ?b"] small by (simp add: MAXLINE_def)
  show ?thesis
    unfolding LOG_to_slice_def 1 bindr.simps case_prod_conv 2 3 size
    using assms(2) by (simp add: enc_log_def Let_def)
qed

lemma LOG_of_buff_at:
  assumes "log_fits l" "p = length pre"
  shows "LOG_of_buff (pre @ enc_log l @ rest) p = Inr l"
proof -
  let ?k = "enc_int (int_of_kind (log_kind l))" and ?a = "enc_str (log_key l)" and ?b = "enc_str (log_value l)"
  let ?m = "pre @ enc_log l @ rest"
  note wire = log_fits_wire [OF assms(1)]
  have 1: "get_int_from_buff ?m p = Inr (int_of_kind (log_kind l), p + 4)"
    using int_codec.get_at [of p pre "int_of_kind (log_kind l)" "?a @ ?b @ rest"] assms(2) by (simp add: enc_log_def)
  have 2: "get_string_from_buff ?m (p + 4) = Inr (log_key l, p + 4 + length ?a)"
    using str_codec.get_at [OF wire(1), of "p + 4" "pre @ ?k" "?b @ rest"] assms(2) by (simp add: enc_log_def)
  have 3: "get_string_from_buff ?m (p + 4 + length ?a) = Inr (log_value l, p + 4 + length ?a + length ?b)"
    using str_codec.get_at [OF wire(2), of "p + 4 + length ?a" "pre @ ?k @ ?a" rest] assms(2)
    by (simp add: enc_log_def)
  have "kind_of_int (int_of_kind (log_kind l)) = log_kind l"
    using assms(1) by (intro kind_of_int_of_kind) (simp add: log_fits_def)
  then show ?thesis
    unfolding LOG_of_buff_def 1 bindr.simps case_prod_conv 2 3 by simp
qed

lemma LOG_of_slice_run:
  assumes "log_fits l" "slice_ok sl" "slice_bytes sl = enc_log l"
  shows "LOG_of_slice sl = Inr l"
proof -
  obtain mem where mem: "sl_data sl = Some mem" "take (sl_size sl) mem = enc_log l"
    using assms(2,3) by (auto simp: slice_ok_def slice_bytes_def)
  then have "mem = [] @ enc_log l @ drop (sl_size sl) mem"
    by (metis append_Nil append_take_drop_id)
  then have "LOG_of_buff mem 0 = Inr l"
    using LOG_of_buff_at [OF assms(1), of 0 "[]"] by (metis list.size(3))
  then show ?thesis
    using mem(1) by (simp add: LOG_of_slice_def LOG_of_buff_def Slice_data_def)
qed

section \<open>What the log database holds\<close>

definition log_content :: "('db \<Rightarrow> kv) \<Rightarrow> 'db Store_Log \<Rightarrow> kv" where
  "log_content content s = hcontent content (slog_db_handle s)"

definition slog_ok :: "'db Store_Log \<Rightarrow> bool" where
  "slog_ok s \<longleftrightarrow> handle_ok (slog_db_handle s) \<and> (\<exists>b. slog_buff s = Some b \<and> length b = MAXLINE)"

lemma kv_del_hd: "kv_sorted xs \<Longrightarrow> kv_del (fst (hd xs)) xs = tl xs"
  by (cases xs) (auto simp: kv_del_def intro!: filter_True)

context rocksdb_api
begin

lemma get_log_empty: "slog_ok s \<Longrightarrow> log_content content s = [] \<Longrightarrow> Store_Log_get_log R s = Inr (LOG_of ERROR [] [])"
  using new_iterator_run [of "slog_db_handle s"]
  by (auto simp: Store_Log_get_log_def slog_ok_def log_content_def valid seek_first)

lemma get_log_first:
  assumes "slog_ok s" "log_content content s = (enc_log l, v) # rest" "log_fits l"
  shows "Store_Log_get_log R s = Inr l"
proof -
  obtain it where it: "DB_Handle.new_iterator R (slog_db_handle s) = Inr it" "fst (cursor it) = log_content content s"
    using new_iterator_run [of "slog_db_handle s"] assms(1) by (auto simp: slog_ok_def log_content_def)
  have at: "cursor (It_SeekToFirst R it) = (log_content content s, Some 0)"
    using it(2) assms(2) by (simp add: seek_first)
  obtain k where "it_key R (It_SeekToFirst R it) = Inr k" "slice_ok k" "slice_bytes k = enc_log l"
    using it_key_at [OF at] assms(2) by auto
  then show ?thesis
    using it(1) valid_at [OF at] LOG_of_slice_run [OF assms(3)] by (simp add: Store_Log_get_log_def)
qed

text \<open>Writing a record, whatever becomes of it in the database.\<close>

lemma write_log_by:
  assumes "slog_ok s" "log_fits (LOG_of kind key val)"
    and put: "\<And>k v. slice_ok k \<Longrightarrow> slice_ok v \<Longrightarrow> slice_bytes k = enc_log (LOG_of kind key val) \<Longrightarrow> slice_bytes v = [] \<Longrightarrow>
      \<exists>h'. db_put R (slog_db_handle s) k v = Inr h' \<and> handle_ok h' \<and> hcontent content h' = ys"
  shows "\<exists>s'. Store_Log_write_log R s kind key val = Inr s' \<and> slog_ok s' \<and> log_content content s' = ys"
proof -
  let ?l = "LOG_of kind key val"
  obtain b where b: "slog_buff s = Some b" "length b = MAXLINE" and h: "handle_ok (slog_db_handle s)"
    using assms(1) by (auto simp: slog_ok_def)
  let ?out = "enc_log ?l @ drop (length (enc_log ?l)) b"
  have fit: "length (enc_log ?l) \<le> length b"
    using assms(2) b(2) by (simp add: length_enc_log log_fits_def)
  have sl: "LOG_to_slice ?l b 0 = Inr (Slice_of_buff ?out (length (enc_log ?l)), ?out)"
    using LOG_to_slice_at [OF assms(2), of 0 "[]" b] fit by (simp add: Let_def)
  obtain h' where h': "db_put R (slog_db_handle s) (Slice_of_buff ?out (length (enc_log ?l))) (Slice_of_string []) = Inr h'"
    "handle_ok h'" "hcontent content h' = ys"
    using put [of "Slice_of_buff ?out (length (enc_log ?l))" "Slice_of_string []"] by auto
  show ?thesis
    using b sl h' fit
    by (simp add: Store_Log_write_log_def DB_Handle_put_slice_string_def slog_ok_def log_content_def)
qed

lemma clear_log_empty:
  assumes "slog_ok s" "log_content content s = []"
  shows "Store_Log_clear_log R s = Inr s"
proof -
  obtain it where it: "DB_Handle.new_iterator R (slog_db_handle s) = Inr it" "fst (cursor it) = log_content content s"
    using new_iterator_run [of "slog_db_handle s"] assms by (auto simp: slog_ok_def log_content_def)
  then have "\<not> It_Valid R (It_SeekToFirst R it)"
    using assms(2) by (simp add: valid seek_first)
  then show ?thesis
    using it(1) by (simp add: Store_Log_clear_log_def)
qed

end

context rocksdb_reliable
begin

lemma write_log_run:
  assumes "slog_ok s" "log_fits (LOG_of kind key val)"
  shows "\<exists>s'. Store_Log_write_log R s kind key val = Inr s' \<and> slog_ok s' \<and>
    log_content content s' = kv_put (enc_log (LOG_of kind key val)) [] (log_content content s)"
proof (rule write_log_by [OF assms])
  fix k v
  assume "slice_ok k" "slice_ok v" "slice_bytes k = enc_log (LOG_of kind key val)" "slice_bytes v = []"
  then show "\<exists>h'. db_put R (slog_db_handle s) k v = Inr h' \<and> handle_ok h' \<and>
      hcontent content h' = kv_put (enc_log (LOG_of kind key val)) [] (log_content content s)"
    using db_put_run [of "slog_db_handle s" k v] assms(1) by (auto simp: slog_ok_def log_content_def)
qed

lemma clear_log_run:
  assumes "slog_ok s"
  shows "\<exists>s'. Store_Log_clear_log R s = Inr s' \<and> slog_ok s' \<and>
    log_content content s' = tl (log_content content s)"
proof -
  obtain it where it: "DB_Handle.new_iterator R (slog_db_handle s) = Inr it" "fst (cursor it) = log_content content s"
    using new_iterator_run [of "slog_db_handle s"] assms by (auto simp: slog_ok_def log_content_def)
  show ?thesis
  proof (cases "log_content content s")
    case Nil
    then show ?thesis
      using clear_log_empty [OF assms] assms by simp
  next
    case (Cons e rest)
    have at: "cursor (It_SeekToFirst R it) = (log_content content s, Some 0)"
      using it(2) Cons by (simp add: seek_first)
    obtain k where k: "it_key R (It_SeekToFirst R it) = Inr k" "slice_ok k"
      "slice_bytes k = fst (hd (log_content content s))"
      using it_key_at [OF at] Cons by auto
    obtain h' where h': "DB_Handle_delete_1 R (slog_db_handle s) k = Inr h'" "handle_ok h'"
      "hcontent content h' = kv_del (slice_bytes k) (log_content content s)"
      using db_delete_run [OF _ k(2), of "slog_db_handle s"] assms by (auto simp: slog_ok_def log_content_def)
    moreover have "kv_del (slice_bytes k) (log_content content s) = tl (log_content content s)"
      unfolding k(3) by (rule kv_del_hd) (simp add: log_content_def hcontent_sorted)
    ultimately show ?thesis
      using it(1) valid_at [OF at] k(1) assms
      by (simp add: Store_Log_clear_log_def slog_ok_def log_content_def)
  qed
qed

end

context rocksdb_readable
begin

lemma log_open_run:
  "length fresh = MAXLINE \<Longrightarrow> \<exists>s. Store_Log_open R loc fresh = Inr s \<and> slog_ok s"
  using open_run [of loc] by (auto simp: Store_Log_open_def slog_ok_def)

end

text \<open>A log over the association-list database.\<close>

definition ref_slog :: "kv \<Rightarrow> kv Store_Log" where
  "ref_slog d = \<lparr>slog_db_handle = ref_handle d, slog_buff = Some (replicate MAXLINE NUL)\<rparr>"

lemma ref_slog_ok: "slog_ok (ref_slog d)" "log_content ref_content (ref_slog d) = ref_content d"
  by (simp_all add: slog_ok_def ref_slog_def ref_handle_ok log_content_def)

lemma put_record_before_delete: "enc_log (LOG_of PUT k v) < enc_log (LOG_of DELETE k' v')"
proof -
  have "int_bytes 0 = CHR 0x00 # [CHR 0x00, CHR 0x00, CHR 0x00]"
    "int_bytes 1 = CHR 0x01 # [CHR 0x00, CHR 0x00, CHR 0x00]"
    by (simp_all add: int_bytes_def char_of_def bit_Suc_0_iff)
  then show ?thesis
    by (simp add: enc_log_def LOG_of_def enc_int_def)
qed

section \<open>Properties\<close>

text \<open>
  C11: a record written to an empty log is the record \<open>get_log\<close> returns, and clearing the log then
  empties it.
\<close>

theorem log_write_get_clear:
  assumes "rocksdb_reliable R content cursor" "slog_ok s" "log_content content s = []"
    "log_fits (LOG_of kind key val)"
  shows "\<exists>s1 s2. Store_Log_write_log R s kind key val = Inr s1 \<and>
    Store_Log_get_log R s1 = Inr (LOG_of kind key val) \<and>
    Store_Log_clear_log R s1 = Inr s2 \<and> log_content content s2 = []"
proof -
  note api = rocksdb_reliable_api [OF assms(1)]
  obtain s1 where s1: "Store_Log_write_log R s kind key val = Inr s1" "slog_ok s1"
    "log_content content s1 = [(enc_log (LOG_of kind key val), [])]"
    using rocksdb_reliable.write_log_run [OF assms(1,2,4)] assms(3) by auto
  moreover have "Store_Log_get_log R s1 = Inr (LOG_of kind key val)"
    using rocksdb_api.get_log_first [OF api s1(2,3) assms(4)] .
  moreover obtain s2 where "Store_Log_clear_log R s1 = Inr s2" "log_content content s2 = []"
    using rocksdb_reliable.clear_log_run [OF assms(1) s1(2)] s1(3) by auto
  ultimately show ?thesis by blast
qed

theorem log_write_get_clear_witness:
  "\<exists>s1 s2. Store_Log_write_log ref_R (ref_slog []) DELETE ''k'' [] = Inr s1 \<and>
    Store_Log_get_log ref_R s1 = Inr (LOG_of DELETE ''k'' []) \<and>
    Store_Log_clear_log ref_R s1 = Inr s2 \<and> log_content ref_content s2 = []"
  by (rule log_write_get_clear [OF ref_R_reliable])
    (simp_all add: ref_slog_ok ref_content_def log_fits_def LOG_of_def nul_free_def NUL_def MAXLINE_def)

text \<open>
  \<open>clear_log\<close> removes the first record only, so a log of two or more records is not empty
  after it (the header comment says it empties the log).
\<close>

lemma clear_log_removes_one:
  assumes "rocksdb_reliable R content cursor" "slog_ok s"
  shows "\<exists>s'. Store_Log_clear_log R s = Inr s' \<and> log_content content s' = drop 1 (log_content content s)"
  using rocksdb_reliable.clear_log_run [OF assms] by (auto simp: drop_Suc)

lemma clear_log_removes_one_witness:
  "\<exists>s'. Store_Log_clear_log ref_R (ref_slog [(''a'', []), (''b'', [])]) = Inr s' \<and>
    log_content ref_content s' = [(''b'', [])]"
  using clear_log_removes_one [OF ref_R_reliable ref_slog_ok(1), of "[(''a'', []), (''b'', [])]"]
  by (simp add: ref_slog_ok ref_content_def)

text \<open>
  A \<open>PUT\<close> record left in the log (by a crash between logging and committing) is returned by
  \<open>get_log\<close> in place of any \<open>DELETE\<close> record written after it: the next commit applies the stale
  record and not the requested one.
\<close>

lemma stale_put_shadows_delete:
  assumes "rocksdb_reliable R content cursor" "slog_ok s"
    "log_content content s = [(enc_log (LOG_of PUT k v), x)]" "log_fits (LOG_of PUT k v)"
    "log_fits (LOG_of DELETE k' [])"
  shows "\<exists>s'. Store_Log_write_log R s DELETE k' [] = Inr s' \<and> Store_Log_get_log R s' = Inr (LOG_of PUT k v)"
proof -
  have before: "enc_log (LOG_of PUT k v) < enc_log (LOG_of DELETE k' [])"
    by (rule put_record_before_delete)
  then have "\<not> enc_log (LOG_of DELETE k' []) < enc_log (LOG_of PUT k v)"
    "enc_log (LOG_of DELETE k' []) \<noteq> enc_log (LOG_of PUT k v)"
    by auto
  then have "\<exists>s' rest. Store_Log_write_log R s DELETE k' [] = Inr s' \<and> slog_ok s' \<and>
      log_content content s' = (enc_log (LOG_of PUT k v), x) # rest"
    using rocksdb_reliable.write_log_run [OF assms(1,2,5)] assms(3) by auto
  then show ?thesis
    using rocksdb_api.get_log_first [OF rocksdb_reliable_api [OF assms(1)] _ _ assms(4)] by blast
qed

lemma stale_put_shadows_delete_witness:
  "\<exists>s'. Store_Log_write_log ref_R (ref_slog [(enc_log (LOG_of PUT ''a'' ''1''), [])]) DELETE ''b'' [] = Inr s' \<and>
    Store_Log_get_log ref_R s' = Inr (LOG_of PUT ''a'' ''1'')"
  by (rule stale_put_shadows_delete [OF ref_R_reliable ref_slog_ok(1)])
    (simp_all add: ref_slog_ok ref_content_def log_fits_def LOG_of_def nul_free_def NUL_def MAXLINE_def)

end
