(* ===== verification/Net.thy ===== *)
theory Net
  imports Handle_Buff
begin

text \<open>
  \<open>my_code/net_connect\<close>: the socket wrappers. The operating system is not part of the sources: it is
  a record of system calls over a world of type \<open>'w\<close>, one field per call the code makes, and an
  argument of every definition that makes one. Error returns are printed and otherwise ignored, as
  in the code; what is printed is returned as a list of texts.
\<close>

section \<open>System calls\<close>

record sockaddr_in =
  sin_family :: c_int
  sin_port :: "16 word"
  sin_addr :: "32 word"

text \<open>
  \<open>os_recv\<close> yields the return value and the bytes put into the caller's buffer; no result means that
  the call never returns. No result of \<open>os_send\<close> means that the call does not return either: the code
  sends with flags 0 and installs no signal handler, so a \<open>send\<close> on a connection that is known to be
  closed ends the process by \<open>SIGPIPE\<close>. A \<open>send\<close> that fails in another way returns, and its result is
  dropped.
\<close>

record 'w os =
  os_socket :: "'w \<Rightarrow> c_int \<times> 'w"
  os_connect :: "'w \<Rightarrow> c_int \<Rightarrow> sockaddr_in \<Rightarrow> c_int \<times> 'w"
  os_setsockopt :: "'w \<Rightarrow> c_int \<Rightarrow> c_int \<Rightarrow> c_int \<times> 'w"
  os_bind :: "'w \<Rightarrow> c_int \<Rightarrow> sockaddr_in \<Rightarrow> c_int \<times> 'w"
  os_listen :: "'w \<Rightarrow> c_int \<Rightarrow> c_int \<Rightarrow> c_int \<times> 'w"
  os_accept :: "'w \<Rightarrow> c_int \<Rightarrow> c_int \<times> 'w"
  os_send :: "'w \<Rightarrow> c_int \<Rightarrow> bytes \<Rightarrow> 'w option"
  os_recv :: "'w \<Rightarrow> c_int \<Rightarrow> nat \<Rightarrow> (int \<times> bytes \<times> 'w) option"
  os_inet_pton :: "string \<Rightarrow> 32 word option"
  os_errno :: "'w \<Rightarrow> c_int"
  os_strerror :: "c_int \<Rightarrow> string"

definition AF_INET :: c_int where
  "AF_INET = 2"

definition INADDR_ANY :: "32 word" where
  "INADDR_ANY = 0"

text \<open>The conversions to network byte order, on a little-endian host.\<close>

definition htons :: "16 word \<Rightarrow> 16 word" where
  "htons p = push_bit 8 p OR drop_bit 8 p"

definition htonl :: "32 word \<Rightarrow> 32 word" where
  "htonl a = push_bit 24 a OR push_bit 8 (a AND 0xFF00) OR drop_bit 8 (a AND 0xFF0000) OR drop_bit 24 a"

text \<open>The tail \<open>: %s(errno: %d)\<close> of the error messages.\<close>

definition errno_text :: "'w os \<Rightarrow> 'w \<Rightarrow> string" where
  "errno_text N w =
     os_strerror N (os_errno N w) @ ''(errno: '' @ to_string_int (sint (os_errno N w)) @ '')''"

text \<open>The texts printed in Chinese, as their UTF-8 bytes: "creating the socket failed", "connected".\<close>

definition socket_failed_text :: string where
  "socket_failed_text =
     [CHR 0xE5, CHR 0x88, CHR 0x9B, CHR 0xE5, CHR 0xBB, CHR 0xBA] @ ''socket'' @
     [CHR 0xE5, CHR 0xA4, CHR 0xB1, CHR 0xE8, CHR 0xB4, CHR 0xA5, CHR 0xEF, CHR 0xBC, CHR 0x8C]"

definition connected_text :: string where
  "connected_text =
     [CHR 0xE8, CHR 0xBF, CHR 0x9E, CHR 0xE6, CHR 0x8E, CHR 0xA5,
      CHR 0xE6, CHR 0x88, CHR 0x90, CHR 0xE5, CHR 0x8A, CHR 0x9F]"

section \<open>ip\_location\<close>

text \<open>The members \<open>ip_address\<close> and \<open>port\<close> are shadowed by the constructor's parameters and never set.\<close>

record Ip_location =
  ipl_ip_address :: string
  ipl_port :: c_int
  ipl_store_node_address :: sockaddr_in

definition Ip_location_default :: Ip_location where
  "Ip_location_default = \<lparr>ipl_ip_address = [], ipl_port = 0,
     ipl_store_node_address = \<lparr>sin_family = 0, sin_port = 0, sin_addr = 0\<rparr>\<rparr>"

definition Ip_location_of :: "'w os \<Rightarrow> string \<Rightarrow> c_int \<Rightarrow> Ip_location \<times> string list" where
  "Ip_location_of N ip_address port =
     (let addr = \<lparr>sin_family = AF_INET, sin_port = htons (ucast port), sin_addr = 0\<rparr> in
      case os_inet_pton N ip_address of
        Some a \<Rightarrow> (Ip_location_default\<lparr>ipl_store_node_address := addr\<lparr>sin_addr := a\<rparr>\<rparr>, [])
      | None \<Rightarrow> (Ip_location_default\<lparr>ipl_store_node_address := addr\<rparr>,
                 [''inet_pton error for '' @ ip_address]))"

definition Ip_location_connect_to :: "'w os \<Rightarrow> Ip_location \<Rightarrow> 'w \<Rightarrow> c_int \<times> string list \<times> 'w" where
  "Ip_location_connect_to N l w =
     (let (socket_fd, w) = os_socket N w;
          m1 = (if sint socket_fd < 0 then [socket_failed_text @ errno_text N w] else []);
          (r, w) = os_connect N w socket_fd (ipl_store_node_address l);
          m2 = (if sint r < 0 then [''connect_to error: '' @ errno_text N w] else []) in
      (socket_fd, m1 @ m2, w))"

definition Ip_location_receive_from :: "'w os \<Rightarrow> c_int \<Rightarrow> 'w \<Rightarrow> c_int \<times> string list \<times> 'w" where
  "Ip_location_receive_from N port w =
     (let (listen_fd, w) = os_socket N w;
          m1 = (if listen_fd = - 1 then [''create socket error: '' @ errno_text N w] else []);
          (r, w) = os_setsockopt N w listen_fd 1 in
      if r \<noteq> 0 then (- 1, m1 @ [''set_socket_opt: '' @ os_strerror N (os_errno N w)], w)
      else
        let listen_address = \<lparr>sin_family = AF_INET, sin_port = htons (ucast port), sin_addr = htonl INADDR_ANY\<rparr>;
            (r, w) = os_bind N w listen_fd listen_address;
            m2 = (if r = - 1 then [''bind socket error: '' @ errno_text N w] else []);
            (r, w) = os_listen N w listen_fd 10;
            m3 = (if r = - 1 then [''listen socket error: '' @ errno_text N w] else []);
            (connect_fd, w) = os_accept N w listen_fd;
            m4 = (if connect_fd = - 1 then [''accept socket error: '' @ errno_text N w] else []) in
        (connect_fd, m1 @ m2 @ m3 @ m4, w))"

section \<open>net\_file\<close>

datatype CONNECT_KIND = TO | FROM

record net_file =
  connect_fd :: c_int

definition net_file_default :: net_file where
  "net_file_default = \<lparr>connect_fd = - 1\<rparr>"

definition net_file_of_fd :: "c_int \<Rightarrow> net_file" where
  "net_file_of_fd fd = \<lparr>connect_fd = fd\<rparr>"

definition net_file_connect ::
    "'w os \<Rightarrow> CONNECT_KIND \<Rightarrow> c_int \<Rightarrow> string \<Rightarrow> 'w \<Rightarrow> net_file \<times> string list \<times> 'w" where
  "net_file_connect N kind port ip_address w =
     (case kind of
        TO \<Rightarrow>
          let (l, m1) = Ip_location_of N ip_address port; (fd, m2, w) = Ip_location_connect_to N l w in
          (\<lparr>connect_fd = fd\<rparr>, m1 @ m2, w)
      | FROM \<Rightarrow>
          let (fd, m, w) = Ip_location_receive_from N port w in
          (\<lparr>connect_fd = fd\<rparr>, m @ [connected_text], w))"

text \<open>
  The result of \<open>send\<close> is dropped; the \<open>int\<close> length is converted to \<open>size_t\<close>. The flags are 0, so a
  closed connection is reported by a signal, which the process does not survive.
\<close>

definition net_file_send_to :: "'w os \<Rightarrow> net_file \<Rightarrow> bytes \<Rightarrow> c_int \<Rightarrow> 'w \<Rightarrow> 'w result" where
  "net_file_send_to N f inf_buff len w =
     bindr (mem_read inf_buff 0 (size_of_int len)) (\<lambda>bs.
       case os_send N w (connect_fd f) bs of None \<Rightarrow> Inl Broken_pipe | Some w \<Rightarrow> Inr w)"

text \<open>
  \<open>receive_from\<close> with its default length \<open>MAXLINE\<close>: what \<open>recv\<close> delivers overwrites the front of the
  buffer, the rest keeps its old bytes.
\<close>

definition net_file_receive_from :: "'w os \<Rightarrow> net_file \<Rightarrow> bytes \<Rightarrow> 'w \<Rightarrow> (c_int \<times> bytes \<times> 'w) result" where
  "net_file_receive_from N f buff w =
     (case os_recv N w (connect_fd f) MAXLINE of
        None \<Rightarrow> Inl Blocked_forever
      | Some (r, bs, w) \<Rightarrow> bindr (mem_write buff 0 bs) (\<lambda>buff. Inr (word_of_int r, buff, w)))"

section \<open>Facts\<close>

lemma send_to_front:
  assumes "length bs \<le> MAXLINE" "t = word_of_nat (length bs)"
  shows "net_file_send_to N f (bs @ rest) t w =
    (case os_send N w (connect_fd f) bs of None \<Rightarrow> Inl Broken_pipe | Some w' \<Rightarrow> Inr w')"
  using assms size_of_int_small [of "length bs"]
  by (simp add: net_file_send_to_def mem_read_def MAXLINE_def)

lemma receive_from_front:
  assumes "os_recv N w (connect_fd f) MAXLINE = Some (r, bs, w')" "length bs \<le> length buff"
  shows "net_file_receive_from N f buff w = Inr (word_of_int r, bs @ drop (length bs) buff, w')"
  using assms by (simp add: net_file_receive_from_def mem_write_def)

lemma htons_twice: "htons (htons p) = p"
  by (rule bit_word_eqI) (auto simp: htons_def bit_simps)

section \<open>An instance: a pipe of messages\<close>

text \<open>
  The simplest peer: the messages still to be received, one per \<open>recv\<close>, and the messages sent so far.
  With nothing left to receive the peer has closed the connection and \<open>recv\<close> returns 0.
\<close>

type_synonym pipe = "bytes list \<times> bytes list"

definition pipe_recv :: "pipe \<Rightarrow> nat \<Rightarrow> int \<times> bytes \<times> pipe" where
  "pipe_recv w n =
     (case fst w of [] \<Rightarrow> (0, [], w)
      | m # ms \<Rightarrow> (int (length (take n m)), take n m, (if length m \<le> n then ms else drop n m # ms, snd w)))"

definition pipe_os :: "pipe os" where
  "pipe_os =
     \<lparr>os_socket = (\<lambda>w. (3, w)), os_connect = (\<lambda>w fd a. (0, w)), os_setsockopt = (\<lambda>w fd n. (0, w)),
      os_bind = (\<lambda>w fd a. (0, w)), os_listen = (\<lambda>w fd n. (0, w)), os_accept = (\<lambda>w fd. (4, w)),
      os_send = (\<lambda>w fd bs. Some (fst w, snd w @ [bs])), os_recv = (\<lambda>w fd n. Some (pipe_recv w n)),
      os_inet_pton = (\<lambda>_. Some 0), os_errno = (\<lambda>_. 0), os_strerror = (\<lambda>_. [])\<rparr>"

lemma pipe_os_simps [simp]:
  "os_send pipe_os w fd bs = Some (fst w, snd w @ [bs])"
  "os_recv pipe_os ([], sent) fd n = Some (0, [], ([], sent))"
  "length m \<le> n \<Longrightarrow> os_recv pipe_os (m # ms, sent) fd n = Some (int (length m), m, (ms, sent))"
  by (simp_all add: pipe_os_def pipe_recv_def)

end
