(* ===== verification/Doubles.thy ===== *)
theory Doubles
  imports Complex_Main
begin

text \<open>
  The \<open>double\<close> arithmetic of the balancing test: IEEE 754 binary64 with rounding to nearest, ties to
  even, on rationals. The exponent range is not bounded: the operands are 32-bit integers, node
  counts and two literals, so no result of the test is near overflow or the subnormal range.
\<close>

definition pow2 :: "int \<Rightarrow> rat" where
  "pow2 e = (if 0 \<le> e then 2 ^ nat e else 1 / 2 ^ nat (- e))"

fun ilog2 :: "nat \<Rightarrow> nat" where
  "ilog2 n = (if n < 2 then 0 else Suc (ilog2 (n div 2)))"

declare ilog2.simps [simp del]

text \<open>The exponent of a positive number: the greatest power of two at or below it.\<close>

definition expo :: "rat \<Rightarrow> int" where
  "expo x =
     (let (p, q) = quotient_of x; e = int (ilog2 (nat p)) - int (ilog2 (nat q)) in
      if pow2 e \<le> x then e else e - 1)"

definition round_half_even :: "rat \<Rightarrow> int" where
  "round_half_even y =
     (let n = \<lfloor>y\<rfloor>; d = y - of_int n in
      if d < 1 / 2 then n else if 1 / 2 < d then n + 1 else if even n then n else n + 1)"

definition rnd64 :: "rat \<Rightarrow> rat" where
  "rnd64 x =
     (if x = 0 then 0
      else sgn x * of_int (round_half_even (\<bar>x\<bar> / pow2 (expo \<bar>x\<bar> - 52))) * pow2 (expo \<bar>x\<bar> - 52))"

definition dbl_add :: "rat \<Rightarrow> rat \<Rightarrow> rat" where
  "dbl_add x y = rnd64 (x + y)"

definition dbl_div :: "rat \<Rightarrow> rat \<Rightarrow> rat" where
  "dbl_div x y = rnd64 (x / y)"

section \<open>Accuracy\<close>

lemma pow2_pos [simp]: "0 < pow2 e"
  by (simp add: pow2_def)

lemma pow2_neq_0 [simp]: "pow2 e \<noteq> 0"
  using pow2_pos [of e] by (rule less_imp_neq [symmetric])

lemma pow2_nonneg [simp]: "0 \<le> pow2 e"
  using pow2_pos [of e] by (rule less_imp_le)

lemma pow2_add1: "pow2 (e + 1) = 2 * pow2 e"
proof (cases "0 \<le> e")
  case True
  then show ?thesis
    by (simp add: pow2_def nat_add_distrib)
next
  case False
  show ?thesis
  proof (cases "e = - 1")
    case True
    then show ?thesis by (simp add: pow2_def)
  next
    case False
    then have "nat (- e) = Suc (nat (- (e + 1)))"
      using \<open>\<not> 0 \<le> e\<close> by linarith
    then show ?thesis
      using \<open>\<not> 0 \<le> e\<close> False by (simp add: pow2_def)
  qed
qed

lemma pow2_add_nat: "pow2 (e + int k) = 2 ^ k * pow2 e"
proof (induction k)
  case (Suc k)
  have "pow2 (e + int (Suc k)) = pow2 ((e + int k) + 1)"
    by (simp add: add.assoc add.commute [of 1])
  then show ?case
    by (simp only: pow2_add1 Suc.IH) simp
qed simp

lemma ilog2_bounds: "0 < n \<Longrightarrow> 2 ^ ilog2 n \<le> n \<and> n < 2 ^ Suc (ilog2 n)"
proof (induction n rule: ilog2.induct)
  case (1 n)
  show ?case
  proof (cases "n < 2")
    case True
    then have "n = 1"
      using 1(2) by simp
    then show ?thesis
      by (simp add: ilog2.simps)
  next
    case False
    then have "2 ^ ilog2 (n div 2) \<le> n div 2 \<and> n div 2 < 2 ^ Suc (ilog2 (n div 2))"
      using 1(1) by simp
    then show ?thesis
      using False by (subst (1 2) ilog2.simps) auto
  qed
qed

lemma round_half_even_near: "\<bar>of_int (round_half_even y) - y\<bar> \<le> 1 / 2"
proof -
  have "of_int \<lfloor>y\<rfloor> \<le> y" "y < of_int \<lfloor>y\<rfloor> + 1"
    by linarith+
  then show ?thesis
    by (auto simp: round_half_even_def Let_def abs_le_iff field_simps)
qed

lemma pow2_ratio: "pow2 (int a - int b) = 2 ^ a / 2 ^ b"
proof -
  have "pow2 (int a) = 2 ^ b * pow2 (int a - int b)"
    using pow2_add_nat [of "int a - int b" b] by simp
  moreover have "pow2 (int a) = 2 ^ a"
    by (simp add: pow2_def)
  ultimately show ?thesis
    by (simp add: field_simps)
qed

lemma expo_le:
  assumes "0 < x"
  shows "pow2 (expo x) \<le> x"
proof -
  obtain p q where pq: "quotient_of x = (p, q)"
    by fastforce
  then have q: "0 < q" and x: "x = of_int p / of_int q"
    using quotient_of_denom_pos quotient_of_div by blast+
  then have p: "0 < p"
    using assms by (simp add: zero_less_divide_iff)
  let ?a = "ilog2 (nat p)" and ?b = "ilog2 (nat q)"
  have "2 ^ ?a \<le> nat p" "nat q < 2 ^ Suc ?b"
    using ilog2_bounds [of "nat p"] ilog2_bounds [of "nat q"] p q by simp_all
  then have "(2 ^ ?a :: int) \<le> p" "q < (2 ^ Suc ?b :: int)"
    using p q by (simp_all add: nat_less_iff le_nat_iff)
  then have "(of_int (2 ^ ?a) :: rat) \<le> of_int p" "(of_int q :: rat) < of_int (2 ^ Suc ?b)"
    by (simp_all only: of_int_le_iff of_int_less_iff)
  then have "(2 ^ ?a :: rat) / 2 ^ Suc ?b \<le> of_int p / of_int q"
    using q p by (intro frac_le) simp_all
  moreover have "pow2 (int ?a - int ?b - 1) = 2 ^ ?a / 2 ^ Suc ?b"
    using pow2_ratio [of ?a "Suc ?b"] by (simp add: algebra_simps)
  ultimately show ?thesis
    using pq x by (auto simp: expo_def Let_def)
qed

text \<open>Rounding changes a number by at most one part in \<open>2^53\<close>.\<close>

lemma rnd64_error: "\<bar>rnd64 x - x\<bar> \<le> \<bar>x\<bar> / 2 ^ 53"
proof (cases "x = 0")
  case False
  let ?u = "pow2 (expo \<bar>x\<bar> - 52)"
  let ?m = "of_int (round_half_even (\<bar>x\<bar> / ?u)) :: rat"
  have u: "2 ^ 52 * ?u \<le> \<bar>x\<bar>"
    using expo_le [of "\<bar>x\<bar>"] pow2_add_nat [of "expo \<bar>x\<bar> - 52" 52] False by simp
  have "\<bar>?m - \<bar>x\<bar> / ?u\<bar> * ?u \<le> 1 / 2 * ?u"
    by (intro mult_right_mono round_half_even_near less_imp_le pow2_pos)
  moreover have "\<bar>?m - \<bar>x\<bar> / ?u\<bar> * ?u = \<bar>?m * ?u - \<bar>x\<bar>\<bar>"
  proof -
    have "\<bar>?m - \<bar>x\<bar> / ?u\<bar> * ?u = \<bar>(?m - \<bar>x\<bar> / ?u) * ?u\<bar>"
      by (simp add: abs_mult)
    also have "(?m - \<bar>x\<bar> / ?u) * ?u = ?m * ?u - \<bar>x\<bar>"
      using pow2_pos [of "expo \<bar>x\<bar> - 52"] by (simp add: left_diff_distrib)
    finally show ?thesis .
  qed
  ultimately have "\<bar>?m * ?u - \<bar>x\<bar>\<bar> \<le> \<bar>x\<bar> / 2 ^ 53"
    using u by simp
  moreover have "rnd64 x - x = sgn x * (?m * ?u - \<bar>x\<bar>)"
    using False by (simp add: rnd64_def right_diff_distrib sgn_mult_abs)
  ultimately show ?thesis
    using False by (simp add: abs_mult abs_sgn_eq)
qed (simp add: rnd64_def)

end
