(* ===== verification/Control_Impl.thy ===== *)
theory Control_Impl
  imports Control_Meta Store_Log Net Doubles
begin

text \<open>
  \<open>my_code/control_node/control_impl\<close>: the control node. It reads commands from its input, routes
  keys by the meta database, updates store nodes by a log request followed by a commit request, and
  after every update moves entries between neighbouring nodes (\<open>re_balance\<close>). The definitions thread a
  state of the process: the object, the world behind its system calls, and the lines it has printed.
\<close>

section \<open>State\<close>

text \<open>
  \<open>virtual_fd_2_net_file\<close> is an array in a block got from \<open>malloc\<close>; a cell is \<open>None\<close> until it is
  written.
\<close>

record 'db control_impl =
  ci_store_node_count :: c_int
  ci_meta_db :: "'db DB_Handle"
  ci_virtual_fd_2_real_fd :: "c_int \<Rightarrow> c_int option"
  ci_send_buff :: bytes
  ci_receive_buff :: bytes
  ci_virtual_fd_2_net_file :: "net_file option list"

record ('db, 'w) control =
  c_obj :: "'db control_impl"
  c_world :: 'w
  c_out :: "string list"

definition say :: "('db, 'w) control \<Rightarrow> string \<Rightarrow> ('db, 'w) control" where
  "say c line = c\<lparr>c_out := c_out c @ [line]\<rparr>"

definition set_send :: "('db, 'w) control \<Rightarrow> bytes \<Rightarrow> ('db, 'w) control" where
  "set_send c b = c\<lparr>c_obj := (c_obj c)\<lparr>ci_send_buff := b\<rparr>\<rparr>"

definition set_receive :: "('db, 'w) control \<Rightarrow> bytes \<Rightarrow> ('db, 'w) control" where
  "set_receive c b = c\<lparr>c_obj := (c_obj c)\<lparr>ci_receive_buff := b\<rparr>\<rparr>"

definition set_meta :: "('db, 'w) control \<Rightarrow> 'db DB_Handle \<Rightarrow> ('db, 'w) control" where
  "set_meta c h = c\<lparr>c_obj := (c_obj c)\<lparr>ci_meta_db := h\<rparr>\<rparr>"

abbreviation send_buff :: "('db, 'w) control \<Rightarrow> bytes" where
  "send_buff c \<equiv> ci_send_buff (c_obj c)"

abbreviation receive_buff :: "('db, 'w) control \<Rightarrow> bytes" where
  "receive_buff c \<equiv> ci_receive_buff (c_obj c)"

abbreviation meta_db :: "('db, 'w) control \<Rightarrow> 'db DB_Handle" where
  "meta_db c \<equiv> ci_meta_db (c_obj c)"

section \<open>Construction\<close>

text \<open>
  \<open>usable n\<close> is how many bytes the block returned by \<open>malloc(n)\<close> really has; the code asks for
  \<open>store_nodes.size()\<close> bytes and stores objects of four bytes each.
\<close>

fun control_impl_nodes ::
    "('db, 'it) rocksdb \<Rightarrow> 'w os \<Rightarrow> bool \<Rightarrow> nat \<Rightarrow> Ip_location list \<Rightarrow> ('db, 'w) control \<Rightarrow> ('db, 'w) control result" where
  "control_impl_nodes R N fresh_meta i [] c = Inr c"
| "control_impl_nodes R N fresh_meta i (l # ls) c =
     (let c = c\<lparr>c_obj := (c_obj c)\<lparr>ci_store_node_count := ci_store_node_count (c_obj c) + 1\<rparr>\<rparr>;
          (real_fd, m, w) = Ip_location_connect_to N l (c_world c);
          c = c\<lparr>c_world := w, c_out := c_out c @ m\<rparr>;
          c = c\<lparr>c_obj := (c_obj c)\<lparr>ci_virtual_fd_2_real_fd :=
                 (ci_virtual_fd_2_real_fd (c_obj c))(word_of_nat i \<mapsto> real_fd)\<rparr>\<rparr> in
      bindr (guard Buffer_overflow (i < length (ci_virtual_fd_2_net_file (c_obj c)))) (\<lambda>_.
      let c = c\<lparr>c_obj := (c_obj c)\<lparr>ci_virtual_fd_2_net_file :=
                 (ci_virtual_fd_2_net_file (c_obj c))[i := Some (net_file_of_fd real_fd)]\<rparr>\<rparr> in
      bindr (if fresh_meta then
               let m = Control_meta_of (to_string_nat (i + 1)) (to_string_nat (i + 1)) (word_of_nat i) in
               bindr (Control_meta_to_slice m (send_buff c)) (\<lambda>(s, buff).
               let c = set_send c buff in
               bindr (DB_Handle_put_string_slice R (meta_db c) (min_str m) s) (\<lambda>h. Inr (set_meta c h)))
             else Inr c) (\<lambda>c.
      control_impl_nodes R N fresh_meta (i + 1) ls c)))"

definition control_impl_open ::
    "('db, 'it) rocksdb \<Rightarrow> 'w os \<Rightarrow> (nat \<Rightarrow> nat) \<Rightarrow> (nat \<Rightarrow> bytes) \<Rightarrow> string \<Rightarrow> Ip_location list \<Rightarrow> 'w \<Rightarrow>
     ('db, 'w) control result" where
  "control_impl_open R N usable fresh control_meta_path store_nodes w =
     bindr (DB_Handle_open R control_meta_path) (\<lambda>h.
     bindr (DB_Handle_get_num R h) (\<lambda>n.
     let c = \<lparr>c_obj = \<lparr>ci_store_node_count = 0, ci_meta_db = h, ci_virtual_fd_2_real_fd = (\<lambda>_. None),
                       ci_send_buff = fresh 0, ci_receive_buff = fresh 1,
                       ci_virtual_fd_2_net_file = replicate (usable (length store_nodes) div 4) None\<rparr>,
              c_world = w, c_out = []\<rparr> in
     bindr (control_impl_nodes R N (n = 0) 0 store_nodes c) (\<lambda>c.
     Inr (set_receive (set_send c (fresh 2)) (fresh 3)))))"

section \<open>Talking to a store node\<close>

definition file_at :: "('db, 'w) control \<Rightarrow> c_int \<Rightarrow> net_file result" where
  "file_at c vfd =
     (let fs = ci_virtual_fd_2_net_file (c_obj c); i = sint vfd in
      bindr (guard Out_of_bounds_read (0 \<le> i \<and> nat i < length fs)) (\<lambda>_.
      case fs ! nat i of None \<Rightarrow> Inl Uninitialised_read | Some f \<Rightarrow> Inr f))"

definition control_send :: "'w os \<Rightarrow> ('db, 'w) control \<Rightarrow> c_int \<Rightarrow> c_int \<Rightarrow> ('db, 'w) control result" where
  "control_send N c vfd len =
     bindr (file_at c vfd) (\<lambda>f.
     bindr (net_file_send_to N f (send_buff c) len (c_world c)) (\<lambda>w. Inr (c\<lparr>c_world := w\<rparr>)))"

definition control_receive :: "'w os \<Rightarrow> ('db, 'w) control \<Rightarrow> c_int \<Rightarrow> ('db, 'w) control result" where
  "control_receive N c vfd =
     bindr (file_at c vfd) (\<lambda>f.
     bindr (net_file_receive_from N f (receive_buff c) (c_world c)) (\<lambda>(_, buff, w).
     Inr (set_receive (c\<lparr>c_world := w\<rparr>) buff)))"

text \<open>A request of \<open>len\<close> bytes in \<open>send_buff\<close>, and the answer to it.\<close>

definition exchange :: "'w os \<Rightarrow> ('db, 'w) control \<Rightarrow> c_int \<Rightarrow> c_int \<Rightarrow> ('db, 'w) control result" where
  "exchange N c vfd len =
     bindr (control_send N c vfd len) (\<lambda>c. control_receive N c vfd)"

text \<open>A request that consists of a command word only.\<close>

definition exchange_word :: "'w os \<Rightarrow> ('db, 'w) control \<Rightarrow> c_int \<Rightarrow> string \<Rightarrow> ('db, 'w) control result" where
  "exchange_word N c vfd command =
     bindr (insert_str_to_buff (send_buff c) 0 command 0) (\<lambda>(buff, _, total_size).
     exchange N (set_send c buff) vfd total_size)"

text \<open>A log request: the command word and the serialised record.\<close>

definition exchange_log :: "'w os \<Rightarrow> ('db, 'w) control \<Rightarrow> c_int \<Rightarrow> LOG \<Rightarrow> ('db, 'w) control result" where
  "exchange_log N c vfd l =
     bindr (insert_str_to_buff (send_buff c) 0 get_LOG 0) (\<lambda>(buff, tmp, total_size).
     bindr (LOG_to_slice l buff tmp) (\<lambda>(s, buff).
     exchange N (set_send c buff) vfd (total_size + word_of_nat (Slice_size s))))"

definition control_get_size :: "'w os \<Rightarrow> ('db, 'w) control \<Rightarrow> c_int \<Rightarrow> (c_int \<times> ('db, 'w) control) result" where
  "control_get_size N c vfd =
     bindr (exchange_word N c vfd get_SIZE) (\<lambda>c.
     bindr (get_int_from_buff (receive_buff c) 0) (\<lambda>(ret, _). Inr (ret, c)))"

definition control_get_store_less_or_equal_one ::
    "'w os \<Rightarrow> ('db, 'w) control \<Rightarrow> c_int \<Rightarrow> (bool \<times> ('db, 'w) control) result" where
  "control_get_store_less_or_equal_one N c vfd =
     bindr (exchange_word N c vfd get_LESS_OR_EQUAL_ONE) (\<lambda>c.
     bindr (get_int_from_buff (receive_buff c) 0) (\<lambda>(ret, _). Inr (ret \<noteq> 0, c)))"

text \<open>\<open>(s / (total_size + 0.000001)) <= perfect + 0.01\<close> in \<open>double\<close> arithmetic.\<close>

definition share_ok :: "c_int \<Rightarrow> c_int \<Rightarrow> rat \<Rightarrow> bool" where
  "share_ok s total_size perfect \<longleftrightarrow>
     dbl_div (of_int (sint s)) (dbl_add (of_int (sint total_size)) (rnd64 (1 / 1000000)))
       \<le> dbl_add perfect (rnd64 (1 / 100))"

definition control_not_too_much ::
    "'w os \<Rightarrow> ('db, 'w) control \<Rightarrow> c_int \<Rightarrow> c_int \<Rightarrow> rat \<Rightarrow> (bool \<times> ('db, 'w) control) result" where
  "control_not_too_much N c vfd total_size perfect =
     bindr (control_get_size N c vfd) (\<lambda>(s, c).
     if share_ok s total_size perfect then Inr (True, c)
     else control_get_store_less_or_equal_one N c vfd)"

definition read_entry :: "('db, 'w) control \<Rightarrow> (string \<times> string) result" where
  "read_entry c =
     bindr (get_string_from_buff (receive_buff c) 0) (\<lambda>(key, rec).
     bindr (get_string_from_buff (receive_buff c) rec) (\<lambda>(val, _). Inr (key, val)))"

definition control_get_max_store ::
    "'w os \<Rightarrow> ('db, 'w) control \<Rightarrow> c_int \<Rightarrow> ((string \<times> string) \<times> ('db, 'w) control) result" where
  "control_get_max_store N c vfd =
     bindr (exchange_word N c vfd get_MAX_KEY) (\<lambda>c. bindr (read_entry c) (\<lambda>e. Inr (e, c)))"

definition control_get_min_store ::
    "'w os \<Rightarrow> ('db, 'w) control \<Rightarrow> c_int \<Rightarrow> ((string \<times> string) \<times> ('db, 'w) control) result" where
  "control_get_min_store N c vfd =
     bindr (exchange_word N c vfd get_MIN_KEY) (\<lambda>c. bindr (read_entry c) (\<lambda>e. Inr (e, c)))"

section \<open>\<open>show_meta\<close>\<close>

definition show_meta_entry ::
    "('db, 'it) rocksdb \<Rightarrow> 'w os \<Rightarrow> ('db, 'w) control \<Rightarrow> 'it \<Rightarrow> ('db, 'w) control result" where
  "show_meta_entry R N c it =
     bindr (it_value R it) (\<lambda>v.
     bindr (Control_meta_of_slice v) (\<lambda>m.
     bindr (control_get_size N c (virtual_fd m)) (\<lambda>(n, c).
     let c = say c (''size == '' @ to_string_int (sint n)) in
     Inr (say c (Control_meta_show m)))))"

partial_function (option) show_meta_loop ::
    "('db, 'it) rocksdb \<Rightarrow> 'w os \<Rightarrow> ('db, 'w) control \<Rightarrow> 'it \<Rightarrow> ('db, 'w) control result option" where
  "show_meta_loop R N c it =
     (if It_Valid R it then
        (case show_meta_entry R N c it of
           Inl e \<Rightarrow> Some (Inl e)
         | Inr c' \<Rightarrow> show_meta_loop R N c' (It_Next R it))
      else Some (Inr c))"

definition control_show_meta :: "('db, 'it) rocksdb \<Rightarrow> 'w os \<Rightarrow> ('db, 'w) control \<Rightarrow> ('db, 'w) control result" where
  "control_show_meta R N c =
     bindr (new_iterator R (meta_db c)) (\<lambda>it.
     bindr (of_loop (show_meta_loop R N c (It_SeekToFirst R it))) (\<lambda>r. r))"

section \<open>\<open>re_balance\<close>\<close>

text \<open>The answer to a log request: the word, the least and the greatest key after the update.\<close>

definition read_range :: "('db, 'w) control \<Rightarrow> (string \<times> string \<times> string) result" where
  "read_range c =
     bindr (get_string_from_buff (receive_buff c) 0) (\<lambda>(ans, rec).
     bindr (get_string_from_buff (receive_buff c) rec) (\<lambda>(new_min, rec).
     bindr (get_string_from_buff (receive_buff c) rec) (\<lambda>(new_max, _). Inr (ans, new_min, new_max))))"

text \<open>Both nodes drop their log; the word is written to the buffer once.\<close>

definition roll_back :: "'w os \<Rightarrow> ('db, 'w) control \<Rightarrow> c_int \<Rightarrow> c_int \<Rightarrow> ('db, 'w) control result" where
  "roll_back N c i j =
     bindr (insert_str_to_buff (send_buff c) 0 get_DEL_LOG 0) (\<lambda>(buff, _, total_size).
     bindr (exchange N (set_send c buff) i total_size) (\<lambda>c. exchange N c j total_size))"

text \<open>
  The meta entry under an iterator is replaced by one with the new range, where the answer gave one,
  stored under its new least key.
\<close>

definition with_range :: "Control_meta \<Rightarrow> string \<Rightarrow> string \<Rightarrow> Control_meta" where
  "with_range m new_min new_max =
     (let m = (if new_min \<noteq> [] then m\<lparr>min_str := new_min\<rparr> else m) in
      if new_max \<noteq> [] then m\<lparr>max_str := new_max\<rparr> else m)"

definition replace_meta ::
    "('db, 'it) rocksdb \<Rightarrow> ('db, 'w) control \<Rightarrow> 'it \<Rightarrow> Control_meta \<Rightarrow> ('db, 'w) control result" where
  "replace_meta R c it m =
     bindr (it_key R it) (\<lambda>k.
     bindr (DB_Handle_delete_1 R (meta_db c) k) (\<lambda>h.
     bindr (Control_meta_to_slice m (receive_buff c)) (\<lambda>(ss, buff).
     bindr (DB_Handle_put_string_slice R h (min_str m) ss) (\<lambda>h.
     Inr (set_meta (set_receive c buff) h)))))"

definition update_meta ::
    "('db, 'it) rocksdb \<Rightarrow> ('db, 'w) control \<Rightarrow> 'it \<Rightarrow> string \<Rightarrow> string \<Rightarrow> ('db, 'w) control result" where
  "update_meta R c it new_min new_max =
     bindr (it_value R it) (\<lambda>v.
     bindr (Control_meta_of_slice v) (\<lambda>m.
     replace_meta R c it (with_range m new_min new_max)))"

text \<open>Both nodes commit, the second only if the first one answered \<open>ok\<close>; the result tells whether to go on.\<close>

definition commit_first :: "'w os \<Rightarrow> ('db, 'w) control \<Rightarrow> c_int \<Rightarrow> (c_int \<times> ('db, 'w) control) result" where
  "commit_first N c i =
     bindr (insert_str_to_buff (send_buff c) 0 get_COMMIT_LOG 0) (\<lambda>(buff, _, total_size).
     bindr (exchange N (set_send c buff) i total_size) (\<lambda>c. Inr (total_size, c)))"

definition commit_both :: "'w os \<Rightarrow> ('db, 'w) control \<Rightarrow> c_int \<Rightarrow> c_int \<Rightarrow> (bool \<times> ('db, 'w) control) result" where
  "commit_both N c i j =
     bindr (commit_first N c i) (\<lambda>(total_size, c).
     bindr (get_string_from_buff (receive_buff c) 0) (\<lambda>(ans, _).
     if ans \<noteq> ''ok'' then Inr (False, say c ''error'')
     else
       bindr (exchange N c j total_size) (\<lambda>c.
       bindr (get_string_from_buff (receive_buff c) 0) (\<lambda>(ans, _).
       if ans \<noteq> ''ok'' then Inr (False, say c ''error'') else Inr (True, c)))))"

text \<open>
  The body of the two inner loops after the entry to move is known: node \<open>i\<close> loses it, node \<open>j\<close> gets
  it. \<open>neighbour\<close> moves the meta iterator from the entry of \<open>i\<close> to that of \<open>j\<close> (\<open>Next\<close> in the first
  loop, \<open>Prev\<close> in the second). The part up to the commits is a definition of its own.
\<close>

definition migrate_log ::
    "('db, 'it) rocksdb \<Rightarrow> 'w os \<Rightarrow> ('it \<Rightarrow> 'it result) \<Rightarrow> ('db, 'w) control \<Rightarrow> c_int \<Rightarrow> c_int \<Rightarrow> string \<Rightarrow> string \<Rightarrow>
     ('db, 'w) control result" where
  "migrate_log R N neighbour c i j key val =
     bindr (exchange_log N c i (LOG_of DELETE key [])) (\<lambda>c.
     bindr (read_range c) (\<lambda>(ans, new_min_1, new_max_1).
     let can_commit = (ans = ''ok''); c = (if ans \<noteq> ''ok'' then say c ''error'' else c) in
     bindr (exchange_log N c j (LOG_of PUT key val)) (\<lambda>c.
     bindr (read_range c) (\<lambda>(ans, new_min_2, new_max_2).
     let can_commit = (can_commit \<and> ans = ''ok''); c = (if ans \<noteq> ''ok'' then say c ''error'' else c) in
     bindr (if \<not> can_commit then roll_back N c i j else Inr c) (\<lambda>c.
     bindr (new_iterator R (meta_db c)) (\<lambda>it.
     bindr (DB_Handle_get_smaller_or_equal R key it) (\<lambda>(_, it).
     bindr (update_meta R c it new_min_1 new_max_1) (\<lambda>c.
     bindr (neighbour it) (\<lambda>it.
     update_meta R c it new_min_2 new_max_2)))))))))"

definition migrate ::
    "('db, 'it) rocksdb \<Rightarrow> 'w os \<Rightarrow> ('it \<Rightarrow> 'it result) \<Rightarrow> ('db, 'w) control \<Rightarrow> c_int \<Rightarrow> c_int \<Rightarrow> string \<Rightarrow> string \<Rightarrow>
     (bool \<times> ('db, 'w) control) result" where
  "migrate R N neighbour c i j key val =
     bindr (migrate_log R N neighbour c i j key val) (\<lambda>c. commit_both N c i j)"

datatype direction = Up | Down

text \<open>One evaluation of the loop condition and, if it holds, of the body.\<close>

datatype loop_turn = Loop_done | Loop_again | Loop_return

definition balance_turn ::
    "('db, 'it) rocksdb \<Rightarrow> 'w os \<Rightarrow> direction \<Rightarrow> c_int \<Rightarrow> rat \<Rightarrow> ('db, 'w) control \<Rightarrow> c_int \<Rightarrow>
     (loop_turn \<times> ('db, 'w) control) result" where
  "balance_turn R N dir total_size_x perfect c i =
     bindr (control_not_too_much N c i total_size_x perfect) (\<lambda>(fine, c).
     if fine then Inr (Loop_done, c)
     else
       bindr (case dir of
           Up \<Rightarrow>
             bindr (control_get_max_store N c i) (\<lambda>((key, val), c).
             migrate R N (it_next R) c i (i + 1) key val)
         | Down \<Rightarrow>
             bindr (control_get_min_store N c i) (\<lambda>((key, val), c).
             migrate R N (it_prev R) c i (i - 1) key val)) (\<lambda>(go_on, c).
       Inr (if go_on then Loop_again else Loop_return, c)))"

text \<open>An inner \<open>while\<close>; the result tells whether the outer loop goes on or \<open>re_balance\<close> has returned.\<close>

partial_function (option) balance_while ::
    "('db, 'it) rocksdb \<Rightarrow> 'w os \<Rightarrow> direction \<Rightarrow> c_int \<Rightarrow> rat \<Rightarrow> ('db, 'w) control \<Rightarrow> c_int \<Rightarrow>
     (bool \<times> ('db, 'w) control) result option" where
  "balance_while R N dir total_size_x perfect c i =
     (case balance_turn R N dir total_size_x perfect c i of
        Inl e \<Rightarrow> Some (Inl e)
      | Inr (t, c') \<Rightarrow>
          (case t of
             Loop_done \<Rightarrow> Some (Inr (True, c'))
           | Loop_return \<Rightarrow> Some (Inr (False, c'))
           | Loop_again \<Rightarrow> balance_while R N dir total_size_x perfect c' i))"

fun balance_for ::
    "('db, 'it) rocksdb \<Rightarrow> 'w os \<Rightarrow> direction \<Rightarrow> c_int \<Rightarrow> rat \<Rightarrow> ('db, 'w) control \<Rightarrow> nat list \<Rightarrow>
     (bool \<times> ('db, 'w) control) result" where
  "balance_for R N dir total_size_x perfect c [] = Inr (True, c)"
| "balance_for R N dir total_size_x perfect c (i # is) =
     bindr (of_loop (balance_while R N dir total_size_x perfect c (word_of_nat i))) (\<lambda>r.
     bindr r (\<lambda>(go_on, c).
     if go_on then balance_for R N dir total_size_x perfect c is else Inr (False, c)))"

fun sum_sizes :: "'w os \<Rightarrow> ('db, 'w) control \<Rightarrow> nat list \<Rightarrow> c_int \<Rightarrow> (c_int \<times> ('db, 'w) control) result" where
  "sum_sizes N c [] acc = Inr (acc, c)"
| "sum_sizes N c (i # is) acc =
     bindr (control_get_size N c (word_of_nat i)) (\<lambda>(n, c). sum_sizes N c is (acc + n))"

definition node_count :: "('db, 'w) control \<Rightarrow> nat" where
  "node_count c = nat (sint (ci_store_node_count (c_obj c)))"

definition control_re_balance :: "('db, 'it) rocksdb \<Rightarrow> 'w os \<Rightarrow> ('db, 'w) control \<Rightarrow> ('db, 'w) control result" where
  "control_re_balance R N c =
     (let n = node_count c in
      bindr (sum_sizes N c [0..<n] 0) (\<lambda>(total_size_x, c).
      let perfect = dbl_div 1 (of_nat n) in
      bindr (balance_for R N Up total_size_x perfect c [0..<n - 1]) (\<lambda>(go_on, c).
      if \<not> go_on then Inr c
      else
        bindr (balance_for R N Down total_size_x perfect c (rev [1..<n])) (\<lambda>(go_on, c).
        if \<not> go_on then Inr c else control_show_meta R N c))))"

section \<open>The commands\<close>

definition control_test :: "'w os \<Rightarrow> ('db, 'w) control \<Rightarrow> string \<Rightarrow> ('db, 'w) control result" where
  "control_test N c test_string =
     bindr (insert_str_s_to_buff (send_buff c) 0 [get_TEST, test_string] 0) (\<lambda>(buff, _, total_size).
     control_send N (set_send c buff) 0 total_size)"

text \<open>The routing look-up: the meta iterator on the entry responsible for a key, and its record.\<close>

definition route :: "('db, 'it) rocksdb \<Rightarrow> ('db, 'w) control \<Rightarrow> string \<Rightarrow> ('it \<times> Control_meta) result" where
  "route R c key =
     bindr (new_iterator R (meta_db c)) (\<lambda>it.
     bindr (DB_Handle_get_smaller_or_equal R key it) (\<lambda>(_, it).
     bindr (it_value R it) (\<lambda>v.
     bindr (Control_meta_of_slice v) (\<lambda>m. Inr (it, m)))))"

text \<open>The commit request of \<open>put\<close> and \<open>del\<close>.\<close>

definition commit_one :: "'w os \<Rightarrow> ('db, 'w) control \<Rightarrow> c_int \<Rightarrow> ('db, 'w) control result" where
  "commit_one N c vfd =
     bindr (exchange_word N c vfd get_COMMIT_LOG) (\<lambda>c.
     bindr (get_string_from_buff (receive_buff c) 0) (\<lambda>(ans, _).
     Inr (if ans = ''ok'' then say c ''log commit'' else c)))"

definition control_put ::
    "('db, 'it) rocksdb \<Rightarrow> 'w os \<Rightarrow> ('db, 'w) control \<Rightarrow> string \<Rightarrow> string \<Rightarrow> ('db, 'w) control result" where
  "control_put R N c key val =
     (let c = say c (''putting '' @ key @ '' '' @ val) in
      bindr (insert_str_to_buff (send_buff c) 0 get_LOG 0) (\<lambda>(buff, tmp, total_size).
      bindr (LOG_to_slice (LOG_of PUT key val) buff tmp) (\<lambda>(s, buff).
      let c = set_send c buff in
      bindr (route R c key) (\<lambda>(it, m).
      let vfd = virtual_fd m in
      bindr (exchange N c vfd (total_size + word_of_nat (Slice_size s))) (\<lambda>c.
      bindr (get_string_from_buff (receive_buff c) 0) (\<lambda>(ans, _).
      bindr (if ans = ''ok'' then
               let c = say c ''log ok'' in
               let m = m\<lparr>min_str := min (min_str m) key, max_str := max (max_str m) key\<rparr> in
               bindr (replace_meta R c it m) (\<lambda>c.
               commit_one N (say c (Control_meta_show m)) vfd)
             else Inr c) (\<lambda>c.
      control_re_balance R N c)))))))"

definition control_get ::
    "('db, 'it) rocksdb \<Rightarrow> 'w os \<Rightarrow> ('db, 'w) control \<Rightarrow> string \<Rightarrow> ('db, 'w) control result" where
  "control_get R N c key =
     bindr (route R c key) (\<lambda>(it, m).
     bindr (insert_str_to_buff (send_buff c) 0 get_GET 0) (\<lambda>(buff, tmp, send_len).
     bindr (insert_str_to_buff buff tmp key send_len) (\<lambda>(buff, _, send_len).
     bindr (exchange N (set_send c buff) (virtual_fd m) send_len) (\<lambda>c.
     bindr (get_string_from_buff (receive_buff c) 0) (\<lambda>(ans, _).
     Inr (say c (''get '' @ ans)))))))"

definition control_del ::
    "('db, 'it) rocksdb \<Rightarrow> 'w os \<Rightarrow> ('db, 'w) control \<Rightarrow> string \<Rightarrow> ('db, 'w) control result" where
  "control_del R N c key =
     (if key = [] then Inr c
      else
      let c = say c (''deleting '' @ key) in
      bindr (insert_str_to_buff (send_buff c) 0 get_LOG 0) (\<lambda>(buff, tmp, total_size).
      bindr (LOG_to_slice (LOG_of DELETE key []) buff tmp) (\<lambda>(s, buff).
      let c = set_send c buff in
      bindr (route R c key) (\<lambda>(it, m).
      let vfd = virtual_fd m in
      bindr (exchange N c vfd (total_size + word_of_nat (Slice_size s))) (\<lambda>c.
      bindr (get_string_from_buff (receive_buff c) 0) (\<lambda>(ans, rec).
      bindr (if ans = ''ok'' then
               let c = say c ''log ok'' in
               bindr (get_string_from_buff (receive_buff c) rec) (\<lambda>(new_min, rec).
               bindr (get_string_from_buff (receive_buff c) rec) (\<lambda>(new_max, _).
               let new_min = (if new_min = [] then min_str m else new_min) in
               let m = m\<lparr>min_str := min (min_str m) new_min, max_str := max (max_str m) key\<rparr> in
               bindr (replace_meta R (say c (Control_meta_show m)) it m) (\<lambda>c.
               commit_one N c vfd)))
             else Inr c) (\<lambda>c.
      control_re_balance R N c)))))))"

section \<open>The command loop\<close>

text \<open>
  The input is the list of its whitespace-separated words. At the end of the input \<open>cin >> x\<close> leaves
  \<open>x\<close> empty. \<open>run\<close> is a loop that only \<open>quit\<close> or a fault ends: no result means that it goes on for ever.
\<close>

fun next_word :: "string list \<Rightarrow> string \<times> string list" where
  "next_word [] = ([], [])"
| "next_word (t # ts) = (t, ts)"

partial_function (option) control_run ::
    "('db, 'it) rocksdb \<Rightarrow> 'w os \<Rightarrow> ('db, 'w) control \<Rightarrow> string list \<Rightarrow> (('db, 'w) control \<times> string list) result option" where
  "control_run R N c input =
     (case next_word input of (command, input) \<Rightarrow>
      if command = ''quit'' then Some (Inr (c, input))
      else if command = get_TEST then
        (case next_word input of (test_string, input) \<Rightarrow>
         case control_test N c test_string of Inl e \<Rightarrow> Some (Inl e) | Inr c \<Rightarrow> control_run R N c input)
      else if command = get_PUT then
        (case next_word input of (key, input) \<Rightarrow>
         case next_word input of (val, input) \<Rightarrow>
         case control_put R N c key val of Inl e \<Rightarrow> Some (Inl e) | Inr c \<Rightarrow> control_run R N c input)
      else if command = get_GET then
        (case next_word input of (key, input) \<Rightarrow>
         case control_get R N c key of Inl e \<Rightarrow> Some (Inl e) | Inr c \<Rightarrow> control_run R N c input)
      else if command = get_DEL then
        (case next_word input of (key, input) \<Rightarrow>
         case control_del R N c key of Inl e \<Rightarrow> Some (Inl e) | Inr c \<Rightarrow> control_run R N c input)
      else control_run R N c input)"

text \<open>
  Behind the end of the input every command is empty, none of the branches is taken, and the loop goes
  on in the same state.
\<close>

lemma control_run_end: "control_run R N c [] = None"
proof -
  have "\<not> (ts = [])" if run: "control_run R N c ts = Some y" for c ts y
  proof (rule control_run.raw_induct [where P = "\<lambda>R N c ts y. \<not> (ts = [])", OF _ run])
    fix run R N c ts y
    assume IH: "\<And>R N c ts y. run R N c ts = Some y \<Longrightarrow> \<not> (ts = [])"
      and body: "(case next_word ts of (command, input) \<Rightarrow>
        if command = ''quit'' then Some (Inr (c, input))
        else if command = get_TEST then
          (case next_word input of (test_string, input) \<Rightarrow>
           case control_test N c test_string of Inl e \<Rightarrow> Some (Inl e) | Inr c \<Rightarrow> run R N c input)
        else if command = get_PUT then
          (case next_word input of (key, input) \<Rightarrow>
           case next_word input of (val, input) \<Rightarrow>
           case control_put R N c key val of Inl e \<Rightarrow> Some (Inl e) | Inr c \<Rightarrow> run R N c input)
        else if command = get_GET then
          (case next_word input of (key, input) \<Rightarrow>
           case control_get R N c key of Inl e \<Rightarrow> Some (Inl e) | Inr c \<Rightarrow> run R N c input)
        else if command = get_DEL then
          (case next_word input of (key, input) \<Rightarrow>
           case control_del R N c key of Inl e \<Rightarrow> Some (Inl e) | Inr c \<Rightarrow> run R N c input)
        else run R N c input) = Some y"
    show "\<not> (ts = [])"
    proof
      assume "ts = []"
      then have "run R N c [] = Some y"
        using body by (simp add: command_defs)
      then show False
        using IH by blast
    qed
  qed
  then show ?thesis
    by (cases "control_run R N c []") auto
qed

text \<open>The \<open>main\<close> of the control program: three nodes on the local host.\<close>

definition control_node_main ::
    "('db, 'it) rocksdb \<Rightarrow> 'w os \<Rightarrow> (nat \<Rightarrow> nat) \<Rightarrow> (nat \<Rightarrow> bytes) \<Rightarrow> 'w \<Rightarrow> string list \<Rightarrow>
     (('db, 'w) control \<times> string list) result option" where
  "control_node_main R N usable fresh w input =
     (let ls = map (\<lambda>port. Ip_location_of N ''127.0.0.1'' port) [6666, 6667, 6668] in
      case control_impl_open R N usable fresh ''control_meta'' (map fst ls) w of
        Inl e \<Rightarrow> Some (Inl e)
      | Inr c \<Rightarrow> control_run R N (c\<lparr>c_out := concat (map snd ls) @ c_out c\<rparr>) input)"

end
