(* ===== verification/Store_Data.thy ===== *)
theory Store_Data
  imports DB_Handle
begin

text \<open>
  \<open>my_code/store_node/store_data\<close>: the data database of a store node together with a cached byte total.
  The invariant says that the cache is the total of the entries; the operations keep it as long as
  no stored value is empty, since the code recognises an existing key by its non-empty value.
\<close>

record Data =
  dat_key :: string
  dat_value :: string

definition Data_of_strings :: "string \<Rightarrow> string \<Rightarrow> Data" where
  "Data_of_strings key val = \<lparr>dat_key = key, dat_value = val\<rparr>"

text \<open>The constructor from two C strings copies them up to their terminators.\<close>

definition Data_of_c_strs :: "bytes \<Rightarrow> bytes \<Rightarrow> Data result" where
  "Data_of_c_strs key val =
     bindr (guard Out_of_bounds_read (NUL \<in> set key)) (\<lambda>_.
     bindr (guard Out_of_bounds_read (NUL \<in> set val)) (\<lambda>_.
     Inr \<lparr>dat_key = c_str_text key, dat_value = c_str_text val\<rparr>))"

record 'db store_data =
  sd_db_handle :: "'db DB_Handle"
  sd_buff :: "bytes option"
  sd_size :: c_int

definition store_data_default :: "('db, 'it) rocksdb \<Rightarrow> 'db store_data" where
  "store_data_default R = \<lparr>sd_db_handle = DB_Handle_default R, sd_buff = None, sd_size = 0\<rparr>"

definition store_data_open :: "('db, 'it) rocksdb \<Rightarrow> string \<Rightarrow> bytes \<Rightarrow> 'db store_data result" where
  "store_data_open R location fresh =
     bindr (DB_Handle_open R location) (\<lambda>h.
     bindr (DB_Handle_get_size R h) (\<lambda>n.
     Inr \<lparr>sd_db_handle = h, sd_buff = Some fresh, sd_size = n\<rparr>))"

definition store_data_get :: "('db, 'it) rocksdb \<Rightarrow> 'db store_data \<Rightarrow> string \<Rightarrow> string result" where
  "store_data_get R s key = DB_Handle_get R (sd_db_handle s) key"

text \<open>The two subtractions made when an old value is found.\<close>

definition size_without :: "c_int \<Rightarrow> string \<Rightarrow> string \<Rightarrow> c_int" where
  "size_without n key val =
     (if length val \<noteq> 0
      then n - (word_of_nat (length val) + 1) - (word_of_nat (length key) + 1) else n)"

definition store_data_delete_1 :: "('db, 'it) rocksdb \<Rightarrow> 'db store_data \<Rightarrow> string \<Rightarrow> 'db store_data result" where
  "store_data_delete_1 R s key =
     bindr (DB_Handle_get R (sd_db_handle s) key) (\<lambda>val.
     let s = s\<lparr>sd_size := size_without (sd_size s) key val\<rparr> in
     bindr (DB_Handle_delete_1 R (sd_db_handle s) (Slice_of_string key)) (\<lambda>h.
     Inr (s\<lparr>sd_db_handle := h\<rparr>)))"

definition store_data_put :: "('db, 'it) rocksdb \<Rightarrow> 'db store_data \<Rightarrow> Data \<Rightarrow> 'db store_data result" where
  "store_data_put R s d =
     bindr (DB_Handle_get R (sd_db_handle s) (dat_key d)) (\<lambda>val.
     let s = s\<lparr>sd_size := size_without (sd_size s) (dat_key d) val\<rparr> in
     bindr (DB_Handle_put R (sd_db_handle s) (dat_key d) (dat_value d)) (\<lambda>h.
     Inr (s\<lparr>sd_db_handle := h,
       sd_size := sd_size s + (word_of_nat (length (dat_key d)) + word_of_nat (length (dat_value d)) + 2)\<rparr>)))"

definition store_data_get_size :: "'db store_data \<Rightarrow> c_int" where
  "store_data_get_size s = sd_size s"

definition store_data_get_db :: "'db store_data \<Rightarrow> 'db DB_Handle" where
  "store_data_get_db s = sd_db_handle s"

text \<open>The out-parameters of \<open>get_max_key\<close> and \<open>get_min_key\<close> keep their values when there is no entry.\<close>

definition entry_at :: "('db, 'it) rocksdb \<Rightarrow> 'it \<Rightarrow> string \<times> string \<Rightarrow> (string \<times> string) result" where
  "entry_at R it out =
     (if It_Valid R it then
        bindr (it_key R it) (\<lambda>k. bindr (it_value R it) (\<lambda>v.
        Inr (Slice_ToString R k, Slice_ToString R v)))
      else Inr out)"

definition store_data_get_max_key ::
    "('db, 'it) rocksdb \<Rightarrow> 'db store_data \<Rightarrow> string \<times> string \<Rightarrow> (string \<times> string) result" where
  "store_data_get_max_key R s out =
     bindr (new_iterator R (sd_db_handle s)) (\<lambda>it. entry_at R (It_SeekToLast R it) out)"

definition store_data_get_min_key ::
    "('db, 'it) rocksdb \<Rightarrow> 'db store_data \<Rightarrow> string \<times> string \<Rightarrow> (string \<times> string) result" where
  "store_data_get_min_key R s out =
     bindr (new_iterator R (sd_db_handle s)) (\<lambda>it. entry_at R (It_SeekToFirst R it) out)"

section \<open>The byte total under updates\<close>

definition old_bytes :: "string \<Rightarrow> kv \<Rightarrow> nat" where
  "old_bytes k xs = (case kv_get k xs of None \<Rightarrow> 0 | Some v \<Rightarrow> length k + length v + 2)"

definition values_nonempty :: "kv \<Rightarrow> bool" where
  "values_nonempty xs \<longleftrightarrow> (\<forall>v \<in> snd ` set xs. v \<noteq> [])"

lemma kv_get_Cons: "kv_get k ((k', v) # xs) = (if k = k' then Some v else kv_get k xs)"
  by (simp add: kv_get_def)

lemma kv_get_absent: "k \<notin> set (kv_keys xs) \<Longrightarrow> kv_get k xs = None"
  by (simp add: kv_get_def map_of_eq_None_iff)

lemma kv_bytes_put: "kv_sorted xs \<Longrightarrow> kv_bytes (kv_put k v xs) + old_bytes k xs = kv_bytes xs + (length k + length v + 2)"
proof (induction k v xs rule: kv_put.induct)
  case (2 k v k' v' xs)
  then have "k \<notin> set (kv_keys xs)" if "k \<le> k'"
    using that by auto
  with 2 show ?case
    by (auto simp: old_bytes_def kv_get_Cons kv_get_absent)
qed (simp add: old_bytes_def kv_get_def)

lemma kv_bytes_del: "kv_sorted xs \<Longrightarrow> kv_bytes (kv_del k xs) + old_bytes k xs = kv_bytes xs"
proof (induction xs)
  case (Cons e xs)
  obtain k' v' where e: "e = (k', v')"
    by fastforce
  have "kv_del k xs = xs" "kv_get k xs = None" if "k = k'"
    using Cons.prems that e by (auto intro!: kv_del_absent kv_get_absent)
  with Cons e show ?case
    by (cases "k = k'") (auto simp: old_bytes_def kv_get_Cons kv_del_def)
qed (simp add: old_bytes_def kv_get_def kv_del_def)

lemma size_without_old:
  assumes "values_nonempty xs"
  shows "size_without n k (case kv_get k xs of Some v \<Rightarrow> v | None \<Rightarrow> []) = n - word_of_nat (old_bytes k xs)"
proof (cases "kv_get k xs")
  case (Some v)
  then have "(k, v) \<in> set xs"
    by (simp add: kv_get_def map_of_SomeD)
  then have "v \<noteq> []"
    using assms by (force simp: values_nonempty_def)
  with Some show ?thesis
    by (simp add: size_without_def old_bytes_def algebra_simps)
qed (simp add: size_without_def old_bytes_def)

section \<open>Invariant and operations\<close>

definition data_content :: "('db \<Rightarrow> kv) \<Rightarrow> 'db store_data \<Rightarrow> kv" where
  "data_content content s = hcontent content (sd_db_handle s)"

definition sd_ok :: "('db \<Rightarrow> kv) \<Rightarrow> 'db store_data \<Rightarrow> bool" where
  "sd_ok content s \<longleftrightarrow> handle_ok (sd_db_handle s) \<and>
     sd_size s = word_of_nat (kv_bytes (data_content content s)) \<and> values_nonempty (data_content content s)"

lemma values_nonempty_put: "values_nonempty xs \<Longrightarrow> v \<noteq> [] \<Longrightarrow> values_nonempty (kv_put k v xs)"
  using set_kv_put [of k v xs] by (auto simp: values_nonempty_def)

lemma values_nonempty_del: "values_nonempty xs \<Longrightarrow> values_nonempty (kv_del k xs)"
  by (auto simp: values_nonempty_def kv_del_def)

context rocksdb_readable
begin

lemma sd_get_run:
  "sd_ok content s \<Longrightarrow>
    store_data_get R s key = Inr (case kv_get key (data_content content s) of Some v \<Rightarrow> v | None \<Rightarrow> [])"
  by (simp add: store_data_get_def sd_ok_def data_content_def db_get_run)

lemma sd_open_run:
  "\<exists>s. store_data_open R loc fresh = Inr s \<and> handle_ok (sd_db_handle s) \<and> sd_buff s = Some fresh \<and>
    sd_size s = word_of_nat (kv_bytes (data_content content s)) \<and>
    (values_nonempty (data_content content s) \<longrightarrow> sd_ok content s)"
  using open_run [of loc] get_size_run by (auto simp: store_data_open_def sd_ok_def data_content_def)

text \<open>The cached size after \<open>put\<close> is that of the entries with the new one, whatever the database does.\<close>

lemma sd_put_by:
  assumes "sd_ok content s"
    and put: "\<exists>h'. DB_Handle_put R (sd_db_handle s) (dat_key d) (dat_value d) = Inr h' \<and> handle_ok h' \<and> hcontent content h' = ys"
  shows "\<exists>s'. store_data_put R s d = Inr s' \<and> handle_ok (sd_db_handle s') \<and> sd_buff s' = sd_buff s \<and> data_content content s' = ys \<and>
    sd_size s' = word_of_nat (kv_bytes (kv_put (dat_key d) (dat_value d) (data_content content s)))"
proof -
  let ?k = "dat_key d" and ?v = "dat_value d" and ?xs = "data_content content s"
  have h: "handle_ok (sd_db_handle s)" and ne: "values_nonempty ?xs"
    and size: "sd_size s = word_of_nat (kv_bytes ?xs)"
    using assms(1) by (simp_all add: sd_ok_def)
  have get: "DB_Handle_get R (sd_db_handle s) ?k = Inr (case kv_get ?k ?xs of Some v \<Rightarrow> v | None \<Rightarrow> [])"
    using db_get_run [OF h] by (simp add: data_content_def)
  have "kv_sorted ?xs"
    by (simp add: data_content_def hcontent_sorted)
  then have "word_of_nat (kv_bytes (kv_put ?k ?v ?xs)) + word_of_nat (old_bytes ?k ?xs)
      = (word_of_nat (kv_bytes ?xs) + word_of_nat (length ?k + length ?v + 2) :: c_int)"
    using kv_bytes_put [of ?xs ?k ?v] by (metis of_nat_add)
  then have "sd_size s - word_of_nat (old_bytes ?k ?xs) + (word_of_nat (length ?k) + word_of_nat (length ?v) + 2)
      = word_of_nat (kv_bytes (kv_put ?k ?v ?xs))"
    unfolding size by (simp add: algebra_simps)
  then show ?thesis
    using put get ne by (auto simp: store_data_put_def Let_def size_without_old data_content_def)
qed

end

context rocksdb_reliable
begin

lemma sd_put_run:
  assumes "sd_ok content s" "dat_value d \<noteq> []"
  shows "\<exists>s'. store_data_put R s d = Inr s' \<and> sd_ok content s' \<and> sd_buff s' = sd_buff s \<and>
    data_content content s' = kv_put (dat_key d) (dat_value d) (data_content content s)"
proof -
  let ?xs = "data_content content s"
  have h: "handle_ok (sd_db_handle s)" and ne: "values_nonempty ?xs"
    using assms(1) by (simp_all add: sd_ok_def)
  have "\<exists>h'. DB_Handle_put R (sd_db_handle s) (dat_key d) (dat_value d) = Inr h' \<and> handle_ok h' \<and>
      hcontent content h' = kv_put (dat_key d) (dat_value d) ?xs"
    using db_put_run [OF h, of "Slice_of_string (dat_key d)" "Slice_of_string (dat_value d)"]
    by (auto simp: DB_Handle_put_def data_content_def)
  from sd_put_by [OF assms(1) this] show ?thesis
    using values_nonempty_put [OF ne assms(2)] by (auto simp: sd_ok_def)
qed

lemma sd_delete_run:
  assumes "sd_ok content s"
  shows "\<exists>s'. store_data_delete_1 R s key = Inr s' \<and> sd_ok content s' \<and> sd_buff s' = sd_buff s \<and>
    data_content content s' = kv_del key (data_content content s)"
proof -
  let ?xs = "data_content content s"
  have h: "handle_ok (sd_db_handle s)" and ne: "values_nonempty ?xs"
    and size: "sd_size s = word_of_nat (kv_bytes ?xs)"
    using assms(1) by (simp_all add: sd_ok_def)
  obtain h' where h': "DB_Handle_delete_1 R (sd_db_handle s) (Slice_of_string key) = Inr h'" "handle_ok h'"
    "hcontent content h' = kv_del key ?xs"
    using db_delete_run [OF h, of "Slice_of_string key"] by (auto simp: data_content_def)
  have get: "DB_Handle_get R (sd_db_handle s) key = Inr (case kv_get key ?xs of Some v \<Rightarrow> v | None \<Rightarrow> [])"
    using db_get_run [OF h] by (simp add: data_content_def)
  have "kv_sorted ?xs"
    by (simp add: data_content_def hcontent_sorted)
  then have "word_of_nat (kv_bytes (kv_del key ?xs)) + word_of_nat (old_bytes key ?xs)
      = (word_of_nat (kv_bytes ?xs) :: c_int)"
    using kv_bytes_del [of ?xs key] by (metis of_nat_add)
  then have "sd_size s - word_of_nat (old_bytes key ?xs) = word_of_nat (kv_bytes (kv_del key ?xs))"
    unfolding size by (simp add: algebra_simps)
  then show ?thesis
    using h' get ne values_nonempty_del [OF ne]
    by (simp add: store_data_delete_1_def Let_def size_without_old
        sd_ok_def data_content_def)
qed

end

context rocksdb_api
begin

lemma entry_at_run:
  "cursor it = (xs, p) \<Longrightarrow> entry_at R it out = Inr (case p of Some n \<Rightarrow> xs ! n | None \<Rightarrow> out)"
  using key_string_at [of it xs] value_string_at [of it xs]
  by (auto simp: entry_at_def valid it_key_def it_value_def split: option.splits)

lemma sd_max_key_run:
  assumes "handle_ok (sd_db_handle s)"
  shows "store_data_get_max_key R s out =
    Inr (if data_content content s = [] then out else last (data_content content s))"
proof -
  obtain it where it: "DB_Handle.new_iterator R (sd_db_handle s) = Inr it" "fst (cursor it) = data_content content s"
    using new_iterator_run [OF assms] by (auto simp: data_content_def)
  show ?thesis
    using it entry_at_run [OF seek_last [of it]] by (simp add: store_data_get_max_key_def last_conv_nth)
qed

lemma sd_min_key_run:
  assumes "handle_ok (sd_db_handle s)"
  shows "store_data_get_min_key R s out =
    Inr (if data_content content s = [] then out else hd (data_content content s))"
proof -
  obtain it where it: "DB_Handle.new_iterator R (sd_db_handle s) = Inr it" "fst (cursor it) = data_content content s"
    using new_iterator_run [OF assms] by (auto simp: data_content_def)
  show ?thesis
    using it entry_at_run [OF seek_first [of it]] by (simp add: store_data_get_min_key_def hd_conv_nth)
qed

end

section \<open>Sequences of updates\<close>

datatype data_op = Put_op Data | Del_op string

fun store_data_do :: "('db, 'it) rocksdb \<Rightarrow> 'db store_data \<Rightarrow> data_op \<Rightarrow> 'db store_data result" where
  "store_data_do R s (Put_op d) = store_data_put R s d"
| "store_data_do R s (Del_op k) = store_data_delete_1 R s k"

fun store_data_ops :: "('db, 'it) rocksdb \<Rightarrow> 'db store_data \<Rightarrow> data_op list \<Rightarrow> 'db store_data result" where
  "store_data_ops R s [] = Inr s"
| "store_data_ops R s (p # ps) = bindr (store_data_do R s p) (\<lambda>s. store_data_ops R s ps)"

fun kv_do :: "data_op \<Rightarrow> kv \<Rightarrow> kv" where
  "kv_do (Put_op d) xs = kv_put (dat_key d) (dat_value d) xs"
| "kv_do (Del_op k) xs = kv_del k xs"

fun op_nonempty :: "data_op \<Rightarrow> bool" where
  "op_nonempty (Put_op d) \<longleftrightarrow> dat_value d \<noteq> []"
| "op_nonempty (Del_op k) \<longleftrightarrow> True"

context rocksdb_reliable
begin

lemma sd_do_run:
  "sd_ok content s \<Longrightarrow> op_nonempty p \<Longrightarrow> \<exists>s'. store_data_do R s p = Inr s' \<and> sd_ok content s' \<and>
    data_content content s' = kv_do p (data_content content s)"
  using sd_put_run [of s] sd_delete_run [of s] by (cases p) fastforce+

lemma sd_ops_run:
  "sd_ok content s \<Longrightarrow> list_all op_nonempty ps \<Longrightarrow> \<exists>s'. store_data_ops R s ps = Inr s' \<and> sd_ok content s' \<and>
    data_content content s' = fold kv_do ps (data_content content s)"
proof (induction ps arbitrary: s)
  case (Cons p ps)
  then obtain s1 where "store_data_do R s p = Inr s1" "sd_ok content s1"
    "data_content content s1 = kv_do p (data_content content s)"
    using sd_do_run [of s p] by auto
  then show ?case
    using Cons.IH [of s1] Cons.prems by auto
qed simp

lemma sd_put_twice_empty:
  assumes "sd_ok content s" "kv_get k (data_content content s) = None"
  shows "\<exists>s'. store_data_ops R s [Put_op (Data_of_strings k []), Put_op (Data_of_strings k [])] = Inr s' \<and>
    handle_ok (sd_db_handle s') \<and> sd_size s' = word_of_nat (kv_bytes (data_content content s') + length k + 2)"
proof -
  let ?xs = "data_content content s"
  have h: "handle_ok (sd_db_handle s)" and size: "sd_size s = word_of_nat (kv_bytes ?xs)"
    using assms(1) by (simp_all add: sd_ok_def)
  obtain h1 where h1: "DB_Handle_put R (sd_db_handle s) k [] = Inr h1" "handle_ok h1"
    "hcontent content h1 = kv_put k [] ?xs"
    using db_put_run [OF h, of "Slice_of_string k" "Slice_of_string []"]
    by (auto simp: DB_Handle_put_def data_content_def)
  obtain h2 where h2: "DB_Handle_put R h1 k [] = Inr h2" "handle_ok h2"
    "hcontent content h2 = kv_put k [] (kv_put k [] ?xs)"
    using db_put_run [OF h1(2), of "Slice_of_string k" "Slice_of_string []"] h1(3)
    by (auto simp: DB_Handle_put_def)
  have get: "DB_Handle_get R (sd_db_handle s) k = Inr []" "DB_Handle_get R h1 k = Inr []"
    using db_get_run [OF h] db_get_run [OF h1(2)] assms(2) h1(3) by (simp_all add: data_content_def kv_get_put)
  have sorted: "kv_sorted ?xs"
    by (simp add: data_content_def hcontent_sorted)
  have "kv_bytes (kv_put k [] (kv_put k [] ?xs)) = kv_bytes ?xs + (length k + 2)"
    using kv_bytes_put [OF sorted, of k "[]"] kv_bytes_put [of "kv_put k [] ?xs" k "[]"] sorted assms(2)
    by (simp add: old_bytes_def kv_get_put)
  then show ?thesis
    using h1 h2 get size
    by (simp add: store_data_put_def Data_of_strings_def Let_def size_without_def data_content_def algebra_simps)
qed

end

text \<open>A data store over the association-list database.\<close>

definition ref_sdata :: "kv \<Rightarrow> kv store_data" where
  "ref_sdata d = \<lparr>sd_db_handle = ref_handle d, sd_buff = Some (replicate MAXLINE NUL),
     sd_size = word_of_nat (kv_bytes (ref_content d))\<rparr>"

lemma ref_sdata_content [simp]: "data_content ref_content (ref_sdata d) = ref_content d"
  by (simp add: data_content_def ref_sdata_def ref_handle_ok)

lemma ref_sdata_ok: "values_nonempty (ref_content d) \<Longrightarrow> sd_ok ref_content (ref_sdata d)"
  by (simp add: sd_ok_def) (simp add: ref_sdata_def ref_handle_ok)

section \<open>Properties\<close>

text \<open>
  C10: after any sequence of insertions of non-empty values and deletions the cached size a store
  node reports is the one a scan of the database computes, and the database holds what the sequence
  prescribes.
\<close>

theorem cached_size_is_scanned_size:
  assumes "rocksdb_reliable R content cursor" "sd_ok content s" "list_all op_nonempty ps"
  shows "\<exists>s'. store_data_ops R s ps = Inr s' \<and> data_content content s' = fold kv_do ps (data_content content s) \<and>
    DB_Handle_get_size R (store_data_get_db s') = Inr (store_data_get_size s')"
proof -
  obtain s' where s': "store_data_ops R s ps = Inr s'" "sd_ok content s'"
    "data_content content s' = fold kv_do ps (data_content content s)"
    using rocksdb_reliable.sd_ops_run [OF assms] by blast
  moreover have "DB_Handle_get_size R (store_data_get_db s') = Inr (store_data_get_size s')"
    using rocksdb_api.get_size_run [OF rocksdb_reliable_api [OF assms(1)]] s'(2)
    by (simp add: sd_ok_def store_data_get_db_def store_data_get_size_def data_content_def)
  ultimately show ?thesis by blast
qed

theorem cached_size_is_scanned_size_witness:
  "\<exists>s'. store_data_ops ref_R (ref_sdata [(''a'', ''x'')])
      [Put_op (Data_of_strings ''a'' ''yy''), Put_op (Data_of_strings ''b'' ''z''), Del_op ''a''] = Inr s' \<and>
    data_content ref_content s' = [(''b'', ''z'')] \<and>
    DB_Handle_get_size ref_R (store_data_get_db s') = Inr (store_data_get_size s')"
proof -
  have ok: "sd_ok ref_content (ref_sdata [(''a'', ''x'')])"
    by (rule ref_sdata_ok) (simp add: ref_content_def values_nonempty_def)
  show ?thesis
    using cached_size_is_scanned_size [OF ref_R_reliable ok,
        of "[Put_op (Data_of_strings ''a'' ''yy''), Put_op (Data_of_strings ''b'' ''z''), Del_op ''a'']"]
    by (simp add: Data_of_strings_def ref_content_def kv_del_def)
qed

text \<open>
  C33: storing the empty value twice under a fresh key makes the cached size drift away from the
  database: the second insertion does not recognise the first one and counts the key again.
\<close>

theorem empty_value_size_drift:
  assumes "rocksdb_reliable R content cursor" "sd_ok content s" "kv_get k (data_content content s) = None"
  shows "\<exists>s' n. store_data_ops R s [Put_op (Data_of_strings k []), Put_op (Data_of_strings k [])] = Inr s' \<and>
    DB_Handle_get_size R (store_data_get_db s') = Inr n \<and> store_data_get_size s' = n + word_of_nat (length k + 2)"
proof -
  obtain s' where s': "store_data_ops R s [Put_op (Data_of_strings k []), Put_op (Data_of_strings k [])] = Inr s'"
    "handle_ok (sd_db_handle s')" "sd_size s' = word_of_nat (kv_bytes (data_content content s') + length k + 2)"
    using rocksdb_reliable.sd_put_twice_empty [OF assms] by blast
  then show ?thesis
    using rocksdb_api.get_size_run [OF rocksdb_reliable_api [OF assms(1)] s'(2)]
    by (simp add: store_data_get_db_def store_data_get_size_def data_content_def)
qed

theorem empty_value_size_drift_witness:
  "\<exists>s' n. store_data_ops ref_R (ref_sdata []) [Put_op (Data_of_strings ''k'' []), Put_op (Data_of_strings ''k'' [])] = Inr s' \<and>
    DB_Handle_get_size ref_R (store_data_get_db s') = Inr n \<and> store_data_get_size s' = n + 3"
proof -
  have "sd_ok ref_content (ref_sdata [])"
    by (rule ref_sdata_ok) (simp add: ref_content_def values_nonempty_def)
  then show ?thesis
    using empty_value_size_drift [OF ref_R_reliable, of "ref_sdata []" "''k''"]
    by (simp add: kv_get_def ref_content_def)
qed

text \<open>
  C15: on a non-empty database \<open>get_min_key\<close> and \<open>get_max_key\<close> return the entries of the least and
  the greatest key; on an empty one they leave the caller's strings alone.
\<close>

theorem min_max_key_are_extreme:
  assumes "rocksdb_api R content cursor" "handle_ok (sd_db_handle s)"
  shows "\<exists>mn mx. store_data_get_min_key R s out = Inr mn \<and> store_data_get_max_key R s out = Inr mx \<and>
    (data_content content s = [] \<longrightarrow> mn = out \<and> mx = out) \<and>
    (data_content content s \<noteq> [] \<longrightarrow> mn \<in> set (data_content content s) \<and> mx \<in> set (data_content content s)) \<and>
    (\<forall>e \<in> set (data_content content s). fst mn \<le> fst e \<and> fst e \<le> fst mx)"
proof -
  let ?xs = "data_content content s"
  have "kv_sorted ?xs"
    unfolding data_content_def by (rule rocksdb_api.hcontent_sorted [OF assms(1)])
  then have "fst (hd ?xs) \<le> fst e \<and> fst e \<le> fst (last ?xs)" if "e \<in> set ?xs" for e
    using that kv_sorted_hd_le [of ?xs "fst e"] kv_sorted_le_last [of ?xs "fst e"] by auto
  then show ?thesis
    using rocksdb_api.sd_min_key_run [OF assms] rocksdb_api.sd_max_key_run [OF assms] by auto
qed

theorem min_max_key_are_extreme_witness:
  "\<exists>mn mx. store_data_get_min_key ref_R (ref_sdata [(''a'', ''x''), (''b'', ''y'')]) ([], []) = Inr mn \<and>
    store_data_get_max_key ref_R (ref_sdata [(''a'', ''x''), (''b'', ''y'')]) ([], []) = Inr mx \<and>
    fst mn \<le> ''a'' \<and> ''b'' \<le> fst mx"
proof -
  have h: "handle_ok (sd_db_handle (ref_sdata [(''a'', ''x''), (''b'', ''y'')]))"
    by (simp add: ref_sdata_def ref_handle_ok)
  have c: "data_content ref_content (ref_sdata [(''a'', ''x''), (''b'', ''y'')]) = [(''a'', ''x''), (''b'', ''y'')]"
    by (simp add: ref_content_def)
  from min_max_key_are_extreme [OF ref_R_api h, of "([], [])", unfolded c] show ?thesis
    by (metis fst_conv list.set_intros)
qed

end
