(* ===== verification/Store_Impl.thy ===== *)
theory Store_Impl
  imports Store_Data Store_Log Net
begin

text \<open>
  \<open>my_code/store_node/store_impl\<close>: a store node. \<open>run\<close> is an endless loop that receives a request
  into \<open>receive_buff\<close>, executes it and sends the answer from \<open>send_buff\<close>; one turn of the loop is
  \<open>store_impl_turn\<close>, its part after the receive \<open>store_impl_handle\<close>. The second half of the theory
  states what a store node promises as an abstract transition system on its entries and its pending
  log record, and shows that the loop body implements it.
\<close>

section \<open>State and operations\<close>

record 'db store_impl =
  si_connection :: net_file
  si_storeData :: "'db store_data"
  si_storeLog :: "'db Store_Log"
  si_receive_buff :: bytes
  si_send_buff :: bytes

text \<open>\<open>fresh n\<close> is the content of the \<open>n\<close>-th block that \<open>malloc(MAXLINE)\<close> returns.\<close>

definition store_impl_open ::
    "('db, 'it) rocksdb \<Rightarrow> 'w os \<Rightarrow> (nat \<Rightarrow> bytes) \<Rightarrow> string \<Rightarrow> string \<Rightarrow> c_int \<Rightarrow> 'w \<Rightarrow>
     ('db store_impl \<times> string list \<times> 'w) result" where
  "store_impl_open R N fresh data_path log_path port w =
     bindr (store_data_open R data_path (fresh 0)) (\<lambda>d.
     bindr (Store_Log_open R log_path (fresh 1)) (\<lambda>l.
     let (c, m, w) = net_file_connect N FROM port [] w in
     Inr (\<lparr>si_connection = c, si_storeData = d, si_storeLog = l,
           si_receive_buff = fresh 2, si_send_buff = fresh 3\<rparr>, m, w)))"

definition store_impl_put :: "('db, 'it) rocksdb \<Rightarrow> 'db store_impl \<Rightarrow> string \<Rightarrow> string \<Rightarrow> 'db store_impl result" where
  "store_impl_put R s key val =
     bindr (store_data_put R (si_storeData s) (Data_of_strings key val)) (\<lambda>d. Inr (s\<lparr>si_storeData := d\<rparr>))"

definition store_impl_log_put :: "('db, 'it) rocksdb \<Rightarrow> 'db store_impl \<Rightarrow> string \<Rightarrow> string \<Rightarrow> 'db store_impl result" where
  "store_impl_log_put R s key val =
     bindr (Store_Log_write_log R (si_storeLog s) PUT key val) (\<lambda>l. Inr (s\<lparr>si_storeLog := l\<rparr>))"

definition store_impl_log_delete :: "('db, 'it) rocksdb \<Rightarrow> 'db store_impl \<Rightarrow> string \<Rightarrow> 'db store_impl result" where
  "store_impl_log_delete R s key =
     bindr (Store_Log_write_log R (si_storeLog s) DELETE key []) (\<lambda>l. Inr (s\<lparr>si_storeLog := l\<rparr>))"

definition store_impl_delete_log :: "('db, 'it) rocksdb \<Rightarrow> 'db store_impl \<Rightarrow> 'db store_impl result" where
  "store_impl_delete_log R s =
     bindr (Store_Log_clear_log R (si_storeLog s)) (\<lambda>l. Inr (s\<lparr>si_storeLog := l\<rparr>))"

definition store_impl_delete_1 :: "('db, 'it) rocksdb \<Rightarrow> 'db store_impl \<Rightarrow> string \<Rightarrow> 'db store_impl result" where
  "store_impl_delete_1 R s key =
     bindr (store_data_delete_1 R (si_storeData s) key) (\<lambda>d. Inr (s\<lparr>si_storeData := d\<rparr>))"

definition store_impl_commit_log :: "('db, 'it) rocksdb \<Rightarrow> 'db store_impl \<Rightarrow> ('db store_impl \<times> string list) result" where
  "store_impl_commit_log R s =
     bindr (Store_Log_get_log R (si_storeLog s)) (\<lambda>l.
     bindr (case LOG_get_kind l of
              PUT \<Rightarrow> bindr (store_impl_put R s (LOG_get_key l) (LOG_get_value l)) (\<lambda>s. Inr (s, []))
            | DELETE \<Rightarrow> bindr (store_impl_delete_1 R s (LOG_get_key l)) (\<lambda>s. Inr (s, []))
            | ERROR \<Rightarrow> Inr (s, [''log_error''])
            | Other_kind _ \<Rightarrow> Inr (s, [])) (\<lambda>(s, printed).
     bindr (store_impl_delete_log R s) (\<lambda>s. Inr (s, printed))))"

definition store_impl_get :: "('db, 'it) rocksdb \<Rightarrow> 'db store_impl \<Rightarrow> string \<Rightarrow> string result" where
  "store_impl_get R s key = store_data_get R (si_storeData s) key"

definition store_impl_store_less_or_equal_one :: "('db, 'it) rocksdb \<Rightarrow> 'db store_impl \<Rightarrow> bool result" where
  "store_impl_store_less_or_equal_one R s =
     DB_Handle_store_less_or_equal_one R (store_data_get_db (si_storeData s))"

subsection \<open>\<open>log_log\<close>: log an update and answer the key range it will leave\<close>

definition key_or_empty :: "('db, 'it) rocksdb \<Rightarrow> 'it \<Rightarrow> string result" where
  "key_or_empty R it =
     (if It_Valid R it then bindr (it_key R it) (\<lambda>k. Inr (Slice_ToString R k)) else Inr [])"

definition log_log_put ::
    "('db, 'it) rocksdb \<Rightarrow> 'db store_impl \<Rightarrow> 'it \<Rightarrow> LOG \<Rightarrow> ('db store_impl \<times> string \<times> string) result" where
  "log_log_put R s it l =
     bindr (store_impl_log_put R s (LOG_get_key l) (LOG_get_value l)) (\<lambda>s.
     let it = It_SeekToFirst R it in
     bindr (key_or_empty R it) (\<lambda>new_min.
     let it = It_SeekToLast R it in
     bindr (key_or_empty R it) (\<lambda>new_max.
     let (new_min, new_max) =
       (if new_min = [] then (LOG_get_key l, LOG_get_key l) else (new_min, new_max)) in
     Inr (s, min new_min (LOG_get_key l), max (LOG_get_key l) new_max))))"

definition log_log_delete ::
    "('db, 'it) rocksdb \<Rightarrow> 'db store_impl \<Rightarrow> 'it \<Rightarrow> LOG \<Rightarrow> ('db store_impl \<times> string \<times> string) result" where
  "log_log_delete R s it l =
     bindr (store_impl_log_delete R s (LOG_get_key l)) (\<lambda>s.
     let it = It_SeekToFirst R it in
     bindr (key_or_empty R it) (\<lambda>new_min.
     let it = It_SeekToLast R it in
     bindr (key_or_empty R it) (\<lambda>new_max.
     bindr (if LOG_get_key l = new_min
            then bindr (it_next R (It_SeekToFirst R it)) (\<lambda>it.
              bindr (key_or_empty R it) (\<lambda>new_min. Inr (new_min, it)))
            else Inr (new_min, it)) (\<lambda>(new_min, it).
     bindr (if LOG_get_key l = new_max
            then bindr (it_prev R (It_SeekToLast R it)) (\<lambda>it. key_or_empty R it)
            else Inr new_max) (\<lambda>new_max.
     Inr (s, new_min, new_max))))))"

text \<open>\<open>buff\<close> points into \<open>send_buff\<close>, at offset \<open>p\<close>.\<close>

definition store_impl_log_log ::
    "('db, 'it) rocksdb \<Rightarrow> 'db store_impl \<Rightarrow> LOG \<Rightarrow> nat \<Rightarrow> c_int \<Rightarrow> ('db store_impl \<times> c_int \<times> string list) result" where
  "store_impl_log_log R s l p send_len =
     bindr (new_iterator R (store_data_get_db (si_storeData s))) (\<lambda>it.
     case LOG_get_kind l of
       PUT \<Rightarrow>
         bindr (log_log_put R s it l) (\<lambda>(s, mn, mx).
         bindr (insert_str_to_buff (si_send_buff s) p mn send_len) (\<lambda>(buff, p, send_len).
         bindr (insert_str_to_buff buff p mx send_len) (\<lambda>(buff, p, send_len).
         Inr (s\<lparr>si_send_buff := buff\<rparr>, send_len, []))))
     | DELETE \<Rightarrow>
         bindr (log_log_delete R s it l) (\<lambda>(s, mn, mx).
         bindr (insert_str_to_buff (si_send_buff s) p mn send_len) (\<lambda>(buff, p, send_len).
         bindr (insert_str_to_buff buff p mx send_len) (\<lambda>(buff, p, send_len).
         Inr (s\<lparr>si_send_buff := buff\<rparr>, send_len, []))))
     | ERROR \<Rightarrow> Inr (s, send_len, [''log_error''])
     | Other_kind _ \<Rightarrow> Inr (s, send_len, []))"

subsection \<open>The loop\<close>

text \<open>
  One turn after the receive: whether the loop goes on, the new state, the length of the answer in
  \<open>send_buff\<close> if there is one, and what is printed.
\<close>

type_synonym 'db turn = "bool \<times> 'db store_impl \<times> c_int option \<times> string list"

definition answer_str :: "'db store_impl \<Rightarrow> string \<Rightarrow> ('db store_impl \<times> c_int) result" where
  "answer_str s str =
     bindr (insert_str_to_buff (si_send_buff s) 0 str 0) (\<lambda>(buff, _, total). Inr (s\<lparr>si_send_buff := buff\<rparr>, total))"

definition answer_int :: "'db store_impl \<Rightarrow> c_int \<Rightarrow> ('db store_impl \<times> c_int) result" where
  "answer_int s a =
     bindr (insert_int_to_buff (si_send_buff s) 0 a 0) (\<lambda>(buff, _, total). Inr (s\<lparr>si_send_buff := buff\<rparr>, total))"

definition answer_entry :: "'db store_impl \<Rightarrow> string \<times> string \<Rightarrow> ('db store_impl \<times> c_int) result" where
  "answer_entry s e =
     bindr (insert_str_to_buff (si_send_buff s) 0 (fst e) 0) (\<lambda>(buff, p, total).
     bindr (insert_str_to_buff buff p (snd e) total) (\<lambda>(buff, _, total).
     Inr (s\<lparr>si_send_buff := buff\<rparr>, total)))"

definition store_impl_handle :: "('db, 'it) rocksdb \<Rightarrow> 'db store_impl \<Rightarrow> 'db turn result" where
  "store_impl_handle R s =
     bindr (get_string_from_buff (si_receive_buff s) 0) (\<lambda>(command, tmp).
     if command = get_QUIT then Inr (False, s, None, [])
     else if command = get_GET then
       bindr (get_string_from_buff (si_receive_buff s) tmp) (\<lambda>(key, _).
       bindr (store_impl_get R s key) (\<lambda>val.
       bindr (answer_str s val) (\<lambda>(s, total_size).
       Inr (True, s, Some total_size, []))))
     else if command = get_LOG then
       bindr (LOG_of_buff (si_receive_buff s) tmp) (\<lambda>l.
       bindr (insert_str_to_buff (si_send_buff s) 0 get_OK 0) (\<lambda>(buff, send, send_len).
       bindr (store_impl_log_log R (s\<lparr>si_send_buff := buff\<rparr>) l send send_len) (\<lambda>(s, send_len, printed).
       Inr (True, s, Some send_len, printed))))
     else if command = get_COMMIT_LOG then
       bindr (answer_str s get_OK) (\<lambda>(s, send_len).
       bindr (store_impl_commit_log R s) (\<lambda>(s, printed).
       Inr (True, s, Some send_len, printed)))
     else if command = get_TEST then
       bindr (get_string_from_buff (si_receive_buff s) tmp) (\<lambda>(rec, _).
       Inr (True, s, None, [''receive '' @ rec]))
     else if command = get_SIZE then
       bindr (answer_int s (store_data_get_size (si_storeData s))) (\<lambda>(s, total_len).
       Inr (True, s, Some total_len, []))
     else if command = get_LESS_OR_EQUAL_ONE then
       bindr (store_impl_store_less_or_equal_one R s) (\<lambda>b.
       bindr (answer_int s (if b then 1 else 0)) (\<lambda>(s, total_len).
       Inr (True, s, Some total_len, [])))
     else if command = get_MAX_KEY then
       bindr (store_data_get_max_key R (si_storeData s) ([], [])) (\<lambda>e.
       bindr (answer_entry s e) (\<lambda>(s, total_len).
       Inr (True, s, Some total_len, [])))
     else if command = get_MIN_KEY then
       bindr (store_data_get_min_key R (si_storeData s) ([], [])) (\<lambda>e.
       bindr (answer_entry s e) (\<lambda>(s, total_len).
       Inr (True, s, Some total_len, [])))
     else if command = get_DEL_LOG then
       bindr (store_impl_delete_log R s) (\<lambda>s.
       bindr (answer_str s get_OK) (\<lambda>(s, send_len).
       Inr (True, s, Some send_len, [])))
     else Inr (True, s, None, []))"

definition store_impl_turn ::
    "('db, 'it) rocksdb \<Rightarrow> 'w os \<Rightarrow> 'db store_impl \<Rightarrow> 'w \<Rightarrow> (bool \<times> 'db store_impl \<times> string list \<times> 'w) result" where
  "store_impl_turn R N s w =
     bindr (net_file_receive_from N (si_connection s) (si_receive_buff s) w) (\<lambda>(r, rec, w).
     bindr (store_impl_handle R (s\<lparr>si_receive_buff := rec\<rparr>)) (\<lambda>(go_on, s, reply, printed).
     bindr (case reply of None \<Rightarrow> Inr w
            | Some len \<Rightarrow> net_file_send_to N (si_connection s) (si_send_buff s) len w) (\<lambda>w.
     Inr (go_on, s, to_string_int (sint r) # printed, w))))"

partial_function (option) store_impl_run ::
    "('db, 'it) rocksdb \<Rightarrow> 'w os \<Rightarrow> 'db store_impl \<Rightarrow> 'w \<Rightarrow> string list \<Rightarrow> ('db store_impl \<times> 'w \<times> string list) result option" where
  "store_impl_run R N s w printed =
     (case store_impl_turn R N s w of
        Inl e \<Rightarrow> Some (Inl e)
      | Inr (go_on, s', out, w') \<Rightarrow>
          if go_on then store_impl_run R N s' w' (printed @ out) else Some (Inr (s', w', printed @ out)))"

text \<open>The \<open>main\<close> of the store program, after parsing the port.\<close>

definition store_node_main ::
    "('db, 'it) rocksdb \<Rightarrow> 'w os \<Rightarrow> (nat \<Rightarrow> bytes) \<Rightarrow> c_int \<Rightarrow> 'w \<Rightarrow> ('db store_impl \<times> 'w \<times> string list) result option" where
  "store_node_main R N fresh port w =
     (case store_impl_open R N fresh (''data'' @ to_string_int (sint port)) (''log'' @ to_string_int (sint port)) port w of
        Inl e \<Rightarrow> Some (Inl e)
      | Inr (s, m, w) \<Rightarrow> store_impl_run R N s w m)"

section \<open>What a store node promises\<close>

text \<open>
  Keys and values the protocol can carry: not empty, free of NUL bytes, and short enough that a log
  request with a key and a value, an answer with two keys and an answer with an entry all fit a
  buffer of \<open>MAXLINE\<close> bytes.
\<close>

definition good_str :: "string \<Rightarrow> bool" where
  "good_str s \<longleftrightarrow> s \<noteq> [] \<and> nul_free s \<and> length s \<le> 20000"

record astore =
  as_data :: kv
  as_logs :: "LOG list"

definition kv_good :: "kv \<Rightarrow> bool" where
  "kv_good xs \<longleftrightarrow> kv_sorted xs \<and> (\<forall>(k, v) \<in> set xs. good_str k \<and> good_str v)"

definition good_log :: "LOG \<Rightarrow> bool" where
  "good_log l \<longleftrightarrow> good_str (log_key l) \<and>
     (log_kind l = PUT \<and> good_str (log_value l) \<or> log_kind l = DELETE \<and> log_value l = [])"

definition astore_ok :: "astore \<Rightarrow> bool" where
  "astore_ok a \<longleftrightarrow> kv_good (as_data a) \<and> (\<forall>l \<in> set (as_logs a). good_log l)"

datatype request =
    Req_get string
  | Req_log LOG
  | Req_commit
  | Req_test string
  | Req_size
  | Req_less_or_equal_one
  | Req_max
  | Req_min
  | Req_del_log

fun enc_request :: "request \<Rightarrow> bytes" where
  "enc_request (Req_get k) = enc_str get_GET @ enc_str k"
| "enc_request (Req_log l) = enc_str get_LOG @ enc_log l"
| "enc_request Req_commit = enc_str get_COMMIT_LOG"
| "enc_request (Req_test t) = enc_str get_TEST @ enc_str t"
| "enc_request Req_size = enc_str get_SIZE"
| "enc_request Req_less_or_equal_one = enc_str get_LESS_OR_EQUAL_ONE"
| "enc_request Req_max = enc_str get_MAX_KEY"
| "enc_request Req_min = enc_str get_MIN_KEY"
| "enc_request Req_del_log = enc_str get_DEL_LOG"

fun request_ok :: "request \<Rightarrow> bool" where
  "request_ok (Req_get k) \<longleftrightarrow> good_str k"
| "request_ok (Req_log l) \<longleftrightarrow> good_log l"
| "request_ok (Req_test t) \<longleftrightarrow> good_str t"
| "request_ok _ \<longleftrightarrow> True"

definition apply_log :: "LOG \<Rightarrow> kv \<Rightarrow> kv" where
  "apply_log l xs = (if log_kind l = PUT then kv_put (log_key l) (log_value l) xs else kv_del (log_key l) xs)"

definition first_entry :: "kv \<Rightarrow> string \<times> string" where
  "first_entry xs = (if xs = [] then ([], []) else hd xs)"

definition last_entry :: "kv \<Rightarrow> string \<times> string" where
  "last_entry xs = (if xs = [] then ([], []) else last xs)"

definition enc_entry :: "string \<times> string \<Rightarrow> bytes" where
  "enc_entry e = enc_str (fst e) @ enc_str (snd e)"

text \<open>
  The pending records of a node are ordered by their encoding, since that is the key they have in the
  log database; a record that is pending already is not added again. \<open>commit\<close> applies the first of
  them, which need not be the one logged last, and like \<open>del_log\<close> removes no more than that one.
\<close>

fun add_log :: "LOG \<Rightarrow> LOG list \<Rightarrow> LOG list" where
  "add_log l [] = [l]"
| "add_log l (m # ms) =
     (if enc_log l < enc_log m then l # m # ms else if enc_log l = enc_log m then l # ms else m # add_log l ms)"

definition log_kv :: "LOG list \<Rightarrow> kv" where
  "log_kv ls = map (\<lambda>l. (enc_log l, [])) ls"

text \<open>The answer to a request and the node's state after it.\<close>

fun store_spec :: "request \<Rightarrow> astore \<Rightarrow> bytes \<times> astore" where
  "store_spec (Req_get k) a = (enc_str (case kv_get k (as_data a) of Some v \<Rightarrow> v | None \<Rightarrow> []), a)"
| "store_spec (Req_log l) a =
     (let xs = apply_log l (as_data a) in
      (enc_str get_OK @ enc_str (fst (first_entry xs)) @ enc_str (fst (last_entry xs)), a\<lparr>as_logs := add_log l (as_logs a)\<rparr>))"
| "store_spec Req_commit a =
     (enc_str get_OK,
      \<lparr>as_data = (case as_logs a of [] \<Rightarrow> as_data a | l # _ \<Rightarrow> apply_log l (as_data a)), as_logs = tl (as_logs a)\<rparr>)"
| "store_spec (Req_test t) a = ([], a)"
| "store_spec Req_size a = (enc_int (word_of_nat (kv_bytes (as_data a))), a)"
| "store_spec Req_less_or_equal_one a = (enc_int (if length (as_data a) \<le> 1 then 1 else 0), a)"
| "store_spec Req_max a = (enc_entry (last_entry (as_data a)), a)"
| "store_spec Req_min a = (enc_entry (first_entry (as_data a)), a)"
| "store_spec Req_del_log a = (enc_str get_OK, a\<lparr>as_logs := tl (as_logs a)\<rparr>)"

section \<open>The key range after an update\<close>

lemma kv_put_first: "kv_sorted xs \<Longrightarrow> fst (hd (kv_put k v xs)) = (if xs = [] then k else min (fst (hd xs)) k)"
  by (cases "(k, v, xs)" rule: kv_put.cases) (auto simp: min_def)

lemma kv_put_last: "kv_sorted xs \<Longrightarrow> fst (last (kv_put k v xs)) = (if xs = [] then k else max k (fst (last xs)))"
proof (induction k v xs rule: kv_put.induct)
  case (2 k v k' v' xs)
  show ?case
  proof (cases "k' < k")
    case True
    then show ?thesis
      using 2 by (auto simp: max_def)
  next
    case False
    have "k' \<le> fst (last ((k', v') # xs))"
      using 2(2) by (intro kv_sorted_le_last) auto
    then show ?thesis
      using False by (auto simp: max_def)
  qed
qed simp

lemma kv_del_first:
  assumes "kv_sorted xs"
  shows "first_entry (kv_del k xs) =
    (if xs \<noteq> [] \<and> fst (hd xs) = k then first_entry (tl xs) else first_entry xs)"
proof (cases xs)
  case (Cons e ys)
  have "kv_del k ys = ys" if "fst e = k"
    using that assms Cons by (intro kv_del_absent) auto
  then show ?thesis
    using Cons by (auto simp: kv_del_def first_entry_def)
qed (simp add: kv_del_def)

lemma kv_del_last:
  assumes "kv_sorted xs"
  shows "last_entry (kv_del k xs) =
    (if xs \<noteq> [] \<and> fst (last xs) = k then last_entry (butlast xs) else last_entry xs)"
proof (cases xs rule: rev_cases)
  case (snoc ys e)
  have "kv_del k ys = ys" if "fst e = k"
    using that assms snoc by (intro kv_del_absent) (auto simp: kv_sorted_append)
  then show ?thesis
    using snoc by (auto simp: kv_del_def last_entry_def)
qed (simp add: kv_del_def)

lemma kv_good_sorted: "kv_good xs \<Longrightarrow> kv_sorted xs"
  by (simp add: kv_good_def)

lemma kv_good_put: "kv_good xs \<Longrightarrow> good_str k \<Longrightarrow> good_str v \<Longrightarrow> kv_good (kv_put k v xs)"
  using set_kv_put [of k v xs] by (fastforce simp: kv_good_def)

lemma kv_good_del: "kv_good xs \<Longrightarrow> kv_good (kv_del k xs)"
  by (auto simp: kv_good_def) (auto simp: kv_del_def)

lemma kv_good_apply: "kv_good xs \<Longrightarrow> good_log l \<Longrightarrow> kv_good (apply_log l xs)"
  by (auto simp: apply_log_def good_log_def kv_good_put kv_good_del)

lemma kv_good_entry: "kv_good xs \<Longrightarrow> e \<in> set xs \<Longrightarrow> good_str (fst e) \<and> good_str (snd e)"
  by (auto simp: kv_good_def)

definition short_str :: "string \<Rightarrow> bool" where
  "short_str s \<longleftrightarrow> nul_free s \<and> length s \<le> 20000"

lemma short_str_wire: "short_str s \<Longrightarrow> wire_str s"
  by (simp add: short_str_def wire_str_def MAXLINE_def)

lemma good_str_short: "good_str s \<Longrightarrow> short_str s"
  by (simp add: good_str_def short_str_def)

lemma short_str_simps [simp]: "short_str []" "short_str get_OK"
  by (simp_all add: short_str_def command_defs nul_free_def NUL_def)

lemma command_short [simp]:
  "short_str get_GET" "short_str get_LOG" "short_str get_COMMIT_LOG" "short_str get_TEST" "short_str get_SIZE"
  "short_str get_LESS_OR_EQUAL_ONE" "short_str get_MAX_KEY" "short_str get_MIN_KEY" "short_str get_DEL_LOG"
  by (simp_all add: short_str_def command_defs nul_free_def NUL_def)

lemma extreme_short:
  assumes "kv_good xs"
  shows "short_str (fst (first_entry xs))" "short_str (snd (first_entry xs))"
    "short_str (fst (last_entry xs))" "short_str (snd (last_entry xs))"
  using kv_good_entry [OF assms, of "hd xs"] kv_good_entry [OF assms, of "last xs"]
  by (auto simp: first_entry_def last_entry_def good_str_short)

lemma good_log_fits: "good_log l \<Longrightarrow> log_fits l"
  by (auto simp: good_log_def log_fits_def good_str_def MAXLINE_def nul_free_def)

section \<open>The loop body implements the promise\<close>

text \<open>The state after writing \<open>bs\<close> to the front of the send buffer.\<close>

lemma log_kv_simps [simp]: "log_kv [] = []" "log_kv (l # ls) = (enc_log l, []) # log_kv ls"
  by (simp_all add: log_kv_def)

lemma tl_log_kv [simp]: "tl (log_kv ls) = log_kv (tl ls)"
  by (simp add: log_kv_def map_tl)

lemma log_kv_add: "kv_put (enc_log l) [] (log_kv ls) = log_kv (add_log l ls)"
  by (induction l ls rule: add_log.induct) (simp_all add: log_kv_def)

lemma set_add_log: "m \<in> set (add_log l ls) \<Longrightarrow> m = l \<or> m \<in> set ls"
  by (induction l ls rule: add_log.induct) (auto split: if_splits)

definition sent :: "'db store_impl \<Rightarrow> bytes \<Rightarrow> 'db store_impl" where
  "sent s bs = s\<lparr>si_send_buff := bs @ drop (length bs) (si_send_buff s)\<rparr>"

lemma put_str_after:
  assumes "wire_str x" "length bs + length x + 5 \<le> length m"
  shows "insert_str_to_buff (bs @ drop (length bs) m) (length bs) x (word_of_nat (length bs)) =
    Inr ((bs @ enc_str x) @ drop (length (bs @ enc_str x)) m, length (bs @ enc_str x), word_of_nat (length (bs @ enc_str x)))"
  using str_codec.put_at [OF assms(1), of "length bs" bs "drop (length bs) m" "word_of_nat (length bs)"] assms(2)
  by (simp add: algebra_simps)

lemma put_str_front:
  assumes "wire_str x" "length x + 5 \<le> length m"
  shows "insert_str_to_buff m 0 x 0 = Inr (enc_str x @ drop (length (enc_str x)) m, length (enc_str x), word_of_nat (length (enc_str x)))"
  using put_str_after [OF assms(1), of "[]" m] assms(2) by simp

lemma answer_str_run:
  "length (si_send_buff s) = MAXLINE \<Longrightarrow> short_str x \<Longrightarrow>
    answer_str s x = Inr (sent s (enc_str x), word_of_nat (length (enc_str x)))"
  using put_str_front [of x "si_send_buff s"]
  by (simp add: answer_str_def sent_def short_str_wire) (simp add: short_str_def MAXLINE_def)

lemma answer_int_run:
  "length (si_send_buff s) = MAXLINE \<Longrightarrow>
    answer_int s a = Inr (sent s (enc_int a), word_of_nat (length (enc_int a)))"
  using int_codec.put_at [where x = a and p = 0 and pre = "[]" and rest = "si_send_buff s" and t = 0]
  by (simp add: answer_int_def sent_def MAXLINE_def)

lemma answer_entry_run:
  assumes "length (si_send_buff s) = MAXLINE" "short_str (fst e)" "short_str (snd e)"
  shows "answer_entry s e = Inr (sent s (enc_entry e), word_of_nat (length (enc_entry e)))"
  using put_str_front [of "fst e" "si_send_buff s"] put_str_after [of "snd e" "enc_str (fst e)" "si_send_buff s"] assms
  by (simp add: answer_entry_def sent_def enc_entry_def short_str_wire) (simp add: short_str_def MAXLINE_def)

definition store_rel :: "('db \<Rightarrow> kv) \<Rightarrow> 'db store_impl \<Rightarrow> astore \<Rightarrow> bool" where
  "store_rel content s a \<longleftrightarrow> sd_ok content (si_storeData s) \<and> data_content content (si_storeData s) = as_data a \<and>
     slog_ok (si_storeLog s) \<and>
     log_content content (si_storeLog s) = log_kv (as_logs a) \<and>
     length (si_receive_buff s) = MAXLINE \<and> length (si_send_buff s) = MAXLINE \<and> astore_ok a"

lemma store_rel_sent [simp]: "store_rel content s a \<Longrightarrow> length bs \<le> MAXLINE \<Longrightarrow> store_rel content (sent s bs) a"
  by (simp add: store_rel_def sent_def)

lemma sent_simps [simp]:
  "si_connection (sent s bs) = si_connection s" "si_storeData (sent s bs) = si_storeData s"
  "si_storeLog (sent s bs) = si_storeLog s" "si_receive_buff (sent s bs) = si_receive_buff s"
  by (simp_all add: sent_def)

lemma store_rel_buffers:
  "store_rel content s a \<Longrightarrow> length (si_receive_buff s) = MAXLINE"
  "store_rel content s a \<Longrightarrow> length (si_send_buff s) = MAXLINE"
  "store_rel content s a \<Longrightarrow> kv_good (as_data a)"
  by (simp_all add: store_rel_def astore_ok_def)

context rocksdb_api
begin

lemma key_or_empty_run:
  "cursor it = (xs, p) \<Longrightarrow> key_or_empty R it = Inr (case p of Some n \<Rightarrow> fst (xs ! n) | None \<Rightarrow> [])"
  using key_string_at [of it xs] by (auto simp: key_or_empty_def valid it_key_def split: option.splits)

lemma key_first: "key_or_empty R (It_SeekToFirst R it) = Inr (fst (first_entry (fst (cursor it))))"
  using key_or_empty_run [OF seek_first] by (simp add: first_entry_def hd_conv_nth)

lemma key_last: "key_or_empty R (It_SeekToLast R it) = Inr (fst (last_entry (fst (cursor it))))"
  using key_or_empty_run [OF seek_last] by (simp add: last_entry_def last_conv_nth)

lemma key_second:
  assumes "fst (cursor it) \<noteq> []"
  shows "\<exists>it'. it_next R (It_SeekToFirst R it) = Inr it' \<and> fst (cursor it') = fst (cursor it) \<and>
    key_or_empty R it' = Inr (fst (first_entry (tl (fst (cursor it)))))"
proof -
  let ?xs = "fst (cursor it)"
  have at: "cursor (It_SeekToFirst R it) = (?xs, Some 0)"
    using assms by (simp add: seek_first)
  show ?thesis
    using it_next_at [OF at] key_or_empty_run [of "It_Next R (It_SeekToFirst R it)" ?xs] assms
    by (cases ?xs; cases "tl ?xs") (auto simp: first_entry_def hd_conv_nth)
qed

lemma key_last_but_one:
  assumes "fst (cursor it) \<noteq> []"
  shows "\<exists>it'. it_prev R (It_SeekToLast R it) = Inr it' \<and>
    key_or_empty R it' = Inr (fst (last_entry (butlast (fst (cursor it)))))"
proof -
  let ?xs = "fst (cursor it)"
  have at: "cursor (It_SeekToLast R it) = (?xs, Some (length ?xs - 1))"
    using assms by (simp add: seek_last)
  have "?xs ! (length ?xs - 1 - 1) = last (butlast ?xs)" if "butlast ?xs \<noteq> []"
  proof -
    have "0 < length (butlast ?xs)"
      using that by blast
    then show ?thesis
      using that by (simp add: last_conv_nth nth_butlast)
  qed
  moreover have "butlast ?xs = [] \<longleftrightarrow> length ?xs - 1 = 0"
    by (metis length_0_conv length_butlast)
  ultimately show ?thesis
    using it_prev_at [OF at] key_or_empty_run [of "It_Prev R (It_SeekToLast R it)" ?xs]
    by (auto simp: last_entry_def)
qed

end

text \<open>
  Logging reads the entries and writes one record; \<open>sl\<close> is the log after that write, whether the
  database has taken the record or not.
\<close>

context rocksdb_api
begin

lemma log_log_put_run:
  assumes rel: "store_rel content s a" and l: "good_log l" "log_kind l = PUT"
    and it: "fst (cursor it) = as_data a"
    and wrote: "Store_Log_write_log R (si_storeLog s) (log_kind l) (log_key l) (log_value l) = Inr sl"
  shows "log_log_put R s it l = Inr (s\<lparr>si_storeLog := sl\<rparr>, fst (first_entry (apply_log l (as_data a))),
      fst (last_entry (apply_log l (as_data a))))"
proof -
  let ?xs = "as_data a"
  have good: "kv_good ?xs"
    using rel by (rule store_rel_buffers)
  have first: "fst (first_entry ?xs) = [] \<longleftrightarrow> ?xs = []"
    using kv_good_entry [OF good, of "hd ?xs"] by (auto simp: first_entry_def good_str_def)
  show ?thesis
    using wrote key_first [of it] key_last [of "It_SeekToFirst R it"] it first l(2)
      kv_put_first [OF kv_good_sorted [OF good], of "log_key l" "log_value l"]
      kv_put_last [OF kv_good_sorted [OF good], of "log_key l" "log_value l"]
    by (auto simp: log_log_put_def store_impl_log_put_def LOG_get_key_def LOG_get_value_def seek_first
        apply_log_def first_entry_def last_entry_def)
qed

lemma log_log_delete_run:
  assumes rel: "store_rel content s a" and l: "good_log l" "log_kind l = DELETE"
    and it: "fst (cursor it) = as_data a"
    and wrote: "Store_Log_write_log R (si_storeLog s) (log_kind l) (log_key l) (log_value l) = Inr sl"
  shows "log_log_delete R s it l = Inr (s\<lparr>si_storeLog := sl\<rparr>, fst (first_entry (apply_log l (as_data a))),
      fst (last_entry (apply_log l (as_data a))))"
proof -
  let ?xs = "as_data a" and ?k = "log_key l" and ?it = "It_SeekToLast R (It_SeekToFirst R it)"
  have sorted: "kv_sorted ?xs"
    using rel by (intro kv_good_sorted store_rel_buffers(3))
  have "log_value l = []" "?k \<noteq> []"
    using l by (auto simp: good_log_def good_str_def)
  then have sl: "Store_Log_write_log R (si_storeLog s) DELETE ?k [] = Inr sl"
    using wrote l(2) by simp
  have at: "fst (cursor ?it) = ?xs"
    by (simp add: seek_first seek_last it)
  have mn: "\<exists>it'. (if ?k = fst (first_entry ?xs)
      then bindr (it_next R (It_SeekToFirst R ?it)) (\<lambda>it. bindr (key_or_empty R it) (\<lambda>new_min. Inr (new_min, it)))
      else Inr (fst (first_entry ?xs), ?it)) = Inr (fst (first_entry (kv_del ?k ?xs)), it') \<and> fst (cursor it') = ?xs"
    using key_second [of ?it] at kv_del_first [OF sorted, of ?k] \<open>?k \<noteq> []\<close>
    by (cases "?xs = []") (auto simp: first_entry_def)
  have mx: "(if ?k = fst (last_entry ?xs) then bindr (it_prev R (It_SeekToLast R it')) (\<lambda>it. key_or_empty R it)
      else Inr (fst (last_entry ?xs))) = Inr (fst (last_entry (kv_del ?k ?xs)))" if "fst (cursor it') = ?xs" for it'
    using key_last_but_one [of it'] that kv_del_last [OF sorted, of ?k] \<open>?k \<noteq> []\<close>
    by (cases "?xs = []") (auto simp: last_entry_def)
  show ?thesis
    using sl key_first [of it] key_last [of "It_SeekToFirst R it"] it mn mx l(2)
    by (auto simp: log_log_delete_def store_impl_log_delete_def LOG_get_key_def seek_first apply_log_def Let_def)
qed

lemma log_log_run:
  assumes rel: "store_rel content s a" and l: "good_log l"
    and send: "si_send_buff s = enc_str get_OK @ drop (length (enc_str get_OK)) m" "length m = MAXLINE"
    and wrote: "Store_Log_write_log R (si_storeLog s) (log_kind l) (log_key l) (log_value l) = Inr sl"
  shows "store_impl_log_log R s l (length (enc_str get_OK)) (word_of_nat (length (enc_str get_OK))) =
      Inr (s\<lparr>si_storeLog := sl, si_send_buff := fst (store_spec (Req_log l) a) @ drop (length (fst (store_spec (Req_log l) a))) m\<rparr>,
        word_of_nat (length (fst (store_spec (Req_log l) a))), []) \<and>
    length (fst (store_spec (Req_log l) a)) \<le> MAXLINE"
proof -
  let ?xs = "apply_log l (as_data a)"
  let ?mn = "fst (first_entry ?xs)" and ?mx = "fst (last_entry ?xs)"
  have "kv_good ?xs"
    using kv_good_apply [OF store_rel_buffers(3) [OF rel] l] .
  note short = extreme_short [OF this]
  have fit: "length (enc_str get_OK) + length ?mn + 5 + length ?mx + 5 \<le> MAXLINE"
    using short by (simp add: short_str_def command_defs MAXLINE_def)
  have 1: "insert_str_to_buff (si_send_buff s) (length (enc_str get_OK)) ?mn (word_of_nat (length (enc_str get_OK))) =
      Inr ((enc_str get_OK @ enc_str ?mn) @ drop (length (enc_str get_OK @ enc_str ?mn)) m,
        length (enc_str get_OK @ enc_str ?mn), word_of_nat (length (enc_str get_OK @ enc_str ?mn)))"
    unfolding send(1) by (rule put_str_after) (use fit short send(2) in \<open>simp_all add: short_str_wire\<close>)
  have 2: "insert_str_to_buff ((enc_str get_OK @ enc_str ?mn) @ drop (length (enc_str get_OK @ enc_str ?mn)) m)
      (length (enc_str get_OK @ enc_str ?mn)) ?mx (word_of_nat (length (enc_str get_OK @ enc_str ?mn))) =
      Inr (((enc_str get_OK @ enc_str ?mn) @ enc_str ?mx) @ drop (length ((enc_str get_OK @ enc_str ?mn) @ enc_str ?mx)) m,
        length ((enc_str get_OK @ enc_str ?mn) @ enc_str ?mx), word_of_nat (length ((enc_str get_OK @ enc_str ?mn) @ enc_str ?mx)))"
    by (rule put_str_after) (use fit short send(2) in \<open>simp_all add: short_str_wire\<close>)
  obtain it where it: "DB_Handle.new_iterator R (sd_db_handle (si_storeData s)) = Inr it" "fst (cursor it) = as_data a"
    using new_iterator_run [of "sd_db_handle (si_storeData s)"] rel
    by (auto simp: store_rel_def sd_ok_def data_content_def)
  have "log_kind l = PUT \<or> log_kind l = DELETE"
    using l by (auto simp: good_log_def)
  then have sl: "log_kind l = PUT \<and> log_log_put R s it l = Inr (s\<lparr>si_storeLog := sl\<rparr>, ?mn, ?mx) \<or>
     log_kind l = DELETE \<and> log_log_delete R s it l = Inr (s\<lparr>si_storeLog := sl\<rparr>, ?mn, ?mx)"
    using log_log_put_run [OF rel l _ it(2) wrote] log_log_delete_run [OF rel l _ it(2) wrote] by blast
  then show ?thesis
    using it(1) 1 2 fit
    by (auto simp: store_impl_log_log_def store_data_get_db_def LOG_get_kind_def Let_def)
qed

lemma commit_nothing_run:
  assumes rel: "store_rel content s a" and none: "as_logs a = []"
  shows "store_impl_commit_log R s = Inr (s, [''log_error''])"
proof -
  have log: "slog_ok (si_storeLog s)" "log_content content (si_storeLog s) = []"
    using rel none by (simp_all add: store_rel_def log_kv_def)
  show ?thesis
    using get_log_empty [OF log] clear_log_empty [OF log]
    by (simp add: store_impl_commit_log_def store_impl_delete_log_def LOG_get_kind_def LOG_of_def)
qed

end

context rocksdb_reliable
begin

lemma log_put_run:
  assumes "store_rel content s a" "good_log l"
  shows "\<exists>sl. Store_Log_write_log R (si_storeLog s) (log_kind l) (log_key l) (log_value l) = Inr sl \<and>
    store_rel content (s\<lparr>si_storeLog := sl\<rparr>) (a\<lparr>as_logs := add_log l (as_logs a)\<rparr>)"
proof -
  have "LOG_of (log_kind l) (log_key l) (log_value l) = l"
    by (simp add: LOG_of_def)
  then show ?thesis
    using write_log_run [of "si_storeLog s" "log_kind l" "log_key l" "log_value l"] good_log_fits [OF assms(2)] assms
    by (auto simp: store_rel_def astore_ok_def log_kv_add dest: set_add_log)
qed

lemma commit_run:
  assumes rel: "store_rel content s a"
  shows "\<exists>s' out. store_impl_commit_log R s = Inr (s', out) \<and> store_rel content s' (snd (store_spec Req_commit a)) \<and>
    si_send_buff s' = si_send_buff s \<and> si_connection s' = si_connection s \<and> si_receive_buff s' = si_receive_buff s"
proof (cases "as_logs a")
  case Nil
  then have "snd (store_spec Req_commit a) = a"
    by simp
  then show ?thesis
    using commit_nothing_run [OF rel Nil] rel by simp
next
  case (Cons l ls)
  have l: "good_log l" and data: "kv_good (as_data a)"
    using rel Cons by (simp_all add: store_rel_def astore_ok_def)
  have get: "Store_Log_get_log R (si_storeLog s) = Inr l"
    using get_log_first [of "si_storeLog s" l "[]" "log_kv ls"] rel Cons good_log_fits [OF l] by (simp add: store_rel_def log_kv_def)
  obtain sl where sl: "Store_Log_clear_log R (si_storeLog s) = Inr sl" "slog_ok sl" "log_content content sl = log_kv ls"
    using clear_log_run [of "si_storeLog s"] rel Cons by (auto simp: store_rel_def log_kv_def)
  have "log_kind l = PUT \<and> log_value l \<noteq> [] \<or> log_kind l = DELETE"
    using l by (auto simp: good_log_def good_str_def)
  then show ?thesis
    using get sl rel Cons kv_good_apply [OF data l]
      sd_put_run [of "si_storeData s" "Data_of_strings (log_key l) (log_value l)"]
      sd_delete_run [of "si_storeData s" "log_key l"]
    by (auto simp: store_impl_commit_log_def store_impl_delete_log_def store_impl_put_def store_impl_delete_1_def
        LOG_get_kind_def LOG_get_key_def LOG_get_value_def Data_of_strings_def store_rel_def astore_ok_def apply_log_def)
qed

end

text \<open>
  A turn answers a request as promised: the loop goes on, the answer (if the request has one) is at
  the front of the send buffer, and the new state is related to \<open>b\<close>. Over a database that takes
  every write \<open>b\<close> is the promised state.
\<close>

fun has_reply :: "request \<Rightarrow> bool" where
  "has_reply (Req_test _) \<longleftrightarrow> False"
| "has_reply _ \<longleftrightarrow> True"

definition turn_keeps :: "('db \<Rightarrow> kv) \<Rightarrow> 'db store_impl \<Rightarrow> request \<Rightarrow> astore \<Rightarrow> astore \<Rightarrow> 'db turn result \<Rightarrow> bool" where
  "turn_keeps content s req a b r \<longleftrightarrow>
     (\<exists>s' out. r = Inr (True, s', if has_reply req then Some (word_of_nat (length (fst (store_spec req a)))) else None, out) \<and>
       (\<exists>rest. si_send_buff s' = fst (store_spec req a) @ rest) \<and> length (fst (store_spec req a)) \<le> MAXLINE \<and>
       store_rel content s' b \<and> si_connection s' = si_connection s \<and> si_receive_buff s' = si_receive_buff s)"

lemma commands_distinct:
  "distinct [get_DEL_LOG, get_MIN_KEY, get_MAX_KEY, get_LESS_OR_EQUAL_ONE, get_SIZE, get_TEST, get_COMMIT_LOG,
     get_LOG, get_GET, get_QUIT]"
  by (simp add: command_defs)

lemma command_at:
  "si_receive_buff s = enc_str c @ rest \<Longrightarrow> short_str c \<Longrightarrow>
    get_string_from_buff (si_receive_buff s) 0 = Inr (c, length (enc_str c))"
  using get_string_at [of 0 "[]" c rest] by (simp add: short_str_wire)

lemma argument_at:
  "si_receive_buff s = enc_str c @ enc_str k @ rest \<Longrightarrow> short_str k \<Longrightarrow>
    get_string_from_buff (si_receive_buff s) (length (enc_str c)) = Inr (k, length (enc_str c) + length (enc_str k))"
  using get_string_at [of "length (enc_str c)" "enc_str c" k rest] by (simp add: short_str_wire)

text \<open>The branch of the loop body a command word selects.\<close>

lemmas dispatch = store_impl_handle_def commands_distinct [simplified]

context rocksdb_readable
begin

lemma handle_get_run:
  assumes rel: "store_rel content s a" and "good_str k"
    and rec: "si_receive_buff s = enc_request (Req_get k) @ rest"
  shows "turn_keeps content s (Req_get k) a a (store_impl_handle R s)"
proof -
  let ?v = "case kv_get k (as_data a) of Some v \<Rightarrow> v | None \<Rightarrow> []"
  have v: "short_str ?v"
  proof (cases "kv_get k (as_data a)")
    case (Some v)
    then have "(k, v) \<in> set (as_data a)"
      by (simp add: kv_get_def map_of_SomeD)
    then show ?thesis
      using kv_good_entry [OF store_rel_buffers(3) [OF rel]] Some by (auto intro: good_str_short)
  qed simp
  have "store_data_get R (si_storeData s) k = Inr ?v"
    using sd_get_run [of "si_storeData s" k] rel by (simp add: store_rel_def)
  moreover have "length (enc_str ?v) \<le> MAXLINE"
    using v by (simp add: short_str_def MAXLINE_def)
  ultimately show ?thesis
    using command_at [of s get_GET "enc_str k @ rest"] argument_at [of s get_GET k rest]
      answer_str_run [OF store_rel_buffers(2) [OF rel] v] rel rec good_str_short [OF assms(2)]
    by (simp add: dispatch turn_keeps_def store_impl_get_def del: length_enc_str) (simp add: sent_def)
qed

lemma handle_log_by:
  assumes rel: "store_rel content s a" and l: "good_log l"
    and rec: "si_receive_buff s = enc_request (Req_log l) @ rest"
    and wrote: "Store_Log_write_log R (si_storeLog s) (log_kind l) (log_key l) (log_value l) = Inr sl"
      "store_rel content (s\<lparr>si_storeLog := sl\<rparr>) b"
  shows "turn_keeps content s (Req_log l) a b (store_impl_handle R s)"
proof -
  let ?ok = "enc_str get_OK" and ?reply = "fst (store_spec (Req_log l) a)"
  have read: "LOG_of_buff (si_receive_buff s) (length (enc_str get_LOG)) = Inr l"
    using LOG_of_buff_at [OF good_log_fits [OF l], of "length (enc_str get_LOG)" "enc_str get_LOG" rest] rec by simp
  have ok: "insert_str_to_buff (si_send_buff s) 0 get_OK 0 = Inr (si_send_buff (sent s ?ok), length ?ok, word_of_nat (length ?ok))"
    using put_str_front [of get_OK "si_send_buff s"] store_rel_buffers(2) [OF rel]
    by (simp add: sent_def short_str_wire) (simp add: command_defs MAXLINE_def)
  have "length ?ok \<le> MAXLINE"
    by (simp add: command_defs MAXLINE_def)
  then have rel': "store_rel content (sent s ?ok) a"
    using rel by simp
  have ss: "s\<lparr>si_send_buff := si_send_buff (sent s ?ok)\<rparr> = sent s ?ok"
    by (simp add: sent_def)
  have sl: "store_impl_log_log R (sent s ?ok) l (length ?ok) (word_of_nat (length ?ok)) =
      Inr ((sent s ?ok)\<lparr>si_storeLog := sl, si_send_buff := ?reply @ drop (length ?reply) (si_send_buff s)\<rparr>,
        word_of_nat (length ?reply), [])" "length ?reply \<le> MAXLINE"
    using log_log_run [OF rel' l, of "si_send_buff s" sl] wrote(1) store_rel_buffers(2) [OF rel] by (simp_all add: sent_def)
  have "store_rel content ((sent s ?ok)\<lparr>si_storeLog := sl, si_send_buff := ?reply @ drop (length ?reply) (si_send_buff s)\<rparr>)
b"
    using sl(2) wrote(2) store_rel_buffers(2) [OF rel] by (simp add: store_rel_def Let_def)
  then have "turn_keeps content s (Req_log l) a b (Inr (True, (sent s ?ok)\<lparr>si_storeLog := sl,
      si_send_buff := ?reply @ drop (length ?reply) (si_send_buff s)\<rparr>, Some (word_of_nat (length ?reply)), []))"
    using sl(2) by (auto simp: turn_keeps_def simp del: store_spec.simps)
  then show ?thesis
    using command_at [of s get_LOG "enc_log l @ rest"] rec read
    by (simp add: dispatch ok ss sl(1) del: length_enc_str store_spec.simps)
qed

lemma handle_commit_by:
  assumes rel: "store_rel content s a"
    and rec: "si_receive_buff s = enc_request Req_commit @ rest"
    and commit: "\<And>s1. store_rel content s1 a \<Longrightarrow> \<exists>s' out. store_impl_commit_log R s1 = Inr (s', out) \<and> store_rel content s' b \<and>
      si_send_buff s' = si_send_buff s1 \<and> si_connection s' = si_connection s1 \<and> si_receive_buff s' = si_receive_buff s1"
  shows "turn_keeps content s Req_commit a b (store_impl_handle R s)"
proof -
  have "length (enc_str get_OK) \<le> MAXLINE"
    by (simp add: command_defs MAXLINE_def)
  then obtain s' out where "store_impl_commit_log R (sent s (enc_str get_OK)) = Inr (s', out)"
    "store_rel content s' b" "si_send_buff s' = si_send_buff (sent s (enc_str get_OK))"
    "si_connection s' = si_connection s" "si_receive_buff s' = si_receive_buff s"
    using commit [of "sent s (enc_str get_OK)"] rel by auto
  then show ?thesis
    using command_at [of s get_COMMIT_LOG rest] answer_str_run [OF store_rel_buffers(2) [OF rel], of get_OK] rec
      \<open>length (enc_str get_OK) \<le> MAXLINE\<close>
    by (simp add: dispatch turn_keeps_def del: length_enc_str) (simp add: sent_def)
qed

lemma handle_del_log_by:
  assumes rel: "store_rel content s a"
    and rec: "si_receive_buff s = enc_request Req_del_log @ rest"
    and clear: "Store_Log_clear_log R (si_storeLog s) = Inr sl" "store_rel content (s\<lparr>si_storeLog := sl\<rparr>) b"
  shows "turn_keeps content s Req_del_log a b (store_impl_handle R s)"
proof -
  have len: "length (enc_str get_OK) \<le> MAXLINE"
    by (simp add: command_defs MAXLINE_def)
  have sl: "store_impl_delete_log R s = Inr (s\<lparr>si_storeLog := sl\<rparr>)"
    using clear(1) by (simp add: store_impl_delete_log_def)
  have "store_rel content (sent (s\<lparr>si_storeLog := sl\<rparr>) (enc_str get_OK)) b"
    using len clear(2) by simp
  then show ?thesis
    using command_at [of s get_DEL_LOG rest] answer_str_run [OF store_rel_buffers(2) [OF clear(2)], of get_OK] rec len sl
    by (simp add: dispatch turn_keeps_def del: length_enc_str) (simp add: sent_def)
qed

lemma handle_test_run:
  assumes rel: "store_rel content s a" and "good_str t" and rec: "si_receive_buff s = enc_request (Req_test t) @ rest"
  shows "turn_keeps content s (Req_test t) a a (store_impl_handle R s)"
  using command_at [of s get_TEST "enc_str t @ rest"] argument_at [of s get_TEST t rest] assms good_str_short [OF assms(2)]
  by (simp add: dispatch turn_keeps_def del: length_enc_str)

lemma handle_size_run:
  assumes rel: "store_rel content s a" and rec: "si_receive_buff s = enc_request Req_size @ rest"
  shows "turn_keeps content s Req_size a a (store_impl_handle R s)"
proof -
  have "store_data_get_size (si_storeData s) = word_of_nat (kv_bytes (as_data a))"
    using rel by (simp add: store_rel_def sd_ok_def store_data_get_size_def)
  then show ?thesis
    using command_at [of s get_SIZE rest] answer_int_run [OF store_rel_buffers(2) [OF rel]] rel rec
    by (simp add: dispatch turn_keeps_def MAXLINE_def del: length_enc_str) (simp add: sent_def)
qed

lemma handle_leo_run:
  assumes rel: "store_rel content s a" and rec: "si_receive_buff s = enc_request Req_less_or_equal_one @ rest"
  shows "turn_keeps content s Req_less_or_equal_one a a (store_impl_handle R s)"
proof -
  have "store_impl_store_less_or_equal_one R s = Inr (length (as_data a) \<le> 1)"
    using less_or_equal_one_run [of "sd_db_handle (si_storeData s)"] rel
    by (simp add: store_impl_store_less_or_equal_one_def store_data_get_db_def store_rel_def sd_ok_def data_content_def)
  then show ?thesis
    using command_at [of s get_LESS_OR_EQUAL_ONE rest] answer_int_run [OF store_rel_buffers(2) [OF rel]] rel rec
    by (simp add: dispatch turn_keeps_def MAXLINE_def del: length_enc_str) (simp add: sent_def)
qed

lemma handle_max_run:
  assumes rel: "store_rel content s a" and rec: "si_receive_buff s = enc_request Req_max @ rest"
  shows "turn_keeps content s Req_max a a (store_impl_handle R s)"
proof -
  note short = extreme_short [OF store_rel_buffers(3) [OF rel]]
  have "store_data_get_max_key R (si_storeData s) ([], []) = Inr (last_entry (as_data a))"
    using sd_max_key_run [of "si_storeData s"] rel by (simp add: store_rel_def sd_ok_def last_entry_def)
  moreover have "length (enc_entry (last_entry (as_data a))) \<le> MAXLINE"
    using short by (simp add: enc_entry_def short_str_def MAXLINE_def)
  ultimately show ?thesis
    using command_at [of s get_MAX_KEY rest] answer_entry_run [OF store_rel_buffers(2) [OF rel] short(3,4)] rel rec
    by (simp add: dispatch turn_keeps_def del: length_enc_str) (simp add: sent_def)
qed

lemma handle_min_run:
  assumes rel: "store_rel content s a" and rec: "si_receive_buff s = enc_request Req_min @ rest"
  shows "turn_keeps content s Req_min a a (store_impl_handle R s)"
proof -
  note short = extreme_short [OF store_rel_buffers(3) [OF rel]]
  have "store_data_get_min_key R (si_storeData s) ([], []) = Inr (first_entry (as_data a))"
    using sd_min_key_run [of "si_storeData s"] rel by (simp add: store_rel_def sd_ok_def first_entry_def)
  moreover have "length (enc_entry (first_entry (as_data a))) \<le> MAXLINE"
    using short by (simp add: enc_entry_def short_str_def MAXLINE_def)
  ultimately show ?thesis
    using command_at [of s get_MIN_KEY rest] answer_entry_run [OF store_rel_buffers(2) [OF rel] short(1,2)] rel rec
    by (simp add: dispatch turn_keeps_def del: length_enc_str) (simp add: sent_def)
qed

end

lemma length_enc_request: "request_ok req \<Longrightarrow> length (enc_request req) \<le> MAXLINE"
proof (cases req)
  case (Req_log l)
  then show "request_ok req \<Longrightarrow> length (enc_request req) \<le> MAXLINE"
    by (auto simp: length_enc_log good_log_def good_str_def command_defs MAXLINE_def)
qed (simp_all add: good_str_def command_defs MAXLINE_def)

text \<open>One turn on a chunk that starts with a request; whatever follows the request is ignored.\<close>

definition turn_spec :: "'w os \<Rightarrow> net_file \<Rightarrow> request \<Rightarrow> astore \<Rightarrow> 'w \<Rightarrow> 'w option" where
  "turn_spec N f req a w =
     (if has_reply req then os_send N w (connect_fd f) (fst (store_spec req a)) else Some w)"

text \<open>How a turn ends: the process goes on, or the answer meets a closed connection.\<close>

definition turn_end :: "'w option \<Rightarrow> 'db store_impl \<Rightarrow> string list \<Rightarrow> (bool \<times> 'db store_impl \<times> string list \<times> 'w) result" where
  "turn_end w' s' out = (case w' of None \<Rightarrow> Inl Broken_pipe | Some w' \<Rightarrow> Inr (True, s', out, w'))"

lemma turn_end_simps [simp]:
  "turn_end None s' out = Inl Broken_pipe"
  "turn_end (Some w') s' out = Inr (True, s', out, w')"
  by (simp_all add: turn_end_def)

text \<open>
  What the loop relies on of its database: every request is handled with the promised answer, and
  \<open>after\<close> tells the state behind it, as long as the state \<open>holds\<close> some condition the requests keep.
\<close>

locale node_service = rocksdb_readable R content cursor
  for R :: "('db, 'it) rocksdb" and content cursor +
  fixes holds :: "astore \<Rightarrow> bool" and after :: "request \<Rightarrow> astore \<Rightarrow> astore"
  assumes handled: "store_rel content s a \<Longrightarrow> holds a \<Longrightarrow> request_ok req \<Longrightarrow> si_receive_buff s = enc_request req @ rest \<Longrightarrow>
      turn_keeps content s req a (after req a) (store_impl_handle R s)"
    and kept: "holds a \<Longrightarrow> request_ok req \<Longrightarrow> holds (after req a)"
begin

lemma turn_run_buffer:
  assumes rel: "store_rel content s a" and holds: "holds a" and req: "request_ok req"
    and recv: "os_recv N w (connect_fd (si_connection s)) MAXLINE = Some (r, bs, w1)" "length bs \<le> MAXLINE"
    and buff: "bs @ drop (length bs) (si_receive_buff s) = enc_request req @ rest"
  shows "\<exists>s' out. store_impl_turn R N s w = turn_end (turn_spec N (si_connection s) req a w1) s' out \<and>
    store_rel content s' (after req a) \<and> si_connection s' = si_connection s \<and>
    si_receive_buff s' = enc_request req @ rest"
proof -
  let ?s = "s\<lparr>si_receive_buff := enc_request req @ rest\<rparr>" and ?reply = "fst (store_spec req a)"
  have len: "length (enc_request req @ rest) = MAXLINE"
    using arg_cong [OF buff, of length] recv(2) store_rel_buffers(1) [OF rel] by simp
  then have rel': "store_rel content ?s a"
    using rel by (simp add: store_rel_def)
  obtain s' out rest' where s': "store_impl_handle R ?s = Inr (True, s', if has_reply req then Some (word_of_nat (length ?reply)) else None, out)"
    "si_send_buff s' = ?reply @ rest'" "length ?reply \<le> MAXLINE" "store_rel content s' (after req a)"
    "si_connection s' = si_connection s" "si_receive_buff s' = enc_request req @ rest"
    using handled [OF rel' holds req] by (auto simp: turn_keeps_def)
  have "net_file_receive_from N (si_connection s) (si_receive_buff s) w = Inr (word_of_int r, enc_request req @ rest, w1)"
    using receive_from_front [OF recv(1), of "si_receive_buff s"] recv(2) store_rel_buffers(1) [OF rel] buff by simp
  then show ?thesis
    using s' send_to_front [OF s'(3) refl, of N "si_connection s" rest' w1]
    by (auto simp: store_impl_turn_def turn_spec_def turn_end_def simp del: store_spec.simps split: option.splits)
qed

lemma turn_run_chunk:
  assumes "store_rel content s a" "holds a" "request_ok req"
    "os_recv N w (connect_fd (si_connection s)) MAXLINE = Some (r, enc_request req @ extra, w1)"
    "length (enc_request req @ extra) \<le> MAXLINE"
  shows "\<exists>s' out. store_impl_turn R N s w = turn_end (turn_spec N (si_connection s) req a w1) s' out \<and>
    store_rel content s' (after req a) \<and> si_connection s' = si_connection s"
  using turn_run_buffer [OF assms, of "extra @ drop (length (enc_request req @ extra)) (si_receive_buff s)"] by auto

end

context rocksdb_reliable
begin

lemma handle_run:
  assumes rel: "store_rel content s a" and "request_ok req" "si_receive_buff s = enc_request req @ rest"
  shows "turn_keeps content s req a (snd (store_spec req a)) (store_impl_handle R s)"
proof (cases req)
  case (Req_log l)
  then show ?thesis
    using handle_log_by [OF rel, of l rest] log_put_run [OF rel, of l] assms(2,3) by (auto simp: Let_def simp del: enc_request.simps)
next
  case Req_commit
  then show ?thesis
    using handle_commit_by [OF rel, of rest] commit_run assms(3) by (simp del: enc_request.simps store_spec.simps)
next
  case Req_del_log
  have "\<forall>l \<in> set (tl (as_logs a)). good_log l"
    using rel by (cases "as_logs a") (simp_all add: store_rel_def astore_ok_def)
  then obtain sl where "Store_Log_clear_log R (si_storeLog s) = Inr sl"
    "store_rel content (s\<lparr>si_storeLog := sl\<rparr>) (a\<lparr>as_logs := tl (as_logs a)\<rparr>)"
    using clear_log_run [of "si_storeLog s"] rel by (auto simp: store_rel_def astore_ok_def)
  then show ?thesis
    using handle_del_log_by [OF rel, of rest sl] assms(3) Req_del_log by (simp del: enc_request.simps)
qed (use assms in \<open>auto intro: handle_get_run handle_test_run handle_size_run handle_leo_run handle_max_run handle_min_run
    simp del: enc_request.simps\<close>)

end

text \<open>Over a reliable database a request leaves the promised state.\<close>

sublocale rocksdb_reliable \<subseteq> steady: node_service R content cursor "\<lambda>_. True" "\<lambda>req a. snd (store_spec req a)"
  by unfold_locales (auto intro: handle_run simp del: enc_request.simps store_spec.simps)

context rocksdb_reliable
begin

lemmas turn_run_buffer = steady.turn_run_buffer [OF _ TrueI]
lemmas turn_run_chunk = steady.turn_run_chunk [OF _ TrueI]

end

text \<open>
  The loop on a connection the peer has closed: \<open>recv\<close> delivers nothing and leaves the buffer alone, so
  the request in it is executed again. What ends the process is the signal that the answers meet: no
  more than \<open>rank\<close> of them go through. A request without an answer is executed for ever.
\<close>

definition hung_up :: "'w os \<Rightarrow> c_int \<Rightarrow> ('w \<Rightarrow> nat) \<Rightarrow> bool" where
  "hung_up N fd rank \<longleftrightarrow>
     (\<forall>w. \<exists>r w1. os_recv N w fd MAXLINE = Some (r, [], w1) \<and> rank w1 \<le> rank w) \<and>
     (\<forall>w bs w1. os_send N w fd bs = Some w1 \<longrightarrow> rank w1 < rank w)"

context rocksdb_reliable
begin

lemma hung_up_turn:
  assumes "hung_up N (connect_fd (si_connection s)) rank" "store_rel content s a" "request_ok req"
    "si_receive_buff s = enc_request req @ rest"
  obtains r w1 s' out where "os_recv N w (connect_fd (si_connection s)) MAXLINE = Some (r, [], w1)" "rank w1 \<le> rank w"
    "store_impl_turn R N s w = turn_end (turn_spec N (si_connection s) req a w1) s' out"
    "store_rel content s' (snd (store_spec req a))" "si_connection s' = si_connection s" "si_receive_buff s' = enc_request req @ rest"
proof -
  obtain r w1 where recv: "os_recv N w (connect_fd (si_connection s)) MAXLINE = Some (r, [], w1)" "rank w1 \<le> rank w"
    using assms(1) unfolding hung_up_def by blast
  then show thesis
    using turn_run_buffer [OF assms(2,3) recv(1), of rest] assms(4) that by auto
qed

lemma hung_up_answer_ends:
  assumes "hung_up N (connect_fd (si_connection s)) rank" "store_rel content s a" "request_ok req" "has_reply req"
    "si_receive_buff s = enc_request req @ rest"
  shows "store_impl_run R N s w printed = Some (Inl Broken_pipe)"
  using assms
proof (induction "rank w" arbitrary: w s a printed rule: less_induct)
  case less
  obtain r w1 s' out where turn: "rank w1 \<le> rank w"
    "store_impl_turn R N s w = turn_end (turn_spec N (si_connection s) req a w1) s' out"
    "store_rel content s' (snd (store_spec req a))" "si_connection s' = si_connection s" "si_receive_buff s' = enc_request req @ rest"
    by (rule hung_up_turn [OF less.prems(1-3,5), of w])
  show ?case
  proof (cases "turn_spec N (si_connection s) req a w1")
    case None
    then show ?thesis
      using turn(2) by (subst store_impl_run.simps) simp
  next
    case (Some w2)
    then have "rank w2 < rank w"
      using less.prems(1,4) turn(1) by (fastforce simp: turn_spec_def hung_up_def)
    then have "store_impl_run R N s' w2 (printed @ out) = Some (Inl Broken_pipe)"
      using less.hyps [OF _ _ turn(3)] less.prems turn(4,5) by simp
    then show ?thesis
      using turn(2) Some by (subst store_impl_run.simps) simp
  qed
qed

lemma hung_up_silent_diverges:
  assumes "hung_up N fd rank" and req: "request_ok req" "\<not> has_reply req"
  shows "store_rel content s a \<and> connect_fd (si_connection s) = fd \<and>
    si_receive_buff s = enc_request req @ rest \<Longrightarrow> store_impl_run R N s w printed = None"
proof -
  let ?I = "\<lambda>s. \<exists>a. store_rel content s a \<and> connect_fd (si_connection s) = fd \<and>
    si_receive_buff s = enc_request req @ rest"
  have step: "\<exists>s' out w'. store_impl_turn R N s w = Inr (True, s', out, w') \<and> ?I s'" if I: "?I s" for s w
  proof -
    obtain a where a: "store_rel content s a" "connect_fd (si_connection s) = fd"
      "si_receive_buff s = enc_request req @ rest"
      using I by blast
    then have "hung_up N (connect_fd (si_connection s)) rank"
      using assms(1) by simp
    from hung_up_turn [OF this a(1) req(1) a(3), of w] show ?thesis
      using a(2) req(2) by (simp add: turn_spec_def) metis
  qed
  have "\<not> ?I s" if run: "store_impl_run R N s w printed = Some y" for s w printed y
  proof -
    have "R = R \<and> N = N \<longrightarrow> \<not> ?I s"
    proof (rule store_impl_run.raw_induct [where P = "\<lambda>R' N' s w printed y. R' = R \<and> N' = N \<longrightarrow> \<not> ?I s", OF _ run], intro impI notI)
      fix run R' N' s w printed y
      assume IH: "\<And>R' N' s w printed y. run R' N' s w printed = Some y \<Longrightarrow> R' = R \<and> N' = N \<longrightarrow> \<not> ?I s"
        and body: "(case store_impl_turn R' N' s w of Inl e \<Rightarrow> Some (Inl e)
          | Inr (go_on, s', out, w') \<Rightarrow> if go_on then run R' N' s' w' (printed @ out) else Some (Inr (s', w', printed @ out))) = Some y"
        and same: "R' = R \<and> N' = N" and I: "?I s"
      obtain s' out w' where "store_impl_turn R N s w = Inr (True, s', out, w')" "?I s'"
        using step [OF I] by blast
      then show False
        using IH [of R N s' w'] body same by fastforce
    qed
    then show ?thesis by simp
  qed
  moreover assume "store_rel content s a \<and> connect_fd (si_connection s) = fd \<and>
    si_receive_buff s = enc_request req @ rest"
  ultimately show "store_impl_run R N s w printed = None"
    by (cases "store_impl_run R N s w printed") blast+
qed

end

text \<open>A store node over the association-list database.\<close>

definition ref_store :: "kv \<Rightarrow> kv store_impl" where
  "ref_store d = \<lparr>si_connection = \<lparr>connect_fd = 4\<rparr>, si_storeData = ref_sdata d, si_storeLog = ref_slog [],
     si_receive_buff = replicate MAXLINE NUL, si_send_buff = replicate MAXLINE NUL\<rparr>"

lemma ref_store_rel:
  assumes "kv_good d"
  shows "store_rel ref_content (ref_store d) \<lparr>as_data = d, as_logs = []\<rparr>"
proof -
  have d: "ref_content d = d"
    using assms by (simp add: ref_content_def kv_good_def)
  have "values_nonempty d"
    using assms by (auto simp: values_nonempty_def kv_good_def good_str_def)
  then show ?thesis
    using assms ref_sdata_ok [of d] ref_slog_ok [of "[]"] ref_sdata_content [of d]
    by (simp add: store_rel_def ref_store_def astore_ok_def d) (simp add: ref_content_def)
qed

lemma ref_store_connection: "si_connection (ref_store d) = \<lparr>connect_fd = 4\<rparr>"
  by (simp add: ref_store_def)

section \<open>Properties\<close>

text \<open>
  C7: the loop body of a store node refines its specification: on a received request it sends exactly
  the specified answer, ends in a state related to the specified one and goes on, for every request of
  the protocol and without any fault, unless the connection is closed and the answer ends the process.
\<close>

theorem store_turn_refines_spec:
  assumes "rocksdb_reliable R content cursor" "store_rel content s a" "request_ok req"
    "os_recv N w (connect_fd (si_connection s)) MAXLINE = Some (r, enc_request req, w1)"
  shows "\<exists>s' out. store_impl_turn R N s w =
      (case (if has_reply req then os_send N w1 (connect_fd (si_connection s)) (fst (store_spec req a)) else Some w1) of
         None \<Rightarrow> Inl Broken_pipe | Some w' \<Rightarrow> Inr (True, s', out, w')) \<and>
    store_rel content s' (snd (store_spec req a))"
proof -
  have "length (enc_request req @ []) \<le> MAXLINE" "os_recv N w (connect_fd (si_connection s)) MAXLINE = Some (r, enc_request req @ [], w1)"
    using assms(4) length_enc_request [OF assms(3)] by simp_all
  from rocksdb_reliable.turn_run_chunk [OF assms(1-3) this(2,1)] show ?thesis
    unfolding turn_spec_def turn_end_def by blast
qed

theorem store_turn_refines_spec_witness:
  "\<exists>s' out w'. store_impl_turn ref_R pipe_os (ref_store [(''a'', ''x'')]) ([enc_request (Req_get ''a'')], []) = Inr (True, s', out, w') \<and>
    store_rel ref_content s' \<lparr>as_data = [(''a'', ''x'')], as_logs = []\<rparr> \<and> w' = ([], [enc_str ''x''])"
proof -
  let ?a = "\<lparr>as_data = [(''a'', ''x'')], as_logs = []\<rparr>"
  have rel: "store_rel ref_content (ref_store [(''a'', ''x'')]) ?a"
    by (rule ref_store_rel) (simp add: kv_good_def good_str_def nul_free_def NUL_def)
  have req: "request_ok (Req_get ''a'')"
    by (simp add: good_str_def nul_free_def NUL_def)
  show ?thesis
    using store_turn_refines_spec [OF ref_R_reliable rel req, of pipe_os "([enc_request (Req_get ''a'')], [])"]
      length_enc_request [OF req]
    by (simp add: kv_get_def)
qed

text \<open>
  C9: logging an update leaves the data alone and answers the first and the last key the data will
  have; committing then applies exactly that update and empties the log.
\<close>

theorem log_then_commit_applies:
  assumes "rocksdb_reliable R content cursor" "store_rel content s \<lparr>as_data = xs, as_logs = []\<rparr>" "good_log l"
  shows "\<exists>s1 o1 w1 s2 o2 w2.
    store_impl_turn R pipe_os s ([enc_request (Req_log l), enc_request Req_commit], []) = Inr (True, s1, o1, w1) \<and>
    data_content content (si_storeData s1) = xs \<and>
    store_impl_turn R pipe_os s1 w1 = Inr (True, s2, o2, w2) \<and>
    data_content content (si_storeData s2) =
      (if log_kind l = PUT then kv_put (log_key l) (log_value l) xs else kv_del (log_key l) xs) \<and>
    log_content content (si_storeLog s2) = [] \<and>
    w2 = ([], [enc_strs [get_OK, fst (first_entry (data_content content (si_storeData s2))),
                         fst (last_entry (data_content content (si_storeData s2)))], enc_strs [get_OK]])"
proof -
  let ?a = "\<lparr>as_data = xs, as_logs = []\<rparr>" and ?a1 = "\<lparr>as_data = xs, as_logs = [l]\<rparr>"
  have ok: "request_ok (Req_log l)" "request_ok Req_commit"
    using assms(3) by simp_all
  note lens = length_enc_request [OF ok(1)] length_enc_request [OF ok(2)]
  obtain s1 o1 where s1: "store_impl_turn R pipe_os s ([enc_request (Req_log l), enc_request Req_commit], []) =
      Inr (True, s1, o1, ([enc_request Req_commit], [fst (store_spec (Req_log l) ?a)]))"
    "store_rel content s1 ?a1"
    using rocksdb_reliable.turn_run_chunk [OF assms(1,2) ok(1), where N = pipe_os and extra = "[]"
        and w = "([enc_request (Req_log l), enc_request Req_commit], [])"] lens
    by (auto simp: turn_spec_def Let_def simp del: enc_request.simps)
  obtain s2 o2 where s2: "store_impl_turn R pipe_os s1 ([enc_request Req_commit], [fst (store_spec (Req_log l) ?a)]) =
      Inr (True, s2, o2, ([], [fst (store_spec (Req_log l) ?a), enc_str get_OK]))"
    "store_rel content s2 \<lparr>as_data = apply_log l xs, as_logs = []\<rparr>"
    using rocksdb_reliable.turn_run_chunk [OF assms(1) s1(2) ok(2), where N = pipe_os and extra = "[]"
        and w = "([enc_request Req_commit], [fst (store_spec (Req_log l) ?a)])"] lens
    by (auto simp: turn_spec_def simp del: enc_request.simps)
  show ?thesis
    using s1 s2 by (simp add: store_rel_def apply_log_def Let_def enc_strs_def)
qed

theorem log_then_commit_applies_witness:
  "\<exists>s1 o1 w1 s2 o2 w2.
    store_impl_turn ref_R pipe_os (ref_store [(''b'', ''x'')])
      ([enc_request (Req_log (LOG_of PUT ''a'' ''y'')), enc_request Req_commit], []) = Inr (True, s1, o1, w1) \<and>
    store_impl_turn ref_R pipe_os s1 w1 = Inr (True, s2, o2, w2) \<and>
    data_content ref_content (si_storeData s2) = [(''a'', ''y''), (''b'', ''x'')] \<and>
    w2 = ([], [enc_strs [''ok'', ''a'', ''b''], enc_strs [''ok'']])"
proof -
  have rel: "store_rel ref_content (ref_store [(''b'', ''x'')]) \<lparr>as_data = [(''b'', ''x'')], as_logs = []\<rparr>"
    by (rule ref_store_rel) (simp add: kv_good_def good_str_def nul_free_def NUL_def)
  have l: "good_log (LOG_of PUT ''a'' ''y'')"
    by (simp add: good_log_def LOG_of_def good_str_def nul_free_def NUL_def)
  from log_then_commit_applies [OF ref_R_reliable rel l] show ?thesis
    by (fastforce simp: LOG_of_def first_entry_def last_entry_def get_OK_def)
qed

text \<open>
  C34: a request that arrives in one chunk with a \<open>test\<close> request before it is lost: the node executes
  the \<open>test\<close> request, ignores the rest of the chunk, and sends no answer.
\<close>

theorem requests_in_one_chunk_are_lost:
  assumes "rocksdb_reliable R content cursor" "store_rel content s a" "good_str t"
    "length (enc_request (Req_test t) @ enc_request req) \<le> MAXLINE"
  shows "\<exists>s' out. store_impl_turn R pipe_os s ([enc_request (Req_test t) @ enc_request req], []) = Inr (True, s', out, ([], [])) \<and>
    store_rel content s' a"
proof -
  have "request_ok (Req_test t)"
    using assms(3) by simp
  from rocksdb_reliable.turn_run_chunk [OF assms(1,2) this, where N = pipe_os and extra = "enc_request req"
      and w = "([enc_request (Req_test t) @ enc_request req], [])"] assms(4)
  show ?thesis
    by (auto simp: turn_spec_def simp del: enc_request.simps)
qed

theorem requests_in_one_chunk_are_lost_witness:
  "\<exists>s' out. store_impl_turn ref_R pipe_os (ref_store []) ([enc_request (Req_test ''t'') @ enc_request Req_size], [])
      = Inr (True, s', out, ([], []))"
proof -
  have rel: "store_rel ref_content (ref_store []) \<lparr>as_data = [], as_logs = []\<rparr>"
    by (rule ref_store_rel) (simp add: kv_good_def)
  have t: "good_str ''t''"
    by (simp add: good_str_def nul_free_def NUL_def)
  have "length (enc_request (Req_test ''t'') @ enc_request Req_size) \<le> MAXLINE"
    by (simp add: command_defs MAXLINE_def)
  from requests_in_one_chunk_are_lost [OF ref_R_reliable rel t this] show ?thesis
    by blast
qed

text \<open>
  C36: when the control node has closed the connection, which is how every session ends, a store node
  does not return: the 0 of \<open>recv\<close> is not looked at, so the request left in the buffer is executed
  again. If it has an answer, the answers meet a closed connection until one of them ends the process
  by \<open>SIGPIPE\<close>; the states in between are those of the repeated request. If it has none, the loop never
  ends. Hypotheses: \<open>recv\<close> delivers nothing any more, and only finitely many answers get through, at
  most \<open>rank\<close>.
\<close>

theorem store_never_returns_after_eof:
  assumes "rocksdb_reliable R content cursor" "hung_up N (connect_fd (si_connection s)) rank"
    "store_rel content s a" "request_ok req" "si_receive_buff s = enc_request req @ rest"
  shows "store_impl_run R N s w printed = (if has_reply req then Some (Inl Broken_pipe) else None) \<and>
    (\<exists>r w1 s' out. os_recv N w (connect_fd (si_connection s)) MAXLINE = Some (r, [], w1) \<and>
      store_impl_turn R N s w =
        (case (if has_reply req then os_send N w1 (connect_fd (si_connection s)) (fst (store_spec req a)) else Some w1) of
           None \<Rightarrow> Inl Broken_pipe | Some w' \<Rightarrow> Inr (True, s', out, w')) \<and>
      store_rel content s' (snd (store_spec req a)) \<and> si_receive_buff s' = enc_request req @ rest)"
proof
  show "store_impl_run R N s w printed = (if has_reply req then Some (Inl Broken_pipe) else None)"
    using rocksdb_reliable.hung_up_answer_ends [OF assms(1-4)] rocksdb_reliable.hung_up_silent_diverges [OF assms(1,2,4)] assms(3,5)
    by simp
  show "\<exists>r w1 s' out. os_recv N w (connect_fd (si_connection s)) MAXLINE = Some (r, [], w1) \<and>
      store_impl_turn R N s w =
        (case (if has_reply req then os_send N w1 (connect_fd (si_connection s)) (fst (store_spec req a)) else Some w1) of
           None \<Rightarrow> Inl Broken_pipe | Some w' \<Rightarrow> Inr (True, s', out, w')) \<and>
      store_rel content s' (snd (store_spec req a)) \<and> si_receive_buff s' = enc_request req @ rest"
    by (rule rocksdb_reliable.hung_up_turn [OF assms, of w]) (unfold turn_spec_def turn_end_def, blast)
qed

text \<open>A connection closed by the peer on which \<open>n\<close> answers can still be sent.\<close>

definition closed_os :: "nat os" where
  "closed_os =
     \<lparr>os_socket = (\<lambda>w. (3, w)), os_connect = (\<lambda>w fd a. (0, w)), os_setsockopt = (\<lambda>w fd n. (0, w)),
      os_bind = (\<lambda>w fd a. (0, w)), os_listen = (\<lambda>w fd n. (0, w)), os_accept = (\<lambda>w fd. (4, w)),
      os_send = (\<lambda>w fd bs. if w = 0 then None else Some (w - 1)), os_recv = (\<lambda>w fd n. Some (0, [], w)),
      os_inet_pton = (\<lambda>_. Some 0), os_errno = (\<lambda>_. 0), os_strerror = (\<lambda>_. [])\<rparr>"

lemma closed_os_hung_up: "hung_up closed_os fd (\<lambda>w. w)"
  by (auto simp: hung_up_def closed_os_def split: if_splits)

lemma ref_store_buffer:
  assumes "kv_good d" "length bs \<le> MAXLINE"
  shows "store_rel ref_content ((ref_store d)\<lparr>si_receive_buff := bs @ replicate (MAXLINE - length bs) NUL\<rparr>) \<lparr>as_data = d, as_logs = []\<rparr>"
  using ref_store_rel [OF assms(1)] assms(2) by (simp add: store_rel_def)

text \<open>The last request was \<open>size\<close>, and one more answer gets through; or it was \<open>test\<close>.\<close>

theorem store_never_returns_after_eof_witness:
  "store_impl_run ref_R closed_os
     ((ref_store [])\<lparr>si_receive_buff := enc_request Req_size @ replicate (MAXLINE - length (enc_request Req_size)) NUL\<rparr>) 1 [] =
       Some (Inl Broken_pipe) \<and>
   store_impl_run ref_R closed_os
     ((ref_store [])\<lparr>si_receive_buff := enc_request (Req_test ''t'') @ replicate (MAXLINE - length (enc_request (Req_test ''t''))) NUL\<rparr>) 1 [] =
       None"
proof -
  have good: "kv_good []" "request_ok Req_size" "request_ok (Req_test ''t'')"
    by (simp_all add: kv_good_def good_str_def nul_free_def NUL_def)
  note rel = ref_store_buffer [OF good(1) length_enc_request [OF good(2)]] ref_store_buffer [OF good(1) length_enc_request [OF good(3)]]
  show ?thesis
    using store_never_returns_after_eof [OF ref_R_reliable closed_os_hung_up rel(1) good(2), of _ 1 "[]"]
      store_never_returns_after_eof [OF ref_R_reliable closed_os_hung_up rel(2) good(3), of _ 1 "[]"]
    by simp
qed

end
