(* ===== verification/Routing.thy ===== *)
theory Routing
  imports Prelude
begin

text \<open>
  How a key-ordered map is spread over the nodes: node \<open>i\<close> holds a sorted segment, and a list of
  separators (the least keys of the meta entries) says which node a key belongs to. The facts say
  what inserting, deleting and moving an entry to a neighbour does to the separators and to the
  whole map, the concatenation of the segments.
\<close>

section \<open>Segments and separators\<close>

definition separators :: "string list \<Rightarrow> kv list \<Rightarrow> bool" where
  "separators ms xss \<longleftrightarrow> sorted_wrt (<) ms \<and> length ms = length xss \<and>
     (\<forall>i < length xss. kv_sorted (xss ! i)) \<and>
     (\<forall>i < length xss. \<forall>k \<in> set (kv_keys (xss ! i)). \<forall>j < length xss. ms ! j \<le> k \<longleftrightarrow> j \<le> i)"

text \<open>The node responsible for a key: the last separator at or below it, or the first node.\<close>

definition owner :: "string list \<Rightarrow> string \<Rightarrow> nat" where
  "owner ms k = length (takeWhile (\<lambda>m. m \<le> k) ms) - 1"

lemma sorted_nth_le: "sorted_wrt (<) (ms :: string list) \<Longrightarrow> i \<le> j \<Longrightarrow> j < length ms \<Longrightarrow> ms ! i \<le> ms ! j"
  using sorted_wrt_nth_less [of "(<)" ms i j] by (cases "i = j") auto

lemma owner_less: "ms \<noteq> [] \<Longrightarrow> owner ms k < length ms"
  using length_takeWhile_le [of "\<lambda>m. m \<le> k" ms] by (cases ms) (auto simp: owner_def less_Suc_eq_le)

lemma owner_iff:
  assumes "sorted_wrt (<) ms" "j < length ms"
  shows "ms ! j \<le> k \<longleftrightarrow> j \<le> owner ms k \<and> ms ! 0 \<le> k"
proof -
  let ?n = "length (takeWhile (\<lambda>m. m \<le> k) ms)"
  have le: "ms ! j \<le> k \<longleftrightarrow> j < ?n"
  proof
    assume "j < ?n"
    then have "takeWhile (\<lambda>m. m \<le> k) ms ! j \<in> set (takeWhile (\<lambda>m. m \<le> k) ms)"
      by (rule nth_mem)
    then show "ms ! j \<le> k"
      using \<open>j < ?n\<close> by (auto simp: takeWhile_nth dest: set_takeWhileD)
  next
    assume "ms ! j \<le> k"
    show "j < ?n"
    proof (rule ccontr)
      assume "\<not> j < ?n"
      then have n: "?n < length ms" "\<not> ms ! ?n \<le> k"
        using assms(2) nth_length_takeWhile [of "\<lambda>m. m \<le> k" ms] by auto
      have "ms ! ?n \<le> ms ! j"
        using \<open>\<not> j < ?n\<close> by (intro sorted_nth_le assms) simp
      with n(2) \<open>ms ! j \<le> k\<close> show False
        by (metis order_trans)
    qed
  qed
  have "0 < ?n \<longleftrightarrow> ms ! 0 \<le> k"
    using assms(2) by (cases ms) auto
  moreover have "j < ?n \<longleftrightarrow> j \<le> ?n - 1 \<and> 0 < ?n"
    by linarith
  ultimately show ?thesis
    using le by (simp add: owner_def)
qed

lemma owner_first: "\<not> ms ! 0 \<le> k \<Longrightarrow> owner ms k = 0"
  by (cases ms) (auto simp: owner_def)

lemma separators_D:
  assumes "separators ms xss"
  shows "sorted_wrt (<) ms" "length ms = length xss" "i < length xss \<Longrightarrow> kv_sorted (xss ! i)"
    "i < length xss \<Longrightarrow> j < length xss \<Longrightarrow> e \<in> set (xss ! i) \<Longrightarrow> ms ! j \<le> fst e \<longleftrightarrow> j \<le> i"
  using assms by (auto simp: separators_def)

lemma separators_I:
  assumes "sorted_wrt (<) ms" "length ms = length xss" "\<And>i. i < length xss \<Longrightarrow> kv_sorted (xss ! i)"
    "\<And>i j e. i < length xss \<Longrightarrow> j < length xss \<Longrightarrow> e \<in> set (xss ! i) \<Longrightarrow> ms ! j \<le> fst e \<longleftrightarrow> j \<le> i"
  shows "separators ms xss"
  using assms by (simp add: separators_def)

section \<open>The whole map\<close>

lemma concat_split: "i < length xss \<Longrightarrow> concat xss = concat (take i xss) @ xss ! i @ concat (drop (Suc i) xss)"
  by (subst id_take_nth_drop [of i xss]) simp_all

lemma concat_update:
  "i < length xss \<Longrightarrow> concat (xss[i := ys]) = concat (take i xss) @ ys @ concat (drop (Suc i) xss)"
  by (simp add: upd_conv_take_nth_drop)

lemma set_concat_take:
  assumes "e \<in> set (concat (take i xss))"
  shows "\<exists>j < i. j < length xss \<and> e \<in> set (xss ! j)"
proof -
  obtain xs where "xs \<in> set (take i xss)" and e: "e \<in> set xs"
    using assms by auto
  then obtain j where "j < i" "j < length xss" "xs = xss ! j"
    by (auto simp: in_set_conv_nth)
  with e show ?thesis by blast
qed

lemma set_concat_drop:
  assumes "e \<in> set (concat (drop (Suc i) xss))"
  shows "\<exists>j > i. j < length xss \<and> e \<in> set (xss ! j)"
proof -
  obtain xs where "xs \<in> set (drop (Suc i) xss)" and e: "e \<in> set xs"
    using assms by auto
  then obtain j where "j < length xss - Suc i" "xs = xss ! (Suc i + j)"
    by (auto simp: in_set_conv_nth)
  with e show ?thesis
    by (intro exI [of _ "Suc i + j"]) auto
qed

lemma kv_put_segment:
  assumes "\<And>e. e \<in> set pre \<Longrightarrow> fst e < k" "\<And>e. e \<in> set post \<Longrightarrow> k < fst e"
  shows "kv_put k v (pre @ xs @ post) = pre @ kv_put k v xs @ post"
  using assms(1)
proof (induction pre)
  case Nil
  have "kv_put k v (xs @ post) = kv_put k v xs @ post"
  proof (induction xs)
    case Nil
    then show ?case
      using assms(2) [of "hd post"] by (cases post) auto
  qed auto
  then show ?case by simp
next
  case (Cons e pre)
  then have "fst e < k"
    by simp
  then show ?case
    using Cons by (cases e) auto
qed

lemma kv_del_segment:
  assumes "\<And>e. e \<in> set pre \<Longrightarrow> fst e \<noteq> k" "\<And>e. e \<in> set post \<Longrightarrow> fst e \<noteq> k"
  shows "kv_del k (pre @ xs @ post) = pre @ kv_del k xs @ post"
  using assms by (simp add: kv_del_def)

lemma kv_get_segment:
  assumes "\<And>e. e \<in> set pre \<Longrightarrow> fst e \<noteq> k" "\<And>e. e \<in> set post \<Longrightarrow> fst e \<noteq> k"
  shows "kv_get k (pre @ xs @ post) = kv_get k xs"
proof -
  have "map_of pre k = None" "map_of post k = None"
    using assms by (auto simp: map_of_eq_None_iff)
  then show ?thesis
    by (auto simp: kv_get_def map_add_def split: option.splits)
qed

text \<open>The entries before and after the segment of a key's owner are below and above the key.\<close>

lemma owner_around:
  assumes sep: "separators ms xss" and "xss \<noteq> []"
  shows "e \<in> set (concat (take (owner ms k) xss)) \<Longrightarrow> fst e < k"
    and "e \<in> set (concat (drop (Suc (owner ms k)) xss)) \<Longrightarrow> k < fst e"
proof -
  let ?i = "owner ms k"
  have i: "?i < length xss"
    using owner_less [of ms k] separators_D(2) [OF sep] assms(2) by fastforce
  note iff = owner_iff [OF separators_D(1) [OF sep]] separators_D(4) [OF sep]
  show "fst e < k" if before: "e \<in> set (concat (take ?i xss))"
  proof -
    obtain j where j: "j < ?i" "j < length xss" "e \<in> set (xss ! j)"
      using set_concat_take [OF before] by blast
    then have "ms ! ?i \<le> k"
      using iff(1) [of ?i k] owner_first [of ms k] i separators_D(2) [OF sep] by fastforce
    moreover have "\<not> ms ! ?i \<le> fst e"
      using iff(2) [of j ?i e] j i by simp
    ultimately show ?thesis by simp
  qed
  show "k < fst e" if after: "e \<in> set (concat (drop (Suc ?i) xss))"
  proof -
    obtain j where j: "?i < j" "j < length xss" "e \<in> set (xss ! j)"
      using set_concat_drop [OF after] by blast
    then have "\<not> ms ! j \<le> k"
      using iff(1) [of j k] separators_D(2) [OF sep] by simp
    moreover have "ms ! j \<le> fst e"
      using iff(2) [of j j e] j by simp
    ultimately show ?thesis by simp
  qed
qed

lemma owner_length: "separators ms xss \<Longrightarrow> xss \<noteq> [] \<Longrightarrow> owner ms k < length xss"
  using owner_less [of ms k] separators_D(2) [of ms xss] by fastforce

text \<open>The node that holds an entry is the owner of its key.\<close>

lemma owner_of_entry:
  assumes sep: "separators ms xss" and i: "i < length xss" and e: "e \<in> set (xss ! i)"
  shows "owner ms (fst e) = i"
proof -
  let ?o = "owner ms (fst e)"
  have iff: "ms ! j \<le> fst e \<longleftrightarrow> j \<le> i" if "j < length xss" for j
    using separators_D(4) [OF sep i that e] .
  have pos: "0 < length xss"
    using i by (rule le_less_trans [OF le0])
  then have "ms ! 0 \<le> fst e"
    using iff [of 0] by simp
  then have "j \<le> ?o \<longleftrightarrow> j \<le> i" if "j < length xss" for j
    using owner_iff [OF separators_D(1) [OF sep], of j "fst e"] iff [OF that] that separators_D(2) [OF sep] by simp
  moreover have "?o < length xss"
    using owner_length [OF sep] pos by simp
  ultimately show ?thesis
    using i by (metis order.antisym order.refl)
qed

lemma owner_put:
  assumes "separators ms xss" "xss \<noteq> []"
  shows "concat (xss[owner ms k := kv_put k v (xss ! owner ms k)]) = kv_put k v (concat xss)"
  unfolding concat_update [OF owner_length [OF assms]] concat_split [OF owner_length [OF assms], of k]
  by (rule kv_put_segment [OF owner_around [OF assms], symmetric])

lemma owner_del:
  assumes "separators ms xss" "xss \<noteq> []"
  shows "concat (xss[owner ms k := kv_del k (xss ! owner ms k)]) = kv_del k (concat xss)"
  unfolding concat_update [OF owner_length [OF assms]] concat_split [OF owner_length [OF assms], of k]
  by (rule kv_del_segment [symmetric])
    (use owner_around [OF assms, of _ k] in fastforce)+

lemma owner_get:
  assumes "separators ms xss" "xss \<noteq> []"
  shows "kv_get k (xss ! owner ms k) = kv_get k (concat xss)"
  unfolding concat_split [OF owner_length [OF assms], of k]
  by (rule kv_get_segment [symmetric])
    (use owner_around [OF assms, of _ k] in fastforce)+

section \<open>Updates keep the separators\<close>

lemma nth_upd: "j < length xs \<Longrightarrow> xs[i := v] ! j = (if i = j then v else xs ! j)"
  by (cases "i < length xs") (auto simp: nth_list_update)

lemma sorted_update:
  assumes "sorted_wrt (<) (ms :: string list)" "\<And>j. j < i \<Longrightarrow> ms ! j < p" "\<And>j. i < j \<Longrightarrow> j < length ms \<Longrightarrow> p < ms ! j"
  shows "sorted_wrt (<) (ms[i := p])"
  using assms by (auto simp: sorted_wrt_iff_nth_less nth_upd)

lemma separators_shrink:
  assumes "separators ms xss" "kv_sorted ys" "set ys \<subseteq> set (xss ! i)"
  shows "separators ms (xss[i := ys])"
proof (rule separators_I)
  fix i' j e
  assume "i' < length (xss[i := ys])" "j < length (xss[i := ys])" "e \<in> set (xss[i := ys] ! i')"
  then show "ms ! j \<le> fst e \<longleftrightarrow> j \<le> i'"
    using separators_D(4) [OF assms(1), of i' j e] assms(3) by (auto simp: nth_upd split: if_splits)
next
  fix i'
  assume "i' < length (xss[i := ys])"
  then show "kv_sorted (xss[i := ys] ! i')"
    using separators_D(3) [OF assms(1), of i'] assms(2) by (auto simp: nth_upd)
qed (use separators_D [OF assms(1)] in auto)

lemma separators_put:
  assumes sep: "separators ms xss" and "xss \<noteq> []" and i: "i = owner ms k"
  shows "separators (ms[i := min (ms ! i) k]) (xss[i := kv_put k v (xss ! i)])"
proof -
  let ?p = "min (ms ! i) k"
  have len: "i < length xss" "length ms = length xss"
    using owner_length [OF assms(1,2)] separators_D(2) [OF sep] i by simp_all
  note iff = owner_iff [OF separators_D(1) [OF sep], of _ k, folded i]
  have p: "?p = ms ! i" if "ms ! 0 \<le> k"
    using iff [of i] that len by (simp add: min_def)
  have below: "i = 0" if "\<not> ms ! 0 \<le> k"
    using owner_first [OF that] i by simp
  have lower: "ms[i := ?p] ! j \<le> x \<longleftrightarrow> ms ! j \<le> x" if "j < length xss" "e \<in> set (xss ! i')" "i' < length xss" "x = fst e" for i' j e x
  proof (cases "ms ! 0 \<le> k")
    case True
    then show ?thesis using p by simp
  next
    case False
    then have "ms ! 0 \<le> x"
      using separators_D(4) [OF sep, of i' 0 e] that assms(2) by simp
    then show ?thesis
      using below [OF False] that len by (auto simp: nth_upd min_def)
  qed
  have own: "ms[i := ?p] ! j \<le> k \<longleftrightarrow> j \<le> i" if "j < length xss" for j
    using iff [of j] that len below by (cases "ms ! 0 \<le> k") (auto simp: nth_upd p)
  show ?thesis
  proof (rule separators_I)
    show "sorted_wrt (<) (ms[i := ?p])"
    proof (cases "ms ! 0 \<le> k")
      case False
      then have k: "i = 0" "?p = k" "k < ms ! 0"
        using below by (simp_all add: min_def)
      show ?thesis
      proof (rule sorted_update [OF separators_D(1) [OF sep]])
        show "?p < ms ! j" if "i < j" "j < length ms" for j
          using sorted_nth_le [OF separators_D(1) [OF sep], of 0 j] that k by (simp add: less_le_trans)
      qed (use k in simp)
    qed (simp add: p separators_D(1) [OF sep])
    show "kv_sorted (xss[i := kv_put k v (xss ! i)] ! i')" if "i' < length (xss[i := kv_put k v (xss ! i)])" for i'
      using that separators_D(3) [OF sep, of i'] by (auto simp: nth_upd)
    show "ms[i := ?p] ! j \<le> fst e \<longleftrightarrow> j \<le> i'"
      if "i' < length (xss[i := kv_put k v (xss ! i)])" "j < length (xss[i := kv_put k v (xss ! i)])"
        "e \<in> set (xss[i := kv_put k v (xss ! i)] ! i')" for i' j e
    proof (cases "fst e = k \<and> i' = i")
      case True
      then show ?thesis using own that by simp
    next
      case False
      have "e \<in> set (xss ! i')"
        using that False set_kv_put [of k v "xss ! i"] by (auto simp: nth_upd split: if_splits)
      then show ?thesis
        using lower [of j e i'] separators_D(4) [OF sep, of i' j e] that by simp
    qed
  qed (use len in simp)
qed

text \<open>A separator may be raised up to the first key of its segment.\<close>

lemma separators_raise:
  assumes sep: "separators ms xss" and i: "i < length xss" and ne: "xss ! i \<noteq> []"
  shows "separators (ms[i := fst (hd (xss ! i))]) xss"
proof -
  let ?p = "fst (hd (xss ! i))"
  have p: "ms ! j \<le> ?p \<longleftrightarrow> j \<le> i" if "j < length xss" for j
    using separators_D(4) [OF sep i that, of "hd (xss ! i)"] ne by simp
  have first: "?p \<le> fst e" if "e \<in> set (xss ! i)" for e
    using kv_sorted_hd_le [OF separators_D(3) [OF sep i], of "fst e"] that by simp
  have len: "length ms = length xss"
    using separators_D(2) [OF sep] .
  have p_iff: "?p \<le> fst e \<longleftrightarrow> i \<le> i'" if e: "i' < length xss" "e \<in> set (xss ! i')" for i' e
  proof (cases i' i rule: linorder_cases)
    case less
    then have "\<not> ms ! i \<le> fst e"
      using separators_D(4) [OF sep e(1) i e(2)] by simp
    then show ?thesis
      using p [OF i] less by (auto dest: order_trans)
  next
    case equal
    then show ?thesis using first e by simp
  next
    case greater
    then have "ms ! i' \<le> fst e" "\<not> ms ! i' \<le> ?p"
      using separators_D(4) [OF sep e(1) e(1) e(2)] p [OF e(1)] by simp_all
    then show ?thesis using greater by auto
  qed
  show ?thesis
  proof (rule separators_I)
    show "sorted_wrt (<) (ms[i := ?p])"
    proof (rule sorted_update [OF separators_D(1) [OF sep]])
      show "ms ! j < ?p" if "j < i" for j
        using sorted_wrt_nth_less [OF separators_D(1) [OF sep] that] len i p [OF i] by (auto intro: less_le_trans)
      show "?p < ms ! j" if "i < j" "j < length ms" for j
        using p [of j] that len by auto
    qed
    show "ms[i := ?p] ! j \<le> fst e \<longleftrightarrow> j \<le> i'" if "i' < length xss" "j < length xss" "e \<in> set (xss ! i')" for i' j e
      using p_iff [OF that(1,3)] separators_D(4) [OF sep that] len that(2) by (cases "i = j") (simp_all add: nth_upd)
  qed (use separators_D [OF sep] in auto)
qed

text \<open>The last entry of a segment moves to the front of the next one.\<close>

lemma separators_up:
  assumes sep: "separators ms xss" and i: "Suc i < length xss" and x: "xss ! i = x @ [e]" "x \<noteq> []"
  shows "separators (ms[Suc i := fst e]) (xss[i := x, Suc i := e # xss ! Suc i])"
    and "concat (xss[i := x, Suc i := e # xss ! Suc i]) = concat xss"
proof -
  let ?yss = "xss[i := x, Suc i := e # xss ! Suc i]"
  have len: "length ms = length xss"
    using separators_D(2) [OF sep] .
  have e: "ms ! j \<le> fst e \<longleftrightarrow> j \<le> i" if "j < length xss" for j
    using separators_D(4) [OF sep, of i j e] that i x by simp
  have sx: "kv_sorted (x @ [e])"
    using separators_D(3) [OF sep, of i] i x by simp
  then have below: "fst a < fst e" if "a \<in> set x" for a
    using that by (simp add: kv_sorted_append)
  have above: "fst e < fst a" if "a \<in> set (xss ! i')" "i < i'" "i' < length xss" for a i'
    using separators_D(4) [OF sep, of i' i' a] e [of i'] that by (auto simp: not_le)
  have before: "fst a < fst e" if "a \<in> set (xss ! i')" "i' < i" for a i'
    using separators_D(4) [OF sep, of i' i a] e [of i] that i by (auto simp: not_le)
  have cells: "?yss ! i' = (if i' = i then x else if i' = Suc i then e # xss ! Suc i else xss ! i')" if "i' < length xss" for i'
    using that by (auto simp: nth_upd)
  show "separators (ms[Suc i := fst e]) ?yss"
  proof (rule separators_I)
    show "sorted_wrt (<) (ms[Suc i := fst e])"
    proof (rule sorted_update [OF separators_D(1) [OF sep]])
      show "fst e < ms ! j" if "Suc i < j" "j < length ms" for j
        using e [of j] that len by (auto simp: not_le)
      have "ms ! i < fst e"
        using separators_D(4) [OF sep, of i i "hd x"] below [of "hd x"] i x by (auto intro: le_less_trans)
      moreover have "ms ! j \<le> ms ! i" if "j < Suc i" for j
        using that i len by (intro sorted_nth_le separators_D(1) [OF sep]) simp_all
      ultimately show "ms ! j < fst e" if "j < Suc i" for j
        using that by (blast intro: le_less_trans)
    qed
    show "kv_sorted (?yss ! i')" if "i' < length ?yss" for i'
      using that sx separators_D(3) [OF sep, of i'] above [of _ "Suc i"] i by (auto simp: cells kv_sorted_append)
    show "ms[Suc i := fst e] ! j \<le> fst a \<longleftrightarrow> j \<le> i'"
      if a: "i' < length ?yss" "j < length ?yss" "a \<in> set (?yss ! i')" for i' j a
    proof (cases "a = e \<and> i' = Suc i")
      case True
      then show ?thesis
        using e [of j] that len by (auto simp: nth_upd)
    next
      case False
      then have old: "a \<in> set (xss ! i')" and ne: "i' = i \<Longrightarrow> a \<in> set x"
        using a x by (auto simp: cells split: if_splits)
      then have "fst e \<le> fst a \<longleftrightarrow> i < i'"
        using above [OF old] before [OF old] below a(1) by (cases i' i rule: linorder_cases) (auto simp: not_le less_imp_le)
      then show ?thesis
        using separators_D(4) [OF sep, of i' j a] old a len by (auto simp: nth_upd)
    qed
  qed (use len in simp)
  have "concat xss = concat (take i xss) @ (xss ! i) @ (xss ! Suc i) @ concat (drop (Suc (Suc i)) xss)"
    using concat_split [of i xss] i by (simp add: Cons_nth_drop_Suc [of "Suc i" xss, symmetric])
  moreover have "concat ?yss = concat (take i xss) @ x @ (e # xss ! Suc i) @ concat (drop (Suc (Suc i)) xss)"
    using concat_split [of i ?yss] i
    by (simp add: Cons_nth_drop_Suc [of "Suc i" ?yss, symmetric] nth_upd)
  ultimately show "concat ?yss = concat xss"
    using x by simp
qed

text \<open>The first entry of a segment moves to the end of the previous one.\<close>

lemma separators_down:
  assumes sep: "separators ms xss" and i: "Suc i < length xss" and x: "xss ! Suc i = e # x" "x \<noteq> []"
  shows "separators (ms[Suc i := fst (hd x)]) (xss[Suc i := x, i := xss ! i @ [e]])"
    and "concat (xss[Suc i := x, i := xss ! i @ [e]]) = concat xss"
proof -
  let ?yss = "xss[Suc i := x, i := xss ! i @ [e]]" and ?p = "fst (hd x)"
  have len: "length ms = length xss"
    using separators_D(2) [OF sep] .
  have e: "ms ! j \<le> fst e \<longleftrightarrow> j \<le> Suc i" if "j < length xss" for j
    using separators_D(4) [OF sep, of "Suc i" j e] that i x by simp
  have p: "ms ! j \<le> ?p \<longleftrightarrow> j \<le> Suc i" if "j < length xss" for j
    using separators_D(4) [OF sep, of "Suc i" j "hd x"] that i x by simp
  have sx: "kv_sorted (e # x)"
    using separators_D(3) [OF sep, of "Suc i"] i x by simp
  then have first: "?p \<le> fst a" if "a \<in> set x" for a
    using kv_sorted_hd_le [of x "fst a"] that by auto
  have ep: "fst e < ?p"
    using sx x(2) by simp
  have above: "?p < fst a" if "a \<in> set (xss ! i')" "Suc i < i'" "i' < length xss" for a i'
    using separators_D(4) [OF sep, of i' i' a] p [of i'] that by (auto simp: not_le)
  have before: "fst a < fst e" if "a \<in> set (xss ! i')" "i' \<le> i" for a i'
    using separators_D(4) [OF sep, of i' "Suc i" a] e [of "Suc i"] that i by (auto simp: not_le)
  have cells: "?yss ! i' = (if i' = i then xss ! i @ [e] else if i' = Suc i then x else xss ! i')" if "i' < length xss" for i'
    using that by (auto simp: nth_upd)
  show "separators (ms[Suc i := ?p]) ?yss"
  proof (rule separators_I)
    show "sorted_wrt (<) (ms[Suc i := ?p])"
    proof (rule sorted_update [OF separators_D(1) [OF sep]])
      show "?p < ms ! j" if "Suc i < j" "j < length ms" for j
        using p [of j] that len by (auto simp: not_le)
      show "ms ! j < ?p" if "j < Suc i" for j
        using sorted_wrt_nth_less [OF separators_D(1) [OF sep] that] e [of "Suc i"] ep i len
        by (auto intro: less_le_trans less_trans)
    qed
    show "kv_sorted (?yss ! i')" if "i' < length ?yss" for i'
      using that sx separators_D(3) [OF sep, of i'] before [of _ i] by (auto simp: cells kv_sorted_append)
    show "ms[Suc i := ?p] ! j \<le> fst a \<longleftrightarrow> j \<le> i'"
      if a: "i' < length ?yss" "j < length ?yss" "a \<in> set (?yss ! i')" for i' j a
    proof (cases "a = e \<and> i' = i")
      case True
      then show ?thesis
        using e [of j] ep that len by (auto simp: nth_upd)
    next
      case False
      then have old: "a \<in> set (xss ! i')" and ne: "i' = Suc i \<Longrightarrow> a \<in> set x"
        using a x by (auto simp: cells split: if_splits)
      have "?p \<le> fst a \<longleftrightarrow> Suc i \<le> i'"
      proof (cases i' "Suc i" rule: linorder_cases)
        case less
        then show ?thesis
          using before [OF old] ep by auto
      next
        case equal
        then show ?thesis
          using first ne by auto
      next
        case greater
        then show ?thesis
          using above [OF old] a(1) by auto
      qed
      then show ?thesis
        using separators_D(4) [OF sep, of i' j a] old a len by (auto simp: nth_upd)
    qed
  qed (use len in simp)
  have "concat xss = concat (take i xss) @ (xss ! i) @ (xss ! Suc i) @ concat (drop (Suc (Suc i)) xss)"
    using concat_split [of i xss] i by (simp add: Cons_nth_drop_Suc [of "Suc i" xss, symmetric])
  moreover have "concat ?yss = concat (take i xss) @ (xss ! i @ [e]) @ x @ concat (drop (Suc (Suc i)) xss)"
    using concat_split [of i ?yss] i
    by (simp add: Cons_nth_drop_Suc [of "Suc i" "xss[Suc i := x]", symmetric])
  ultimately show "concat ?yss = concat xss"
    using x by simp
qed

text \<open>A key-ordered list of records changes one record and its key, within the same place.\<close>

lemma kv_replace:
  assumes sorted: "sorted_wrt (<) (map key ms)" and sorted': "sorted_wrt (<) ((map key ms)[i := key m])" and i: "i < length ms"
  shows "kv_put (key m) (val m) (kv_del (key (ms ! i)) (map (\<lambda>m. (key m, val m)) ms)) =
    map (\<lambda>m. (key m, val m)) (ms[i := m])"
proof -
  let ?f = "\<lambda>m. (key m, val m)" and ?pre = "take i ms" and ?post = "drop (Suc i) ms"
  have split: "ms = ?pre @ ms ! i # ?post" "ms[i := m] = ?pre @ m # ?post"
    using i by (simp_all add: id_take_nth_drop upd_conv_take_nth_drop)
  have "sorted_wrt (<) (map key (?pre @ ms ! i # ?post))" "sorted_wrt (<) (map key (?pre @ m # ?post))"
    using sorted sorted' split by (metis, metis map_update)
  then have around: "\<forall>a \<in> set ?pre. key a < key (ms ! i) \<and> key a < key m" "\<forall>a \<in> set ?post. key (ms ! i) < key a \<and> key m < key a"
    by (auto simp: sorted_wrt_append)
  have "kv_del (key (ms ! i)) (map ?f ms) = map ?f ?pre @ [] @ map ?f ?post"
    using arg_cong [OF split(1), of "\<lambda>ms'. kv_del (key (ms ! i)) (map ?f ms')"] around
    by (simp add: kv_del_def filter_map o_def) (simp add: filter_id_conv less_imp_neq less_imp_neq [symmetric])
  then have "kv_put (key m) (val m) (kv_del (key (ms ! i)) (map ?f ms)) = map ?f ?pre @ kv_put (key m) (val m) [] @ map ?f ?post"
    using around by (simp only:) (rule kv_put_segment, auto)
  then show ?thesis
    unfolding split(2) by simp
qed

end
