(* ===== verification/Control_Refine.thy ===== *)
theory Control_Refine
  imports Control_Impl Store_Impl Routing
begin

text \<open>
  What the control node does to the cluster. The locale \<open>store_service\<close> is its interface to the store
  nodes: a request sent on the descriptor of node \<open>i\<close> is answered as the node's specification says, and
  no other node changes. Over it and over the meta database the theory shows what each request, each
  move of an entry and each command does, in terms of the meta records and the nodes' entries.
\<close>

section \<open>The interface to the store nodes\<close>

locale store_service =
  fixes N :: "'w os"
    and nodes :: "'w \<Rightarrow> astore list"
    and fd_of :: "nat \<Rightarrow> c_int"
    and live :: "'w \<Rightarrow> bool"
  assumes nodes_ok: "live w \<Longrightarrow> a \<in> set (nodes w) \<Longrightarrow> astore_ok a"
    and answers: "live w \<Longrightarrow> i < length (nodes w) \<Longrightarrow> request_ok req \<Longrightarrow> has_reply req \<Longrightarrow>
      \<exists>w1 r w'. os_send N w (fd_of i) (enc_request req) = Some w1 \<and>
        os_recv N w1 (fd_of i) MAXLINE = Some (r, fst (store_spec req (nodes w ! i)), w') \<and>
        live w' \<and> nodes w' = (nodes w)[i := snd (store_spec req (nodes w ! i))]"
    and takes: "live w \<Longrightarrow> i < length (nodes w) \<Longrightarrow> good_str t \<Longrightarrow>
      \<exists>w'. os_send N w (fd_of i) (enc_request (Req_test t)) = Some w' \<and> live w' \<and> nodes w' = nodes w"

lemma length_reply:
  assumes "astore_ok a" "request_ok req"
  shows "length (fst (store_spec req a)) \<le> MAXLINE"
proof -
  have good: "kv_good (as_data a)"
    using assms(1) by (simp add: astore_ok_def)
  show ?thesis
  proof (cases req)
    case (Req_get k)
    have "length v \<le> 20000" if "kv_get k (as_data a) = Some v" for v
      using kv_good_entry [OF good, of "(k, v)"] that
      by (auto simp: kv_get_def good_str_def dest: map_of_SomeD)
    then show ?thesis
      using Req_get by (auto simp: MAXLINE_def split: option.split)
  next
    case (Req_log l)
    then have "kv_good (apply_log l (as_data a))"
      using assms(2) good by (simp add: kv_good_apply)
    from extreme_short [OF this] show ?thesis
      using Req_log by (simp add: short_str_def Let_def command_defs MAXLINE_def)
  qed (use extreme_short [OF good] in \<open>simp_all add: enc_entry_def short_str_def command_defs MAXLINE_def\<close>)
qed

section \<open>The state of the control node and the cluster\<close>

definition meta_entry :: "Control_meta \<Rightarrow> string \<times> string" where
  "meta_entry m = (min_str m, enc_meta m)"

text \<open>
  The meta records \<open>ms\<close> of a control node and the states \<open>as\<close> of the nodes it can reach; its table has
  \<open>spare\<close> further nodes, about which nothing is said.
\<close>

definition control_rel ::
    "('db \<Rightarrow> kv) \<Rightarrow> ('w \<Rightarrow> astore list) \<Rightarrow> (nat \<Rightarrow> c_int) \<Rightarrow> ('w \<Rightarrow> bool) \<Rightarrow> nat \<Rightarrow> Control_meta list \<Rightarrow> astore list \<Rightarrow>
     ('db, 'w) control \<Rightarrow> bool" where
  "control_rel content nodes fd_of live spare ms as c \<longleftrightarrow>
     handle_ok (meta_db c) \<and> hcontent content (meta_db c) = map meta_entry ms \<and>
     live (c_world c) \<and> nodes (c_world c) = as \<and>
     length (send_buff c) = MAXLINE \<and> length (receive_buff c) = MAXLINE \<and>
     ci_store_node_count (c_obj c) = word_of_nat (length as + spare) \<and> length as + spare < 2 ^ 31 \<and>
     (\<forall>i < length as. i < length (ci_virtual_fd_2_net_file (c_obj c)) \<and>
        ci_virtual_fd_2_net_file (c_obj c) ! i = Some \<lparr>connect_fd = fd_of i\<rparr>)"

lemma sint_small: "n < 2 ^ 31 \<Longrightarrow> sint (word_of_nat n :: c_int) = int n"
  by (simp add: signed_of_nat signed_take_bit_int_eq_self)

lemmas control_setters = set_send_def set_receive_def set_meta_def say_def

lemma control_rel_say [simp]: "control_rel content nodes fd_of live spare ms as (say c l) = control_rel content nodes fd_of live spare ms as c"
  by (simp add: control_rel_def say_def)

lemma say_simps [simp]: "c_out (say c l) = c_out c @ [l]" "c_obj (say c l) = c_obj c" "c_world (say c l) = c_world c"
  by (simp_all add: say_def)

lemma control_rel_send: "control_rel content nodes fd_of live spare ms as c \<Longrightarrow> length b = MAXLINE \<Longrightarrow>
    control_rel content nodes fd_of live spare ms as (set_send c b)"
  by (simp add: control_rel_def set_send_def)

lemma node_count_rel: "control_rel content nodes fd_of live spare ms as c \<Longrightarrow> node_count c = length as + spare"
  by (simp del: of_nat_add add: control_rel_def node_count_def sint_small)

definition committed :: "LOG \<Rightarrow> astore \<Rightarrow> astore" where
  "committed l a = \<lparr>as_data = apply_log l (as_data a), as_logs = []\<rparr>"

text \<open>
  The meta records: ordered by their least keys, one per node in the order of the nodes' numbers.
\<close>

definition good_meta :: "Control_meta \<Rightarrow> bool" where
  "good_meta m \<longleftrightarrow> good_str (min_str m) \<and> good_str (max_str m)"

definition metas_ok :: "Control_meta list \<Rightarrow> bool" where
  "metas_ok ms \<longleftrightarrow> sorted_wrt (<) (map min_str ms) \<and> (\<forall>m \<in> set ms. good_meta m) \<and>
     (\<forall>i < length ms. virtual_fd (ms ! i) = word_of_nat i)"

lemma good_meta_fits: "good_meta m \<Longrightarrow> meta_fits m"
  by (simp add: good_meta_def good_str_def meta_fits_def MAXLINE_def)

lemma good_str_iff: "good_str s \<longleftrightarrow> s \<noteq> [] \<and> short_str s"
  by (auto simp: good_str_def short_str_def)

lemma with_range_simps [simp]:
  "min_str (with_range m mn mx) = (if mn = [] then min_str m else mn)"
  "max_str (with_range m mn mx) = (if mx = [] then max_str m else mx)"
  "virtual_fd (with_range m mn mx) = virtual_fd m"
  by (simp_all add: with_range_def Let_def)

lemma with_range_good: "good_meta m \<Longrightarrow> short_str mn \<Longrightarrow> short_str mx \<Longrightarrow> good_meta (with_range m mn mx)"
  by (simp add: good_meta_def good_str_iff)

lemma metas_ok_update:
  assumes "metas_ok ms" "good_meta m" "virtual_fd m = virtual_fd (ms ! i)" "sorted_wrt (<) ((map min_str ms)[i := min_str m])"
  shows "metas_ok (ms[i := m])"
proof -
  have "good_meta x" if "x \<in> set (ms[i := m])" for x
    using that assms(1,2) set_update_subset_insert [of ms i m] by (auto simp: metas_ok_def)
  then show ?thesis
    using assms by (auto simp: metas_ok_def map_update nth_upd)
qed

text \<open>Two nodes that have logged the move of an entry from the first to the second.\<close>

definition logged :: "astore list \<Rightarrow> nat \<Rightarrow> nat \<Rightarrow> string \<Rightarrow> string \<Rightarrow> astore list" where
  "logged as i j key val =
     as[i := (as ! i)\<lparr>as_logs := [LOG_of DELETE key []]\<rparr>, j := (as ! j)\<lparr>as_logs := [LOG_of PUT key val]\<rparr>]"

locale control_env = rocksdb_reliable R content cursor + store_service N nodes fd_of live
  for R :: "('db, 'it) rocksdb" and content cursor
    and N :: "'w os" and nodes fd_of live + fixes spare :: nat
begin

abbreviation rel :: "Control_meta list \<Rightarrow> astore list \<Rightarrow> ('db, 'w) control \<Rightarrow> bool" where
  "rel \<equiv> control_rel content nodes fd_of live spare"

lemma rel_node_ok: "rel ms as c \<Longrightarrow> i < length as \<Longrightarrow> astore_ok (as ! i)"
  using nodes_ok [of "c_world c" "as ! i"] by (simp add: control_rel_def)

lemma file_at_run: "rel ms as c \<Longrightarrow> i < length as \<Longrightarrow> file_at c (word_of_nat i) = Inr \<lparr>connect_fd = fd_of i\<rparr>"
  by (simp add: file_at_def control_rel_def Let_def sint_small)

text \<open>A request in the send buffer, its answer in the receive buffer.\<close>

lemma exchange_run:
  assumes rel: "rel ms as c" and i: "i < length as" and req: "request_ok req" "has_reply req"
    and send: "send_buff c = enc_request req @ rest" "len = word_of_nat (length (enc_request req))"
  shows "\<exists>c' rest'. exchange N c (word_of_nat i) len = Inr c' \<and>
    rel ms (as[i := snd (store_spec req (as ! i))]) c' \<and>
    receive_buff c' = fst (store_spec req (as ! i)) @ rest' \<and> send_buff c' = send_buff c \<and> c_out c' = c_out c"
proof -
  let ?reply = "fst (store_spec req (as ! i))" and ?f = "\<lparr>connect_fd = fd_of i\<rparr>"
  have w: "live (c_world c)" "nodes (c_world c) = as" "length (receive_buff c) = MAXLINE"
    using rel by (simp_all add: control_rel_def)
  have lens: "length (enc_request req) \<le> MAXLINE" "length ?reply \<le> MAXLINE"
    using length_enc_request [OF req(1)] length_reply [OF rel_node_ok [OF rel i] req(1)] by simp_all
  obtain w1 r w' where w': "os_recv N w1 (fd_of i) MAXLINE = Some (r, ?reply, w')"
    "live w'" "nodes w' = as[i := snd (store_spec req (as ! i))]" "os_send N (c_world c) (fd_of i) (enc_request req) = Some w1"
    using answers [OF w(1), of i req] i req w(2) by auto
  have at: "file_at (c\<lparr>c_world := v\<rparr>) (word_of_nat i) = Inr ?f" "file_at c (word_of_nat i) = Inr ?f" for v
    using file_at_run [OF rel i] by (simp_all add: file_at_def)
  have "net_file_receive_from N ?f (receive_buff c) w1
      = Inr (word_of_int r, ?reply @ drop (length ?reply) (receive_buff c), w')"
    using receive_from_front [of N _ ?f r ?reply w' "receive_buff c"] w' w(3) lens by simp
  then have "exchange N c (word_of_nat i) len = Inr (set_receive (c\<lparr>c_world := w'\<rparr>) (?reply @ drop (length ?reply) (receive_buff c)))"
    using send_to_front [OF lens(1) send(2), of N ?f rest "c_world c"] at send(1) w'(4)
    by (simp add: exchange_def control_send_def control_receive_def)
  moreover have "rel ms (as[i := snd (store_spec req (as ! i))]) (set_receive (c\<lparr>c_world := w'\<rparr>) (?reply @ drop (length ?reply) (receive_buff c)))"
    using rel w' lens by (simp add: control_rel_def set_receive_def)
  ultimately show ?thesis
    by (auto simp: set_receive_def)
qed

lemma exchange_word_run:
  assumes rel: "rel ms as c" and i: "i < length as" and req: "request_ok req" "has_reply req"
    and word: "enc_request req = enc_str command" "short_str command"
  shows "\<exists>c' rest'. exchange_word N c (word_of_nat i) command = Inr c' \<and>
    rel ms (as[i := snd (store_spec req (as ! i))]) c' \<and>
    receive_buff c' = fst (store_spec req (as ! i)) @ rest' \<and> c_out c' = c_out c"
proof -
  let ?b = "enc_str command @ drop (length (enc_str command)) (send_buff c)"
  have len: "length (send_buff c) = MAXLINE" "length (enc_str command) \<le> MAXLINE"
    using rel length_enc_request [OF req(1)] word(1) by (simp_all add: control_rel_def)
  then have "insert_str_to_buff (send_buff c) 0 command 0 = Inr (?b, length (enc_str command), word_of_nat (length (enc_str command)))"
    by (intro put_str_front short_str_wire word(2)) simp
  moreover have "rel ms as (set_send c ?b)"
    using rel len by (intro control_rel_send) simp_all
  ultimately show ?thesis
    using exchange_run [of ms as "set_send c ?b" i req "drop (length (enc_str command)) (send_buff c)"] i req word(1)
    by (auto simp: exchange_word_def set_send_def)
qed

text \<open>The bytes of a log request in the send buffer.\<close>

lemma log_request_run:
  assumes "length b = MAXLINE" "good_log l"
  shows "\<exists>b1 p t b2 s. insert_str_to_buff b 0 get_LOG 0 = Inr (b1, p, t) \<and> LOG_to_slice l b1 p = Inr (s, b2) \<and>
    t + word_of_nat (Slice_size s) = word_of_nat (length (enc_request (Req_log l))) \<and>
    b2 = enc_request (Req_log l) @ drop (length (enc_request (Req_log l))) b"
proof -
  let ?w = "enc_str get_LOG"
  have 1: "insert_str_to_buff b 0 get_LOG 0 = Inr (?w @ drop (length ?w) b, length ?w, word_of_nat (length ?w))"
    using assms(1) by (intro put_str_front short_str_wire command_short) (simp add: command_defs MAXLINE_def)
  have "length ?w + length (enc_log l) \<le> MAXLINE"
    using length_enc_request [of "Req_log l"] assms(2) by simp
  then have "LOG_to_slice l (?w @ drop (length ?w) b) (length ?w) =
      Inr (Slice_of_buff (enc_log l @ drop (length (enc_log l)) (drop (length ?w) b)) (length (enc_log l)),
        ?w @ enc_log l @ drop (length (enc_log l)) (drop (length ?w) b))"
    using LOG_to_slice_at [OF good_log_fits [OF assms(2)], of "length ?w" ?w "drop (length ?w) b"] assms(1)
    by (simp add: Let_def)
  with 1 show ?thesis
    by (simp add: Slice_size_def Slice_of_buff_def add.commute)
qed

lemma exchange_log_run:
  assumes rel: "rel ms as c" and i: "i < length as" and l: "good_log l" "as_logs (as ! i) = []"
  shows "\<exists>c' rest'. exchange_log N c (word_of_nat i) l = Inr c' \<and>
    rel ms (as[i := (as ! i)\<lparr>as_logs := [l]\<rparr>]) c' \<and>
    receive_buff c' = fst (store_spec (Req_log l) (as ! i)) @ rest' \<and> c_out c' = c_out c"
proof -
  let ?e = "enc_request (Req_log l)" and ?b = "send_buff c"
  have len: "length ?b = MAXLINE" "length ?e \<le> MAXLINE"
    using rel length_enc_request [of "Req_log l"] l by (simp_all add: control_rel_def del: enc_request.simps)
  obtain b1 p t s where b: "insert_str_to_buff ?b 0 get_LOG 0 = Inr (b1, p, t)"
    "LOG_to_slice l b1 p = Inr (s, ?e @ drop (length ?e) ?b)" "t + word_of_nat (Slice_size s) = word_of_nat (length ?e)"
    using log_request_run [OF len(1) l(1)] by auto
  have "rel ms as (set_send c (?e @ drop (length ?e) ?b))"
    using rel len by (intro control_rel_send) simp_all
  then show ?thesis
    using exchange_run [of ms as "set_send c (?e @ drop (length ?e) ?b)" i "Req_log l" "drop (length ?e) ?b"] i l b
    by (auto simp: exchange_log_def set_send_def Let_def simp del: enc_request.simps)
qed

subsection \<open>Queries\<close>

lemma get_size_query:
  assumes "rel ms as c" "i < length as"
  shows "\<exists>c'. control_get_size N c (word_of_nat i) = Inr (word_of_nat (kv_bytes (as_data (as ! i))), c') \<and>
    rel ms as c' \<and> c_out c' = c_out c"
  using exchange_word_run [OF assms, of Req_size get_SIZE] get_int_at [of 0 "[]"]
  by (fastforce simp: control_get_size_def)

lemma less_or_equal_one_query:
  assumes "rel ms as c" "i < length as"
  shows "\<exists>c'. control_get_store_less_or_equal_one N c (word_of_nat i) = Inr (length (as_data (as ! i)) \<le> 1, c') \<and>
    rel ms as c' \<and> c_out c' = c_out c"
proof -
  obtain c' rest where c': "exchange_word N c (word_of_nat i) get_LESS_OR_EQUAL_ONE = Inr c'" "rel ms as c'"
    "receive_buff c' = enc_int (if length (as_data (as ! i)) \<le> 1 then 1 else 0) @ rest" "c_out c' = c_out c"
    using exchange_word_run [OF assms, of Req_less_or_equal_one get_LESS_OR_EQUAL_ONE] by auto
  show ?thesis
    using c'(1,2,4) get_int_at [of 0 "[]" "if length (as_data (as ! i)) \<le> 1 then 1 else 0" rest] c'(3)
    by (simp add: control_get_store_less_or_equal_one_def)
qed

lemma not_too_much_query:
  assumes "rel ms as c" "i < length as"
  shows "\<exists>c'. control_not_too_much N c (word_of_nat i) tot perfect =
      Inr (share_ok (word_of_nat (kv_bytes (as_data (as ! i)))) tot perfect \<or> length (as_data (as ! i)) \<le> 1, c') \<and>
    rel ms as c' \<and> c_out c' = c_out c"
proof -
  obtain c1 where c1: "control_get_size N c (word_of_nat i) = Inr (word_of_nat (kv_bytes (as_data (as ! i))), c1)"
    "rel ms as c1" "c_out c1 = c_out c"
    using get_size_query [OF assms] by blast
  then show ?thesis
    using less_or_equal_one_query [OF c1(2) assms(2)] by (auto simp: control_not_too_much_def)
qed

lemma read_entry_run:
  assumes "receive_buff c = enc_entry e @ rest" "short_str (fst e)" "short_str (snd e)"
  shows "read_entry c = Inr e"
  using get_string_at [of 0 "[]" "fst e" "enc_str (snd e) @ rest"]
    get_string_at [of "length (enc_str (fst e))" "enc_str (fst e)" "snd e" rest] assms
  by (simp add: read_entry_def enc_entry_def short_str_wire)

lemma max_query:
  assumes "rel ms as c" "i < length as"
  shows "\<exists>c'. control_get_max_store N c (word_of_nat i) = Inr (last_entry (as_data (as ! i)), c') \<and>
    rel ms as c' \<and> c_out c' = c_out c"
proof -
  have "kv_good (as_data (as ! i))"
    using rel_node_ok [OF assms] by (simp add: astore_ok_def)
  note short = extreme_short [OF this]
  show ?thesis
    using exchange_word_run [OF assms, of Req_max get_MAX_KEY] read_entry_run [OF _ short(3,4)]
    by (fastforce simp: control_get_max_store_def)
qed

lemma min_query:
  assumes "rel ms as c" "i < length as"
  shows "\<exists>c'. control_get_min_store N c (word_of_nat i) = Inr (first_entry (as_data (as ! i)), c') \<and>
    rel ms as c' \<and> c_out c' = c_out c"
proof -
  have "kv_good (as_data (as ! i))"
    using rel_node_ok [OF assms] by (simp add: astore_ok_def)
  note short = extreme_short [OF this]
  show ?thesis
    using exchange_word_run [OF assms, of Req_min get_MIN_KEY] read_entry_run [OF _ short(1,2)]
    by (fastforce simp: control_get_min_store_def)
qed

subsection \<open>Log and commit\<close>

lemma read_range_run:
  assumes "receive_buff c = enc_str w @ enc_str mn @ enc_str mx @ rest" "short_str w" "short_str mn" "short_str mx"
  shows "read_range c = Inr (w, mn, mx)"
  using get_string_at [of 0 "[]" w "enc_str mn @ enc_str mx @ rest"]
    get_string_at [of "length (enc_str w)" "enc_str w" mn "enc_str mx @ rest"]
    get_string_at [of "length (enc_str w) + length (enc_str mn)" "enc_str w @ enc_str mn" mx rest] assms
  by (simp add: read_range_def short_str_wire)

text \<open>Logging an update at a node and reading the answer: the key range after the update.\<close>

lemma log_at_node:
  assumes rel: "rel ms as c" and i: "i < length as" and l: "good_log l" "as_logs (as ! i) = []"
  shows "\<exists>c'. exchange_log N c (word_of_nat i) l = Inr c' \<and> rel ms (as[i := (as ! i)\<lparr>as_logs := [l]\<rparr>]) c' \<and>
    read_range c' = Inr (''ok'', fst (first_entry (apply_log l (as_data (as ! i)))), fst (last_entry (apply_log l (as_data (as ! i))))) \<and>
    c_out c' = c_out c"
proof -
  have "kv_good (apply_log l (as_data (as ! i)))"
    using rel_node_ok [OF rel i] l by (simp add: astore_ok_def kv_good_apply)
  note short = extreme_short [OF this]
  obtain c' rest where c': "exchange_log N c (word_of_nat i) l = Inr c'" "rel ms (as[i := (as ! i)\<lparr>as_logs := [l]\<rparr>]) c'"
    "receive_buff c' = fst (store_spec (Req_log l) (as ! i)) @ rest" "c_out c' = c_out c"
    using exchange_log_run [OF assms] by blast
  have "read_range c' = Inr (get_OK, fst (first_entry (apply_log l (as_data (as ! i)))), fst (last_entry (apply_log l (as_data (as ! i)))))"
    using c'(3) short by (intro read_range_run) (simp_all add: Let_def)
  then show ?thesis
    using c' by (simp add: get_OK_def)
qed

lemma ok_reply: "receive_buff c = enc_str get_OK @ rest \<Longrightarrow> get_string_from_buff (receive_buff c) 0 = Inr (''ok'', length (enc_str get_OK))"
  using get_string_at [of 0 "[]" get_OK rest] by (simp add: short_str_wire) (simp add: get_OK_def)

lemma commit_one_run:
  assumes rel: "rel ms as c" and i: "i < length as" and l: "as_logs (as ! i) = l # ls"
  shows "\<exists>c'. commit_one N c (word_of_nat i) = Inr c' \<and>
    rel ms (as[i := \<lparr>as_data = apply_log l (as_data (as ! i)), as_logs = ls\<rparr>]) c' \<and> c_out c' = c_out c @ [''log commit'']"
proof -
  obtain c' rest where "exchange_word N c (word_of_nat i) get_COMMIT_LOG = Inr c'"
    "rel ms (as[i := \<lparr>as_data = apply_log l (as_data (as ! i)), as_logs = ls\<rparr>]) c'"
    "receive_buff c' = enc_str get_OK @ rest" "c_out c' = c_out c"
    using exchange_word_run [OF rel i, of Req_commit get_COMMIT_LOG] l by auto
  then show ?thesis
    using ok_reply [of c' rest] by (simp add: commit_one_def)
qed

lemma commit_first_run:
  assumes rel: "rel ms as c" and i: "i < length as" and l: "as_logs (as ! i) = [l]"
  shows "\<exists>c' rest. commit_first N c (word_of_nat i) = Inr (word_of_nat (length (enc_request Req_commit)), c') \<and>
    rel ms (as[i := committed l (as ! i)]) c' \<and> receive_buff c' = enc_str get_OK @ rest \<and>
    (\<exists>rest'. send_buff c' = enc_request Req_commit @ rest')"
proof -
  let ?e = "enc_request Req_commit" and ?b = "send_buff c"
  let ?c = "set_send c (?e @ drop (length ?e) ?b)"
  have len: "length ?b = MAXLINE" "length ?e \<le> MAXLINE"
    using rel by (simp_all add: control_rel_def command_defs MAXLINE_def)
  have b: "insert_str_to_buff ?b 0 get_COMMIT_LOG 0 = Inr (?e @ drop (length ?e) ?b, length ?e, word_of_nat (length ?e))"
    using put_str_front [of get_COMMIT_LOG ?b] len by (simp add: short_str_wire)
  have "rel ms as ?c"
    using rel len by (intro control_rel_send) simp_all
  then obtain c1 rest where c1: "exchange N ?c (word_of_nat i) (word_of_nat (length ?e)) = Inr c1"
    "rel ms (as[i := committed l (as ! i)]) c1" "receive_buff c1 = enc_str get_OK @ rest" "send_buff c1 = send_buff ?c"
    using exchange_run [of ms as ?c i Req_commit "drop (length ?e) ?b"] i l
    by (auto simp: committed_def set_send_def)
  moreover have "send_buff ?c = ?e @ drop (length ?e) ?b"
    by (simp add: set_send_def)
  ultimately show ?thesis
    using b unfolding commit_first_def by (intro exI [of _ c1] exI [of _ rest]) (simp del: enc_request.simps)
qed

lemma commit_both_run:
  assumes rel: "rel ms as c" and ij: "i < length as" "j < length as" "i \<noteq> j"
    and l: "as_logs (as ! i) = [l]" "as_logs (as ! j) = [l']"
  shows "\<exists>c'. commit_both N c (word_of_nat i) (word_of_nat j) = Inr (True, c') \<and>
    rel ms (as[i := committed l (as ! i), j := committed l' (as ! j)]) c'"
proof -
  let ?e = "enc_request Req_commit"
  obtain c1 rest rest1 where c1: "commit_first N c (word_of_nat i) = Inr (word_of_nat (length ?e), c1)"
    "rel ms (as[i := committed l (as ! i)]) c1" "receive_buff c1 = enc_str get_OK @ rest" "send_buff c1 = ?e @ rest1"
    using commit_first_run [OF rel ij(1) l(1)] by blast
  obtain c2 rest' where c2: "exchange N c1 (word_of_nat j) (word_of_nat (length ?e)) = Inr c2"
    "rel ms (as[i := committed l (as ! i), j := committed l' (as ! j)]) c2" "receive_buff c2 = enc_str get_OK @ rest'"
    using exchange_run [OF c1(2), of j Req_commit rest1] ij l c1(4)
    by (auto simp: committed_def)
  show ?thesis
    using c1 c2 ok_reply [OF c1(3)] ok_reply [OF c2(3)] by (simp add: commit_both_def)
qed

subsection \<open>The meta database\<close>

lemma replace_meta_kv:
  assumes rel: "rel ms as c" and it: "cursor it = (xs, Some i)" "i < length xs" and m: "meta_fits m"
    and ms': "map meta_entry ms' = kv_put (min_str m) (enc_meta m) (kv_del (fst (xs ! i)) (map meta_entry ms))"
  shows "\<exists>c'. replace_meta R c it m = Inr c' \<and> rel ms' as c' \<and> c_out c' = c_out c"
proof -
  obtain k where k: "it_key R it = Inr k" "slice_ok k" "slice_bytes k = fst (xs ! i)"
    using it_key_at [OF it(1)] by auto
  have h: "handle_ok (meta_db c)" "hcontent content (meta_db c) = map meta_entry ms" "length (receive_buff c) = MAXLINE"
    using rel by (simp_all add: control_rel_def)
  obtain h1 where h1: "DB_Handle_delete_1 R (meta_db c) k = Inr h1" "handle_ok h1"
    "hcontent content h1 = kv_del (fst (xs ! i)) (map meta_entry ms)"
    using db_delete_run [OF h(1) k(2)] h(2) k(3) by auto
  obtain b where b: "Control_meta_to_slice m (receive_buff c) = Inr (Slice_of_buff b (length (enc_meta m)), b)"
    "b = enc_meta m @ drop (length (enc_meta m)) (receive_buff c)"
    using to_slice_run [OF m h(3)] by blast
  have "length (enc_meta m) \<le> MAXLINE"
    using m by (simp add: length_enc_meta meta_fits_def)
  then have len: "length b = MAXLINE"
    using b(2) h(3) by simp
  have "slice_ok (Slice_of_buff b (length (enc_meta m)))" "slice_bytes (Slice_of_buff b (length (enc_meta m))) = enc_meta m"
    using b(2) by simp_all
  then obtain h2 where h2: "DB_Handle_put_string_slice R h1 (min_str m) (Slice_of_buff b (length (enc_meta m))) = Inr h2"
    "handle_ok h2" "hcontent content h2 = map meta_entry ms'"
    using db_put_run [OF h1(2), of "Slice_of_string (min_str m)" "Slice_of_buff b (length (enc_meta m))"] h1(3) ms'
    by (auto simp: DB_Handle_put_string_slice_def)
  then have "rel ms' as (set_meta (set_receive c b) h2)"
    using rel len by (simp add: control_rel_def set_meta_def set_receive_def)
  then show ?thesis
    using k h1 b h2 by (simp add: replace_meta_def) (simp add: set_meta_def set_receive_def)
qed

lemma replace_meta_run:
  assumes rel: "rel ms as c" and it: "cursor it = (map meta_entry ms0, Some i)" "i < length ms0" "min_str (ms0 ! i) = min_str (ms ! i)"
    and i: "i < length ms" and sorted: "sorted_wrt (<) (map min_str ms)" "sorted_wrt (<) ((map min_str ms)[i := min_str m])"
    and m: "meta_fits m"
  shows "\<exists>c'. replace_meta R c it m = Inr c' \<and> rel (ms[i := m]) as c' \<and> c_out c' = c_out c"
proof (rule replace_meta_kv [OF rel it(1) _ m])
  show "map meta_entry (ms[i := m]) = kv_put (min_str m) (enc_meta m) (kv_del (fst (map meta_entry ms0 ! i)) (map meta_entry ms))"
    using kv_replace [of min_str ms i m enc_meta, OF sorted i] it(2,3) by (simp add: meta_entry_def [abs_def])
qed (simp add: it)

lemma update_meta_run:
  assumes rel: "rel ms as c" and it: "cursor it = (map meta_entry ms0, Some i)" "i < length ms0" "ms0 ! i = ms ! i"
    and i: "i < length ms" and ok: "metas_ok ms" and range: "short_str mn" "short_str mx"
    and sorted: "sorted_wrt (<) ((map min_str ms)[i := min_str (with_range (ms ! i) mn mx)])"
  shows "\<exists>c'. update_meta R c it mn mx = Inr c' \<and> rel (ms[i := with_range (ms ! i) mn mx]) as c' \<and>
    metas_ok (ms[i := with_range (ms ! i) mn mx])"
proof -
  have good: "good_meta (ms ! i)"
    using ok i by (simp add: metas_ok_def)
  obtain v where v: "it_value R it = Inr v" "slice_ok v" "slice_bytes v = enc_meta (ms ! i)"
    using it_value_at [OF it(1)] it(2,3) by (auto simp: meta_entry_def)
  have m: "Control_meta_of_slice v = Inr (ms ! i)"
    using of_slice_run [OF good_meta_fits [OF good] v(2,3)] .
  have good': "good_meta (with_range (ms ! i) mn mx)"
    using with_range_good [OF good range] .
  have "sorted_wrt (<) (map min_str ms)"
    using ok by (simp add: metas_ok_def)
  from replace_meta_run [OF rel it(1,2) _ i this sorted good_meta_fits [OF good']] v(1) m it(3)
    metas_ok_update [OF ok good' _ sorted] show ?thesis
    by (auto simp: update_meta_def)
qed

lemma route_run:
  assumes rel: "rel ms as c" and ok: "metas_ok ms" "ms \<noteq> []" and i: "i = owner (map min_str ms) key"
  shows "\<exists>it0 it b. DB_Handle.new_iterator R (meta_db c) = Inr it0 \<and> DB_Handle_get_smaller_or_equal R key it0 = Inr (b, it) \<and>
    cursor it = (map meta_entry ms, Some i) \<and> route R c key = Inr (it, ms ! i)"
proof -
  let ?xs = "map meta_entry ms"
  have h: "handle_ok (meta_db c)" "hcontent content (meta_db c) = ?xs"
    using rel by (simp_all add: control_rel_def)
  obtain it0 where it0: "DB_Handle.new_iterator R (meta_db c) = Inr it0" "fst (cursor it0) = ?xs"
    using new_iterator_run [OF h(1)] h(2) by auto
  have "kv_sorted ?xs"
    using hcontent_sorted [of "meta_db c"] h(2) by simp
  then obtain it b where it: "DB_Handle_get_smaller_or_equal R key it0 = Inr (b, it)" "cursor it = (?xs, floor_pos ?xs key)"
    using get_smaller_or_equal_run [OF it0(2)] by blast
  have pos: "floor_pos ?xs key = Some i"
    using ok(2) i by (simp add: floor_pos_def owner_def takeWhile_map o_def meta_entry_def)
  have less: "i < length ms"
    using owner_less [of "map min_str ms" key] ok(2) i by simp
  obtain v where v: "it_value R it = Inr v" "slice_ok v" "slice_bytes v = enc_meta (ms ! i)"
    using it_value_at [of it ?xs i] it(2) pos less by (auto simp: meta_entry_def)
  have "good_meta (ms ! i)"
    using ok(1) less by (simp add: metas_ok_def)
  then have "Control_meta_of_slice v = Inr (ms ! i)"
    using of_slice_run [OF _ v(2,3)] good_meta_fits by blast
  then show ?thesis
    using it0 it pos v(1) by (simp add: route_def)
qed

subsection \<open>Moving an entry\<close>

lemma migrate_log_run:
  assumes rel: "rel ms as c" and ok: "metas_ok ms" "length ms = length as"
    and ij: "i < length as" "j < length as" "i \<noteq> j" and i: "i = owner (map min_str ms) key"
    and good: "good_str key" "good_str val" and logs: "as_logs (as ! i) = []" "as_logs (as ! j) = []"
    and nb: "\<And>it. cursor it = (map meta_entry ms, Some i) \<Longrightarrow> \<exists>it'. neighbour it = Inr it' \<and> cursor it' = (map meta_entry ms, Some j)"
    and m1: "m1 = with_range (ms ! i) (fst (first_entry (kv_del key (as_data (as ! i))))) (fst (last_entry (kv_del key (as_data (as ! i)))))"
    and m2: "m2 = with_range (ms ! j) (fst (first_entry (kv_put key val (as_data (as ! j))))) (fst (last_entry (kv_put key val (as_data (as ! j)))))"
    and sorted: "sorted_wrt (<) ((map min_str ms)[i := min_str m1])" "sorted_wrt (<) ((map min_str ms)[i := min_str m1, j := min_str m2])"
  shows "\<exists>c'. migrate_log R N neighbour c (word_of_nat i) (word_of_nat j) key val = Inr c' \<and>
    rel (ms[i := m1, j := m2]) (logged as i j key val) c' \<and> metas_ok (ms[i := m1, j := m2])"
proof -
  let ?l = "LOG_of DELETE key []" and ?l' = "LOG_of PUT key val"
  let ?di = "kv_del key (as_data (as ! i))" and ?dj = "kv_put key val (as_data (as ! j))"
  have l: "good_log ?l" "good_log ?l'"
    using good by (simp_all add: good_log_def LOG_of_def)
  have eff: "apply_log ?l (as_data (as ! i)) = ?di" "apply_log ?l' (as_data (as ! j)) = ?dj"
    by (simp_all add: apply_log_def LOG_of_def)
  have "kv_good ?di" "kv_good ?dj"
    using rel_node_ok [OF rel ij(1)] rel_node_ok [OF rel ij(2)] good by (simp_all add: astore_ok_def kv_good_del kv_good_put)
  note short = extreme_short [OF this(1)] extreme_short [OF this(2)]
  obtain c1 where c1: "exchange_log N c (word_of_nat i) ?l = Inr c1" "rel ms (as[i := (as ! i)\<lparr>as_logs := [?l]\<rparr>]) c1"
    "read_range c1 = Inr (''ok'', fst (first_entry ?di), fst (last_entry ?di))"
    using log_at_node [OF rel ij(1) l(1) logs(1)] eff by auto
  let ?as2 = "as[i := (as ! i)\<lparr>as_logs := [?l]\<rparr>, j := (as ! j)\<lparr>as_logs := [?l']\<rparr>]"
  obtain c2 where c2: "exchange_log N c1 (word_of_nat j) ?l' = Inr c2" "rel ms ?as2 c2"
    "read_range c2 = Inr (''ok'', fst (first_entry ?dj), fst (last_entry ?dj))"
    using log_at_node [OF c1(2), of j ?l'] l(2) ij logs eff by auto
  have "ms \<noteq> []"
    using ok ij by auto
  then obtain it0 it b where it: "DB_Handle.new_iterator R (meta_db c2) = Inr it0" "DB_Handle_get_smaller_or_equal R key it0 = Inr (b, it)"
    "cursor it = (map meta_entry ms, Some i)"
    using route_run [OF c2(2) ok(1) _ i] by auto
  obtain c3 where c3: "update_meta R c2 it (fst (first_entry ?di)) (fst (last_entry ?di)) = Inr c3" "rel (ms[i := m1]) ?as2 c3"
    "metas_ok (ms[i := m1])"
    using update_meta_run [OF c2(2) it(3) _ refl _ ok(1) short(1,3)] sorted(1) ok ij m1 by auto
  obtain it' where it': "neighbour it = Inr it'" "cursor it' = (map meta_entry ms, Some j)"
    using nb [OF it(3)] by auto
  obtain c4 where c4: "update_meta R c3 it' (fst (first_entry ?dj)) (fst (last_entry ?dj)) = Inr c4" "rel (ms[i := m1, j := m2]) ?as2 c4"
    "metas_ok (ms[i := m1, j := m2])"
    using update_meta_run [OF c3(2) it'(2) _ _ _ c3(3) short(5,7)] sorted(2) ok ij m2 by (auto simp: map_update)
  then show ?thesis
    using c1 c2 it c3 it' by (simp add: migrate_log_def logged_def)
qed

lemma commit_logged_run:
  assumes rel: "rel ms (logged as i j key val) c" and ij: "i < length as" "j < length as" "i \<noteq> j"
  shows "\<exists>c'. commit_both N c (word_of_nat i) (word_of_nat j) = Inr (True, c') \<and>
    rel ms (as[i := \<lparr>as_data = kv_del key (as_data (as ! i)), as_logs = []\<rparr>,
      j := \<lparr>as_data = kv_put key val (as_data (as ! j)), as_logs = []\<rparr>]) c'"
proof -
  let ?l = "LOG_of DELETE key []" and ?l' = "LOG_of PUT key val" and ?as2 = "logged as i j key val"
  have "?as2[i := committed ?l (?as2 ! i), j := committed ?l' (?as2 ! j)] =
      as[i := \<lparr>as_data = kv_del key (as_data (as ! i)), as_logs = []\<rparr>, j := \<lparr>as_data = kv_put key val (as_data (as ! j)), as_logs = []\<rparr>]"
    using ij by (simp add: logged_def committed_def apply_log_def LOG_of_def list_update_swap)
  then show ?thesis
    using commit_both_run [OF rel, of i j ?l ?l'] ij by (simp add: logged_def)
qed

lemma migrate_run:
  assumes rel: "rel ms as c" and ok: "metas_ok ms" "length ms = length as"
    and ij: "i < length as" "j < length as" "i \<noteq> j" and i: "i = owner (map min_str ms) key"
    and good: "good_str key" "good_str val" and logs: "as_logs (as ! i) = []" "as_logs (as ! j) = []"
    and nb: "\<And>it. cursor it = (map meta_entry ms, Some i) \<Longrightarrow> \<exists>it'. neighbour it = Inr it' \<and> cursor it' = (map meta_entry ms, Some j)"
    and m1: "m1 = with_range (ms ! i) (fst (first_entry (kv_del key (as_data (as ! i))))) (fst (last_entry (kv_del key (as_data (as ! i)))))"
    and m2: "m2 = with_range (ms ! j) (fst (first_entry (kv_put key val (as_data (as ! j))))) (fst (last_entry (kv_put key val (as_data (as ! j)))))"
    and sorted: "sorted_wrt (<) ((map min_str ms)[i := min_str m1])" "sorted_wrt (<) ((map min_str ms)[i := min_str m1, j := min_str m2])"
  shows "\<exists>c'. migrate R N neighbour c (word_of_nat i) (word_of_nat j) key val = Inr (True, c') \<and>
    rel (ms[i := m1, j := m2]) (as[i := \<lparr>as_data = kv_del key (as_data (as ! i)), as_logs = []\<rparr>,
      j := \<lparr>as_data = kv_put key val (as_data (as ! j)), as_logs = []\<rparr>]) c' \<and> metas_ok (ms[i := m1, j := m2])"
proof -
  obtain c1 where c1: "migrate_log R N neighbour c (word_of_nat i) (word_of_nat j) key val = Inr c1"
    "rel (ms[i := m1, j := m2]) (logged as i j key val) c1" "metas_ok (ms[i := m1, j := m2])"
    using migrate_log_run [where neighbour = neighbour, OF rel ok ij i good logs nb m1 m2 sorted] by blast
  then show ?thesis
    using commit_logged_run [OF c1(2) ij] by (auto simp: migrate_def)
qed

end

text \<open>The service covers every node of the control node's table.\<close>

locale control_whole = control_env R content cursor N nodes fd_of live 0
  for R :: "('db, 'it) rocksdb" and content cursor
    and N :: "'w os" and nodes fd_of live

section \<open>The invariant of the cluster\<close>

text \<open>
  Between two commands no node has a pending log record, every node's entries can be carried by the
  protocol, and the meta records separate the nodes' entries.
\<close>

definition cluster_inv :: "Control_meta list \<Rightarrow> astore list \<Rightarrow> bool" where
  "cluster_inv ms as \<longleftrightarrow> as \<noteq> [] \<and> metas_ok ms \<and> separators (map min_str ms) (map as_data as) \<and>
     (\<forall>a \<in> set as. as_logs a = [] \<and> kv_good (as_data a))"

text \<open>All entries of the cluster, in the order of their keys.\<close>

definition cluster_kv :: "astore list \<Rightarrow> kv" where
  "cluster_kv as = concat (map as_data as)"

definition idle :: "kv \<Rightarrow> astore" where
  "idle xs = \<lparr>as_data = xs, as_logs = []\<rparr>"

lemma idle_simps [simp]: "as_data (idle xs) = xs" "as_logs (idle xs) = []"
  by (simp_all add: idle_def)

lemma cluster_inv_D:
  assumes "cluster_inv ms as"
  shows "as \<noteq> []" "metas_ok ms" "length ms = length as" "ms \<noteq> []" "separators (map min_str ms) (map as_data as)"
    "i < length as \<Longrightarrow> as_logs (as ! i) = []" "i < length as \<Longrightarrow> kv_good (as_data (as ! i))"
  using assms separators_D(2) [of "map min_str ms" "map as_data as"] by (auto simp: cluster_inv_def)

lemma set_update_ball: "(\<forall>x \<in> set xs. P x) \<Longrightarrow> P y \<Longrightarrow> \<forall>x \<in> set (xs[i := y]). P x"
  using set_update_subset_insert [of xs i y] by auto

lemma first_entry_conv: "xs \<noteq> [] \<Longrightarrow> first_entry xs = hd xs"
  by (simp add: first_entry_def)

text \<open>The last entry of node \<open>i\<close> at the front of node \<open>i + 1\<close>.\<close>

lemma move_up:
  assumes inv: "cluster_inv ms as" and i: "Suc i < length as" and x: "as_data (as ! i) = x @ [e]" "x \<noteq> []"
  shows "owner (map min_str ms) (fst e) = i"
    "kv_del (fst e) (as_data (as ! i)) = x"
    "kv_put (fst e) (snd e) (as_data (as ! Suc i)) = e # as_data (as ! Suc i)"
    "separators ((map min_str ms)[i := fst (hd x)]) (map as_data as)"
    "separators ((map min_str ms)[i := fst (hd x), Suc i := fst e]) (map as_data (as[i := idle x, Suc i := idle (e # as_data (as ! Suc i))]))"
    "cluster_kv (as[i := idle x, Suc i := idle (e # as_data (as ! Suc i))]) = cluster_kv as"
proof -
  let ?mins = "map min_str ms" and ?xss = "map as_data as"
  note sep = cluster_inv_D(5) [OF inv]
  have len: "length ?mins = length ?xss"
    using separators_D(2) [OF sep] .
  have e: "?mins ! j \<le> fst e \<longleftrightarrow> j \<le> i" if "j < length as" for j
    using separators_D(4) [OF sep, of i j e] that i x by simp
  show "owner ?mins (fst e) = i"
    using owner_of_entry [OF sep, of "i" e] i x by simp
  have sx: "kv_sorted (x @ [e])"
    using separators_D(3) [OF sep, of i] i x by simp
  then show "kv_del (fst e) (as_data (as ! i)) = x"
    unfolding x by (auto simp: kv_del_def kv_sorted_append filter_id_conv)
  have "fst e < fst a" if "a \<in> set (as_data (as ! Suc i))" for a
    using separators_D(4) [OF sep, of "Suc i" "Suc i" a] e [of "Suc i"] that i by (auto simp: not_le)
  then show "kv_put (fst e) (snd e) (as_data (as ! Suc i)) = e # as_data (as ! Suc i)"
    using kv_put_segment [of "[]" "fst e" "as_data (as ! Suc i)" "snd e" "[]"] by simp
  show raised: "separators (?mins[i := fst (hd x)]) ?xss"
    using separators_raise [OF sep, of i] i x by simp
  from separators_up [OF raised, of i x e] i x
  show "separators (?mins[i := fst (hd x), Suc i := fst e]) (map as_data (as[i := idle x, Suc i := idle (e # as_data (as ! Suc i))]))"
    "cluster_kv (as[i := idle x, Suc i := idle (e # as_data (as ! Suc i))]) = cluster_kv as"
    by (simp_all add: cluster_kv_def map_update)
qed

lemma border_up:
  assumes "cluster_inv ms as" "Suc i < length as" "1 < length (as_data (as ! i))" "e = last_entry (as_data (as ! i))"
    "x = butlast (as_data (as ! i))" "y = e # as_data (as ! Suc i)"
  shows "as_data (as ! i) = x @ [e]" "x \<noteq> []" "kv_good x" "kv_good y" "good_str (fst e)" "good_str (snd e)"
proof -
  show x: "as_data (as ! i) = x @ [e]"
    using assms(3-5) by (cases "as_data (as ! i) = []") (simp_all add: last_entry_def)
  show "x \<noteq> []"
    using assms(3,5) by (cases "as_data (as ! i)") auto
  note mv = move_up [OF assms(1,2) x this]
  have good: "kv_good (as_data (as ! i))" "kv_good (as_data (as ! Suc i))"
    using cluster_inv_D(7) [OF assms(1)] assms(2) by simp_all
  show e: "good_str (fst e)" "good_str (snd e)"
    using kv_good_entry [OF good(1), of e] x by (metis in_set_conv_decomp)+
  show "kv_good x" "kv_good y"
    using good e kv_good_del [of _ "fst e"] kv_good_put [of _ "fst e" "snd e"] mv(2,3) assms(6) by metis+
qed

text \<open>The first entry of node \<open>i + 1\<close> at the end of node \<open>i\<close>.\<close>

lemma move_down:
  assumes inv: "cluster_inv ms as" and i: "Suc i < length as" and x: "as_data (as ! Suc i) = e # x" "x \<noteq> []"
  shows "owner (map min_str ms) (fst e) = Suc i"
    "kv_del (fst e) (as_data (as ! Suc i)) = x"
    "kv_put (fst e) (snd e) (as_data (as ! i)) = as_data (as ! i) @ [e]"
    "sorted_wrt (<) ((map min_str ms)[Suc i := fst (hd x)])"
    "separators ((map min_str ms)[Suc i := fst (hd x), i := fst (hd (as_data (as ! i) @ [e]))])
       (map as_data (as[Suc i := idle x, i := idle (as_data (as ! i) @ [e])]))"
    "cluster_kv (as[Suc i := idle x, i := idle (as_data (as ! i) @ [e])]) = cluster_kv as"
proof -
  let ?mins = "map min_str ms" and ?xss = "map as_data as"
  note sep = cluster_inv_D(5) [OF inv]
  have len: "length ?mins = length ?xss"
    using separators_D(2) [OF sep] .
  have e: "?mins ! j \<le> fst e \<longleftrightarrow> j \<le> Suc i" if "j < length as" for j
    using separators_D(4) [OF sep, of "Suc i" j e] that i x by simp
  show "owner ?mins (fst e) = Suc i"
    using owner_of_entry [OF sep, of "Suc i" e] i x by simp
  have sx: "kv_sorted (e # x)"
    using separators_D(3) [OF sep, of "Suc i"] i x by simp
  then show "kv_del (fst e) (as_data (as ! Suc i)) = x"
    unfolding x by (auto simp: kv_del_def filter_id_conv)
  have "fst a < fst e" if "a \<in> set (as_data (as ! i))" for a
    using separators_D(4) [OF sep, of i "Suc i" a] e [of "Suc i"] that i by (auto simp: not_le)
  then show "kv_put (fst e) (snd e) (as_data (as ! i)) = as_data (as ! i) @ [e]"
    using kv_put_segment [of "as_data (as ! i)" "fst e" "[]" "snd e" "[]"] by simp
  have down: "separators (?mins[Suc i := fst (hd x)]) (map as_data (as[Suc i := idle x, i := idle (as_data (as ! i) @ [e])]))"
    using separators_down(1) [OF sep, of i e x] i x by (simp add: map_update)
  show "sorted_wrt (<) (?mins[Suc i := fst (hd x)])"
    using separators_D(1) [OF down] .
  show "separators (?mins[Suc i := fst (hd x), i := fst (hd (as_data (as ! i) @ [e]))])
       (map as_data (as[Suc i := idle x, i := idle (as_data (as ! i) @ [e])]))"
    using separators_raise [OF down, of i] i by simp
  show "cluster_kv (as[Suc i := idle x, i := idle (as_data (as ! i) @ [e])]) = cluster_kv as"
    using separators_down(2) [OF sep, of i e x] i x by (simp add: cluster_kv_def map_update)
qed

lemma cluster_inv_two:
  assumes "cluster_inv ms as" "metas_ok ms'" "separators (map min_str ms') (map as_data (as[i := idle x, j := idle y]))"
    "kv_good x" "kv_good y"
  shows "cluster_inv ms' (as[i := idle x, j := idle y])"
proof -
  let ?P = "\<lambda>a. as_logs a = [] \<and> kv_good (as_data a)"
  have "\<forall>a \<in> set as. ?P a" "as \<noteq> []"
    using assms(1) by (simp_all add: cluster_inv_def)
  then have "\<forall>a \<in> set (as[i := idle x, j := idle y]). ?P a"
    using assms(4,5) by (intro set_update_ball) simp_all
  then show ?thesis
    using assms(2,3) \<open>as \<noteq> []\<close> by (simp add: cluster_inv_def)
qed

section \<open>Balancing\<close>

text \<open>The test that ends an inner loop, in terms of a node's entries.\<close>

definition node_fine :: "c_int \<Rightarrow> rat \<Rightarrow> kv \<Rightarrow> bool" where
  "node_fine tot perfect xs \<longleftrightarrow> share_ok (word_of_nat (kv_bytes xs)) tot perfect \<or> length xs \<le> 1"

text \<open>What a balancing step does not change.\<close>

definition moved :: "nat set \<Rightarrow> astore list \<Rightarrow> astore list \<Rightarrow> bool" where
  "moved I as as' \<longleftrightarrow> length as' = length as \<and> cluster_kv as' = cluster_kv as \<and> (\<forall>k. k \<notin> I \<longrightarrow> as' ! k = as ! k)"

lemma moved_refl [simp]: "moved I as as"
  by (simp add: moved_def)

lemma moved_trans: "moved I as as' \<Longrightarrow> moved J as' as'' \<Longrightarrow> moved (I \<union> J) as as''"
  by (simp add: moved_def)

lemma moved_mono: "moved I as as' \<Longrightarrow> I \<subseteq> J \<Longrightarrow> moved J as as'"
  by (auto simp: moved_def)

text \<open>The state \<open>re_balance\<close> aims at: every node but the first passes the test.\<close>

definition balanced :: "kv \<Rightarrow> astore list \<Rightarrow> bool" where
  "balanced xs as \<longleftrightarrow> (\<forall>i. 1 \<le> i \<and> i < length as \<longrightarrow>
     node_fine (word_of_nat (kv_bytes xs)) (dbl_div 1 (of_nat (length as))) (as_data (as ! i)))"

lemma kv_bytes_append [simp]: "kv_bytes (xs @ ys) = kv_bytes xs + kv_bytes ys"
  by (simp add: kv_bytes_def)

lemma cluster_bytes: "kv_bytes (cluster_kv as) = (\<Sum>i \<leftarrow> [0..<length as]. kv_bytes (as_data (as ! i)))"
proof -
  have "kv_bytes (cluster_kv as) = (\<Sum>a \<leftarrow> as. kv_bytes (as_data a))"
    by (induction as) (simp_all add: cluster_kv_def)
  also have "map (\<lambda>a. kv_bytes (as_data a)) as = map (\<lambda>i. kv_bytes (as_data (as ! i))) [0..<length as]"
    using map_nth [of "map (\<lambda>a. kv_bytes (as_data a)) as"] by (auto intro: nth_equalityI)
  finally show ?thesis .
qed

fun neighbour_of :: "direction \<Rightarrow> nat \<Rightarrow> nat" where
  "neighbour_of Up i = Suc i"
| "neighbour_of Down i = i - 1"

fun has_neighbour :: "direction \<Rightarrow> nat \<Rightarrow> nat \<Rightarrow> bool" where
  "has_neighbour Up n i \<longleftrightarrow> Suc i < n"
| "has_neighbour Down n i \<longleftrightarrow> 0 < i \<and> i < n"

context control_whole
begin

text \<open>
  Until the commits the nodes have only logged the move, but the meta records describe the ranges
  after it.
\<close>

lemma migrate_log_up:
  assumes rel: "rel ms as c" and inv: "cluster_inv ms as" and i: "Suc i < length as"
    and long: "1 < length (as_data (as ! i))" and e: "e = last_entry (as_data (as ! i))"
    and x: "x = butlast (as_data (as ! i))" and y: "y = e # as_data (as ! Suc i)"
  shows "\<exists>c' ms'. migrate_log R N (it_next R) c (word_of_nat i) (word_of_nat i + 1) (fst e) (snd e) = Inr c' \<and>
    rel ms' (logged as i (Suc i) (fst e) (snd e)) c' \<and> metas_ok ms' \<and>
    separators (map min_str ms') (map as_data (as[i := idle x, Suc i := idle y]))"
proof -
  note b = border_up [OF inv i long e x y]
  note mv = move_up [OF inv i b(1,2)]
  let ?m1 = "with_range (ms ! i) (fst (first_entry x)) (fst (last_entry x))"
  let ?m2 = "with_range (ms ! Suc i) (fst (first_entry y)) (fst (last_entry y))"
  have "good_str (fst (hd x))"
    using kv_good_entry [OF b(3), of "hd x"] b(2) by simp
  then have mins: "min_str ?m1 = fst (hd x)" "min_str ?m2 = fst e"
    using b(2,5) y by (simp_all add: first_entry_def good_str_def)
  have nb: "\<exists>it'. it_next R it = Inr it' \<and> cursor it' = (map meta_entry ms, Some (Suc i))"
    if "cursor it = (map meta_entry ms, Some i)" for it
    using it_next_at [OF that] i cluster_inv_D(3) [OF inv] by simp
  have m: "?m1 = with_range (ms ! i) (fst (first_entry (kv_del (fst e) (as_data (as ! i))))) (fst (last_entry (kv_del (fst e) (as_data (as ! i)))))"
    "?m2 = with_range (ms ! Suc i) (fst (first_entry (kv_put (fst e) (snd e) (as_data (as ! Suc i))))) (fst (last_entry (kv_put (fst e) (snd e) (as_data (as ! Suc i)))))"
    unfolding mv(2,3) y by (rule refl)+
  have sorted: "sorted_wrt (<) ((map min_str ms)[i := min_str ?m1])" "sorted_wrt (<) ((map min_str ms)[i := min_str ?m1, Suc i := min_str ?m2])"
    unfolding mins using separators_D(1) [OF mv(4)] separators_D(1) [OF mv(5)] by blast+
  have len: "i < length as" "Suc i < length as" "i \<noteq> Suc i"
    using i by simp_all
  obtain c' where "migrate_log R N (it_next R) c (word_of_nat i) (word_of_nat (Suc i)) (fst e) (snd e) = Inr c'"
    "rel (ms[i := ?m1, Suc i := ?m2]) (logged as i (Suc i) (fst e) (snd e)) c'" "metas_ok (ms[i := ?m1, Suc i := ?m2])"
    using migrate_log_run [where neighbour = "it_next R", OF rel cluster_inv_D(2,3) [OF inv] len mv(1) [symmetric] b(5,6) cluster_inv_D(6) [OF inv len(1)]
        cluster_inv_D(6) [OF inv len(2)] nb m sorted] by blast
  moreover have "separators (map min_str (ms[i := ?m1, Suc i := ?m2])) (map as_data (as[i := idle x, Suc i := idle y]))"
    using mv(5) mins y by (simp add: map_update)
  ultimately show ?thesis
    by (intro exI [of _ c'] exI [of _ "ms[i := ?m1, Suc i := ?m2]"]) (simp add: add.commute)
qed

lemma migrate_up:
  assumes rel: "rel ms as c" and inv: "cluster_inv ms as" and i: "Suc i < length as"
    and long: "1 < length (as_data (as ! i))" and e: "e = last_entry (as_data (as ! i))"
  shows "\<exists>c' ms' as'. migrate R N (it_next R) c (word_of_nat i) (word_of_nat i + 1) (fst e) (snd e) = Inr (True, c') \<and>
    rel ms' as' c' \<and> cluster_inv ms' as' \<and> moved {i, Suc i} as as' \<and>
    length (as_data (as' ! i)) < length (as_data (as ! i))"
proof -
  let ?x = "butlast (as_data (as ! i))" and ?y = "e # as_data (as ! Suc i)"
  note b = border_up [OF inv i long e refl refl]
  note mv = move_up [OF inv i b(1,2)]
  obtain c1 ms' where c1: "migrate_log R N (it_next R) c (word_of_nat i) (word_of_nat i + 1) (fst e) (snd e) = Inr c1"
    "rel ms' (logged as i (Suc i) (fst e) (snd e)) c1" "metas_ok ms'"
    "separators (map min_str ms') (map as_data (as[i := idle ?x, Suc i := idle ?y]))"
    using migrate_log_up [OF rel inv i long e refl refl] by blast
  obtain c' where c': "commit_both N c1 (word_of_nat i) (word_of_nat i + 1) = Inr (True, c')"
    "rel ms' (as[i := idle ?x, Suc i := idle ?y]) c'"
    using commit_logged_run [OF c1(2)] i unfolding mv(2,3) idle_def by (auto simp: add.commute)
  have "cluster_inv ms' (as[i := idle ?x, Suc i := idle ?y])"
    using cluster_inv_two [OF inv c1(3,4) b(3,4)] .
  moreover have "moved {i, Suc i} as (as[i := idle ?x, Suc i := idle ?y])"
    using mv(6) by (simp add: moved_def)
  ultimately show ?thesis
    using c1(1) c' long i
    by (intro exI [of _ c'] exI [of _ ms'] exI [of _ "as[i := idle ?x, Suc i := idle ?y]"]) (simp add: migrate_def)
qed

lemma migrate_down:
  assumes rel: "rel ms as c" and inv: "cluster_inv ms as" and i: "Suc i < length as"
    and long: "1 < length (as_data (as ! Suc i))" and e: "e = first_entry (as_data (as ! Suc i))"
  shows "\<exists>c' ms' as'. migrate R N (it_prev R) c (word_of_nat (Suc i)) (word_of_nat (Suc i) - 1) (fst e) (snd e) = Inr (True, c') \<and>
    rel ms' as' c' \<and> cluster_inv ms' as' \<and> moved {i, Suc i} as as' \<and>
    length (as_data (as' ! Suc i)) < length (as_data (as ! Suc i))"
proof -
  let ?x = "tl (as_data (as ! Suc i))"
  have x: "as_data (as ! Suc i) = e # ?x" "?x \<noteq> []"
  proof -
    show "as_data (as ! Suc i) = e # ?x"
      using long e by (cases "as_data (as ! Suc i)") (simp_all add: first_entry_def)
    show "?x \<noteq> []"
      using long by (cases "as_data (as ! Suc i)") auto
  qed
  note mv = move_down [OF inv i x]
  let ?y = "as_data (as ! i) @ [e]"
  let ?m1 = "with_range (ms ! Suc i) (fst (first_entry ?x)) (fst (last_entry ?x))"
  let ?m2 = "with_range (ms ! i) (fst (first_entry ?y)) (fst (last_entry ?y))"
  have "kv_good (as_data (as ! Suc i))" "kv_good (as_data (as ! i))"
    using cluster_inv_D(7) [OF inv] i by simp_all
  moreover have e_good: "good_str (fst e)" "good_str (snd e)"
    using kv_good_entry [OF calculation(1), of e] x by (metis list.set_intros(1))+
  ultimately have good: "kv_good ?x" "kv_good ?y"
    using kv_good_del [of _ "fst e"] kv_good_put [of _ "fst e" "snd e"] mv(2,3) by metis+
  have "good_str (fst (hd ?x))" "good_str (fst (hd ?y))"
    using kv_good_entry [OF good(1) hd_in_set [OF x(2)]] kv_good_entry [OF good(2) hd_in_set] by simp_all
  then have mins: "min_str ?m1 = fst (hd ?x)" "min_str ?m2 = fst (hd ?y)"
    using x(2) by (simp_all add: first_entry_def good_str_def)
  have nb: "\<exists>it'. it_prev R it = Inr it' \<and> cursor it' = (map meta_entry ms, Some (i))"
    if "cursor it = (map meta_entry ms, Some (Suc i))" for it
    using it_prev_at [OF that] i cluster_inv_D(3) [OF inv] by simp
  have m: "?m1 = with_range (ms ! (Suc i)) (fst (first_entry (kv_del (fst e) (as_data (as ! (Suc i)))))) (fst (last_entry (kv_del (fst e) (as_data (as ! (Suc i))))))"
    "?m2 = with_range (ms ! (i)) (fst (first_entry (kv_put (fst e) (snd e) (as_data (as ! (i)))))) (fst (last_entry (kv_put (fst e) (snd e) (as_data (as ! (i))))))"
    unfolding mv(2,3) by (rule refl)+
  have sorted: "sorted_wrt (<) ((map min_str ms)[Suc i := min_str ?m1])" "sorted_wrt (<) ((map min_str ms)[Suc i := min_str ?m1, i := min_str ?m2])"
    unfolding mins using mv(4) separators_D(1) [OF mv(5)] by blast+
  have len: "Suc i < length as" "i < length as" "Suc i \<noteq> i"
    using i by simp_all
  obtain c' where c': "migrate R N (it_prev R) c (word_of_nat (Suc i)) (word_of_nat i) (fst e) (snd e) = Inr (True, c')"
    "rel (ms[Suc i := ?m1, i := ?m2]) (as[Suc i := idle ?x, i := idle ?y]) c'" "metas_ok (ms[Suc i := ?m1, i := ?m2])"
    using migrate_run [where neighbour = "it_prev R", OF rel cluster_inv_D(2,3) [OF inv] len mv(1) [symmetric] e_good cluster_inv_D(6) [OF inv len(1)]
        cluster_inv_D(6) [OF inv len(2)] nb m sorted]
    unfolding mv(2,3) idle_def by blast
  have "cluster_inv (ms[Suc i := ?m1, i := ?m2]) (as[Suc i := idle ?x, i := idle ?y])"
    using mv(5) mins by (intro cluster_inv_two [OF inv c'(3) _ good]) (simp add: map_update)
  moreover have "moved {i, Suc i} as (as[Suc i := idle ?x, i := idle ?y])"
    using mv(6) by (simp add: moved_def)
  ultimately show ?thesis
    using c' long i by (intro exI [of _ c'] exI [of _ "ms[Suc i := ?m1, i := ?m2]"] exI [of _ "as[Suc i := idle ?x, i := idle ?y]"]) simp
qed

subsection \<open>The inner loops\<close>

lemma balance_turn_run:
  assumes rel: "rel ms as c" and inv: "cluster_inv ms as" and i: "has_neighbour dir (length as) i"
  shows "\<exists>t c' ms' as'. balance_turn R N dir tot perfect c (word_of_nat i) = Inr (t, c') \<and> rel ms' as' c' \<and> cluster_inv ms' as' \<and>
    moved {i, neighbour_of dir i} as as' \<and>
    (t = Loop_done \<and> as' = as \<and> node_fine tot perfect (as_data (as ! i)) \<or>
     t = Loop_again \<and> length (as_data (as' ! i)) < length (as_data (as ! i)))"
proof -
  have il: "i < length as"
    using i by (cases dir) auto
  obtain c1 where c1: "control_not_too_much N c (word_of_nat i) tot perfect = Inr (node_fine tot perfect (as_data (as ! i)), c1)" "rel ms as c1"
    using not_too_much_query [OF rel il] by (auto simp: node_fine_def)
  show ?thesis
  proof (cases "node_fine tot perfect (as_data (as ! i))")
    case True
    then show ?thesis
      using c1 inv by (intro exI [of _ Loop_done] exI [of _ c1] exI [of _ ms] exI [of _ as]) (simp add: balance_turn_def)
  next
    case False
    then have long: "1 < length (as_data (as ! i))"
      by (simp add: node_fine_def)
    show ?thesis
    proof (cases dir)
      case Up
      obtain c2 where c2: "control_get_max_store N c1 (word_of_nat i) = Inr (last_entry (as_data (as ! i)), c2)" "rel ms as c2"
        using max_query [OF c1(2) il] by blast
      obtain c' ms' as' where "migrate R N (it_next R) c2 (word_of_nat i) (word_of_nat i + 1)
          (fst (last_entry (as_data (as ! i)))) (snd (last_entry (as_data (as ! i)))) = Inr (True, c')" "rel ms' as' c'"
        "cluster_inv ms' as'" "moved {i, Suc i} as as'" "length (as_data (as' ! i)) < length (as_data (as ! i))"
        using migrate_up [OF c2(2) inv _ long refl] i Up by auto
      then show ?thesis
        using c1(1) c2(1) False Up by (simp add: balance_turn_def case_prod_unfold) blast
    next
      case Down
      then obtain k where k: "i = Suc k" "Suc k < length as"
        using i by (cases i) auto
      obtain c2 where c2: "control_get_min_store N c1 (word_of_nat i) = Inr (first_entry (as_data (as ! i)), c2)" "rel ms as c2"
        using min_query [OF c1(2) il] by blast
      obtain c' ms' as' where "migrate R N (it_prev R) c2 (word_of_nat i) (word_of_nat i - 1)
          (fst (first_entry (as_data (as ! i)))) (snd (first_entry (as_data (as ! i)))) = Inr (True, c')" "rel ms' as' c'"
        "cluster_inv ms' as'" "moved {k, i} as as'" "length (as_data (as' ! i)) < length (as_data (as ! i))"
        using migrate_down [OF c2(2) inv k(2) _ refl] long k(1) by auto
      moreover have "{i, k} = {k, i}"
        by auto
      ultimately show ?thesis
        using c1(1) c2(1) False Down k(1) by (simp add: balance_turn_def case_prod_unfold) blast
    qed
  qed
qed

lemma balance_while_run:
  assumes "rel ms as c" "cluster_inv ms as" "has_neighbour dir (length as) i"
  shows "\<exists>c' ms' as'. balance_while R N dir tot perfect c (word_of_nat i) = Some (Inr (True, c')) \<and> rel ms' as' c' \<and>
    cluster_inv ms' as' \<and> moved {i, neighbour_of dir i} as as' \<and> node_fine tot perfect (as_data (as' ! i))"
  using assms
proof (induction "length (as_data (as ! i))" arbitrary: c ms as rule: less_induct)
  case less
  obtain t c1 ms1 as1 where turn: "balance_turn R N dir tot perfect c (word_of_nat i) = Inr (t, c1)" "rel ms1 as1 c1" "cluster_inv ms1 as1"
    "moved {i, neighbour_of dir i} as as1"
    "t = Loop_done \<and> as1 = as \<and> node_fine tot perfect (as_data (as ! i)) \<or>
     t = Loop_again \<and> length (as_data (as1 ! i)) < length (as_data (as ! i))"
    using balance_turn_run [OF less.prems] by blast
  show ?case
  proof (cases "t = Loop_done")
    case True
    then show ?thesis
      using turn by (intro exI [of _ c1] exI [of _ ms1] exI [of _ as1], subst balance_while.simps) auto
  next
    case False
    then have again: "t = Loop_again" "length (as_data (as1 ! i)) < length (as_data (as ! i))"
      using turn(5) by auto
    have "has_neighbour dir (length as1) i"
      using less.prems(3) turn(4) by (simp add: moved_def)
    then obtain c' ms' as' where rest: "balance_while R N dir tot perfect c1 (word_of_nat i) = Some (Inr (True, c'))" "rel ms' as' c'"
      "cluster_inv ms' as'" "moved {i, neighbour_of dir i} as1 as'" "node_fine tot perfect (as_data (as' ! i))"
      using less.hyps [OF again(2) turn(2,3)] by blast
    have "moved {i, neighbour_of dir i} as as'"
      using moved_trans [OF turn(4) rest(4)] by simp
    then show ?thesis
      using turn(1) again(1) rest
      by (intro exI [of _ c'] exI [of _ ms'] exI [of _ as'], subst balance_while.simps) simp
  qed
qed

lemma balance_up_run:
  assumes "rel ms as c" "cluster_inv ms as" "\<forall>i \<in> set is. Suc i < length as"
  shows "\<exists>c' ms' as'. balance_for R N Up tot perfect c is = Inr (True, c') \<and> rel ms' as' c' \<and> cluster_inv ms' as' \<and> moved UNIV as as'"
  using assms
proof (induction "is" arbitrary: c ms as)
  case Nil
  then show ?case
    by (intro exI [of _ c] exI [of _ ms] exI [of _ as]) simp
next
  case (Cons i "is")
  then obtain c1 ms1 as1 where one: "balance_while R N Up tot perfect c (word_of_nat i) = Some (Inr (True, c1))" "rel ms1 as1 c1"
    "cluster_inv ms1 as1" "moved {i, Suc i} as as1"
    using balance_while_run [of ms as c Up i tot perfect] by auto
  then have "\<forall>i \<in> set is. Suc i < length as1"
    using Cons.prems(3) by (simp add: moved_def)
  from Cons.IH [OF one(2,3) this] show ?case
    using one moved_trans [OF one(4), of UNIV] by auto
qed

text \<open>After the second loop every node but the first passes the test.\<close>

lemma balance_down_run:
  assumes "rel ms as c" "cluster_inv ms as" "m \<le> length as"
  shows "\<exists>c' ms' as'. balance_for R N Down tot perfect c (rev [1..<m]) = Inr (True, c') \<and> rel ms' as' c' \<and> cluster_inv ms' as' \<and>
    moved {..<m} as as' \<and> (\<forall>i. 1 \<le> i \<and> i < m \<longrightarrow> node_fine tot perfect (as_data (as' ! i)))"
  using assms
proof (induction m arbitrary: c ms as)
  case 0
  then show ?case
    by (intro exI [of _ c] exI [of _ ms] exI [of _ as]) simp
next
  case (Suc m)
  show ?case
  proof (cases "m = 0")
    case True
    then show ?thesis
      using Suc.prems by (intro exI [of _ c] exI [of _ ms] exI [of _ as]) simp
  next
    case False
    then obtain c1 ms1 as1 where one: "balance_while R N Down tot perfect c (word_of_nat m) = Some (Inr (True, c1))" "rel ms1 as1 c1"
      "cluster_inv ms1 as1" "moved {m, m - 1} as as1" "node_fine tot perfect (as_data (as1 ! m))"
      using balance_while_run [of ms as c Down m tot perfect] Suc.prems by auto
    then have "m \<le> length as1"
      using Suc.prems(3) by (simp add: moved_def)
    from Suc.IH [OF one(2,3) this] obtain c' ms' as' where two: "balance_for R N Down tot perfect c1 (rev [1..<m]) = Inr (True, c')"
      "rel ms' as' c'" "cluster_inv ms' as'" "moved {..<m} as1 as'" "\<forall>i. 1 \<le> i \<and> i < m \<longrightarrow> node_fine tot perfect (as_data (as' ! i))"
      by blast
    have "moved {..<Suc m} as as'"
      using moved_mono [OF moved_trans [OF one(4) two(4)], of "{..<Suc m}"] by auto
    moreover have "as' ! m = as1 ! m"
      using two(4) by (simp add: moved_def)
    moreover have "rev [1..<Suc m] = m # rev [1..<m]"
      using False by simp
    ultimately show ?thesis
      using one two by (intro exI [of _ c'] exI [of _ ms'] exI [of _ as']) (auto simp: less_Suc_eq)
  qed
qed

subsection \<open>The totals and the report\<close>

lemma sum_sizes_run:
  assumes "rel ms as c" "\<forall>i \<in> set is. i < length as"
  shows "\<exists>c'. sum_sizes N c is acc = Inr (acc + word_of_nat (\<Sum>i \<leftarrow> is. kv_bytes (as_data (as ! i))), c') \<and> rel ms as c' \<and>
    c_out c' = c_out c"
  using assms
proof (induction "is" arbitrary: c acc)
  case (Cons i "is")
  then obtain c1 where c1: "control_get_size N c (word_of_nat i) = Inr (word_of_nat (kv_bytes (as_data (as ! i))), c1)" "rel ms as c1"
    "c_out c1 = c_out c"
    using get_size_query [of ms as c i] by auto
  show ?case
    using c1(1,3) Cons.IH [OF c1(2), of "acc + word_of_nat (kv_bytes (as_data (as ! i)))"] Cons.prems(2)
    by (simp add: algebra_simps)
qed simp

lemma ahead_cursor:
  assumes "ahead cursor it = e # ys"
  shows "\<exists>v. It_Valid R it \<and> it_value R it = Inr v \<and> slice_ok v \<and> slice_bytes v = snd e"
proof -
  obtain xs n where at: "cursor it = (xs, Some n)" and ys: "drop n xs = e # ys"
    using assms by (cases "cursor it") (auto simp: ahead_def split: option.splits)
  then show ?thesis
    using it_value_at [OF at] valid_at [OF at] nth_via_drop [OF ys] by simp
qed

lemma show_meta_loop_run:
  assumes "rel ms as c" "ahead cursor it = map meta_entry es" "\<forall>m \<in> set es. good_meta m \<and> (\<exists>i < length as. virtual_fd m = word_of_nat i)"
  shows "\<exists>c' ls. show_meta_loop R N c it = Some (Inr c') \<and> rel ms as c' \<and> c_out c' = c_out c @ ls"
  using assms
proof (induction es arbitrary: c it)
  case Nil
  then show ?case
    using ahead_Nil [of it] by (subst show_meta_loop.simps) simp
next
  case (Cons m es)
  obtain i where i: "i < length as" "virtual_fd m = word_of_nat i" and good: "good_meta m"
    using Cons.prems(3) by auto
  obtain v where v: "It_Valid R it" "it_value R it = Inr v" "slice_ok v" "slice_bytes v = enc_meta m"
    using ahead_cursor [of it "meta_entry m"] Cons.prems(2) by (auto simp: meta_entry_def)
  have next_: "ahead cursor (It_Next R it) = map meta_entry es"
    using ahead_Cons(2) [of it "min_str m" "enc_meta m"] Cons.prems(2) by (simp add: meta_entry_def)
  obtain c1 ls where c1: "show_meta_entry R N c it = Inr c1" "rel ms as c1" "c_out c1 = c_out c @ ls"
    using get_size_query [OF Cons.prems(1) i(1)] of_slice_run [OF good_meta_fits [OF good] v(3,4)] v(2) i(2)
    by (auto simp: show_meta_entry_def Let_def)
  then show ?case
    using Cons.IH [OF c1(2) next_] Cons.prems(3) v(1) c1(3) by (subst show_meta_loop.simps) auto
qed

lemma show_meta_run:
  assumes "rel ms as c" "metas_ok ms" "length ms = length as"
  shows "\<exists>c' ls. control_show_meta R N c = Inr c' \<and> rel ms as c' \<and> c_out c' = c_out c @ ls"
proof -
  have h: "handle_ok (meta_db c)" "hcontent content (meta_db c) = map meta_entry ms"
    using assms(1) by (simp_all add: control_rel_def)
  obtain it where it: "DB_Handle.new_iterator R (meta_db c) = Inr it" "fst (cursor it) = map meta_entry ms"
    using new_iterator_run [OF h(1)] h(2) by auto
  have "\<forall>m \<in> set ms. good_meta m \<and> (\<exists>i < length as. virtual_fd m = word_of_nat i)"
  proof
    fix m
    assume m: "m \<in> set ms"
    then obtain i where "i < length ms" "m = ms ! i"
      by (auto simp: in_set_conv_nth)
    then show "good_meta m \<and> (\<exists>i < length as. virtual_fd m = word_of_nat i)"
      using assms(2,3) m by (auto simp: metas_ok_def)
  qed
  then show ?thesis
    using show_meta_loop_run [OF assms(1), of "It_SeekToFirst R it" ms] it by (auto simp: control_show_meta_def ahead_first)
qed

lemma re_balance_run:
  assumes rel: "rel ms as c" and inv: "cluster_inv ms as"
  shows "\<exists>c' ms' as'. control_re_balance R N c = Inr c' \<and> rel ms' as' c' \<and> cluster_inv ms' as' \<and>
    cluster_kv as' = cluster_kv as \<and> length as' = length as \<and> balanced (cluster_kv as) as'"
proof -
  let ?n = "length as" and ?tot = "word_of_nat (kv_bytes (cluster_kv as)) :: c_int" and ?p = "dbl_div 1 (of_nat (length as))"
  obtain c1 where c1: "sum_sizes N c [0..<?n] 0 = Inr (?tot, c1)" "rel ms as c1"
    using sum_sizes_run [OF rel, of "[0..<?n]" 0] by (auto simp: cluster_bytes)
  obtain c2 ms2 as2 where c2: "balance_for R N Up ?tot ?p c1 [0..<?n - 1] = Inr (True, c2)" "rel ms2 as2 c2" "cluster_inv ms2 as2"
    "moved UNIV as as2"
  proof -
    have "\<forall>i \<in> set [0..<?n - 1]. Suc i < length as"
      by auto
    from balance_up_run [OF c1(2) inv this, of ?tot ?p] show ?thesis
      using that by blast
  qed
  then have n2: "length as2 = ?n" "cluster_kv as2 = cluster_kv as"
    by (simp_all add: moved_def)
  obtain c3 ms3 as3 where c3: "balance_for R N Down ?tot ?p c2 (rev [1..<?n]) = Inr (True, c3)" "rel ms3 as3 c3" "cluster_inv ms3 as3"
    "moved {..<?n} as2 as3" "\<forall>i. 1 \<le> i \<and> i < ?n \<longrightarrow> node_fine ?tot ?p (as_data (as3 ! i))"
    using balance_down_run [OF c2(2,3), of ?n ?tot ?p] n2 by auto
  then have n3: "length as3 = ?n" "cluster_kv as3 = cluster_kv as"
    using n2 by (simp_all add: moved_def)
  have bal: "balanced (cluster_kv as) as3"
    unfolding balanced_def n3(1) by (rule c3(5))
  obtain c4 where "control_show_meta R N c3 = Inr c4" "rel ms3 as3 c4"
    using show_meta_run [OF c3(2)] cluster_inv_D(2,3) [OF c3(3)] by blast
  then show ?thesis
    using c1 c2 c3(1,3) bal n3 node_count_rel [OF rel]
    by (intro exI [of _ c4] exI [of _ ms3] exI [of _ as3]) (simp add: control_re_balance_def Let_def)
qed

text \<open>If every node passes the test, nothing is moved, whatever records the nodes have logged.\<close>

lemma balance_for_settled:
  assumes "rel ms as c" "\<forall>i \<in> set is. i < length as \<and> node_fine tot perfect (as_data (as ! i))"
  shows "\<exists>c'. balance_for R N dir tot perfect c is = Inr (True, c') \<and> rel ms as c' \<and> c_out c' = c_out c"
  using assms
proof (induction "is" arbitrary: c)
  case (Cons i "is")
  then obtain c1 where c1: "control_not_too_much N c (word_of_nat i) tot perfect = Inr (True, c1)" "rel ms as c1" "c_out c1 = c_out c"
    using not_too_much_query [of ms as c i tot perfect] by (auto simp: node_fine_def)
  then have "balance_while R N dir tot perfect c (word_of_nat i) = Some (Inr (True, c1))"
    by (subst balance_while.simps) (simp add: balance_turn_def)
  then show ?case
    using Cons.IH [OF c1(2)] Cons.prems(2) c1(3) by auto
qed simp

lemma re_balance_settled:
  assumes rel: "rel ms as c" and ok: "metas_ok ms" "length ms = length as"
    and fine: "\<forall>a \<in> set as. node_fine (word_of_nat (kv_bytes (cluster_kv as))) (dbl_div 1 (of_nat (length as))) (as_data a)"
  shows "\<exists>c' ls. control_re_balance R N c = Inr c' \<and> rel ms as c' \<and> c_out c' = c_out c @ ls"
proof -
  let ?n = "length as" and ?tot = "word_of_nat (kv_bytes (cluster_kv as)) :: c_int" and ?p = "dbl_div 1 (of_nat (length as))"
  obtain c1 where c1: "sum_sizes N c [0..<?n] 0 = Inr (?tot, c1)" "rel ms as c1" "c_out c1 = c_out c"
    using sum_sizes_run [OF rel, of "[0..<?n]" 0] by (auto simp: cluster_bytes)
  have below: "\<forall>i \<in> set is. i < ?n \<and> node_fine ?tot ?p (as_data (as ! i))" if "set is \<subseteq> {..<?n}" for "is"
    using fine that by auto
  obtain c2 where c2: "balance_for R N Up ?tot ?p c1 [0..<?n - 1] = Inr (True, c2)" "rel ms as c2" "c_out c2 = c_out c"
    using balance_for_settled [OF c1(2) below, of "[0..<?n - 1]" Up] c1(3) by force
  obtain c3 where c3: "balance_for R N Down ?tot ?p c2 (rev [1..<?n]) = Inr (True, c3)" "rel ms as c3" "c_out c3 = c_out c"
    using balance_for_settled [OF c2(2) below, of "rev [1..<?n]" Down] c2(3) by force
  obtain c4 ls where "control_show_meta R N c3 = Inr c4" "rel ms as c4" "c_out c4 = c_out c @ ls"
    using show_meta_run [OF c3(2) ok] c3(3) by auto
  then show ?thesis
    using c1(1) c2(1) c3(1) node_count_rel [OF rel] by (simp add: control_re_balance_def Let_def)
qed

section \<open>The commands\<close>

text \<open>A look-up asks the owner of the key, whatever records the nodes have logged.\<close>

lemma get_at_owner:
  assumes rel: "rel ms as c" and ok: "metas_ok ms" "length ms = length as" "as \<noteq> []" and key: "good_str key"
  shows "\<exists>c'. control_get R N c key = Inr c' \<and> rel ms as c' \<and>
    c_out c' = c_out c @ [''get '' @ (case kv_get key (as_data (as ! owner (map min_str ms) key)) of Some v \<Rightarrow> v | None \<Rightarrow> [])]"
proof -
  let ?i = "owner (map min_str ms) key" and ?e = "enc_request (Req_get key)" and ?b = "send_buff c"
  have ne: "ms \<noteq> []"
    using ok(2,3) by auto
  then have i: "?i < length as"
    using owner_less [of "map min_str ms" key] ok(2) by simp
  let ?v = "case kv_get key (as_data (as ! ?i)) of Some v \<Rightarrow> v | None \<Rightarrow> []"
  obtain it where it: "route R c key = Inr (it, ms ! ?i)"
    using route_run [OF rel ok(1) ne refl] by blast
  have fd: "virtual_fd (ms ! ?i) = word_of_nat ?i"
    using ok(1,2) i by (simp add: metas_ok_def)
  have len: "length ?b = MAXLINE" "length ?e \<le> MAXLINE"
    using rel length_enc_request [of "Req_get key"] key by (simp_all add: control_rel_def del: enc_request.simps)
  have b: "insert_str_to_buff ?b 0 get_GET 0 = Inr (enc_str get_GET @ drop (length (enc_str get_GET)) ?b, length (enc_str get_GET), word_of_nat (length (enc_str get_GET)))"
    "insert_str_to_buff (enc_str get_GET @ drop (length (enc_str get_GET)) ?b) (length (enc_str get_GET)) key (word_of_nat (length (enc_str get_GET)))
      = Inr (?e @ drop (length ?e) ?b, length ?e, word_of_nat (length ?e))"
    using put_str_front [of get_GET ?b] put_str_after [of key "enc_str get_GET" ?b] len key
    by (simp_all add: short_str_wire good_str_short)
  have "rel ms as (set_send c (?e @ drop (length ?e) ?b))"
    using rel len by (intro control_rel_send) simp_all
  then obtain c1 rest where c1: "exchange N (set_send c (?e @ drop (length ?e) ?b)) (word_of_nat ?i) (word_of_nat (length ?e)) = Inr c1"
    "rel ms as c1" "receive_buff c1 = enc_str ?v @ rest" "c_out c1 = c_out c"
    using exchange_run [of ms as "set_send c (?e @ drop (length ?e) ?b)" ?i "Req_get key" "drop (length ?e) ?b"] i key
    by (auto simp: set_send_def simp del: enc_request.simps)
  have "short_str ?v"
  proof (cases "kv_get key (as_data (as ! ?i))")
    case (Some v)
    then have "(key, v) \<in> set (as_data (as ! ?i))"
      by (simp add: kv_get_def map_of_SomeD)
    then show ?thesis
      using kv_good_entry [of "as_data (as ! ?i)"] rel_node_ok [OF rel i] Some by (auto simp: astore_ok_def intro: good_str_short)
  qed simp
  then have "get_string_from_buff (receive_buff c1) 0 = Inr (?v, length (enc_str ?v))"
    using get_string_at [of 0 "[]" ?v rest] c1(3) by (simp add: short_str_wire)
  then show ?thesis
    using it fd b c1 by (simp add: control_get_def del: length_enc_str enc_request.simps)
qed

lemma get_run_cluster:
  assumes rel: "rel ms as c" and inv: "cluster_inv ms as" and key: "good_str key"
  shows "\<exists>c'. control_get R N c key = Inr c' \<and> rel ms as c' \<and>
    c_out c' = c_out c @ [''get '' @ (case kv_get key (cluster_kv as) of Some v \<Rightarrow> v | None \<Rightarrow> [])]"
proof -
  note D = cluster_inv_D [OF inv]
  have "kv_get key (as_data (as ! owner (map min_str ms) key)) = kv_get key (cluster_kv as)"
    using owner_get [OF D(5), of key] owner_length [OF D(5), of key] D(1) by (simp add: cluster_kv_def)
  then show ?thesis
    using get_at_owner [OF rel D(2,3,1) key] by simp
qed

text \<open>
  The common part of \<open>put\<close> and \<open>del\<close>: the log request is sent to the key's owner, whose answer is in
  the receive buffer.
\<close>

lemma log_to_owner:
  assumes rel: "rel ms as c" and ok: "metas_ok ms" "length ms = length as" "as \<noteq> []" and l: "good_log l" and i: "i = owner (map min_str ms) (log_key l)"
  shows "\<exists>b1 p t b2 s it c'. insert_str_to_buff (send_buff c) 0 get_LOG 0 = Inr (b1, p, t) \<and> LOG_to_slice l b1 p = Inr (s, b2) \<and>
    route R (set_send c b2) (log_key l) = Inr (it, ms ! i) \<and> cursor it = (map meta_entry ms, Some i) \<and>
    exchange N (set_send c b2) (virtual_fd (ms ! i)) (t + word_of_nat (Slice_size s)) = Inr c' \<and>
    rel ms (as[i := (as ! i)\<lparr>as_logs := add_log l (as_logs (as ! i))\<rparr>]) c' \<and> i < length as \<and> c_out c' = c_out c \<and>
    read_range c' = Inr (''ok'', fst (first_entry (apply_log l (as_data (as ! i)))), fst (last_entry (apply_log l (as_data (as ! i)))))"
proof -
  let ?e = "enc_request (Req_log l)" and ?b = "send_buff c"
  have ne: "ms \<noteq> []"
    using ok(2,3) by auto
  then have il: "i < length as"
    using owner_less [of "map min_str ms" "log_key l"] ok(2) i by simp
  have len: "length ?b = MAXLINE" "length ?e \<le> MAXLINE"
    using rel length_enc_request [of "Req_log l"] l by (simp_all add: control_rel_def del: enc_request.simps)
  obtain b1 p t s where b: "insert_str_to_buff ?b 0 get_LOG 0 = Inr (b1, p, t)"
    "LOG_to_slice l b1 p = Inr (s, ?e @ drop (length ?e) ?b)" "t + word_of_nat (Slice_size s) = word_of_nat (length ?e)"
    using log_request_run [OF len(1) l] by auto
  let ?c = "set_send c (?e @ drop (length ?e) ?b)"
  have rel': "rel ms as ?c"
    using rel len by (intro control_rel_send) simp_all
  obtain it where it: "route R ?c (log_key l) = Inr (it, ms ! i)" "cursor it = (map meta_entry ms, Some i)"
    using route_run [OF rel' ok(1) ne i] by blast
  have fd: "virtual_fd (ms ! i) = word_of_nat i"
    using ok(1,2) il by (simp add: metas_ok_def)
  have "kv_good (apply_log l (as_data (as ! i)))"
    using rel_node_ok [OF rel il] l by (simp add: astore_ok_def kv_good_apply)
  note short = extreme_short [OF this]
  obtain c' rest where c': "exchange N ?c (word_of_nat i) (word_of_nat (length ?e)) = Inr c'"
    "rel ms (as[i := (as ! i)\<lparr>as_logs := add_log l (as_logs (as ! i))\<rparr>]) c'" "c_out c' = c_out c" "receive_buff c' = fst (store_spec (Req_log l) (as ! i)) @ rest"
    using exchange_run [OF rel' il, of "Req_log l" "drop (length ?e) ?b" "word_of_nat (length ?e)"] l
    by (auto simp: set_send_def Let_def simp del: enc_request.simps)
  have "read_range c' = Inr (get_OK, fst (first_entry (apply_log l (as_data (as ! i)))), fst (last_entry (apply_log l (as_data (as ! i)))))"
    using c'(4) short by (intro read_range_run) (simp_all add: Let_def)
  then show ?thesis
    using b it c' fd il unfolding get_OK_def
    by (intro exI [of _ b1] exI [of _ p] exI [of _ t] exI [of _ "?e @ drop (length ?e) ?b"] exI [of _ s] exI [of _ it] exI [of _ c'])
      (simp del: enc_request.simps)
qed

text \<open>The rest of both: the owner's meta record is replaced and the owner commits.\<close>

lemma replace_and_commit:
  assumes rel: "rel ms (as[i := (as ! i)\<lparr>as_logs := [l]\<rparr>]) c" and inv: "cluster_inv ms as" and i: "i < length as"
    and it: "cursor it = (map meta_entry ms, Some i)" and m: "good_meta m" "virtual_fd m = virtual_fd (ms ! i)"
    and sep: "separators ((map min_str ms)[i := min_str m]) ((map as_data as)[i := apply_log l (as_data (as ! i))])"
    and l: "good_log l"
  shows "\<exists>c1. replace_meta R c it m = Inr c1 \<and>
    (\<forall>lines. \<exists>c2. commit_one N (fold (\<lambda>x c. say c x) lines c1) (virtual_fd (ms ! i)) = Inr c2 \<and>
      rel (ms[i := m]) (as[i := idle (apply_log l (as_data (as ! i)))]) c2) \<and>
    cluster_inv (ms[i := m]) (as[i := idle (apply_log l (as_data (as ! i)))])"
proof -
  let ?xs = "apply_log l (as_data (as ! i))"
  note D = cluster_inv_D [OF inv]
  have sorted: "sorted_wrt (<) (map min_str ms)" "sorted_wrt (<) ((map min_str ms)[i := min_str m])"
    using D(2) separators_D(1) [OF sep] by (simp_all add: metas_ok_def)
  obtain c1 where c1: "replace_meta R c it m = Inr c1" "rel (ms[i := m]) (as[i := (as ! i)\<lparr>as_logs := [l]\<rparr>]) c1"
    using replace_meta_run [OF rel it _ refl _ sorted good_meta_fits [OF m(1)]] D(3) i by auto
  have said: "rel ms' as' (fold (\<lambda>x c. say c x) lines c) = rel ms' as' c" for ms' as' lines and c :: "('db, 'w) control"
    by (induction lines arbitrary: c) simp_all
  have fd: "virtual_fd (ms ! i) = word_of_nat i"
    using D(2,3) i by (simp add: metas_ok_def)
  have "\<exists>c2. commit_one N (fold (\<lambda>x c. say c x) lines c1) (word_of_nat i) = Inr c2 \<and> rel (ms[i := m]) (as[i := idle ?xs]) c2" for lines
    using commit_one_run [of "ms[i := m]" "as[i := (as ! i)\<lparr>as_logs := [l]\<rparr>]" "fold (\<lambda>x c. say c x) lines c1" i l "[]"] c1(2) i
    by (auto simp: said idle_def)
  moreover have "cluster_inv (ms[i := m]) (as[i := idle ?xs])"
    using cluster_inv_two [OF inv, of "ms[i := m]" i ?xs i ?xs] metas_ok_update [OF D(2) m sorted(2)] sep
      kv_good_apply [OF D(7) [OF i] l] by (simp add: map_update)
  ultimately show ?thesis
    using c1(1) fd by auto
qed

lemma read_range_first: "read_range c = Inr (ans, mn, mx) \<Longrightarrow> \<exists>p q r. get_string_from_buff (receive_buff c) 0 = Inr (ans, p) \<and>
    get_string_from_buff (receive_buff c) p = Inr (mn, q) \<and> get_string_from_buff (receive_buff c) q = Inr (mx, r)"
  by (auto simp: read_range_def bindr_eq_Inr)

lemma put_run_cluster:
  assumes rel: "rel ms as c" and inv: "cluster_inv ms as" and good: "good_str key" "good_str val"
  shows "\<exists>c' ms' as'. control_put R N c key val = Inr c' \<and> rel ms' as' c' \<and> cluster_inv ms' as' \<and>
    cluster_kv as' = kv_put key val (cluster_kv as) \<and> length as' = length as \<and> balanced (cluster_kv as') as'"
proof -
  let ?l = "LOG_of PUT key val" and ?i = "owner (map min_str ms) key" and ?c = "say c (''putting '' @ key @ '' '' @ val)"
  note D = cluster_inv_D [OF inv]
  have l: "good_log ?l" "log_key ?l = key" and app: "apply_log ?l xs = kv_put key val xs" for xs
    using good by (simp_all add: good_log_def LOG_of_def apply_log_def)
  obtain b1 p t b2 s it c1 where c1: "insert_str_to_buff (send_buff c) 0 get_LOG 0 = Inr (b1, p, t)" "LOG_to_slice ?l b1 p = Inr (s, b2)"
    "route R (set_send ?c b2) key = Inr (it, ms ! ?i)" "cursor it = (map meta_entry ms, Some ?i)"
    "exchange N (set_send ?c b2) (virtual_fd (ms ! ?i)) (t + word_of_nat (Slice_size s)) = Inr c1"
    "rel ms (as[?i := (as ! ?i)\<lparr>as_logs := [?l]\<rparr>]) c1" "?i < length as"
    "\<exists>mn mx. read_range c1 = Inr (''ok'', mn, mx)"
    using log_to_owner [of ms as ?c ?l ?i] rel D l by auto
  obtain q where ok: "get_string_from_buff (receive_buff c1) 0 = Inr (''ok'', q)"
    using c1(8) read_range_first by blast
  let ?m = "(ms ! ?i)\<lparr>min_str := min (min_str (ms ! ?i)) key, max_str := max (max_str (ms ! ?i)) key\<rparr>"
  have "good_meta (ms ! ?i)"
    using D(2,3) c1(7) by (simp add: metas_ok_def)
  then have m: "good_meta ?m"
    using good(1) by (simp add: good_meta_def min_def max_def)
  have sep: "separators ((map min_str ms)[?i := min_str ?m]) ((map as_data as)[?i := apply_log ?l (as_data (as ! ?i))])"
    using separators_put [OF D(5) _ refl, of key val] D(1,3) c1(7) by (simp add: app)
  obtain c2 c3 where c2: "replace_meta R (say c1 ''log ok'') it ?m = Inr c2"
    "commit_one N (say c2 (Control_meta_show ?m)) (virtual_fd (ms ! ?i)) = Inr c3"
    "rel (ms[?i := ?m]) (as[?i := idle (kv_put key val (as_data (as ! ?i)))]) c3"
    "cluster_inv (ms[?i := ?m]) (as[?i := idle (kv_put key val (as_data (as ! ?i)))])"
  proof -
    have "rel ms (as[?i := (as ! ?i)\<lparr>as_logs := [?l]\<rparr>]) (say c1 ''log ok'')"
      using c1(6) by simp
    from replace_and_commit [OF this inv c1(7,4) m _ sep l(1)] show ?thesis
      using that by (auto simp: app dest: spec [of _ "[Control_meta_show ?m]"])
  qed
  have kv: "cluster_kv (as[?i := idle (kv_put key val (as_data (as ! ?i)))]) = kv_put key val (cluster_kv as)"
    using owner_put [OF D(5), of key val] D(1) c1(7) by (simp add: cluster_kv_def map_update)
  obtain c4 ms4 as4 where "control_re_balance R N c3 = Inr c4" "rel ms4 as4 c4" "cluster_inv ms4 as4"
    "cluster_kv as4 = kv_put key val (cluster_kv as)" "length as4 = length as" "balanced (kv_put key val (cluster_kv as)) as4"
    using re_balance_run [OF c2(3,4)] kv by auto
  then show ?thesis
    using c1(1,2,3,5) ok c2(1,2)
    by (intro exI [of _ c4] exI [of _ ms4] exI [of _ as4]) (simp add: control_put_def Let_def)
qed

lemma first_after_del:
  assumes sep: "separators (map min_str ms) (map as_data as)" and i: "i < length as"
  shows "min (min_str (ms ! i)) (if fst (first_entry (kv_del k (as_data (as ! i)))) = [] then min_str (ms ! i)
    else fst (first_entry (kv_del k (as_data (as ! i))))) = min_str (ms ! i)"
proof -
  let ?ys = "kv_del k (as_data (as ! i))"
  have "min_str (ms ! i) \<le> fst (first_entry ?ys)" if "?ys \<noteq> []"
  proof -
    have "hd ?ys \<in> set (as_data (as ! i))"
      using hd_in_set [OF that] by (auto simp: kv_del_def)
    then show ?thesis
      using separators_D(4) [OF sep, of i i "hd ?ys"] separators_D(2) [OF sep] that i by (simp add: first_entry_def)
  qed
  then show ?thesis
    by (cases "?ys = []") (simp_all add: first_entry_def min_def)
qed

lemma del_run_cluster:
  assumes rel: "rel ms as c" and inv: "cluster_inv ms as" and good: "good_str key"
  shows "\<exists>c' ms' as'. control_del R N c key = Inr c' \<and> rel ms' as' c' \<and> cluster_inv ms' as' \<and>
    cluster_kv as' = kv_del key (cluster_kv as) \<and> length as' = length as \<and> balanced (cluster_kv as') as'"
proof -
  let ?l = "LOG_of DELETE key []" and ?i = "owner (map min_str ms) key" and ?c = "say c (''deleting '' @ key)"
  let ?ys = "kv_del key (as_data (as ! ?i))"
  note D = cluster_inv_D [OF inv]
  have l: "good_log ?l" "log_key ?l = key" and app: "apply_log ?l xs = kv_del key xs" for xs
    using good by (simp_all add: good_log_def LOG_of_def apply_log_def)
  obtain b1 p t b2 s it c1 where c1: "insert_str_to_buff (send_buff c) 0 get_LOG 0 = Inr (b1, p, t)" "LOG_to_slice ?l b1 p = Inr (s, b2)"
    "route R (set_send ?c b2) key = Inr (it, ms ! ?i)" "cursor it = (map meta_entry ms, Some ?i)"
    "exchange N (set_send ?c b2) (virtual_fd (ms ! ?i)) (t + word_of_nat (Slice_size s)) = Inr c1"
    "rel ms (as[?i := (as ! ?i)\<lparr>as_logs := [?l]\<rparr>]) c1" "?i < length as"
    "read_range c1 = Inr (''ok'', fst (first_entry ?ys), fst (last_entry ?ys))"
    using log_to_owner [of ms as ?c ?l ?i] rel D l by (auto simp: app)
  obtain q q' q'' where ok: "get_string_from_buff (receive_buff c1) 0 = Inr (''ok'', q)"
    "get_string_from_buff (receive_buff c1) q = Inr (fst (first_entry ?ys), q')"
    "get_string_from_buff (receive_buff c1) q' = Inr (fst (last_entry ?ys), q'')"
    using read_range_first [OF c1(8)] by blast
  have mn: "min (min_str (ms ! ?i)) (if fst (first_entry ?ys) = [] then min_str (ms ! ?i) else fst (first_entry ?ys)) = min_str (ms ! ?i)"
    using first_after_del [OF D(5), of ?i key] c1(7) D(3) by simp
  have sub: "set ?ys \<subseteq> set (as_data (as ! ?i))"
    by (auto simp: kv_del_def)
  let ?m = "(ms ! ?i)\<lparr>min_str := min_str (ms ! ?i), max_str := max (max_str (ms ! ?i)) key\<rparr>"
  have "good_meta (ms ! ?i)"
    using D(2,3) c1(7) by (simp add: metas_ok_def)
  then have m: "good_meta ?m"
    using good by (simp add: good_meta_def max_def)
  have same: "(map min_str ms)[?i := min_str ?m] = map min_str ms"
    using c1(7) D(3) by (simp add: list_update_same_conv)
  have sep: "separators ((map min_str ms)[?i := min_str ?m]) ((map as_data as)[?i := apply_log ?l (as_data (as ! ?i))])"
    unfolding same app
    using D(5) kv_good_sorted [OF kv_good_del [OF D(7) [OF c1(7)]]] sub c1(7) by (intro separators_shrink) simp_all
  obtain c2 c3 where c2: "replace_meta R (say (say c1 ''log ok'') (Control_meta_show ?m)) it ?m = Inr c2"
    "commit_one N c2 (virtual_fd (ms ! ?i)) = Inr c3" "rel (ms[?i := ?m]) (as[?i := idle ?ys]) c3" "cluster_inv (ms[?i := ?m]) (as[?i := idle ?ys])"
  proof -
    have "rel ms (as[?i := (as ! ?i)\<lparr>as_logs := [?l]\<rparr>]) (say (say c1 ''log ok'') (Control_meta_show ?m))"
      using c1(6) by simp
    from replace_and_commit [OF this inv c1(7,4) m _ sep l(1)] show ?thesis
      using that by (auto simp: app dest: spec [of _ "[]"])
  qed
  have kv: "cluster_kv (as[?i := idle ?ys]) = kv_del key (cluster_kv as)"
    using owner_del [OF D(5), of key] D(1) c1(7) by (simp add: cluster_kv_def map_update)
  obtain c4 ms4 as4 where "control_re_balance R N c3 = Inr c4" "rel ms4 as4 c4" "cluster_inv ms4 as4"
    "cluster_kv as4 = kv_del key (cluster_kv as)" "length as4 = length as" "balanced (kv_del key (cluster_kv as)) as4"
    using re_balance_run [OF c2(3,4)] kv by auto
  moreover have "key \<noteq> []"
    using good by (simp add: good_str_def)
  ultimately show ?thesis
    using c1(1,2,3,5) ok c2(1,2) mn
    by (intro exI [of _ c4] exI [of _ ms4] exI [of _ as4]) (simp add: control_del_def Let_def)
qed

lemma test_run_cluster:
  assumes rel: "rel ms as c" and inv: "cluster_inv ms as" and good: "good_str t"
  shows "\<exists>c'. control_test N c t = Inr c' \<and> rel ms as c' \<and> c_out c' = c_out c"
proof -
  let ?e = "enc_request (Req_test t)" and ?b = "send_buff c"
  have e: "?e = enc_strs [get_TEST, t]"
    by (simp add: enc_strs_def)
  have len: "length ?b = MAXLINE" "length ?e \<le> MAXLINE"
    using rel length_enc_request [of "Req_test t"] good by (simp_all add: control_rel_def del: enc_request.simps)
  have b: "insert_str_s_to_buff ?b 0 [get_TEST, t] 0 = Inr (?e @ drop (length ?e) ?b, length ?e, word_of_nat (length ?e))"
    using insert_str_s_loop_at [of 0 "[]" "[get_TEST, t]" ?b 0] len good unfolding e
    by (simp add: insert_str_s_to_buff_def short_str_wire good_str_short)
  have i: "0 < length as" and w: "live (c_world c)" "nodes (c_world c) = as"
    using cluster_inv_D(1) [OF inv] rel by (simp_all add: control_rel_def)
  have "rel ms as (set_send c (?e @ drop (length ?e) ?b))"
    using rel len by (intro control_rel_send) simp_all
  note sent = file_at_run [OF this i] send_to_front [OF len(2) refl, of N "\<lparr>connect_fd = fd_of 0\<rparr>" "drop (length ?e) ?b" "c_world c"]
  obtain w' where w': "os_send N (c_world c) (fd_of 0) ?e = Some w'" "live w'" "nodes w' = as"
    using takes [OF w(1), of 0 t] i w(2) good by blast
  let ?c = "(set_send c (?e @ drop (length ?e) ?b))\<lparr>c_world := w'\<rparr>"
  have "control_test N c t = Inr ?c"
    using sent b w'(1) by (simp add: control_test_def control_send_def set_send_def del: enc_request.simps)
  moreover have "rel ms as ?c"
    using rel len w' by (simp add: control_rel_def set_send_def del: enc_request.simps)
  ultimately show ?thesis
    by (auto simp: set_send_def)
qed

end

section \<open>Command sequences\<close>

datatype command = Cmd_put string string | Cmd_get string | Cmd_del string | Cmd_test string

fun words_of :: "command \<Rightarrow> string list" where
  "words_of (Cmd_put k v) = [get_PUT, k, v]"
| "words_of (Cmd_get k) = [get_GET, k]"
| "words_of (Cmd_del k) = [get_DEL, k]"
| "words_of (Cmd_test t) = [get_TEST, t]"

fun command_ok :: "command \<Rightarrow> bool" where
  "command_ok (Cmd_put k v) \<longleftrightarrow> good_str k \<and> good_str v"
| "command_ok (Cmd_get k) \<longleftrightarrow> good_str k"
| "command_ok (Cmd_del k) \<longleftrightarrow> good_str k"
| "command_ok (Cmd_test t) \<longleftrightarrow> good_str t"

text \<open>The effect of a command on the map the cluster stands for.\<close>

fun command_spec :: "command \<Rightarrow> kv \<Rightarrow> kv" where
  "command_spec (Cmd_put k v) xs = kv_put k v xs"
| "command_spec (Cmd_del k) xs = kv_del k xs"
| "command_spec (Cmd_get k) xs = xs"
| "command_spec (Cmd_test t) xs = xs"

definition input_of :: "command list \<Rightarrow> string list" where
  "input_of cmds = concat (map words_of cmds)"

text \<open>One turn of the loop on each of the commands.\<close>

lemma run_words:
  "control_run R N c ([get_PUT, k, v] @ ts) =
     (case control_put R N c k v of Inl e \<Rightarrow> Some (Inl e) | Inr c \<Rightarrow> control_run R N c ts)"
  "control_run R N c ([get_GET, k] @ ts) = (case control_get R N c k of Inl e \<Rightarrow> Some (Inl e) | Inr c \<Rightarrow> control_run R N c ts)"
  "control_run R N c ([get_DEL, k] @ ts) = (case control_del R N c k of Inl e \<Rightarrow> Some (Inl e) | Inr c \<Rightarrow> control_run R N c ts)"
  "control_run R N c ([get_TEST, t] @ ts) = (case control_test N c t of Inl e \<Rightarrow> Some (Inl e) | Inr c \<Rightarrow> control_run R N c ts)"
  "control_run R N c (''quit'' # ts) = Some (Inr (c, ts))"
  by (subst control_run.simps, simp add: command_defs)+

text \<open>A \<open>del\<close> at the end of the input has an empty key and does nothing.\<close>

lemma run_del_cut: "control_run R N c [get_DEL] = None"
  by (subst control_run.simps) (simp add: command_defs control_del_def control_run_end)

context control_whole
begin

lemma command_run:
  assumes rel: "rel ms as c" and inv: "cluster_inv ms as" and ok: "command_ok cmd"
  shows "\<exists>c' ms' as'. control_run R N c (words_of cmd @ ts) = control_run R N c' ts \<and> rel ms' as' c' \<and> cluster_inv ms' as' \<and>
    cluster_kv as' = command_spec cmd (cluster_kv as) \<and> length as' = length as"
proof (cases cmd)
  case (Cmd_put k v)
  then show ?thesis
    using put_run_cluster [OF rel inv, of k v] ok run_words(1) [of R N c k v ts] by fastforce
next
  case (Cmd_get k)
  then show ?thesis
    using get_run_cluster [OF rel inv, of k] ok run_words(2) [of R N c k ts] inv by fastforce
next
  case (Cmd_del k)
  then show ?thesis
    using del_run_cluster [OF rel inv, of k] ok run_words(3) [of R N c k ts] by fastforce
next
  case (Cmd_test t)
  then show ?thesis
    using test_run_cluster [OF rel inv, of t] ok run_words(4) [of R N c t ts] inv by fastforce
qed

lemma commands_run:
  assumes "rel ms as c" "cluster_inv ms as" "list_all command_ok cmds"
  shows "\<exists>c' ms' as'. control_run R N c (input_of cmds @ ts) = control_run R N c' ts \<and> rel ms' as' c' \<and> cluster_inv ms' as' \<and>
    cluster_kv as' = fold command_spec cmds (cluster_kv as) \<and> length as' = length as"
  using assms
proof (induction cmds arbitrary: c ms as)
  case Nil
  then show ?case
    by (intro exI [of _ c] exI [of _ ms] exI [of _ as]) (simp add: input_of_def)
next
  case (Cons cmd cmds)
  obtain c1 ms1 as1 where "control_run R N c (words_of cmd @ input_of cmds @ ts) = control_run R N c1 (input_of cmds @ ts)" "rel ms1 as1 c1"
    "cluster_inv ms1 as1" "cluster_kv as1 = command_spec cmd (cluster_kv as)" "length as1 = length as"
    using command_run [OF Cons.prems(1,2), of cmd "input_of cmds @ ts"] Cons.prems(3) by auto
  then show ?case
    using Cons.IH [of ms1 as1 c1] Cons.prems(3) by (simp add: input_of_def)
qed

end

end
