(* ===== verification/Cluster.thy ===== *)
theory Cluster
  imports Control_Refine
begin

text \<open>
  The cluster: the control node's system calls instantiated by the modelled store nodes. Each \<open>send\<close>
  reaches the node behind the descriptor as one chunk (in pieces of at most \<open>MAXLINE\<close> bytes), the node
  runs its loop body on it, and its answers wait to be received. A node whose loop body faults or
  ends is down. The first half shows that this is a store service in the sense of the control node's
  interface, the second that the constructor sets the cluster up and what the commands do.
\<close>

section \<open>Nodes behind sockets\<close>

record 'db node =
  nd_store :: "'db store_impl"
  nd_up :: bool
  nd_answers :: "bytes list"
  nd_printed :: "string list"
  nd_port :: "16 word"
  nd_reset :: bool

record 'db cluster_world =
  cw_nodes :: "'db node list"
  cw_conn :: "c_int \<Rightarrow> nat option"
  cw_next :: nat

function chunks :: "bytes \<Rightarrow> bytes list" where
  "chunks bs = (if bs = [] then [] else take MAXLINE bs # chunks (drop MAXLINE bs))"
  by pat_completeness auto
termination
  by (relation "measure length") (simp_all add: MAXLINE_def)

declare chunks.simps [simp del]

fun serve :: "('db, 'it) rocksdb \<Rightarrow> 'db node \<Rightarrow> bytes list \<Rightarrow> 'db node" where
  "serve R nd [] = nd"
| "serve R nd (m # ms) =
     (if nd_up nd then
        (case store_impl_turn R pipe_os (nd_store nd) ([m], []) of
           Inl e \<Rightarrow> nd\<lparr>nd_up := False\<rparr>
         | Inr (go_on, s, out, w) \<Rightarrow>
             serve R (nd\<lparr>nd_store := s, nd_up := go_on, nd_answers := nd_answers nd @ snd w,
               nd_printed := nd_printed nd @ out\<rparr>) ms)
      else nd)"

text \<open>
  The first \<open>send\<close> to a node that is down goes through, since the control node's system cannot know
  better; it is answered by a reset of the connection, and on a connection that was reset, as on one
  that was never made, \<open>send\<close> ends the process by \<open>SIGPIPE\<close>.
\<close>

definition cluster_send :: "('db, 'it) rocksdb \<Rightarrow> 'db cluster_world \<Rightarrow> c_int \<Rightarrow> bytes \<Rightarrow> 'db cluster_world option" where
  "cluster_send R w fd bs =
     (case cw_conn w fd of
        None \<Rightarrow> None
      | Some i \<Rightarrow>
          if i < length (cw_nodes w) then
            (let nd = cw_nodes w ! i in
             if nd_up nd then Some (w\<lparr>cw_nodes := (cw_nodes w)[i := serve R nd (chunks bs)]\<rparr>)
             else if nd_reset nd then None
             else Some (w\<lparr>cw_nodes := (cw_nodes w)[i := nd\<lparr>nd_reset := True\<rparr>]\<rparr>))
          else None)"

definition cluster_recv :: "'db cluster_world \<Rightarrow> c_int \<Rightarrow> nat \<Rightarrow> (int \<times> bytes \<times> 'db cluster_world) option" where
  "cluster_recv w fd n =
     (case cw_conn w fd of
        None \<Rightarrow> Some (- 1, [], w)
      | Some i \<Rightarrow>
          if i < length (cw_nodes w) then
            (case nd_answers (cw_nodes w ! i) of
               [] \<Rightarrow> if nd_up (cw_nodes w ! i) then None
                     else Some (if nd_reset (cw_nodes w ! i) then - 1 else 0, [], w)
             | m # ms \<Rightarrow>
                 Some (int (length (take n m)), take n m,
                   w\<lparr>cw_nodes := (cw_nodes w)[i := (cw_nodes w ! i)\<lparr>nd_answers :=
                       (if length m \<le> n then ms else drop n m # ms)\<rparr>]\<rparr>))
          else Some (- 1, [], w))"

text \<open>A connection is made to the node that listens on the port.\<close>

fun node_at :: "16 word \<Rightarrow> 'db node list \<Rightarrow> nat \<Rightarrow> nat option" where
  "node_at p [] i = None"
| "node_at p (nd # nds) i = (if nd_port nd = p then Some i else node_at p nds (i + 1))"

definition cluster_connect :: "'db cluster_world \<Rightarrow> c_int \<Rightarrow> sockaddr_in \<Rightarrow> c_int \<times> 'db cluster_world" where
  "cluster_connect w fd a =
     (case node_at (sin_port a) (cw_nodes w) 0 of
        None \<Rightarrow> (- 1, w)
      | Some i \<Rightarrow> (0, w\<lparr>cw_conn := (cw_conn w)(fd \<mapsto> i)\<rparr>))"

definition cluster_fd :: "nat \<Rightarrow> c_int" where
  "cluster_fd i = word_of_nat (i + 3)"

definition cluster_os :: "('db, 'it) rocksdb \<Rightarrow> 'db cluster_world os" where
  "cluster_os R =
     \<lparr>os_socket = (\<lambda>w. (cluster_fd (cw_next w), w\<lparr>cw_next := cw_next w + 1\<rparr>)),
      os_connect = cluster_connect,
      os_setsockopt = (\<lambda>w fd n. (0, w)), os_bind = (\<lambda>w fd a. (0, w)), os_listen = (\<lambda>w fd n. (0, w)),
      os_accept = (\<lambda>w fd. (- 1, w)),
      os_send = cluster_send R, os_recv = cluster_recv,
      os_inet_pton = (\<lambda>s. if s = ''127.0.0.1'' then Some 0x0100007F else None),
      os_errno = (\<lambda>w. 0), os_strerror = (\<lambda>e. [])\<rparr>"

lemma cluster_os_simps [simp]:
  "os_send (cluster_os R) = cluster_send R" "os_recv (cluster_os R) = cluster_recv" "os_connect (cluster_os R) = cluster_connect"
  "os_socket (cluster_os R) w = (cluster_fd (cw_next w), w\<lparr>cw_next := cw_next w + 1\<rparr>)"
  by (simp_all add: cluster_os_def)

section \<open>The abstract view of the nodes\<close>

definition abs_log :: "kv \<Rightarrow> LOG list" where
  "abs_log xs = concat (map (\<lambda>(k, v). case LOG_of_slice (Slice_of_string k) of Inl e \<Rightarrow> [] | Inr l \<Rightarrow> [l]) xs)"

lemma abs_log_kv: "\<forall>l \<in> set ls. good_log l \<Longrightarrow> abs_log (log_kv ls) = ls"
proof (induction ls)
  case (Cons l ls)
  then show ?case
    using LOG_of_slice_run [of l "Slice_of_string (enc_log l)"] good_log_fits by (simp add: abs_log_def)
qed (simp add: abs_log_def)

definition abs_store :: "('db \<Rightarrow> kv) \<Rightarrow> 'db store_impl \<Rightarrow> astore" where
  "abs_store content s =
     \<lparr>as_data = data_content content (si_storeData s), as_logs = abs_log (log_content content (si_storeLog s))\<rparr>"

lemma abs_store_rel: "store_rel content s a \<Longrightarrow> abs_store content s = a"
  by (simp add: abs_store_def store_rel_def astore_ok_def abs_log_kv)

definition cluster_nodes :: "('db \<Rightarrow> kv) \<Rightarrow> 'db cluster_world \<Rightarrow> astore list" where
  "cluster_nodes content w = map (\<lambda>nd. abs_store content (nd_store nd)) (cw_nodes w)"

definition node_live :: "('db \<Rightarrow> kv) \<Rightarrow> 'db node \<Rightarrow> bool" where
  "node_live content nd \<longleftrightarrow> nd_up nd \<and> nd_answers nd = [] \<and> store_rel content (nd_store nd) (abs_store content (nd_store nd))"

definition cluster_live :: "('db \<Rightarrow> kv) \<Rightarrow> 'db cluster_world \<Rightarrow> bool" where
  "cluster_live content w \<longleftrightarrow> (\<forall>nd \<in> set (cw_nodes w). node_live content nd) \<and>
     (\<forall>i < length (cw_nodes w). cw_conn w (cluster_fd i) = Some i)"

lemma chunks_one: "bs \<noteq> [] \<Longrightarrow> length bs \<le> MAXLINE \<Longrightarrow> chunks bs = [bs]"
  by (simp add: chunks.simps [of bs] chunks.simps [of "[]"])

lemma enc_request_nonempty: "enc_request req \<noteq> []"
  by (cases req) simp_all

context rocksdb_reliable
begin

lemma serve_run:
  assumes live: "node_live content nd" and a: "a = abs_store content (nd_store nd)" and req: "request_ok req"
  shows "\<exists>s out. serve R nd (chunks (enc_request req)) = nd\<lparr>nd_store := s, nd_up := True,
      nd_answers := (if has_reply req then [fst (store_spec req a)] else []), nd_printed := nd_printed nd @ out\<rparr> \<and>
    store_rel content s (snd (store_spec req a))"
proof -
  have nd: "nd_up nd" "nd_answers nd = []" "store_rel content (nd_store nd) a"
    using live a by (simp_all add: node_live_def)
  note len = length_enc_request [OF req]
  have "\<exists>s' out. store_impl_turn R pipe_os (nd_store nd) ([enc_request req], []) =
      Inr (True, s', out, ([], if has_reply req then [fst (store_spec req a)] else [])) \<and> store_rel content s' (snd (store_spec req a))"
    using turn_run_chunk [OF nd(3) req, of pipe_os "([enc_request req], [])" _ "[]"] len by (auto simp: turn_spec_def)
  then show ?thesis
    using chunks_one [OF enc_request_nonempty len] nd by fastforce
qed

lemma node_live_I: "store_rel content s a \<Longrightarrow> nd_up nd \<Longrightarrow> nd_answers nd = [] \<Longrightarrow> nd_store nd = s \<Longrightarrow> node_live content nd"
  using abs_store_rel by (fastforce simp: node_live_def)

lemma cluster_live_update:
  assumes "cluster_live content w" "node_live content nd"
  shows "cluster_live content (w\<lparr>cw_nodes := (cw_nodes w)[i := nd]\<rparr>)"
proof -
  have "\<forall>nd \<in> set ((cw_nodes w)[i := nd]). node_live content nd"
    using assms by (intro set_update_ball) (simp_all add: cluster_live_def)
  then show ?thesis
    using assms(1) by (simp add: cluster_live_def)
qed

lemma node_answers:
  assumes conn: "cw_conn w (cluster_fd i) = Some i" and i: "i < length (cw_nodes w)" and nd: "node_live content (cw_nodes w ! i)"
    and a: "a = abs_store content (nd_store (cw_nodes w ! i))" and req: "request_ok req" "has_reply req"
  shows "\<exists>w1 nd. os_send (cluster_os R) w (cluster_fd i) (enc_request req) = Some w1 \<and>
    os_recv (cluster_os R) w1 (cluster_fd i) MAXLINE =
      Some (int (length (fst (store_spec req a))), fst (store_spec req a), w\<lparr>cw_nodes := (cw_nodes w)[i := nd]\<rparr>) \<and>
    node_live content nd \<and> abs_store content (nd_store nd) = snd (store_spec req a)"
proof -
  let ?nd = "cw_nodes w ! i"
  obtain s out where s: "serve R ?nd (chunks (enc_request req)) = ?nd\<lparr>nd_store := s, nd_up := True,
      nd_answers := [fst (store_spec req a)], nd_printed := nd_printed ?nd @ out\<rparr>" "store_rel content s (snd (store_spec req a))"
    using serve_run [OF nd a req(1)] req(2) by auto
  let ?nd' = "?nd\<lparr>nd_store := s, nd_up := True, nd_printed := nd_printed ?nd @ out, nd_answers := []\<rparr>"
  have "astore_ok a" and up: "nd_up ?nd"
    using nd a by (simp_all add: node_live_def store_rel_def)
  then have "length (fst (store_spec req a)) \<le> MAXLINE"
    using length_reply req(1) by blast
  then obtain w1 where "cluster_send R w (cluster_fd i) (enc_request req) = Some w1" "cluster_recv w1 (cluster_fd i) MAXLINE =
      Some (int (length (fst (store_spec req a))), fst (store_spec req a), w\<lparr>cw_nodes := (cw_nodes w)[i := ?nd']\<rparr>)"
    using conn i s(1) up by (simp add: cluster_send_def cluster_recv_def Let_def)
  moreover have "node_live content ?nd'"
    by (rule node_live_I [OF s(2)]) simp_all
  ultimately show ?thesis
    using abs_store_rel [OF s(2)] by auto
qed

lemma node_takes:
  assumes conn: "cw_conn w (cluster_fd i) = Some i" and i: "i < length (cw_nodes w)" and nd: "node_live content (cw_nodes w ! i)"
    and t: "good_str t"
  shows "\<exists>nd. os_send (cluster_os R) w (cluster_fd i) (enc_request (Req_test t)) = Some (w\<lparr>cw_nodes := (cw_nodes w)[i := nd]\<rparr>) \<and>
    node_live content nd \<and> abs_store content (nd_store nd) = abs_store content (nd_store (cw_nodes w ! i))"
proof -
  let ?nd = "cw_nodes w ! i"
  obtain s out where s: "serve R ?nd (chunks (enc_request (Req_test t))) = ?nd\<lparr>nd_store := s, nd_up := True,
      nd_answers := [], nd_printed := nd_printed ?nd @ out\<rparr>" "store_rel content s (abs_store content (nd_store ?nd))"
    using serve_run [OF nd refl, of "Req_test t"] t by auto
  let ?nd' = "?nd\<lparr>nd_store := s, nd_up := True, nd_answers := [], nd_printed := nd_printed ?nd @ out\<rparr>"
  have "cluster_send R w (cluster_fd i) (enc_request (Req_test t)) = Some (w\<lparr>cw_nodes := (cw_nodes w)[i := ?nd']\<rparr>)"
    using conn i s(1) nd by (simp add: cluster_send_def node_live_def Let_def del: enc_request.simps)
  moreover have "node_live content ?nd'"
    by (rule node_live_I [OF s(2)]) simp_all
  ultimately show ?thesis
    using abs_store_rel [OF s(2)] by (auto simp del: enc_request.simps)
qed

lemma cluster_service: "store_service (cluster_os R) (cluster_nodes content) cluster_fd (cluster_live content)"
proof
  fix w :: "'a cluster_world" and a
  assume live: "cluster_live content w" and "a \<in> set (cluster_nodes content w)"
  then obtain nd where "nd \<in> set (cw_nodes w)" "a = abs_store content (nd_store nd)"
    by (auto simp: cluster_nodes_def)
  then show "astore_ok a"
    using live by (auto simp: cluster_live_def node_live_def store_rel_def)
next
  fix w :: "'a cluster_world" and i req
  assume live: "cluster_live content w" and "i < length (cluster_nodes content w)"
    and req: "request_ok req" "has_reply req"
  then have "i < length (cw_nodes w)" "cw_conn w (cluster_fd i) = Some i" "node_live content (cw_nodes w ! i)"
    "cluster_nodes content w ! i = abs_store content (nd_store (cw_nodes w ! i))"
    by (simp_all add: cluster_live_def cluster_nodes_def)
  from node_answers [OF this(2,1,3,4) req] cluster_live_update [OF live]
  show "\<exists>w1 r w'. os_send (cluster_os R) w (cluster_fd i) (enc_request req) = Some w1 \<and>
      os_recv (cluster_os R) w1 (cluster_fd i) MAXLINE = Some (r, fst (store_spec req (cluster_nodes content w ! i)), w') \<and> cluster_live content w' \<and>
      cluster_nodes content w' = (cluster_nodes content w)[i := snd (store_spec req (cluster_nodes content w ! i))]"
    by (fastforce simp: cluster_nodes_def map_update)
next
  fix w :: "'a cluster_world" and i t
  assume live: "cluster_live content w" and len: "i < length (cluster_nodes content w)" and t: "good_str t"
  then have "i < length (cw_nodes w)" "cw_conn w (cluster_fd i) = Some i" "node_live content (cw_nodes w ! i)"
    by (simp_all add: cluster_live_def cluster_nodes_def)
  from node_takes [OF this(2,1,3) t] cluster_live_update [OF live] this(1)
  show "\<exists>w'. os_send (cluster_os R) w (cluster_fd i) (enc_request (Req_test t)) = Some w' \<and> cluster_live content w' \<and>
      cluster_nodes content w' = cluster_nodes content w"
    by (auto simp: cluster_nodes_def map_update list_update_same_conv simp del: enc_request.simps)
qed

end

text \<open>The modelled store nodes are a store service, and with them the control node's facts hold.\<close>

sublocale rocksdb_reliable \<subseteq> cluster: control_whole R content cursor "cluster_os R" "cluster_nodes content" cluster_fd "cluster_live content"
  by (intro control_whole.intro control_env.intro rocksdb_reliable_axioms cluster_service)

interpretation ref_cluster: control_whole ref_R ref_content ref_cursor "cluster_os ref_R" "cluster_nodes ref_content" cluster_fd "cluster_live ref_content"
  by (intro control_whole.intro control_env.intro ref_R_reliable rocksdb_reliable.cluster_service [OF ref_R_reliable])

section \<open>Setting the cluster up\<close>

definition initial_meta :: "nat \<Rightarrow> Control_meta" where
  "initial_meta i = Control_meta_of (to_string_nat (i + 1)) (to_string_nat (i + 1)) (word_of_nat i)"

definition initial_metas :: "nat \<Rightarrow> Control_meta list" where
  "initial_metas n = map initial_meta [0..<n]"

lemma to_string_digit: "n < 10 \<Longrightarrow> to_string_nat n = [char_of (48 + n)]"
  by (simp add: to_string_nat.simps)

lemma digits_increase: "i < j \<Longrightarrow> j < 10 \<Longrightarrow> to_string_nat i < to_string_nat j"
  by (simp add: to_string_digit less_char_def)

lemma good_numeral:
  assumes "n < 10"
  shows "good_str (to_string_nat n)"
proof -
  have "NUL \<notin> set (to_string_nat n)"
    using subsetD [OF to_string_nat_digits [of n], of NUL] by (auto simp: NUL_def)
  then show ?thesis
    using assms by (simp add: good_str_def nul_free_def to_string_digit)
qed

lemma initial_metas_ok: "n \<le> 9 \<Longrightarrow> metas_ok (initial_metas n)"
  by (auto simp: metas_ok_def initial_metas_def initial_meta_def Control_meta_of_def good_meta_def good_numeral
      sorted_wrt_iff_nth_less digits_increase)

lemma initial_cluster_inv:
  assumes "0 < n" "n \<le> 9"
  shows "cluster_inv (initial_metas n) (replicate n (idle []))"
proof -
  have "separators (map min_str (initial_metas n)) (replicate n [])"
    using initial_metas_ok [OF assms(2)] by (intro separators_I) (auto simp: metas_ok_def initial_metas_def)
  then show ?thesis
    using assms initial_metas_ok [OF assms(2)] by (simp add: cluster_inv_def kv_good_def)
qed

text \<open>The loop of the constructor after \<open>i\<close> nodes have been connected.\<close>

definition nodes_connected :: "('db \<Rightarrow> kv) \<Rightarrow> 'db node list \<Rightarrow> Control_meta list \<Rightarrow> nat \<Rightarrow> ('db, 'db cluster_world) control \<Rightarrow> bool" where
  "nodes_connected content nds ms i c \<longleftrightarrow>
     handle_ok (meta_db c) \<and> hcontent content (meta_db c) = map meta_entry ms \<and>
     length (send_buff c) = MAXLINE \<and> ci_store_node_count (c_obj c) = word_of_nat i \<and>
     cw_nodes (c_world c) = nds \<and> cw_next (c_world c) = i \<and> (\<forall>j < i. cw_conn (c_world c) (cluster_fd j) = Some j) \<and>
     length nds \<le> length (ci_virtual_fd_2_net_file (c_obj c)) \<and>
     (\<forall>j < i. ci_virtual_fd_2_net_file (c_obj c) ! j = Some \<lparr>connect_fd = cluster_fd j\<rparr>)"

definition ports_match :: "Ip_location list \<Rightarrow> 'db node list \<Rightarrow> bool" where
  "ports_match ls nds \<longleftrightarrow> map (\<lambda>l. sin_port (ipl_store_node_address l)) ls = map nd_port nds \<and> distinct (map nd_port nds)"

lemma node_at_nth: "distinct (map nd_port nds) \<Longrightarrow> j < length nds \<Longrightarrow> node_at (nd_port (nds ! j)) nds i = Some (i + j)"
proof (induction nds arbitrary: i j)
  case (Cons nd nds)
  then show ?case
    by (cases j) auto
qed simp

lemma cluster_fd_inj: "i < 2 ^ 31 \<Longrightarrow> j < 2 ^ 31 \<Longrightarrow> cluster_fd i = cluster_fd j \<longleftrightarrow> i = j"
proof -
  assume "i < 2 ^ 31" "j < 2 ^ 31"
  then have "unat (cluster_fd i) = i + 3" "unat (cluster_fd j) = j + 3"
    unfolding cluster_fd_def by (simp_all only: unat_of_nat) simp_all
  then show ?thesis
    by (metis add_right_cancel)
qed

lemma connect_to_node:
  assumes "ports_match (ls1 @ l # ls2) nds" "i = length ls1" "cw_nodes w = nds" "cw_next w = i"
  shows "Ip_location_connect_to (cluster_os R) l w =
    (cluster_fd i, (if sint (cluster_fd i) < 0 then [socket_failed_text @ errno_text (cluster_os R) (w\<lparr>cw_next := i + 1\<rparr>)] else []),
     w\<lparr>cw_next := i + 1, cw_conn := (cw_conn w)(cluster_fd i \<mapsto> i)\<rparr>)"
proof -
  have "length nds = length (ls1 @ l # ls2)" "sin_port (ipl_store_node_address l) = nd_port (nds ! i)"
    using assms(1,2) unfolding ports_match_def
    by (metis length_map, metis assms(2) length_append length_map nth_append_length nth_map add_Suc_right less_add_Suc1 list.size(4) list.map(2) map_append length_Cons)
  then have "node_at (sin_port (ipl_store_node_address l)) nds 0 = Some i"
    using node_at_nth [of nds i 0] assms(1,2) by (simp add: ports_match_def)
  then show ?thesis
    using assms(3,4) by (simp add: Ip_location_connect_to_def cluster_connect_def Let_def)
qed

lemma initial_metas_Suc:
  assumes "i < 9"
  shows "kv_put (min_str (initial_meta i)) (enc_meta (initial_meta i)) (map meta_entry (initial_metas i)) = map meta_entry (initial_metas (Suc i))"
proof -
  have "fst e < min_str (initial_meta i)" if "e \<in> set (map meta_entry (initial_metas i))" for e
    using that assms by (auto simp: initial_metas_def meta_entry_def initial_meta_def Control_meta_of_def digits_increase)
  from kv_put_segment [of "map meta_entry (initial_metas i)" _ "[]" "enc_meta (initial_meta i)" "[]", OF this]
  show ?thesis
    by (simp add: initial_metas_def meta_entry_def)
qed

lemma length_to_string_nat: "n < 10 ^ k \<Longrightarrow> 0 < k \<Longrightarrow> length (to_string_nat n) \<le> k"
proof (induction n arbitrary: k rule: to_string_nat.induct)
  case (1 n)
  show ?case
  proof (cases "n < 10")
    case False
    then obtain j where k: "k = Suc j" "0 < j"
      using "1.prems" by (cases k; cases "k - 1") auto
    then have "n div 10 < 10 ^ j"
      using "1.prems"(1) by (simp add: div_less_iff_less_mult mult.commute)
    then show ?thesis
      using "1.IH" [OF False _ k(2)] False k(1) by (subst to_string_nat.simps) simp
  qed (use "1.prems" in \<open>simp add: to_string_nat.simps\<close>)
qed

lemma initial_meta_fits: "i < 10 ^ 10 \<Longrightarrow> meta_fits (initial_meta i)"
proof -
  assume i: "i < 10 ^ 10"
  have "NUL \<notin> set (to_string_nat (i + 1))"
    using subsetD [OF to_string_nat_digits [of "i + 1"], of NUL] by (auto simp: NUL_def)
  moreover have "length (to_string_nat (i + 1)) \<le> 11"
    using i by (intro length_to_string_nat) simp_all
  ultimately show ?thesis
    by (simp add: meta_fits_def initial_meta_def Control_meta_of_def nul_free_def MAXLINE_def)
qed

text \<open>What the constructor puts into an empty meta database for node \<open>i\<close>.\<close>

definition put_initial :: "nat \<Rightarrow> kv \<Rightarrow> kv" where
  "put_initial i = kv_put (min_str (initial_meta i)) (enc_meta (initial_meta i))"

context rocksdb_reliable
begin

lemma put_initial_run:
  assumes "handle_ok h" "length b = MAXLINE" "i < 10 ^ 10"
  shows "\<exists>sl b' h'. Control_meta_to_slice (initial_meta i) b = Inr (sl, b') \<and> length b' = MAXLINE \<and>
    DB_Handle_put_string_slice R h (min_str (initial_meta i)) sl = Inr h' \<and> handle_ok h' \<and>
    hcontent content h' = put_initial i (hcontent content h)"
proof -
  let ?m = "initial_meta i"
  obtain b' where b': "Control_meta_to_slice ?m b = Inr (Slice_of_buff b' (length (enc_meta ?m)), b')"
    "b' = enc_meta ?m @ drop (length (enc_meta ?m)) b" and len: "length (enc_meta ?m) \<le> MAXLINE"
    using to_slice_run [OF initial_meta_fits [OF assms(3)], of b] initial_meta_fits [OF assms(3)] assms(2)
    by (auto simp: length_enc_meta meta_fits_def)
  have "slice_ok (Slice_of_buff b' (length (enc_meta ?m)))" "slice_bytes (Slice_of_buff b' (length (enc_meta ?m))) = enc_meta ?m"
    using b'(2) by simp_all
  then show ?thesis
    using db_put_run [OF assms(1), of "Slice_of_string (min_str ?m)" "Slice_of_buff b' (length (enc_meta ?m))"] b' len assms(2)
    by (auto simp: DB_Handle_put_string_slice_def put_initial_def)
qed

lemma first_meta_run:
  assumes "handle_ok h" "hcontent content h = map meta_entry (initial_metas i)" "i < 9" "length b = MAXLINE"
  shows "\<exists>sl b' h'. Control_meta_to_slice (initial_meta i) b = Inr (sl, b') \<and> length b' = MAXLINE \<and>
    DB_Handle_put_string_slice R h (min_str (initial_meta i)) sl = Inr h' \<and> handle_ok h' \<and>
    hcontent content h' = map meta_entry (initial_metas (Suc i))"
  using put_initial_run [OF assms(1,4), of i] assms(2,3) initial_metas_Suc [OF assms(3)] by (auto simp: put_initial_def)

lemma nodes_loop_run:
  assumes "ports_match (ls1 @ ls2) nds" "i = length ls1" "length nds < 2 ^ 31" "fresh \<Longrightarrow> length nds \<le> 9"
    "nodes_connected content nds (if fresh then initial_metas i else ms) i c"
  shows "\<exists>c'. control_impl_nodes R (cluster_os R) fresh i ls2 c = Inr c' \<and>
    nodes_connected content nds (if fresh then initial_metas (length nds) else ms) (length nds) c'"
  using assms
proof (induction ls2 arbitrary: ls1 i c)
  case Nil
  then have "length nds = i"
    unfolding ports_match_def by (metis append_Nil2 length_map)
  then show ?case
    using Nil.prems(5) by (cases fresh) simp_all
next
  case (Cons l ls2)
  let ?w = "c_world c"
  have n: "i < length nds"
    using Cons.prems(1,2) unfolding ports_match_def
    by (metis length_map length_append add_Suc_right length_Cons less_add_Suc1)
  note C = Cons.prems(5) [unfolded nodes_connected_def]
  have conn: "Ip_location_connect_to (cluster_os R) l ?w =
    (cluster_fd i, (if sint (cluster_fd i) < 0 then [socket_failed_text @ errno_text (cluster_os R) (?w\<lparr>cw_next := i + 1\<rparr>)] else []),
     ?w\<lparr>cw_next := i + 1, cw_conn := (cw_conn ?w)(cluster_fd i \<mapsto> i)\<rparr>)"
    using connect_to_node [OF Cons.prems(1,2), of ?w R] C by simp
  have fds: "cluster_fd j = cluster_fd i \<longleftrightarrow> j = i" if "j < Suc i" for j
    using cluster_fd_inj [of j i] that n Cons.prems(3) by simp
  define c1 where "c1 = c\<lparr>c_world := snd (snd (Ip_location_connect_to (cluster_os R) l ?w)),
    c_out := c_out c @ fst (snd (Ip_location_connect_to (cluster_os R) l ?w)),
    c_obj := (c_obj c)\<lparr>ci_store_node_count := ci_store_node_count (c_obj c) + 1,
      ci_virtual_fd_2_real_fd := (ci_virtual_fd_2_real_fd (c_obj c))(word_of_nat i \<mapsto> cluster_fd i),
      ci_virtual_fd_2_net_file := (ci_virtual_fd_2_net_file (c_obj c))[i := Some \<lparr>connect_fd = cluster_fd i\<rparr>]\<rparr>\<rparr>"
  have c1: "meta_db c1 = meta_db c" "send_buff c1 = send_buff c"
    "nodes_connected content nds ms' (Suc i) c1" if "handle_ok (meta_db c)" "hcontent content (meta_db c) = map meta_entry ms'" for ms'
    using that C n fds by (auto simp: c1_def nodes_connected_def conn less_Suc_eq nth_upd)
  obtain c2 where c2: "control_impl_nodes R (cluster_os R) fresh i (l # ls2) c = control_impl_nodes R (cluster_os R) fresh (Suc i) ls2 c2"
    "nodes_connected content nds (if fresh then initial_metas (Suc i) else ms) (Suc i) c2"
  proof (cases fresh)
    case True
    obtain sl b' h' where b': "Control_meta_to_slice (initial_meta i) (send_buff c) = Inr (sl, b')" "length b' = MAXLINE"
      "DB_Handle_put_string_slice R (meta_db c) (min_str (initial_meta i)) sl = Inr h'" "handle_ok h'"
      "hcontent content h' = map meta_entry (initial_metas (Suc i))"
      using first_meta_run [of "meta_db c" i "send_buff c"] C True Cons.prems(4) n by auto
    have "control_impl_nodes R (cluster_os R) fresh i (l # ls2) c = control_impl_nodes R (cluster_os R) fresh (Suc i) ls2 (set_meta (set_send c1 b') h')"
      using C n b'(1,3) [unfolded initial_meta_def] True
      by (simp add: Let_def conn net_file_of_fd_def case_prod_unfold c1_def set_send_def set_meta_def)
    moreover have "nodes_connected content nds (initial_metas (Suc i)) (Suc i) (set_meta (set_send c1 b') h')"
      using c1(3) C True b' by (simp add: nodes_connected_def set_meta_def set_send_def)
    ultimately show ?thesis
      using that True by simp
  next
    case False
    have "control_impl_nodes R (cluster_os R) fresh i (l # ls2) c = control_impl_nodes R (cluster_os R) fresh (Suc i) ls2 c1"
      using C n False by (simp add: Let_def conn net_file_of_fd_def case_prod_unfold c1_def)
    then show ?thesis
      using that False c1(3) C by simp
  qed
  have "ports_match ((ls1 @ [l]) @ ls2) nds" "Suc i = length (ls1 @ [l])"
    using Cons.prems(1,2) by simp_all
  from Cons.IH [OF this Cons.prems(3,4) c2(2)] show ?case
    using c2(1) by simp
qed

lemma nodes_connected_rel:
  assumes "nodes_connected content nds ms (length nds) c" "\<forall>nd \<in> set nds. node_live content nd" "length nds < 2 ^ 31"
    "length (receive_buff c) = MAXLINE"
  shows "cluster.rel ms (map (\<lambda>nd. abs_store content (nd_store nd)) nds) c"
  using assms by (simp add: control_rel_def nodes_connected_def cluster_live_def cluster_nodes_def)

end

text \<open>
  The array of the constructor, over any sockets: it goes on as long as there is room for the next
  node.
\<close>

context rocksdb_reliable
begin

lemma nodes_room:
  assumes "handle_ok (meta_db c)" "length (send_buff c) = MAXLINE" "i + length ls < 10 ^ 10"
    "i \<le> length (ci_virtual_fd_2_net_file (c_obj c))"
  shows "if i + length ls \<le> length (ci_virtual_fd_2_net_file (c_obj c)) then \<exists>c'. control_impl_nodes R N fresh i ls c = Inr c' \<and>
        hcontent content (meta_db c') =
          (if fresh then fold put_initial [i..<i + length ls] (hcontent content (meta_db c)) else hcontent content (meta_db c))
    else control_impl_nodes R N fresh i ls c = Inl Buffer_overflow"
  using assms
proof (induction ls arbitrary: i c)
  case (Cons l ls)
  obtain fd m w where conn: "Ip_location_connect_to N l (c_world c) = (fd, m, w)"
    by (cases "Ip_location_connect_to N l (c_world c)")
  show ?case
  proof (cases "i < length (ci_virtual_fd_2_net_file (c_obj c))")
    case True
    define c1 where "c1 = c\<lparr>c_world := w, c_out := c_out c @ m,
      c_obj := (c_obj c)\<lparr>ci_store_node_count := ci_store_node_count (c_obj c) + 1,
        ci_virtual_fd_2_real_fd := (ci_virtual_fd_2_real_fd (c_obj c))(word_of_nat i \<mapsto> fd),
        ci_virtual_fd_2_net_file := (ci_virtual_fd_2_net_file (c_obj c))[i := Some (net_file_of_fd fd)]\<rparr>\<rparr>"
    have c1: "meta_db c1 = meta_db c" "send_buff c1 = send_buff c"
      "length (ci_virtual_fd_2_net_file (c_obj c1)) = length (ci_virtual_fd_2_net_file (c_obj c))"
      by (simp_all add: c1_def)
    obtain sl b h where b: "Control_meta_to_slice (initial_meta i) (send_buff c) = Inr (sl, b)" "length b = MAXLINE"
      "DB_Handle_put_string_slice R (meta_db c) (min_str (initial_meta i)) sl = Inr h"
      and h: "handle_ok h" "hcontent content h = put_initial i (hcontent content (meta_db c))"
      using put_initial_run [of "meta_db c" "send_buff c" i] Cons.prems(1-3) by auto
    define c2 where "c2 = (if fresh then set_meta (set_send c1 b) h else c1)"
    have "control_impl_nodes R N fresh i (l # ls) c = control_impl_nodes R N fresh (Suc i) ls c2"
      using True b(1,3) [unfolded initial_meta_def]
      by (simp add: conn c1_def c2_def Let_def set_send_def set_meta_def)
    moreover have "handle_ok (meta_db c2)" "length (send_buff c2) = MAXLINE"
      "length (ci_virtual_fd_2_net_file (c_obj c2)) = length (ci_virtual_fd_2_net_file (c_obj c))"
      "hcontent content (meta_db c2) = (if fresh then put_initial i (hcontent content (meta_db c)) else hcontent content (meta_db c))"
      using c1 h b(2) Cons.prems(1,2) by (simp_all add: c2_def set_meta_def set_send_def)
    moreover have "[i..<i + length (l # ls)] = i # [Suc i..<Suc i + length ls]"
      by (simp add: upt_rec)
    ultimately show ?thesis
      using Cons.IH [of c2 "Suc i"] Cons.prems(3) True by (simp split: if_splits)
  next
    case False
    then show ?thesis
      by (simp add: conn Let_def)
  qed
qed simp

lemma open_room:
  assumes buff: "\<And>n. length (fresh n) = MAXLINE" and few: "length ls < 2 ^ 31"
  shows "if usable (length ls) < 4 * length ls then control_impl_open R N usable fresh path ls w = Inl Buffer_overflow
    else \<exists>c. control_impl_open R N usable fresh path ls w = Inr c \<and>
      (disk_holds R content path [] \<longrightarrow> hcontent content (meta_db c) = fold put_initial [0..<length ls] [])"
proof -
  obtain h where h: "DB_Handle_open R path = Inr h" "handle_ok h"
    using open_run [of path] by blast
  obtain m where m: "DB_Handle_get_num R h = Inr m"
    using get_num_run [OF h(2)] by blast
  have empty: "hcontent content h = [] \<and> m = 0" if "disk_holds R content path []"
    using open_content [OF that] get_num_run [OF h(2)] h(1) m by auto
  have room: "usable (length ls) < 4 * length ls \<longleftrightarrow> \<not> length ls \<le> usable (length ls) div 4"
    by (simp add: less_mult_imp_div_less not_le) linarith
  let ?c = "\<lparr>c_obj = \<lparr>ci_store_node_count = 0, ci_meta_db = h, ci_virtual_fd_2_real_fd = (\<lambda>_. None), ci_send_buff = fresh 0,
      ci_receive_buff = fresh 1, ci_virtual_fd_2_net_file = replicate (usable (length ls) div 4) None\<rparr>, c_world = w, c_out = []\<rparr>"
  show ?thesis
    using nodes_room [of ?c 0 ls N "m = 0"] h(2) buff few empty unfolding room
    by (auto simp: control_impl_open_def h(1) m Let_def set_send_def set_receive_def split: if_splits)
qed

end

text \<open>Store nodes ready to be connected to: up, idle, on the ports of the given addresses.\<close>

definition nodes_ready :: "('db \<Rightarrow> kv) \<Rightarrow> Ip_location list \<Rightarrow> 'db cluster_world \<Rightarrow> bool" where
  "nodes_ready content ls w \<longleftrightarrow> ports_match ls (cw_nodes w) \<and> cw_next w = 0 \<and> (\<forall>nd \<in> set (cw_nodes w). node_live content nd)"

context rocksdb_reliable
begin

lemma control_open_run:
  assumes ready: "nodes_ready content ls w" and few: "length ls < 2 ^ 31" and mem: "4 * length ls \<le> usable (length ls)"
    and buff: "\<And>n. length (fresh n) = MAXLINE" and disk: "disk_holds R content path (map meta_entry ms)"
    and ms: "ms = [] \<Longrightarrow> length ls \<le> 9" "length ms < 2 ^ 32"
  shows "\<exists>c. control_impl_open R (cluster_os R) usable fresh path ls w = Inr c \<and>
    cluster.rel (if ms = [] then initial_metas (length ls) else ms) (cluster_nodes content w) c"
proof -
  let ?nds = "cw_nodes w"
  have len: "length ?nds = length ls"
    using ready unfolding nodes_ready_def ports_match_def by (metis length_map)
  obtain h where h: "DB_Handle_open R path = Inr h" "handle_ok h" "hcontent content h = map meta_entry ms"
    using open_content [OF disk] by blast
  have num: "DB_Handle_get_num R h = Inr (word_of_nat (length ms))"
    using get_num_run [OF h(2)] h(3) by simp
  have zero: "(word_of_nat (length ms) :: c_int) = 0 \<longleftrightarrow> ms = []"
  proof -
    have "unat (word_of_nat (length ms) :: c_int) = length ms"
      using ms(2) by (simp add: unsigned_of_nat take_bit_nat_eq_self)
    then show ?thesis
      by (metis length_0_conv unat_eq_zero)
  qed
  define c0 where "c0 = \<lparr>c_obj = \<lparr>ci_store_node_count = 0, ci_meta_db = h, ci_virtual_fd_2_real_fd = (\<lambda>_. None),
      ci_send_buff = fresh 0, ci_receive_buff = fresh 1,
      ci_virtual_fd_2_net_file = replicate (usable (length ls) div 4) None\<rparr>, c_world = w, c_out = []\<rparr>"
  have "nodes_connected content ?nds (if ms = [] then initial_metas 0 else ms) 0 c0"
    using h buff ready len mem by (simp add: nodes_connected_def c0_def nodes_ready_def initial_metas_def)
  then obtain c1 where c1: "control_impl_nodes R (cluster_os R) (ms = []) 0 ls c0 = Inr c1"
    "nodes_connected content ?nds (if ms = [] then initial_metas (length ?nds) else ms) (length ?nds) c1"
    using nodes_loop_run [of "[]" ls ?nds 0 "ms = []" ms c0] ready few len ms(1) by (auto simp: nodes_ready_def)
  let ?c = "set_receive (set_send c1 (fresh 2)) (fresh 3)"
  have "nodes_connected content ?nds (if ms = [] then initial_metas (length ?nds) else ms) (length ?nds) ?c"
    using c1(2) buff by (simp add: nodes_connected_def set_receive_def set_send_def)
  moreover have "\<forall>nd \<in> set ?nds. node_live content nd" "length ?nds < 2 ^ 31" "length (receive_buff ?c) = MAXLINE"
    using ready few len buff by (simp_all add: nodes_ready_def set_receive_def)
  ultimately have "cluster.rel (if ms = [] then initial_metas (length ls) else ms) (cluster_nodes content w) ?c"
    unfolding len [symmetric] using nodes_connected_rel by (simp add: cluster_nodes_def [of content w])
  then show ?thesis
    using h num c1(1) zero by (simp add: control_impl_open_def c0_def)
qed

end

section \<open>States of the cluster\<close>

text \<open>
  A control node connected to live store nodes that satisfy the invariant and together hold the
  entries \<open>xs\<close>, on \<open>n\<close> nodes.
\<close>

definition cluster_state :: "('db \<Rightarrow> kv) \<Rightarrow> nat \<Rightarrow> kv \<Rightarrow> ('db, 'db cluster_world) control \<Rightarrow> bool" where
  "cluster_state content n xs c \<longleftrightarrow>
     (\<exists>ms as. control_rel content (cluster_nodes content) cluster_fd (cluster_live content) 0 ms as c \<and>
       cluster_inv ms as \<and> cluster_kv as = xs \<and> length as = n)"

text \<open>One command of a client with arguments the protocol can carry, as a transition.\<close>

inductive cluster_step ::
    "('db, 'it) rocksdb \<Rightarrow> 'w os \<Rightarrow> ('db, 'w) control \<Rightarrow> ('db, 'w) control \<Rightarrow> bool"
  for R :: "('db, 'it) rocksdb" and N :: "'w os" where
  step_put: "good_str k \<Longrightarrow> good_str v \<Longrightarrow> control_put R N c k v = Inr c' \<Longrightarrow> cluster_step R N c c'"
| step_get: "good_str k \<Longrightarrow> control_get R N c k = Inr c' \<Longrightarrow> cluster_step R N c c'"
| step_del: "good_str k \<Longrightarrow> control_del R N c k = Inr c' \<Longrightarrow> cluster_step R N c c'"
| step_test: "good_str t \<Longrightarrow> control_test N c t = Inr c' \<Longrightarrow> cluster_step R N c c'"
| step_re_balance: "control_re_balance R N c = Inr c' \<Longrightarrow> cluster_step R N c c'"

inductive_cases cluster_stepE: "cluster_step R N c c'"

context rocksdb_reliable
begin

lemma state_put:
  assumes "cluster_state content n xs c" "good_str k" "good_str v"
  shows "\<exists>c'. control_put R (cluster_os R) c k v = Inr c' \<and> cluster_state content n (kv_put k v xs) c'"
  using cluster.put_run_cluster [of _ _ c k v] assms by (fastforce simp: cluster_state_def)

lemma state_del:
  assumes "cluster_state content n xs c" "good_str k"
  shows "\<exists>c'. control_del R (cluster_os R) c k = Inr c' \<and> cluster_state content n (kv_del k xs) c'"
  using cluster.del_run_cluster [of _ _ c k] assms by (fastforce simp: cluster_state_def)

lemma state_get:
  assumes "cluster_state content n xs c" "good_str k"
  shows "\<exists>c'. control_get R (cluster_os R) c k = Inr c' \<and> cluster_state content n xs c' \<and>
    c_out c' = c_out c @ [''get '' @ (case kv_get k xs of Some v \<Rightarrow> v | None \<Rightarrow> [])]"
  using cluster.get_run_cluster [of _ _ c k] assms by (fastforce simp: cluster_state_def)

lemma state_test:
  assumes "cluster_state content n xs c" "good_str t"
  shows "\<exists>c'. control_test (cluster_os R) c t = Inr c' \<and> cluster_state content n xs c'"
  using cluster.test_run_cluster [of _ _ c t] assms by (fastforce simp: cluster_state_def)

lemma state_re_balance:
  assumes "cluster_state content n xs c"
  shows "\<exists>c'. control_re_balance R (cluster_os R) c = Inr c' \<and> cluster_state content n xs c'"
  using cluster.re_balance_run [of _ _ c] assms by (fastforce simp: cluster_state_def)

lemma state_commands:
  assumes "cluster_state content n xs c" "list_all command_ok cmds"
  shows "\<exists>c'. control_run R (cluster_os R) c (input_of cmds @ ts) = control_run R (cluster_os R) c' ts \<and>
    cluster_state content n (fold command_spec cmds xs) c'"
  using cluster.commands_run [of _ _ c cmds ts] assms by (fastforce simp: cluster_state_def)

lemma state_step:
  assumes "cluster_state content n xs c" "cluster_step R (cluster_os R) c c'"
  shows "\<exists>xs'. cluster_state content n xs' c'"
  using assms(2)
  by (elim cluster_stepE)
    (use state_put [OF assms(1)] state_get [OF assms(1)] state_del [OF assms(1)] state_test [OF assms(1)]
      state_re_balance [OF assms(1)] in fastforce)+

lemma state_reach:
  assumes "(cluster_step R (cluster_os R))\<^sup>*\<^sup>* c c'" "cluster_state content n xs c"
  shows "\<exists>xs'. cluster_state content n xs' c'"
  using assms by (induction rule: rtranclp_induct) (auto dest: state_step)

lemma state_open:
  assumes "nodes_ready content ls w" "ls \<noteq> []" "length ls \<le> 9" "4 * length ls \<le> usable (length ls)" "\<And>n. length (fresh n) = MAXLINE"
    "disk_holds R content path []" "\<forall>nd \<in> set (cw_nodes w). abs_store content (nd_store nd) = idle []"
  shows "\<exists>c. control_impl_open R (cluster_os R) usable fresh path ls w = Inr c \<and> cluster_state content (length ls) [] c"
proof -
  have len: "length (cw_nodes w) = length ls"
    using assms(1) unfolding nodes_ready_def ports_match_def by (metis length_map)
  have as: "cluster_nodes content w = replicate (length ls) (idle [])"
    using assms(7) len by (auto simp: cluster_nodes_def intro!: replicate_eqI)
  obtain c where c: "control_impl_open R (cluster_os R) usable fresh path ls w = Inr c" "cluster.rel (initial_metas (length ls)) (cluster_nodes content w) c"
    using control_open_run [where usable = usable and fresh = fresh and path = path and ms = "[]", OF assms(1)] assms(3-6) by auto
  have "cluster_inv (initial_metas (length ls)) (cluster_nodes content w)"
    unfolding as using assms(2,3) by (intro initial_cluster_inv) auto
  moreover have "cluster_kv (cluster_nodes content w) = []" "length (cluster_nodes content w) = length ls"
    unfolding as by (simp_all add: cluster_kv_def)
  ultimately show ?thesis
    using c unfolding cluster_state_def by blast
qed

end

text \<open>Three fresh store nodes over the association-list database, on the ports the programs use.\<close>

definition ref_node :: "16 word \<Rightarrow> kv node" where
  "ref_node port = \<lparr>nd_store = ref_store [], nd_up = True, nd_answers = [], nd_printed = [], nd_port = htons port, nd_reset = False\<rparr>"

definition ref_world :: "kv cluster_world" where
  "ref_world = \<lparr>cw_nodes = map ref_node [6666, 6667, 6668], cw_conn = (\<lambda>_. None), cw_next = 0\<rparr>"

definition main_nodes :: "'w os \<Rightarrow> Ip_location list" where
  "main_nodes N = map (\<lambda>port. fst (Ip_location_of N ''127.0.0.1'' port)) [6666, 6667, 6668]"

lemma main_ports: "map (\<lambda>l. sin_port (ipl_store_node_address l)) (main_nodes N) = map htons [6666, 6667, 6668]"
  by (simp add: main_nodes_def Ip_location_of_def Let_def split: option.split)

lemma ref_node_live: "node_live ref_content (ref_node p)" "abs_store ref_content (nd_store (ref_node p)) = idle []"
proof -
  have rel: "store_rel ref_content (ref_store []) (idle [])"
    unfolding idle_def by (rule ref_store_rel) (simp add: kv_good_def)
  show "abs_store ref_content (nd_store (ref_node p)) = idle []"
    using abs_store_rel [OF rel] by (simp add: ref_node_def)
  then show "node_live ref_content (ref_node p)"
    using rel by (simp add: node_live_def) (simp add: ref_node_def)
qed

lemma ref_world_ready: "nodes_ready ref_content (main_nodes (cluster_os ref_R)) ref_world"
proof -
  have "distinct (map htons [6666, 6667, 6668])"
    by (simp add: htons_def)
  then show ?thesis
    using ref_node_live(1) by (simp add: nodes_ready_def ports_match_def main_ports ref_world_def) (simp add: ref_node_def)
qed

lemma ref_disk: "disk_holds ref_R ref_content path []"
  by (simp add: disk_holds_def ref_R_def ref_db_def ref_content_def)

section \<open>The balance in numbers\<close>

lemma rnd64_upper: "0 \<le> x \<Longrightarrow> rnd64 x \<le> x * (1 + 1 / 2 ^ 53)"
  using abs_le_D1 [OF rnd64_error [of x]] by (simp add: field_simps)

lemma rnd64_lower: "0 \<le> x \<Longrightarrow> x * (1 - 1 / 2 ^ 53) \<le> rnd64 x"
  using abs_le_D2 [OF rnd64_error [of x]] by (simp add: field_simps)

text \<open>
  The test in \<open>double\<close> arithmetic bounds a node's share by the perfect one and a little more than one
  per cent.
\<close>

lemma share_ok_bound:
  assumes "0 \<le> sint s" "0 \<le> sint tot" "0 < n" "share_ok s tot (dbl_div 1 (of_nat n))"
  shows "(of_int (sint s) :: rat) \<le> (1 / of_nat n + 11 / 1000) * (of_int (sint tot) + 1)"
proof -
  define u :: rat where "u = 1 / 2 ^ 53"
  define S :: rat where "S = of_int (sint s)"
  define T :: rat where "T = of_int (sint tot)"
  define k :: rat where "k = 1 / of_nat n"
  define a where "a = dbl_add T (rnd64 (1 / 1000000))"
  define r where "r = dbl_add (dbl_div 1 (of_nat n)) (rnd64 (1 / 100))"
  have pos: "0 \<le> S" "0 \<le> T" "0 < k" "k \<le> 1"
    unfolding S_def T_def k_def using assms(1-3) by (simp_all only: of_int_0_le_iff) simp_all
  have u: "0 < u" "u \<le> 1 / 1000000"
    by (simp_all add: u_def)
  have lit: "rnd64 (1 / 1000000) \<le> 1 / 1000000 * (1 + u)" "1 / 1000000 * (1 - u) \<le> rnd64 (1 / 1000000)"
    using rnd64_upper [of "1 / 1000000"] rnd64_lower [of "1 / 1000000"] by (simp_all add: u_def)
  then have lit': "0 < rnd64 (1 / 1000000)" "rnd64 (1 / 1000000) \<le> 1 / 100000"
    using u by (auto intro: order.strict_trans2 order_trans)
  have a: "a \<le> (T + 1 / 100000) * (1 + u)" "0 < a"
  proof -
    have "a \<le> (T + rnd64 (1 / 1000000)) * (1 + u)" "(T + rnd64 (1 / 1000000)) * (1 - u) \<le> a"
      using rnd64_upper [of "T + rnd64 (1 / 1000000)"] rnd64_lower [of "T + rnd64 (1 / 1000000)"] pos lit'
      by (simp_all add: a_def dbl_add_def u_def)
    moreover have "(T + rnd64 (1 / 1000000)) * (1 + u) \<le> (T + 1 / 100000) * (1 + u)"
      using lit' u by (intro mult_right_mono) simp_all
    moreover have "0 < (T + rnd64 (1 / 1000000)) * (1 - u)"
      using lit' pos u by (intro mult_pos_pos) simp_all
    ultimately show "a \<le> (T + 1 / 100000) * (1 + u)" "0 < a"
      by simp_all
  qed
  have r: "r \<le> (k + 1 / 100) * (1 + u) * (1 + u)"
  proof -
    have p: "rnd64 k \<le> k * (1 + u)" "0 \<le> rnd64 k" "rnd64 (1 / 100) \<le> 1 / 100 * (1 + u)" "0 \<le> rnd64 (1 / 100)"
      using rnd64_upper [of k] rnd64_upper [of "1 / 100"] rnd64_lower [of k] rnd64_lower [of "1 / 100"] pos
      by (simp_all add: u_def)
    have "r \<le> (rnd64 k + rnd64 (1 / 100)) * (1 + u)"
      using rnd64_upper [of "rnd64 k + rnd64 (1 / 100)"] p by (simp add: r_def dbl_add_def dbl_div_def k_def u_def)
    also have "\<dots> \<le> (k * (1 + u) + 1 / 100 * (1 + u)) * (1 + u)"
      using p u by (intro mult_right_mono add_mono) simp_all
    finally show ?thesis
      by (simp add: algebra_simps)
  qed
  have "rnd64 (S / a) \<le> r"
    using assms(4) by (simp add: share_ok_def dbl_div_def S_def T_def a_def r_def dbl_add_def)
  then have q: "S / a * (1 - u) \<le> r"
    using rnd64_lower [of "S / a"] pos a by (simp add: u_def)
  moreover have "0 \<le> S / a * (1 - u)"
    using pos a u by (intro mult_nonneg_nonneg divide_nonneg_pos) simp_all
  ultimately have r0: "0 \<le> r"
    by (rule order_trans [rotated])
  have "S * (1 - u) \<le> a * r"
    using q a(2) by (simp add: field_simps)
  also have "a * r \<le> ((T + 1 / 100000) * (1 + u)) * ((k + 1 / 100) * (1 + u) * (1 + u))"
    using a r r0 pos u by (intro mult_mono) simp_all
  also have "\<dots> = (T + 1 / 100000) * (k + 1 / 100) * (1 + u) ^ 3"
    by (simp only: power3_eq_cube mult.assoc mult.left_commute)
  also have "\<dots> \<le> (T + 1 / 100000) * (k + 1 / 100) * ((1 + 1 / 10000) * (1 - u))"
    using pos by (intro mult_left_mono) (simp_all add: u_def power3_eq_cube)
  finally have "S * (1 - u) \<le> ((T + 1 / 100000) * ((k + 1 / 100) * (1 + 1 / 10000))) * (1 - u)"
    by (simp only: mult.assoc)
  then have "S \<le> (T + 1 / 100000) * ((k + 1 / 100) * (1 + 1 / 10000))"
    by (rule mult_right_le_imp_le) (use u in simp)
  also have "\<dots> \<le> (T + 1) * (k + 11 / 1000)"
    using pos by (intro mult_mono) (simp_all add: field_simps)
  finally show ?thesis
    by (simp add: S_def T_def k_def mult.commute)
qed

text \<open>Two nodes with entries and the meta database that separates them.\<close>

definition ref_restart_world :: "kv cluster_world" where
  "ref_restart_world =
     \<lparr>cw_nodes = [(ref_node 1)\<lparr>nd_store := ref_store [(''a'', ''x''), (''b'', ''y'')]\<rparr>, (ref_node 2)\<lparr>nd_store := ref_store [(''m'', ''z'')]\<rparr>],
      cw_conn = (\<lambda>_. None), cw_next = 0\<rparr>"

definition ref_restart_metas :: "Control_meta list" where
  "ref_restart_metas = [Control_meta_of ''a'' ''b'' 0, Control_meta_of ''k'' ''m'' 1]"

definition ref_restart_db :: "(kv, kv \<times> nat option) rocksdb" where
  "ref_restart_db = ref_db (\<lambda>_. map meta_entry ref_restart_metas) (DBOptions_ctor ref_R) (ColumnFamilyOptions_ctor ref_R)"

lemma ref_restart_live:
  assumes "kv_good d"
  shows "node_live ref_content ((ref_node p)\<lparr>nd_store := ref_store d\<rparr>)" "abs_store ref_content (ref_store d) = idle d"
  using abs_store_rel [OF ref_store_rel [OF assms]] ref_store_rel [OF assms]
  by (simp_all add: node_live_def idle_def) (simp_all add: ref_node_def)

lemma ref_restart_inv:
  "kv_good [(''a'', ''x''), (''b'', ''y'')]" "kv_good [(''m'', ''z'')]"
  "cluster_inv ref_restart_metas [idle [(''a'', ''x''), (''b'', ''y'')], idle [(''m'', ''z'')]]"
  by (auto simp: kv_good_def good_str_def nul_free_def NUL_def cluster_inv_def metas_ok_def ref_restart_metas_def
      Control_meta_of_def good_meta_def separators_def less_Suc_eq nth_Cons')

definition ref_restart_nodes :: "Ip_location list" where
  "ref_restart_nodes = [fst (Ip_location_of pipe_os [] 1), fst (Ip_location_of pipe_os [] 2)]"

lemma ref_restart_reliable: "rocksdb_reliable ref_restart_db ref_content ref_cursor"
  unfolding ref_restart_db_def by (rule ref.rocksdb_reliable_axioms)

lemma ref_restart_facts:
  "nodes_ready ref_content ref_restart_nodes ref_restart_world"
  "cluster_nodes ref_content ref_restart_world = [idle [(''a'', ''x''), (''b'', ''y'')], idle [(''m'', ''z'')]]"
  "disk_holds ref_restart_db ref_content ''control_meta'' (map meta_entry ref_restart_metas)"
proof -
  note live = ref_restart_live [OF ref_restart_inv(1)] ref_restart_live [OF ref_restart_inv(2)]
  show "nodes_ready ref_content ref_restart_nodes ref_restart_world"
    using live by (simp add: nodes_ready_def ports_match_def ref_restart_nodes_def ref_restart_world_def Ip_location_of_def pipe_os_def Let_def)
      (simp add: ref_node_def htons_def)
  show "cluster_nodes ref_content ref_restart_world = [idle [(''a'', ''x''), (''b'', ''y'')], idle [(''m'', ''z'')]]"
    using live by (simp add: cluster_nodes_def ref_restart_world_def)
  show "disk_holds ref_restart_db ref_content ''control_meta'' (map meta_entry ref_restart_metas)"
    by (simp add: disk_holds_def ref_restart_db_def ref_db_def ref_content_def ref_restart_metas_def Control_meta_of_def meta_entry_def)
qed

definition ref_restart_control :: "(kv, kv cluster_world) control" where
  "ref_restart_control = projr (control_impl_open ref_restart_db (cluster_os ref_restart_db) (\<lambda>n. n + 24)
     (\<lambda>_. replicate MAXLINE NUL) ''control_meta'' ref_restart_nodes ref_restart_world)"

lemma ref_restart_rel:
  "control_rel ref_content (cluster_nodes ref_content) cluster_fd (cluster_live ref_content) 0 ref_restart_metas
     [idle [(''a'', ''x''), (''b'', ''y'')], idle [(''m'', ''z'')]] ref_restart_control"
proof -
  have ls: "length ref_restart_nodes = 2" "ref_restart_metas \<noteq> []" "length ref_restart_metas = 2"
    by (simp_all add: ref_restart_nodes_def ref_restart_metas_def)
  then show ?thesis
    using rocksdb_reliable.control_open_run [where usable = "\<lambda>n. n + 24" and fresh = "\<lambda>_. replicate MAXLINE NUL",
        OF ref_restart_reliable ref_restart_facts(1) _ _ _ ref_restart_facts(3)]
    by (auto simp: ref_restart_control_def ref_restart_facts(2))
qed

lemma ref_restart_state:
  "cluster_state ref_content 2 [(''a'', ''x''), (''b'', ''y''), (''m'', ''z'')] ref_restart_control"
  "cluster_nodes ref_content (c_world ref_restart_control) = [idle [(''a'', ''x''), (''b'', ''y'')], idle [(''m'', ''z'')]]"
proof -
  show "cluster_nodes ref_content (c_world ref_restart_control) = [idle [(''a'', ''x''), (''b'', ''y'')], idle [(''m'', ''z'')]]"
    using ref_restart_rel by (simp add: control_rel_def)
  show "cluster_state ref_content 2 [(''a'', ''x''), (''b'', ''y''), (''m'', ''z'')] ref_restart_control"
    using ref_restart_rel ref_restart_inv(3) unfolding cluster_state_def
    by (intro exI conjI) (assumption | simp add: cluster_kv_def idle_def)+
qed

end
