(* ===== verification/Degraded.thy ===== *)
theory Degraded
  imports Cluster
begin

text \<open>
  A cluster with a node whose process has ended. The control node ignores the results of \<open>send\<close> and
  \<open>recv\<close> (\<open>net_connect/net_file.cpp\<close>): its first request to that node goes into a closed connection,
  nothing arrives, \<open>receive_buff\<close> keeps the answer of the node asked before, and the control node takes
  it for the answer of the node that is down. Its second request ends it by \<open>SIGPIPE\<close>. The theory
  follows \<open>re_balance\<close>'s move of an entry to such a node, where the second request comes after the
  first of the two commits.
\<close>

section \<open>What exchanges leave alone\<close>

definition file_table :: "('db, 'w) control \<Rightarrow> net_file option list" where
  "file_table c = ci_virtual_fd_2_net_file (c_obj c)"

lemma file_table_setters [simp]:
  "file_table (set_send c b) = file_table c" "file_table (set_receive c b) = file_table c"
  "file_table (set_meta c h) = file_table c" "file_table (c\<lparr>c_world := w\<rparr>) = file_table c"
  by (simp_all add: file_table_def control_setters)

lemma file_at_table: "file_table c' = file_table c \<Longrightarrow> file_at c' = file_at c"
  by (simp add: file_at_def file_table_def fun_eq_iff)

lemma exchange_table: "exchange N c vfd len = Inr c' \<Longrightarrow> file_table c' = file_table c"
  by (auto simp: exchange_def control_send_def control_receive_def bindr_eq_Inr)

lemma exchange_log_table: "exchange_log N c vfd l = Inr c' \<Longrightarrow> file_table c' = file_table c"
  by (auto simp: exchange_log_def bindr_eq_Inr dest!: exchange_table)



lemma update_meta_table: "update_meta R c it mn mx = Inr c' \<Longrightarrow> file_table c' = file_table c"
  by (auto simp: update_meta_def replace_meta_def bindr_eq_Inr)

lemma update_meta_world: "update_meta R c it mn mx = Inr c' \<Longrightarrow> c_world c' = c_world c"
  by (auto simp: update_meta_def replace_meta_def bindr_eq_Inr control_setters)

section \<open>A connection that is closed\<close>

text \<open>
  The connection \<open>dead_fd\<close> leads to no process any more. \<open>before\<close> holds of the worlds in which the
  control node's system has not noticed, \<open>after\<close> of those in which it has; in both the other nodes are
  a store service.
\<close>

locale control_degraded =
  bef: control_env R content cursor N nodes fd_of before spare + aft: control_env R content cursor N nodes fd_of after spare
  for R :: "('db, 'it) rocksdb" and content cursor
    and N :: "'w os" and nodes fd_of before after spare +
  fixes dead_fd :: c_int
  assumes dead_send: "before w \<Longrightarrow> \<exists>w'. os_send N w dead_fd bs = Some w' \<and> after w' \<and> nodes w' = nodes w"
    and dead_recv: "after w \<Longrightarrow> \<exists>r. os_recv N w dead_fd n = Some (r, [], w)"
    and dead_pipe: "after w \<Longrightarrow> os_send N w dead_fd bs = None"
begin

text \<open>The first request: the receive buffer keeps what it held.\<close>

lemma exchange_dead:
  assumes "bef.rel ms as c" "file_at c vfd = Inr \<lparr>connect_fd = dead_fd\<rparr>"
    and "send_buff c = bs @ rest" "length bs \<le> MAXLINE" "len = word_of_nat (length bs)"
  shows "\<exists>c'. exchange N c vfd len = Inr c' \<and> aft.rel ms as c' \<and> receive_buff c' = receive_buff c \<and> file_table c' = file_table c"
proof -
  have live: "before (c_world c)"
    using assms(1) by (simp add: control_rel_def)
  obtain w' where w': "os_send N (c_world c) dead_fd bs = Some w'" "after w'" "nodes w' = nodes (c_world c)"
    using dead_send [OF live] by blast
  obtain r where "os_recv N w' dead_fd MAXLINE = Some (r, [], w')"
    using dead_recv [OF w'(2)] by blast
  then have "exchange N c vfd len = Inr (c\<lparr>c_world := w'\<rparr>)"
    using assms(2,3) send_to_front [OF assms(4,5), of N "\<lparr>connect_fd = dead_fd\<rparr>" rest "c_world c"] w'(1)
    by (simp add: exchange_def control_send_def control_receive_def net_file_receive_from_def mem_write_def set_receive_def file_at_def)
  moreover have "aft.rel ms as (c\<lparr>c_world := w'\<rparr>)"
    using assms(1) w'(2,3) by (simp add: control_rel_def)
  ultimately show ?thesis
    by simp
qed

text \<open>Any further request ends the process.\<close>

lemma exchange_pipe:
  assumes "aft.rel ms as c" "file_at c vfd = Inr \<lparr>connect_fd = dead_fd\<rparr>"
    and "send_buff c = bs @ rest" "length bs \<le> MAXLINE" "len = word_of_nat (length bs)"
  shows "exchange N c vfd len = Inl Broken_pipe"
proof -
  have "after (c_world c)"
    using assms(1) by (simp add: control_rel_def)
  then show ?thesis
    using assms(2,3) send_to_front [OF assms(4,5), of N "\<lparr>connect_fd = dead_fd\<rparr>" rest "c_world c"] dead_pipe
    by (simp add: exchange_def control_send_def)
qed

lemma exchange_log_dead:
  assumes rel: "bef.rel ms as c" and at: "file_at c vfd = Inr \<lparr>connect_fd = dead_fd\<rparr>" and l: "good_log l"
  shows "\<exists>c'. exchange_log N c vfd l = Inr c' \<and> aft.rel ms as c' \<and> receive_buff c' = receive_buff c \<and> file_table c' = file_table c"
proof -
  let ?e = "enc_request (Req_log l)"
  have len: "length (send_buff c) = MAXLINE" "length ?e \<le> MAXLINE"
    using rel length_enc_request [of "Req_log l"] l
    by (simp_all add: control_rel_def del: enc_request.simps)
  obtain b1 p t s where b: "insert_str_to_buff (send_buff c) 0 get_LOG 0 = Inr (b1, p, t)"
    "LOG_to_slice l b1 p = Inr (s, ?e @ drop (length ?e) (send_buff c))" "t + word_of_nat (Slice_size s) = word_of_nat (length ?e)"
    using bef.log_request_run [OF len(1) l] by auto
  let ?c = "set_send c (?e @ drop (length ?e) (send_buff c))"
  have rel': "bef.rel ms as ?c"
    using rel len by (intro control_rel_send) simp_all
  have "file_at ?c vfd = Inr \<lparr>connect_fd = dead_fd\<rparr>"
    using at file_at_table [of ?c c] by simp
  from exchange_dead [OF rel' this _ len(2) b(3)] obtain c' where "exchange N ?c vfd (t + word_of_nat (Slice_size s)) = Inr c'"
    "aft.rel ms as c'" "receive_buff c' = receive_buff ?c" "file_table c' = file_table ?c"
    by (auto simp: set_send_def)
  then show ?thesis
    using b(1,2) by (simp add: exchange_log_def file_table_def del: enc_request.simps) (simp add: set_send_def)
qed

text \<open>The first node commits; the commit request to the other one ends the process.\<close>

lemma commit_both_pipe:
  assumes rel: "aft.rel ms as c" and i: "i < length as" and l: "as_logs (as ! i) = [l]"
    and at: "file_at c vfd = Inr \<lparr>connect_fd = dead_fd\<rparr>"
  shows "\<exists>n c'. commit_first N c (word_of_nat i) = Inr (n, c') \<and> aft.rel ms (as[i := committed l (as ! i)]) c' \<and>
    exchange N c' vfd n = Inl Broken_pipe \<and> commit_both N c (word_of_nat i) vfd = Inl Broken_pipe"
proof -
  let ?e = "enc_request Req_commit" and ?b = "send_buff c"
  let ?c = "set_send c (?e @ drop (length ?e) ?b)"
  have len: "length ?b = MAXLINE" "length ?e \<le> MAXLINE"
    using rel by (simp_all add: control_rel_def command_defs MAXLINE_def)
  have b: "insert_str_to_buff ?b 0 get_COMMIT_LOG 0 = Inr (?e @ drop (length ?e) ?b, length ?e, word_of_nat (length ?e))"
    using put_str_front [of get_COMMIT_LOG ?b] len by (simp add: short_str_wire)
  have "aft.rel ms as ?c"
    using rel len by (intro control_rel_send) simp_all
  then obtain c1 rest where c1: "exchange N ?c (word_of_nat i) (word_of_nat (length ?e)) = Inr c1"
    "aft.rel ms (as[i := committed l (as ! i)]) c1" "receive_buff c1 = enc_str get_OK @ rest" "send_buff c1 = send_buff ?c"
    using aft.exchange_run [of ms as ?c i Req_commit "drop (length ?e) ?b"] i l
    by (auto simp: committed_def set_send_def)
  have "file_at c1 vfd = Inr \<lparr>connect_fd = dead_fd\<rparr>"
    using at file_at_table [OF exchange_table [OF c1(1)]] file_at_table [of ?c c] by simp
  from exchange_pipe [OF c1(2) this, of ?e "drop (length ?e) ?b"] c1(4) len
  have pipe: "exchange N c1 vfd (word_of_nat (length ?e)) = Inl Broken_pipe"
    by (simp add: set_send_def)
  then show ?thesis
    using b c1 aft.ok_reply [OF c1(3)] by (auto simp: commit_both_def commit_first_def)
qed

text \<open>
  The meta entry of the node that is down is stored under the least key of the neighbour's answer,
  which is where the neighbour's own entry has just been stored.
\<close>

lemma update_meta_collides:
  assumes rel: "aft.rel (zs @ m1 # m # ys) as c" and it: "cursor it = (xs, Some j)" "j < length xs" "xs ! j = meta_entry m"
    and m: "good_meta m" and range: "short_str mn" "short_str mx" "mn \<noteq> []" "mn = min_str m1"
    and sorted: "sorted_wrt (<) (map min_str (zs @ m1 # m # ys))"
  shows "\<exists>c'. update_meta R c it mn mx = Inr c' \<and> aft.rel (zs @ with_range m mn mx # ys) as c'"
proof -
  let ?m = "with_range m mn mx"
  obtain v where v: "it_value R it = Inr v" "slice_ok v" "slice_bytes v = enc_meta m"
    using bef.it_value_at [OF it(1)] it(3) by (auto simp: meta_entry_def)
  note val = of_slice_run [OF good_meta_fits [OF m] v(2,3)]
  have "filter (\<lambda>e. fst e \<noteq> min_str m) (map meta_entry xs) = map meta_entry xs" if "xs \<in> {zs, ys}" for xs
    using that sorted by (auto simp: meta_entry_def sorted_wrt_append filter_id_conv)
  then have "kv_del (min_str m) (map meta_entry (zs @ m1 # m # ys)) = map meta_entry (zs @ m1 # ys)"
    using sorted by (auto simp: kv_del_def meta_entry_def sorted_wrt_append)
  moreover have "kv_put (min_str m1) x (map meta_entry (zs @ m1 # ys)) = map meta_entry zs @ (min_str m1, x) # map meta_entry ys" for x
  proof -
    have "kv_put (min_str m1) x (map meta_entry zs @ [meta_entry m1] @ map meta_entry ys) =
        map meta_entry zs @ kv_put (min_str m1) x [meta_entry m1] @ map meta_entry ys"
      by (rule kv_put_segment) (use sorted in \<open>auto simp: meta_entry_def sorted_wrt_append\<close>)
    then show ?thesis
      by (simp add: meta_entry_def)
  qed
  ultimately have "map meta_entry (zs @ ?m # ys) = kv_put (min_str ?m) (enc_meta ?m) (kv_del (fst (xs ! j)) (map meta_entry (zs @ m1 # m # ys)))"
    using range(3,4) it(3) by (simp add: meta_entry_def)
  from aft.replace_meta_kv [OF rel it(1,2) good_meta_fits [OF with_range_good [OF m range(1,2)]] this]
  show ?thesis
    using v(1) val by (auto simp: update_meta_def)
qed

text \<open>
  The move ends the process behind the first commit: the entry is deleted at the live node and neither
  stored nor logged anywhere, and the live node's meta entry is overwritten by that of the node that
  is down.
\<close>

lemma migrate_dead:
  assumes rel: "bef.rel ms as c" and ok: "metas_ok ms" and n: "Suc i < length ms" "length as = Suc i"
    and at: "file_at c (word_of_nat (Suc i)) = Inr \<lparr>connect_fd = dead_fd\<rparr>"
    and i: "i = owner (map min_str ms) key" and good: "good_str key" "good_str val" and log: "as_logs (as ! i) = []"
    and di: "di = kv_del key (as_data (as ! i))" "di \<noteq> []" and sorted: "sorted_wrt (<) ((map min_str ms)[i := fst (hd di)])"
    and nb: "\<And>it. cursor it = (map meta_entry ms, Some i) \<Longrightarrow>
      \<exists>it'. neighbour it = Inr it' \<and> cursor it' = (map meta_entry ms, Some (Suc i))"
  shows "\<exists>c1 tot c2. migrate_log R N neighbour c (word_of_nat i) (word_of_nat (Suc i)) key val = Inr c1 \<and>
    commit_first N c1 (word_of_nat i) = Inr (tot, c2) \<and> exchange N c2 (word_of_nat (Suc i)) tot = Inl Broken_pipe \<and>
    migrate R N neighbour c (word_of_nat i) (word_of_nat (Suc i)) key val = Inl Broken_pipe \<and>
    aft.rel (take i ms @ (ms ! Suc i)\<lparr>min_str := fst (hd di), max_str := fst (last di)\<rparr> # drop (Suc (Suc i)) ms)
      (as[i := \<lparr>as_data = di, as_logs = []\<rparr>]) c2"
proof -
  let ?l = "LOG_of DELETE key []" and ?l' = "LOG_of PUT key val" and ?f = "fst (hd di)" and ?x = "fst (last di)"
  let ?m1 = "with_range (ms ! i) ?f ?x" and ?m2 = "with_range (ms ! Suc i) ?f ?x" and ?ys = "drop (Suc (Suc i)) ms"
  have l: "good_log ?l" "good_log ?l'"
    using good by (simp_all add: good_log_def LOG_of_def)
  have eff: "apply_log ?l (as_data (as ! i)) = di"
    using di(1) by (simp add: apply_log_def LOG_of_def)
  have len: "i < length as" "i < length ms" "ms \<noteq> []"
    using n by auto
  have "kv_good di"
    using bef.rel_node_ok [OF rel len(1)] di(1) by (simp add: astore_ok_def kv_good_del)
  then have range: "short_str ?f" "short_str ?x" "?f \<noteq> []" "?x \<noteq> []"
    using kv_good_entry [of di "hd di"] kv_good_entry [of di "last di"] di(2) by (auto simp: good_str_iff)
  let ?as1 = "as[i := (as ! i)\<lparr>as_logs := [?l]\<rparr>]"
  obtain c1 where c1: "exchange_log N c (word_of_nat i) ?l = Inr c1" "bef.rel ms ?as1 c1" "read_range c1 = Inr (''ok'', ?f, ?x)"
    using bef.log_at_node [OF rel len(1) l(1) log] eff di(2) by (auto simp: first_entry_def last_entry_def)
  have at1: "file_at c1 (word_of_nat (Suc i)) = Inr \<lparr>connect_fd = dead_fd\<rparr>"
    using at file_at_table [OF exchange_log_table [OF c1(1)]] by simp
  obtain c2 where c2: "exchange_log N c1 (word_of_nat (Suc i)) ?l' = Inr c2" "aft.rel ms ?as1 c2" "receive_buff c2 = receive_buff c1"
    "file_table c2 = file_table c1"
    using exchange_log_dead [OF c1(2) at1 l(2)] by auto
  have range2: "read_range c2 = Inr (''ok'', ?f, ?x)"
    using c1(3) c2(3) by (simp add: read_range_def)
  obtain it0 it b where it: "DB_Handle.new_iterator R (meta_db c2) = Inr it0" "DB_Handle_get_smaller_or_equal R key it0 = Inr (b, it)"
    "cursor it = (map meta_entry ms, Some i)"
    using aft.route_run [OF c2(2) ok len(3) i] by auto
  obtain c3 where c3: "update_meta R c2 it ?f ?x = Inr c3" "aft.rel (ms[i := ?m1]) ?as1 c3" "metas_ok (ms[i := ?m1])"
    using aft.update_meta_run [OF c2(2) it(3) len(2) refl len(2) ok range(1,2)] sorted range(3) by auto
  obtain it' where it': "neighbour it = Inr it'" "cursor it' = (map meta_entry ms, Some (Suc i))"
    using nb [OF it(3)] by auto
  have "drop (Suc i) ms = ms ! Suc i # ?ys"
    using n(1) by (simp add: Cons_nth_drop_Suc)
  then have split: "ms[i := ?m1] = take i ms @ ?m1 # ms ! Suc i # ?ys"
    using len(2) by (simp add: upd_conv_take_nth_drop)
  have m: "good_meta (ms ! Suc i)" "sorted_wrt (<) (map min_str (take i ms @ ?m1 # ms ! Suc i # ?ys))"
    using ok c3(3) n(1) by (simp_all add: metas_ok_def flip: split)
  obtain c4 where c4: "update_meta R c3 it' ?f ?x = Inr c4" "aft.rel (take i ms @ ?m2 # ?ys) ?as1 c4"
    using update_meta_collides [OF c3(2) [unfolded split] it'(2) _ _ m(1) range(1,2,3) _ m(2)] n(1) range(3) by auto
  have at4: "file_at c4 (word_of_nat (Suc i)) = Inr \<lparr>connect_fd = dead_fd\<rparr>"
    using at1 file_at_table [OF c2(4)] file_at_table [OF update_meta_table [OF c3(1)]] file_at_table [OF update_meta_table [OF c4(1)]] by simp
  obtain tot c5 where c5: "commit_first N c4 (word_of_nat i) = Inr (tot, c5)" "exchange N c5 (word_of_nat (Suc i)) tot = Inl Broken_pipe"
    "commit_both N c4 (word_of_nat i) (word_of_nat (Suc i)) = Inl Broken_pipe"
    "aft.rel (take i ms @ ?m2 # ?ys) (as[i := \<lparr>as_data = di, as_logs = []\<rparr>]) c5"
    using commit_both_pipe [OF c4(2) _ _ at4, of i ?l] len(1) eff by (simp add: committed_def) blast
  have "migrate_log R N neighbour c (word_of_nat i) (word_of_nat (Suc i)) key val = Inr c4"
    using c1 c2(1) range2 it c3(1) it'(1) c4(1) by (simp add: migrate_log_def)
  moreover have "?m2 = (ms ! Suc i)\<lparr>min_str := ?f, max_str := ?x\<rparr>"
    using range by (simp add: with_range_def)
  ultimately show ?thesis
    using c5 by (intro exI [of _ c4] exI [of _ tot] exI [of _ c5]) (simp add: migrate_def)
qed

end

section \<open>One node of a cluster is down\<close>

text \<open>
  Node \<open>n\<close> is down (\<open>dn\<close>), the nodes before it are in view, those behind it (\<open>rest\<close>) are not touched.
\<close>

definition up_nodes :: "('db \<Rightarrow> kv) \<Rightarrow> nat \<Rightarrow> 'db cluster_world \<Rightarrow> astore list" where
  "up_nodes content n w = take n (cluster_nodes content w)"

definition degraded_live ::
    "('db \<Rightarrow> kv) \<Rightarrow> nat \<Rightarrow> 'db node \<Rightarrow> 'db node list \<Rightarrow> 'db cluster_world \<Rightarrow> bool" where
  "degraded_live content n dn rest w \<longleftrightarrow> (\<exists>nds. cw_nodes w = nds @ dn # rest \<and> length nds = n \<and> (\<forall>nd \<in> set nds. node_live content nd)) \<and>
     (\<forall>i \<le> n. cw_conn w (cluster_fd i) = Some i) \<and> \<not> nd_up dn \<and> nd_answers dn = []"

text \<open>The process of node \<open>j\<close> ends.\<close>

definition down :: "'db node \<Rightarrow> 'db node" where
  "down nd = nd\<lparr>nd_up := False, nd_reset := False\<rparr>"

definition take_down :: "nat \<Rightarrow> ('db, 'db cluster_world) control \<Rightarrow> ('db, 'db cluster_world) control" where
  "take_down j c = c\<lparr>c_world := (c_world c)\<lparr>cw_nodes := (cw_nodes (c_world c))[j := down (cw_nodes (c_world c) ! j)]\<rparr>\<rparr>"

lemma abs_down [simp]: "abs_store content (nd_store (down nd)) = abs_store content (nd_store nd)"
  by (simp add: down_def)


lemma degraded_node:
  assumes "degraded_live content n dn rest w" "i < length (up_nodes content n w)"
  shows "i < n" "i < length (cw_nodes w)" "cw_conn w (cluster_fd i) = Some i" "node_live content (cw_nodes w ! i)"
    "up_nodes content n w ! i = abs_store content (nd_store (cw_nodes w ! i))"
  using assms by (auto simp: degraded_live_def up_nodes_def cluster_nodes_def nth_append)

lemma degraded_update:
  assumes "degraded_live content n dn rest w" "i < n"
  shows "node_live content nd \<Longrightarrow> degraded_live content n dn rest (w\<lparr>cw_nodes := (cw_nodes w)[i := nd]\<rparr>)"
    "up_nodes content n (w\<lparr>cw_nodes := (cw_nodes w)[i := nd]\<rparr>) = (up_nodes content n w)[i := abs_store content (nd_store nd)]"
proof -
  obtain nds where nds: "cw_nodes w = nds @ dn # rest" "length nds = n" "\<forall>nd \<in> set nds. node_live content nd"
    using assms(1) by (auto simp: degraded_live_def)
  then show "up_nodes content n (w\<lparr>cw_nodes := (cw_nodes w)[i := nd]\<rparr>) = (up_nodes content n w)[i := abs_store content (nd_store nd)]"
    using assms(2) by (simp add: up_nodes_def cluster_nodes_def list_update_append1 map_update)
  show "node_live content nd \<Longrightarrow> degraded_live content n dn rest (w\<lparr>cw_nodes := (cw_nodes w)[i := nd]\<rparr>)"
    using assms nds set_update_ball [OF nds(3)] unfolding degraded_live_def by (auto simp: list_update_append1)
qed

context rocksdb_reliable
begin

lemma degraded_service: "store_service (cluster_os R) (up_nodes content n) cluster_fd (degraded_live content n dn rest)"
proof
  fix w :: "'a cluster_world" and a
  assume live: "degraded_live content n dn rest w" and "a \<in> set (up_nodes content n w)"
  then obtain i where i: "i < length (up_nodes content n w)" "a = up_nodes content n w ! i"
    by (auto simp: in_set_conv_nth)
  then show "astore_ok a"
    using degraded_node [OF live i(1)] by (auto simp: node_live_def store_rel_def)
next
  fix w :: "'a cluster_world" and i req
  assume live: "degraded_live content n dn rest w" and i: "i < length (up_nodes content n w)"
    and req: "request_ok req" "has_reply req"
  note D = degraded_node [OF live i]
  from node_answers [OF D(3,2,4,5) req] degraded_update [OF live D(1)]
  show "\<exists>w1 r w'. os_send (cluster_os R) w (cluster_fd i) (enc_request req) = Some w1 \<and>
      os_recv (cluster_os R) w1 (cluster_fd i) MAXLINE = Some (r, fst (store_spec req (up_nodes content n w ! i)), w') \<and>
      degraded_live content n dn rest w' \<and>
      up_nodes content n w' = (up_nodes content n w)[i := snd (store_spec req (up_nodes content n w ! i))]"
    by fastforce
next
  fix w :: "'a cluster_world" and i t
  assume live: "degraded_live content n dn rest w" and i: "i < length (up_nodes content n w)" and t: "good_str t"
  note D = degraded_node [OF live i]
  from node_takes [OF D(3,2,4) t] degraded_update [OF live D(1)] D(5)
  show "\<exists>w'. os_send (cluster_os R) w (cluster_fd i) (enc_request (Req_test t)) = Some w' \<and> degraded_live content n dn rest w' \<and>
      up_nodes content n w' = up_nodes content n w"
    by (auto simp del: enc_request.simps) (metis list_update_id)
qed

text \<open>The first \<open>send\<close> to the node that is down is answered by a reset, the second ends the process.\<close>

lemma degraded_dead:
  assumes "degraded_live content n dn rest w"
  shows "\<not> nd_reset dn \<Longrightarrow> \<exists>w'. os_send (cluster_os R) w (cluster_fd n) bs = Some w' \<and>
      degraded_live content n (dn\<lparr>nd_reset := True\<rparr>) rest w' \<and> up_nodes content n w' = up_nodes content n w"
    "nd_reset dn \<Longrightarrow> os_send (cluster_os R) w (cluster_fd n) bs = None"
    "\<exists>r. os_recv (cluster_os R) w (cluster_fd n) k = Some (r, [], w)"
  using assms by (auto simp: degraded_live_def cluster_send_def cluster_recv_def up_nodes_def cluster_nodes_def)

lemma degraded_env:
  assumes "\<not> nd_reset dn"
  shows "control_degraded R content cursor (cluster_os R) (up_nodes content n) cluster_fd
    (degraded_live content n dn rest) (degraded_live content n (dn\<lparr>nd_reset := True\<rparr>) rest) (cluster_fd n)"
  using degraded_dead assms
  by (intro control_degraded.intro control_env.intro rocksdb_reliable_axioms degraded_service control_degraded_axioms.intro)
    (simp_all del: cluster_os_simps)

end

interpretation ref_degraded: control_degraded ref_R ref_content ref_cursor "cluster_os ref_R" "up_nodes ref_content 1" cluster_fd
    "degraded_live ref_content 1 (down (ref_node 2)) []" "degraded_live ref_content 1 ((down (ref_node 2))\<lparr>nd_reset := True\<rparr>) []" 1 "cluster_fd 1"
  by (rule rocksdb_reliable.degraded_env [OF ref_R_reliable]) (simp add: down_def)

context rocksdb_reliable
begin

lemma take_down_rel:
  assumes rel: "control_rel content (cluster_nodes content) cluster_fd (cluster_live content) 0 ms as c" and n: "n < length as"
  shows "control_rel content (up_nodes content n) cluster_fd
      (degraded_live content n (down (cw_nodes (c_world c) ! n)) (drop (Suc n) (cw_nodes (c_world c))))
      (length as - n) ms (take n as) (take_down n c)"
    "file_at (take_down n c) (word_of_nat n) = Inr \<lparr>connect_fd = cluster_fd n\<rparr>"
proof -
  let ?w = "c_world c" and ?nds = "cw_nodes (c_world c)"
  have D: "cluster_nodes content ?w = as" "cluster_live content ?w"
    using rel by (simp_all add: control_rel_def)
  then have len: "n < length ?nds" "length as = length ?nds"
    using n by (auto simp: cluster_nodes_def)
  have nds: "cw_nodes (c_world (take_down n c)) = take n ?nds @ down (?nds ! n) # drop (Suc n) ?nds"
    using len by (simp add: take_down_def upd_conv_take_nth_drop)
  have "cw_conn (c_world (take_down n c)) = cw_conn ?w"
    by (simp add: take_down_def)
  then have live: "degraded_live content n (down (?nds ! n)) (drop (Suc n) ?nds) (c_world (take_down n c))"
    using D(2) len nds in_set_takeD [of _ n ?nds]
    by (auto simp: degraded_live_def cluster_live_def node_live_def down_def)
  moreover have "up_nodes content n (c_world (take_down n c)) = take n as"
    using nds len by (simp add: up_nodes_def cluster_nodes_def take_map flip: D(1))
  ultimately show "control_rel content (up_nodes content n) cluster_fd (degraded_live content n (down (?nds ! n)) (drop (Suc n) ?nds))
      (length as - n) ms (take n as) (take_down n c)"
    using rel n by (auto simp: control_rel_def take_down_def)
  have "file_at c (word_of_nat n) = Inr \<lparr>connect_fd = cluster_fd n\<rparr>"
    using cluster.file_at_run [OF rel, of n] n by simp
  then show "file_at (take_down n c) (word_of_nat n) = Inr \<lparr>connect_fd = cluster_fd n\<rparr>"
    by (simp add: file_at_def take_down_def)
qed

end

section \<open>Property\<close>



end
