(* ===== verification/Crash.thy ===== *)
theory Crash
  imports Cluster
begin

text \<open>
  Crash and restart. The meta database of the control node and the two databases of every store node
  survive a crash; buffers and connections do not. A restarted control node reads the meta database,
  connects again and never asks for pending log records, so what the nodes had logged and not
  committed stays invisible, and a move of an entry between two nodes that was cut short is not
  undone.
\<close>

section \<open>Restart\<close>

text \<open>The databases a control node \<open>c\<close> and its store nodes leave behind, found by the next processes.\<close>

definition restarted ::
    "('db \<Rightarrow> kv) \<Rightarrow> ('db, 'it) rocksdb \<Rightarrow> string \<Rightarrow> Ip_location list \<Rightarrow> 'db cluster_world \<Rightarrow> ('db, 'db cluster_world) control \<Rightarrow> bool" where
  "restarted content R path ls w c \<longleftrightarrow>
     nodes_ready content ls w \<and> cluster_nodes content w = cluster_nodes content (c_world c) \<and>
     disk_holds R content path (hcontent content (meta_db c))"

text \<open>The part of the invariant that does not depend on pending log records.\<close>

definition cluster_data :: "Control_meta list \<Rightarrow> astore list \<Rightarrow> bool" where
  "cluster_data ms as \<longleftrightarrow> as \<noteq> [] \<and> metas_ok ms \<and> separators (map min_str ms) (map as_data as)"

lemma cluster_inv_data: "cluster_inv ms as \<Longrightarrow> cluster_data ms as"
  by (simp add: cluster_inv_def cluster_data_def)

lemma cluster_data_get:
  assumes "cluster_data ms as"
  shows "kv_get k (as_data (as ! owner (map min_str ms) k)) = kv_get k (cluster_kv as)"
  using assms owner_get [of "map min_str ms" "map as_data as" k] owner_length [of "map min_str ms" "map as_data as" k]
  by (simp add: cluster_data_def cluster_kv_def)

context rocksdb_reliable
begin

lemma restart_get:
  assumes ready: "nodes_ready content ls w" and disk: "disk_holds R content path (map meta_entry ms)"
    and ms: "metas_ok ms" "length ms = length (cluster_nodes content w)" "ms \<noteq> []" and few: "length ls < 2 ^ 31"
    and mem: "4 * length ls \<le> usable (length ls)" and buff: "\<And>n. length (fresh n) = MAXLINE" and key: "good_str k"
  shows "\<exists>c c'. control_impl_open R (cluster_os R) usable fresh path ls w = Inr c \<and> control_get R (cluster_os R) c k = Inr c' \<and>
    last (c_out c') = ''get '' @
      (case kv_get k (as_data (cluster_nodes content w ! owner (map min_str ms) k)) of Some v \<Rightarrow> v | None \<Rightarrow> [])"
proof -
  have len: "length ms = length ls"
    using ready ms(2) unfolding nodes_ready_def ports_match_def cluster_nodes_def by (metis length_map)
  obtain c where c: "control_impl_open R (cluster_os R) usable fresh path ls w = Inr c" "cluster.rel ms (cluster_nodes content w) c"
    using control_open_run [where usable = usable and fresh = fresh, OF ready few mem buff disk] few len ms(3) by auto
  have "cluster_nodes content w \<noteq> []"
    using ms(2,3) by auto
  from cluster.get_at_owner [OF c(2) ms(1,2) this key] show ?thesis
    using c(1) by auto
qed

end

section \<open>A move cut short\<close>

text \<open>
  Both crash points of a move from node \<open>i\<close> to node \<open>i + 1\<close>: the nodes have logged it and the meta
  records are written, or node \<open>i\<close> has committed as well. \<open>e\<close> is the entry that moves.
\<close>

lemma logged_data: "map as_data (logged as i j k v) = map as_data as"
  by (simp add: logged_def map_update) (metis list_update_id map_update)

lemma first_committed:
  assumes "i < length as" "i \<noteq> j"
  shows "committed (LOG_of DELETE k []) (logged as i j k v ! i) = idle (kv_del k (as_data (as ! i)))"
  using assms by (simp add: committed_def logged_def apply_log_def LOG_of_def idle_def)

lemma moved_entry_owner:
  assumes "separators (map min_str ms') (map as_data (as[i := idle x, Suc i := idle (e # as_data (as ! Suc i))]))"
    "Suc i < length as"
  shows "owner (map min_str ms') (fst e) = Suc i" "length ms' = length as"
  using owner_of_entry [OF assms(1), of "Suc i" e] separators_D(2) [OF assms(1)] assms(2) by simp_all

lemma not_next:
  assumes "cluster_inv ms as" "Suc i < length as" "e \<in> set (as_data (as ! i))"
  shows "kv_get (fst e) (as_data (as ! Suc i)) = None"
proof -
  note D = separators_D(4) [OF cluster_inv_D(5) [OF assms(1)]]
  have "fst e \<noteq> fst a" if "a \<in> set (as_data (as ! Suc i))" for a
    using D [of i "Suc i" e] D [of "Suc i" "Suc i" a] that assms(2,3) by auto
  then show ?thesis
    by (force simp: kv_get_def map_of_eq_None_iff)
qed

context rocksdb_reliable
begin

lemma crash_points:
  assumes rel: "cluster.rel ms as c" and inv: "cluster_inv ms as" and i: "Suc i < length as"
    and long: "1 < length (as_data (as ! i))" and e: "e = last_entry (as_data (as ! i))"
  shows "\<exists>c1 n c2 ms'. migrate_log R (cluster_os R) (it_next R) c (word_of_nat i) (word_of_nat i + 1) (fst e) (snd e) = Inr c1 \<and>
    commit_first (cluster_os R) c1 (word_of_nat i) = Inr (n, c2) \<and> metas_ok ms' \<and> length ms' = length as \<and>
    owner (map min_str ms') (fst e) = Suc i \<and> (\<forall>crashed \<in> {c1, c2}. hcontent content (meta_db crashed) = map meta_entry ms') \<and>
    cluster_nodes content (c_world c1) = logged as i (Suc i) (fst e) (snd e) \<and>
    cluster_nodes content (c_world c2) = (logged as i (Suc i) (fst e) (snd e))[i := idle (kv_del (fst e) (as_data (as ! i)))]"
proof -
  let ?x = "butlast (as_data (as ! i))" and ?as1 = "logged as i (Suc i) (fst e) (snd e)"
  obtain c1 ms' where c1: "migrate_log R (cluster_os R) (it_next R) c (word_of_nat i) (word_of_nat i + 1) (fst e) (snd e) = Inr c1"
    "cluster.rel ms' ?as1 c1" "metas_ok ms'"
    "separators (map min_str ms') (map as_data (as[i := idle ?x, Suc i := idle (e # as_data (as ! Suc i))]))"
    using cluster.migrate_log_up [OF rel inv i long e refl refl] by blast
  have log: "i < length ?as1" "as_logs (?as1 ! i) = [LOG_of DELETE (fst e) []]"
    using i by (simp_all add: logged_def)
  obtain n c2 where c2: "commit_first (cluster_os R) c1 (word_of_nat i) = Inr (n, c2)"
    "cluster.rel ms' (?as1[i := committed (LOG_of DELETE (fst e) []) (?as1 ! i)]) c2"
    using cluster.commit_first_run [OF c1(2) log] by blast
  have "cluster_nodes content (c_world c1) = ?as1" "cluster_nodes content (c_world c2) = ?as1[i := idle (kv_del (fst e) (as_data (as ! i)))]"
    using c1(2) c2(2) first_committed [of i as "Suc i" "fst e" "snd e"] i by (simp_all add: control_rel_def)
  moreover have "\<forall>crashed \<in> {c1, c2}. hcontent content (meta_db crashed) = map meta_entry ms'"
    using c1(2) c2(2) by (simp add: control_rel_def)
  ultimately show ?thesis
    using c1(1,3) c2(1) moved_entry_owner [OF c1(4) i]
    by (intro exI [of _ c1] exI [of _ n] exI [of _ c2] exI [of _ ms']) simp
qed

end

text \<open>
  C27: a crash in the middle of a move loses the entry. Take a cluster in a good state and a node with
  more than one entry whose last entry is moved to the next node. If the processes stop after the meta
  records are written, before either node has committed, the entry is still stored at the first node;
  if they stop between the two commits, it is stored nowhere. In both cases, whatever processes are
  started over the surviving databases, \<open>get\<close> answers the key with nothing, although no client deleted
  it.
\<close>

theorem crash_in_a_move_loses_the_entry:
  fixes R :: "('db, 'it) rocksdb"
  assumes "rocksdb_reliable R content cursor"
    "control_rel content (cluster_nodes content) cluster_fd (cluster_live content) 0 ms as c" "cluster_inv ms as"
    "Suc i < length as" "1 < length (as_data (as ! i))" "last_entry (as_data (as ! i)) = (key, val)"
  shows "\<exists>c1 n c2. migrate_log R (cluster_os R) (it_next R) c (word_of_nat i) (word_of_nat i + 1) key val = Inr c1 \<and>
    commit_first (cluster_os R) c1 (word_of_nat i) = Inr (n, c2) \<and>
    cluster_nodes content (c_world c1) = logged as i (Suc i) key val \<and>
    cluster_nodes content (c_world c2) = (logged as i (Suc i) key val)[i := idle (kv_del key (as_data (as ! i)))] \<and>
    map_of (cluster_kv (cluster_nodes content (c_world c1))) key = Some val \<and>
    map_of (cluster_kv (cluster_nodes content (c_world c2))) = (map_of (cluster_kv as))(key := None) \<and>
    (\<forall>crashed \<in> {c1, c2}. \<forall>R' :: ('db, 'it) rocksdb. \<forall>path ls w usable fresh.
       rocksdb_reliable R' content cursor \<and> restarted content R' path ls w crashed \<and> 4 * length ls \<le> usable (length ls) \<and>
         (\<forall>n. length (fresh n) = MAXLINE) \<longrightarrow>
       (\<exists>c3 c4. control_impl_open R' (cluster_os R') usable fresh path ls w = Inr c3 \<and>
          control_get R' (cluster_os R') c3 key = Inr c4 \<and> last (c_out c4) = ''get ''))"
proof -
  let ?e = "(key, val)"
  note D = cluster_inv_D [OF assms(3)]
  have e: "?e \<in> set (as_data (as ! i))"
    using border_up(1) [OF assms(3,4,5) refl refl refl] assms(6) by (metis in_set_conv_decomp)
  have key: "good_str key"
    using kv_good_entry [OF D(7), of i ?e] e assms(4) by simp
  have owner: "owner (map min_str ms) key = i"
    using owner_of_entry [OF D(5), of i ?e] e assms(4) by simp
  have sorted: "kv_sorted (as_data (as ! i))"
    using D(7) [of i] assms(4) by (simp add: kv_good_def)
  have stored: "map_of (cluster_kv as) key = Some val"
    using owner_get [OF D(5), of key] D(1) owner assms(4) kv_sorted_distinct [OF sorted] e
    by (simp add: cluster_kv_def kv_get_def)
  let ?as1 = "logged as i (Suc i) key val" and ?as2 = "(logged as i (Suc i) key val)[i := idle (kv_del key (as_data (as ! i)))]"
  have gone: "cluster_kv ?as1 = cluster_kv as" "cluster_kv ?as2 = kv_del key (cluster_kv as)"
    using owner_del [OF D(5), of key] D(1) owner assms(4) by (simp_all add: cluster_kv_def map_update logged_data)
  have small: "length as < 2 ^ 31"
    using assms(2) by (simp add: control_rel_def)
  obtain c1 n c2 ms' where cr: "migrate_log R (cluster_os R) (it_next R) c (word_of_nat i) (word_of_nat i + 1) key val = Inr c1"
    "commit_first (cluster_os R) c1 (word_of_nat i) = Inr (n, c2)" "metas_ok ms'" "length ms' = length as"
    "owner (map min_str ms') key = Suc i" "\<forall>crashed \<in> {c1, c2}. hcontent content (meta_db crashed) = map meta_entry ms'"
    "cluster_nodes content (c_world c1) = ?as1" "cluster_nodes content (c_world c2) = ?as2"
    using rocksdb_reliable.crash_points [OF assms(1,2,3,4,5), of ?e] assms(6) by auto
  have hidden: "length (cluster_nodes content (c_world crashed)) = length as \<and>
      kv_get key (as_data (cluster_nodes content (c_world crashed) ! Suc i)) = None" if "crashed \<in> {c1, c2}" for crashed
    using that cr(7,8) not_next [OF assms(3,4) e] assms(4) by (auto simp: logged_def)
  have "\<exists>c3 c4. control_impl_open R' (cluster_os R') usable fresh path ls w = Inr c3 \<and>
      control_get R' (cluster_os R') c3 key = Inr c4 \<and> last (c_out c4) = ''get ''"
    if R': "rocksdb_reliable R' content cursor" and "crashed \<in> {c1, c2}" and re: "restarted content R' path ls w crashed"
      and mem: "4 * length ls \<le> usable (length ls)" and buff: "\<forall>n. length (fresh n) = MAXLINE"
    for crashed path ls w usable fresh and R' :: "('db, 'it) rocksdb"
  proof -
    note re = re [unfolded restarted_def]
    have nodes: "length ms' = length (cluster_nodes content w)" "length ls = length (cluster_nodes content w)"
      "kv_get key (as_data (cluster_nodes content w ! Suc i)) = None"
      using re hidden [OF that(2)] cr(4) unfolding nodes_ready_def ports_match_def by (simp_all add: cluster_nodes_def) (metis length_map)
    have "disk_holds R' content path (map meta_entry ms')"
      using re cr(6) that(2) by auto
    from rocksdb_reliable.restart_get [where usable = usable and fresh = fresh, OF R' _ this cr(3) nodes(1) _ _ mem _ key]
    show ?thesis
      using re nodes cr(4,5) small assms(4) buff by fastforce
  qed
  then show ?thesis
    using cr stored gone by (intro exI [of _ c1] exI [of _ n] exI [of _ c2]) simp
qed

text \<open>
  The cluster with \<open>a\<close> and \<open>b\<close> on one node and \<open>m\<close> on the other, stopped between the commits of the
  move of \<open>b\<close>, and its restart.
\<close>

lemma ref_store_log_rel:
  assumes "kv_good d" "good_log l"
  shows "store_rel ref_content ((ref_store d)\<lparr>si_storeLog := ref_slog [(enc_log l, [])]\<rparr>) \<lparr>as_data = d, as_logs = [l]\<rparr>"
  using ref_store_rel [OF assms(1)] ref_slog_ok [of "[(enc_log l, [])]"] assms(2)
  by (simp add: store_rel_def astore_ok_def) (simp add: ref_content_def)

definition ref_crash_world :: "kv cluster_world" where
  "ref_crash_world =
     \<lparr>cw_nodes = [(ref_node 1)\<lparr>nd_store := ref_store [(''a'', ''x'')]\<rparr>,
        (ref_node 2)\<lparr>nd_store := (ref_store [(''m'', ''z'')])\<lparr>si_storeLog := ref_slog [(enc_log (LOG_of PUT ''b'' ''y''), [])]\<rparr>\<rparr>],
      cw_conn = (\<lambda>_. None), cw_next = 0\<rparr>"

lemma ref_crash_nodes:
  "nodes_ready ref_content ref_restart_nodes ref_crash_world"
  "cluster_nodes ref_content ref_crash_world =
     [idle [(''a'', ''x'')], \<lparr>as_data = [(''m'', ''z'')], as_logs = [LOG_of PUT ''b'' ''y'']\<rparr>]"
proof -
  have good: "kv_good [(''a'', ''x'')]" "good_log (LOG_of PUT ''b'' ''y'')"
    by (simp_all add: kv_good_def good_log_def LOG_of_def good_str_def nul_free_def NUL_def)
  note log = ref_store_log_rel [OF ref_restart_inv(2) good(2)]
  note live = ref_restart_live [OF good(1)] abs_store_rel [OF log] log
  show "nodes_ready ref_content ref_restart_nodes ref_crash_world"
    using live by (simp add: nodes_ready_def ports_match_def ref_restart_nodes_def ref_crash_world_def Ip_location_of_def pipe_os_def Let_def)
      (simp add: ref_node_def htons_def node_live_def)
  show "cluster_nodes ref_content ref_crash_world =
     [idle [(''a'', ''x'')], \<lparr>as_data = [(''m'', ''z'')], as_logs = [LOG_of PUT ''b'' ''y'']\<rparr>]"
    using live by (simp add: cluster_nodes_def ref_crash_world_def)
qed

theorem crash_in_a_move_loses_the_entry_witness:
  "\<exists>c1 n c2 (R' :: (kv, kv \<times> nat option) rocksdb) c3 c4. migrate_log ref_restart_db (cluster_os ref_restart_db) (it_next ref_restart_db) ref_restart_control 0 1 ''b'' ''y'' = Inr c1 \<and>
    commit_first (cluster_os ref_restart_db) c1 0 = Inr (n, c2) \<and> restarted ref_content R' ''control_meta'' ref_restart_nodes ref_crash_world c2 \<and>
    control_impl_open R' (cluster_os R') (\<lambda>n. n + 24) (\<lambda>_. replicate MAXLINE NUL) ''control_meta'' ref_restart_nodes ref_crash_world = Inr c3 \<and>
    control_get R' (cluster_os R') c3 ''b'' = Inr c4 \<and> last (c_out c4) = ''get ''"
proof -
  note inv = ref_restart_inv(3)
  have border: "last_entry (as_data ([idle [(''a'', ''x''), (''b'', ''y'')], idle [(''m'', ''z'')]] ! 0)) = (''b'', ''y'')"
    by (simp add: last_entry_def)
  obtain c1 n c2 where c: "migrate_log ref_restart_db (cluster_os ref_restart_db) (it_next ref_restart_db) ref_restart_control 0 1 ''b'' ''y'' = Inr c1"
    "commit_first (cluster_os ref_restart_db) c1 0 = Inr (n, c2)"
    "cluster_nodes ref_content (c_world c2) = cluster_nodes ref_content ref_crash_world"
    and run: "\<And>R'. rocksdb_reliable R' ref_content ref_cursor \<and> restarted ref_content R' ''control_meta'' ref_restart_nodes ref_crash_world c2 \<Longrightarrow>
      \<exists>c3 c4. control_impl_open R' (cluster_os R') (\<lambda>n. n + 24) (\<lambda>_. replicate MAXLINE NUL) ''control_meta'' ref_restart_nodes ref_crash_world = Inr c3 \<and>
        control_get R' (cluster_os R') c3 ''b'' = Inr c4 \<and> last (c_out c4) = ''get ''"
  proof -
    obtain c1 n c2 where "migrate_log ref_restart_db (cluster_os ref_restart_db) (it_next ref_restart_db) ref_restart_control (word_of_nat 0) (word_of_nat 0 + 1) ''b'' ''y'' = Inr c1"
      "commit_first (cluster_os ref_restart_db) c1 (word_of_nat 0) = Inr (n, c2)"
      "cluster_nodes ref_content (c_world c2) = (logged [idle [(''a'', ''x''), (''b'', ''y'')], idle [(''m'', ''z'')]] 0 (Suc 0) ''b'' ''y'')
        [0 := idle (kv_del ''b'' (as_data ([idle [(''a'', ''x''), (''b'', ''y'')], idle [(''m'', ''z'')]] ! 0)))]"
      "\<forall>crashed \<in> {c1, c2}. \<forall>R' :: (kv, kv \<times> nat option) rocksdb. \<forall>path ls w usable fresh.
         rocksdb_reliable R' ref_content ref_cursor \<and> restarted ref_content R' path ls w crashed \<and> 4 * length ls \<le> usable (length ls) \<and>
           (\<forall>n. length (fresh n) = MAXLINE) \<longrightarrow>
         (\<exists>c3 c4. control_impl_open R' (cluster_os R') usable fresh path ls w = Inr c3 \<and>
            control_get R' (cluster_os R') c3 ''b'' = Inr c4 \<and> last (c_out c4) = ''get '')"
      using crash_in_a_move_loses_the_entry [OF ref_restart_reliable ref_restart_rel inv _ _ border] by auto
    then show thesis
      by (intro that [of c1 n c2])
        (simp_all add: ref_crash_nodes(2) logged_def kv_del_def, simp add: idle_def, simp add: ref_restart_nodes_def)
  qed
  let ?R = "ref_db (\<lambda>_. hcontent ref_content (meta_db c2)) (DBOptions_ctor ref_R) (ColumnFamilyOptions_ctor ref_R)"
  have re: "restarted ref_content ?R ''control_meta'' ref_restart_nodes ref_crash_world c2"
    using c(3) ref_crash_nodes(1) rocksdb_api.hcontent_sorted [OF rocksdb_reliable_api [OF ref_restart_reliable], of "meta_db c2"]
    by (simp add: restarted_def disk_holds_def ref_db_def ref_content_def)
  obtain c3 c4 where "control_impl_open ?R (cluster_os ?R) (\<lambda>n. n + 24) (\<lambda>_. replicate MAXLINE NUL) ''control_meta'' ref_restart_nodes ref_crash_world = Inr c3"
    "control_get ?R (cluster_os ?R) c3 ''b'' = Inr c4" "last (c_out c4) = ''get ''"
    using run [of ?R] re ref.rocksdb_reliable_axioms by blast
  with c(1,2) re show ?thesis
    by blast
qed

end
