(* ===== verification/Pending.thy ===== *)
theory Pending
  imports Crash
begin

text \<open>
  Commands of the control node over store nodes that a crash left with pending log records. A record
  is not asked for at the restart; it is applied by the next commit request, in place of the update
  that was logged last if it comes first in the order of the log.
\<close>

section \<open>One update over pending records\<close>

text \<open>The record with which a command updates a node.\<close>

fun log_of :: "command \<Rightarrow> LOG option" where
  "log_of (Cmd_put k v) = Some (LOG_of PUT k v)"
| "log_of (Cmd_del k) = Some (LOG_of DELETE k [])"
| "log_of _ = None"

text \<open>The nodes after an update \<open>new\<close> at node \<open>i\<close>, where the records \<open>old # ls\<close> were pending.\<close>

definition late :: "astore list \<Rightarrow> nat \<Rightarrow> LOG \<Rightarrow> LOG list \<Rightarrow> LOG \<Rightarrow> astore list" where
  "late as i old ls new = as[i := \<lparr>as_data = apply_log old (as_data (as ! i)), as_logs = add_log new ls\<rparr>]"

text \<open>The next \<open>re_balance\<close> has nothing to move.\<close>

definition settled :: "astore list \<Rightarrow> bool" where
  "settled as \<longleftrightarrow>
     (\<forall>a \<in> set as. node_fine (word_of_nat (kv_bytes (cluster_kv as))) (dbl_div 1 (of_nat (length as))) (as_data a))"

lemma cluster_data_D:
  assumes "cluster_data ms as"
  shows "metas_ok ms" "length ms = length as" "as \<noteq> []" "separators (map min_str ms) (map as_data as)"
  using assms separators_D(2) [of "map min_str ms" "map as_data as"] by (auto simp: cluster_data_def)

context control_whole
begin

lemma logged_late:
  assumes rel: "rel ms as c" and data: "cluster_data ms as" and new: "good_log new" and i: "i = owner (map min_str ms) (log_key new)"
    and logs: "as_logs (as ! i) = old # ls" and order: "enc_log old < enc_log new"
  shows "\<exists>b1 p t b2 s it c'. insert_str_to_buff (send_buff c) 0 get_LOG 0 = Inr (b1, p, t) \<and> LOG_to_slice new b1 p = Inr (s, b2) \<and>
    route R (set_send c b2) (log_key new) = Inr (it, ms ! i) \<and> cursor it = (map meta_entry ms, Some i) \<and>
    exchange N (set_send c b2) (word_of_nat i) (t + word_of_nat (Slice_size s)) = Inr c' \<and>
    rel ms (as[i := (as ! i)\<lparr>as_logs := old # add_log new ls\<rparr>]) c' \<and> i < length as \<and> c_out c' = c_out c \<and>
    read_range c' = Inr (''ok'', fst (first_entry (apply_log new (as_data (as ! i)))), fst (last_entry (apply_log new (as_data (as ! i))))) \<and>
    good_meta (ms ! i) \<and> virtual_fd (ms ! i) = word_of_nat i"
proof -
  note D = cluster_data_D [OF data]
  have "add_log new (as_logs (as ! i)) = old # add_log new ls"
    using logs order by auto
  moreover have "good_meta (ms ! i) \<and> virtual_fd (ms ! i) = word_of_nat i" if "i < length as"
    using D(1,2) that by (simp add: metas_ok_def)
  ultimately show ?thesis
    using log_to_owner [OF rel D(1-3) new i] by auto
qed

lemma commit_late:
  assumes rel: "rel ms (as[i := (as ! i)\<lparr>as_logs := old # add_log new ls\<rparr>]) c" and data: "cluster_data ms as" and i: "i < length as"
    and it: "cursor it = (map meta_entry ms, Some i)" and m: "good_meta m" "virtual_fd m = virtual_fd (ms ! i)"
    and sorted: "sorted_wrt (<) ((map min_str ms)[i := min_str m])" and fine: "settled (late as i old ls new)"
  shows "\<exists>c1. replace_meta R c it m = Inr c1 \<and> metas_ok (ms[i := m]) \<and>
    (\<forall>lines. \<exists>c2 c3 rest. commit_one N (fold (\<lambda>x c. say c x) lines c1) (word_of_nat i) = Inr c2 \<and> control_re_balance R N c2 = Inr c3 \<and>
      rel (ms[i := m]) (late as i old ls new) c3 \<and> c_out c3 = c_out c @ lines @ [''log commit''] @ rest)"
proof -
  note D = cluster_data_D [OF data]
  have ok: "metas_ok (ms[i := m])"
    using metas_ok_update [OF D(1) m sorted] .
  have "sorted_wrt (<) (map min_str ms)"
    using D(1) by (simp add: metas_ok_def)
  from replace_meta_run [OF rel it _ refl _ this sorted good_meta_fits [OF m(1)]] obtain c1 where
    c1: "replace_meta R c it m = Inr c1" "rel (ms[i := m]) (as[i := (as ! i)\<lparr>as_logs := old # add_log new ls\<rparr>]) c1" "c_out c1 = c_out c"
    using i D(2) by auto
  have said: "rel ms' as' (fold (\<lambda>x c. say c x) lines c) = rel ms' as' c" "c_out (fold (\<lambda>x c. say c x) lines c) = c_out c @ lines"
    for ms' as' lines and c :: "('db, 'w) control"
    by (induction lines arbitrary: c) simp_all
  have "\<exists>c2 c3 rest. commit_one N (fold (\<lambda>x c. say c x) lines c1) (word_of_nat i) = Inr c2 \<and> control_re_balance R N c2 = Inr c3 \<and>
      rel (ms[i := m]) (late as i old ls new) c3 \<and> c_out c3 = c_out c @ lines @ [''log commit''] @ rest" for lines
  proof -
    obtain c2 where c2: "commit_one N (fold (\<lambda>x c. say c x) lines c1) (word_of_nat i) = Inr c2" "rel (ms[i := m]) (late as i old ls new) c2"
      "c_out c2 = c_out c @ lines @ [''log commit'']"
      using commit_one_run [of "ms[i := m]" "as[i := (as ! i)\<lparr>as_logs := old # add_log new ls\<rparr>]" "fold (\<lambda>x c. say c x) lines c1" i old "add_log new ls"]
        c1(2,3) i by (auto simp: said late_def)
    then show ?thesis
      using re_balance_settled [OF c2(2) ok] fine D(2) by (auto simp: settled_def late_def)
  qed
  then show ?thesis
    using c1(1) ok by blast
qed

lemma put_late:
  assumes rel: "rel ms as c" and data: "cluster_data ms as" and good: "good_str key" "good_str val"
    and i: "i = owner (map min_str ms) key" and logs: "as_logs (as ! i) = old # ls" and order: "enc_log old < enc_log (LOG_of PUT key val)"
    and fine: "settled (late as i old ls (LOG_of PUT key val))"
  shows "\<exists>c' ms' shown rest. control_put R N c key val = Inr c' \<and> rel ms' (late as i old ls (LOG_of PUT key val)) c' \<and>
    metas_ok ms' \<and> length ms' = length as \<and> owner (map min_str ms') key = i \<and>
    c_out c' = c_out c @ [''putting '' @ key @ '' '' @ val, ''log ok'', shown, ''log commit''] @ rest"
proof -
  let ?l = "LOG_of PUT key val" and ?c = "say c (''putting '' @ key @ '' '' @ val)"
  note D = cluster_data_D [OF data]
  have l: "good_log ?l" "log_key ?l = key"
    using good by (simp_all add: good_log_def LOG_of_def)
  obtain b1 p t b2 s it c1 where c1: "insert_str_to_buff (send_buff c) 0 get_LOG 0 = Inr (b1, p, t)" "LOG_to_slice ?l b1 p = Inr (s, b2)"
    "route R (set_send ?c b2) key = Inr (it, ms ! i)" "cursor it = (map meta_entry ms, Some i)"
    "exchange N (set_send ?c b2) (word_of_nat i) (t + word_of_nat (Slice_size s)) = Inr c1"
    "rel ms (as[i := (as ! i)\<lparr>as_logs := old # add_log ?l ls\<rparr>]) c1" "i < length as" "c_out c1 = c_out ?c"
    "\<exists>mn mx. read_range c1 = Inr (''ok'', mn, mx)" "good_meta (ms ! i)" "virtual_fd (ms ! i) = word_of_nat i"
    using logged_late [of ms as ?c ?l i old ls] rel data l i logs order by auto
  obtain q where ok: "get_string_from_buff (receive_buff c1) 0 = Inr (''ok'', q)"
    using c1(9) read_range_first by blast
  let ?m = "(ms ! i)\<lparr>min_str := min (min_str (ms ! i)) key, max_str := max (max_str (ms ! i)) key\<rparr>"
  have m: "good_meta ?m"
    using good(1) c1(10) by (simp add: good_meta_def min_def max_def)
  have sep: "separators ((map min_str ms)[i := min_str ?m]) ((map as_data as)[i := kv_put key val (as_data (as ! i))])"
    using separators_put [OF D(4) _ i, of val] D(2,3) c1(7) by simp
  have "(key, val) \<in> set (kv_put key val (as_data (as ! i)))"
    by (metis kv_get_def kv_get_put map_of_SomeD)
  then have own: "owner (map min_str (ms[i := ?m])) key = i"
    using owner_of_entry [OF sep, of i "(key, val)"] c1(7) by (simp add: map_update)
  have "rel ms (as[i := (as ! i)\<lparr>as_logs := old # add_log ?l ls\<rparr>]) (say c1 ''log ok'')"
    using c1(6) by simp
  from commit_late [OF this data c1(7,4) m _ separators_D(1) [OF sep] fine]
  obtain c2 c3 c4 rest where c2: "replace_meta R (say c1 ''log ok'') it ?m = Inr c2" "metas_ok (ms[i := ?m])"
    "commit_one N (say c2 (Control_meta_show ?m)) (word_of_nat i) = Inr c3" "control_re_balance R N c3 = Inr c4"
    "rel (ms[i := ?m]) (late as i old ls ?l) c4" "c_out c4 = c_out ?c @ [''log ok'', Control_meta_show ?m, ''log commit''] @ rest"
    using c1(8) by (auto dest: spec [of _ "[Control_meta_show ?m]"])
  then have "control_put R N c key val = Inr c4"
    using c1(1,2,3,5,11) ok by (simp add: control_put_def Let_def)
  then show ?thesis
    using c2(2,5,6) own D(2) by (intro exI [of _ c4] exI [of _ "ms[i := ?m]"]) simp
qed

lemma del_late:
  assumes rel: "rel ms as c" and data: "cluster_data ms as" and good: "good_str key"
    and i: "i = owner (map min_str ms) key" and logs: "as_logs (as ! i) = old # ls" and order: "enc_log old < enc_log (LOG_of DELETE key [])"
    and fine: "settled (late as i old ls (LOG_of DELETE key []))"
  shows "\<exists>c' ms' shown rest. control_del R N c key = Inr c' \<and> rel ms' (late as i old ls (LOG_of DELETE key [])) c' \<and>
    metas_ok ms' \<and> length ms' = length as \<and> owner (map min_str ms') key = i \<and>
    c_out c' = c_out c @ [''deleting '' @ key, ''log ok'', shown, ''log commit''] @ rest"
proof -
  let ?l = "LOG_of DELETE key []" and ?c = "say c (''deleting '' @ key)" and ?ys = "kv_del key (as_data (as ! i))"
  note D = cluster_data_D [OF data]
  have l: "good_log ?l" "log_key ?l = key" and app: "apply_log ?l xs = kv_del key xs" for xs
    using good by (simp_all add: good_log_def LOG_of_def apply_log_def)
  obtain b1 p t b2 s it c1 where c1: "insert_str_to_buff (send_buff c) 0 get_LOG 0 = Inr (b1, p, t)" "LOG_to_slice ?l b1 p = Inr (s, b2)"
    "route R (set_send ?c b2) key = Inr (it, ms ! i)" "cursor it = (map meta_entry ms, Some i)"
    "exchange N (set_send ?c b2) (word_of_nat i) (t + word_of_nat (Slice_size s)) = Inr c1"
    "rel ms (as[i := (as ! i)\<lparr>as_logs := old # add_log ?l ls\<rparr>]) c1" "i < length as" "c_out c1 = c_out ?c"
    "read_range c1 = Inr (''ok'', fst (first_entry ?ys), fst (last_entry ?ys))" "good_meta (ms ! i)" "virtual_fd (ms ! i) = word_of_nat i"
    using logged_late [of ms as ?c ?l i old ls] rel data l i logs order by (auto simp: app)
  obtain q q' q'' where ok: "get_string_from_buff (receive_buff c1) 0 = Inr (''ok'', q)"
    "get_string_from_buff (receive_buff c1) q = Inr (fst (first_entry ?ys), q')"
    "get_string_from_buff (receive_buff c1) q' = Inr (fst (last_entry ?ys), q'')"
    using read_range_first [OF c1(9)] by blast
  have mn: "min (min_str (ms ! i)) (if fst (first_entry ?ys) = [] then min_str (ms ! i) else fst (first_entry ?ys)) = min_str (ms ! i)"
    using first_after_del [OF D(4), of i key] c1(7) D(2) by simp
  let ?m = "(ms ! i)\<lparr>min_str := min_str (ms ! i), max_str := max (max_str (ms ! i)) key\<rparr>"
  have m: "good_meta ?m"
    using good c1(10) by (simp add: good_meta_def max_def)
  have same: "(map min_str ms)[i := min_str ?m] = map min_str ms"
    using c1(7) D(2) by (simp add: list_update_same_conv)
  have "rel ms (as[i := (as ! i)\<lparr>as_logs := old # add_log ?l ls\<rparr>]) (say (say c1 ''log ok'') (Control_meta_show ?m))"
    using c1(6) by simp
  from commit_late [OF this data c1(7,4) m, unfolded same, OF _ separators_D(1) [OF D(4)] fine]
  obtain c2 c3 c4 rest where c2: "replace_meta R (say (say c1 ''log ok'') (Control_meta_show ?m)) it ?m = Inr c2" "metas_ok (ms[i := ?m])"
    "commit_one N c2 (word_of_nat i) = Inr c3" "control_re_balance R N c3 = Inr c4"
    "rel (ms[i := ?m]) (late as i old ls ?l) c4" "c_out c4 = c_out ?c @ [''log ok'', Control_meta_show ?m, ''log commit''] @ rest"
    using c1(8) by (auto dest: spec [of _ "[]"])
  have "key \<noteq> []"
    using good by (simp add: good_str_def)
  then have "control_del R N c key = Inr c4"
    using c1(1,2,3,5,11) ok c2(1,3,4) mn by (simp add: control_del_def Let_def)
  moreover have "owner (map min_str (ms[i := ?m])) key = i"
    using i same by (simp add: map_update)
  ultimately show ?thesis
    using c2(2,5,6) D(2) by (intro exI [of _ c4] exI [of _ "ms[i := ?m]"]) simp
qed

end

section \<open>The restarted cluster\<close>

context rocksdb_reliable
begin

lemma restart_run_late:
  assumes ready: "nodes_ready content locs w" and disk: "disk_holds R content path (map meta_entry ms)"
    and data: "cluster_data ms (cluster_nodes content w)" and few: "length locs < 2 ^ 31" and mem: "4 * length locs \<le> usable (length locs)"
    and buff: "\<And>n. length (fresh n) = MAXLINE" and cmd: "command_ok cmd" "log_of cmd = Some new"
    and i: "i = owner (map min_str ms) (log_key new)" and logs: "as_logs (cluster_nodes content w ! i) = old # ls"
    and order: "enc_log old < enc_log new" and fine: "settled (late (cluster_nodes content w) i old ls new)"
  shows "\<exists>c c' said shown rest. control_impl_open R (cluster_os R) usable fresh path locs w = Inr c \<and>
    control_run R (cluster_os R) c (words_of cmd @ [get_GET, log_key new, ''quit'']) = Some (Inr (c', [])) \<and>
    cluster_nodes content (c_world c') = late (cluster_nodes content w) i old ls new \<and>
    c_out c' = c_out c @ [said, ''log ok'', shown, ''log commit''] @ rest @
      [''get '' @ (case kv_get (log_key new) (apply_log old (as_data (cluster_nodes content w ! i))) of Some v \<Rightarrow> v | None \<Rightarrow> [])]"
proof -
  let ?as = "cluster_nodes content w" and ?N = "cluster_os R"
  let ?as' = "late ?as i old ls new" and ?k = "log_key new"
  note D = cluster_data_D [OF data]
  have len: "length ms = length locs"
    using ready D(2) unfolding nodes_ready_def ports_match_def cluster_nodes_def by (metis length_map)
  have ne: "ms \<noteq> []"
    using D(2,3) by auto
  obtain c where c: "control_impl_open R ?N usable fresh path locs w = Inr c" "cluster.rel ms ?as c"
    using control_open_run [where usable = usable and fresh = fresh, OF ready few mem buff disk] few len ne by auto
  have key: "good_str ?k"
    using cmd by (cases cmd) (auto simp: LOG_of_def)
  have il: "i < length ?as"
    using owner_less [of "map min_str ms" ?k] ne i D(2) by simp
  obtain c1 ms' said shown rest where c1: "cluster.rel ms' ?as' c1" "metas_ok ms'" "length ms' = length ?as" "owner (map min_str ms') ?k = i"
    "c_out c1 = c_out c @ [said, ''log ok'', shown, ''log commit''] @ rest"
    "\<And>ts. control_run R ?N c (words_of cmd @ ts) = control_run R ?N c1 ts"
  proof (cases cmd)
    case (Cmd_put k v)
    then have new: "new = LOG_of PUT k v" "?k = k" and good: "good_str k" "good_str v"
      using cmd by (auto simp: LOG_of_def)
    obtain c1 ms' shown rest where "control_put R ?N c k v = Inr c1" "cluster.rel ms' (late ?as i old ls (LOG_of PUT k v)) c1" "metas_ok ms'" "length ms' = length ?as"
      "owner (map min_str ms') k = i" "c_out c1 = c_out c @ [''putting '' @ k @ '' '' @ v, ''log ok'', shown, ''log commit''] @ rest"
      using cluster.put_late [OF c(2) data good i [unfolded new(2)] logs order [unfolded new(1)] fine [unfolded new(1)]] by blast
    then show thesis
      by (intro that [of ms' c1]) (simp_all only: new(2) new(1) [symmetric] Cmd_put words_of.simps run_words sum.case)
  next
    case (Cmd_del k)
    then have new: "new = LOG_of DELETE k []" "?k = k" and good: "good_str k"
      using cmd by (auto simp: LOG_of_def)
    obtain c1 ms' shown rest where "control_del R ?N c k = Inr c1" "cluster.rel ms' (late ?as i old ls (LOG_of DELETE k [])) c1" "metas_ok ms'" "length ms' = length ?as"
      "owner (map min_str ms') k = i" "c_out c1 = c_out c @ [''deleting '' @ k, ''log ok'', shown, ''log commit''] @ rest"
      using cluster.del_late [OF c(2) data good i [unfolded new(2)] logs order [unfolded new(1)] fine [unfolded new(1)]] by blast
    then show thesis
      by (intro that [of ms' c1]) (simp_all only: new(2) new(1) [symmetric] Cmd_del words_of.simps run_words sum.case)
  qed (use cmd(2) in simp_all)
  have len': "length ms' = length ?as'" "?as' \<noteq> []"
    using c1(3) D(3) by (simp_all add: late_def)
  obtain c2 where c2: "control_get R ?N c1 ?k = Inr c2" "cluster.rel ms' ?as' c2"
    "c_out c2 = c_out c1 @ [''get '' @ (case kv_get ?k (as_data (?as' ! i)) of Some v \<Rightarrow> v | None \<Rightarrow> [])]"
    using cluster.get_at_owner [OF c1(1,2) len' key] c1(4) by auto
  have "control_run R ?N c (words_of cmd @ [get_GET, ?k, ''quit'']) = Some (Inr (c2, []))"
    using c1(6) [of "[get_GET, ?k, ''quit'']"] run_words(2) [of R ?N c1 ?k "[''quit'']"] run_words(5) [of R ?N c2 "[]"] c2(1) by simp
  moreover have "cluster_nodes content (c_world c2) = ?as'" "as_data (?as' ! i) = apply_log old (as_data (?as ! i))"
    using c2(2) il by (simp_all add: control_rel_def late_def)
  ultimately show ?thesis
    using c(1) c2(3) c1(5) by (intro exI [of _ c] exI [of _ c2] exI [of _ said] exI [of _ shown] exI [of _ rest]) simp
qed

end

section \<open>Properties\<close>

text \<open>
  C31: a user's update that the program reports as logged and committed is not made. Start the control
  node over surviving databases whose routing records separate the entries, where a crash left records
  at the node responsible for a key, and let it execute a \<open>put\<close> or a \<open>del\<close> of that key whose record is
  greater than the first of these. It prints \<open>log ok\<close> and \<open>log commit\<close>, but the node has applied the
  old record: the new one is pending in its place, and a following \<open>get\<close> prints what the old record
  left. (\<open>settled\<close>: the rebalancing after the update has nothing to move.)
\<close>

theorem update_after_crash_is_not_made:
  assumes "rocksdb_reliable R content cursor" "nodes_ready content locs w" "disk_holds R content path (map meta_entry ms)"
    "cluster_data ms (cluster_nodes content w)" "length locs < 2 ^ 31" "4 * length locs \<le> usable (length locs)"
    "\<forall>n. length (fresh n) = MAXLINE" "command_ok cmd" "log_of cmd = Some new" "i = owner (map min_str ms) (log_key new)"
    "as_logs (cluster_nodes content w ! i) = old # ls" "enc_log old < enc_log new" "settled (late (cluster_nodes content w) i old ls new)"
  shows "\<exists>c c' said shown rest. control_impl_open R (cluster_os R) usable fresh path locs w = Inr c \<and>
    control_run R (cluster_os R) c (words_of cmd @ [get_GET, log_key new, ''quit'']) = Some (Inr (c', [])) \<and>
    cluster_nodes content (c_world c') = late (cluster_nodes content w) i old ls new \<and>
    c_out c' = c_out c @ [said, ''log ok'', shown, ''log commit''] @ rest @
      [''get '' @ (case kv_get (log_key new) (apply_log old (as_data (cluster_nodes content w ! i))) of Some v \<Rightarrow> v | None \<Rightarrow> [])]"
  using rocksdb_reliable.restart_run_late [where usable = usable and fresh = fresh, OF assms(1-6) _ assms(8-13)] assms(7) by simp

text \<open>
  Two nodes with \<open>a\<close> and \<open>m\<close>; the record of \<open>put m y\<close> is pending. The user deletes \<open>m\<close>, is told that it
  is done, asks for \<open>m\<close> and gets \<open>y\<close>.
\<close>

definition ref_late_world :: "kv cluster_world" where
  "ref_late_world =
     \<lparr>cw_nodes = [(ref_node 1)\<lparr>nd_store := ref_store [(''a'', ''x'')]\<rparr>,
        (ref_node 2)\<lparr>nd_store := (ref_store [(''m'', ''z'')])\<lparr>si_storeLog := ref_slog [(enc_log (LOG_of PUT ''m'' ''y''), [])]\<rparr>\<rparr>],
      cw_conn = (\<lambda>_. None), cw_next = 0\<rparr>"

lemma ref_late_nodes:
  "nodes_ready ref_content ref_restart_nodes ref_late_world"
  "cluster_nodes ref_content ref_late_world =
     [idle [(''a'', ''x'')], \<lparr>as_data = [(''m'', ''z'')], as_logs = [LOG_of PUT ''m'' ''y'']\<rparr>]"
proof -
  have good: "kv_good [(''a'', ''x'')]" "good_log (LOG_of PUT ''m'' ''y'')"
    by (simp_all add: kv_good_def good_log_def LOG_of_def good_str_def nul_free_def NUL_def)
  note log = ref_store_log_rel [OF ref_restart_inv(2) good(2)]
  note live = ref_restart_live [OF good(1)] abs_store_rel [OF log] log
  show "nodes_ready ref_content ref_restart_nodes ref_late_world"
    using live by (simp add: nodes_ready_def ports_match_def ref_restart_nodes_def ref_late_world_def Ip_location_of_def pipe_os_def Let_def)
      (simp add: ref_node_def htons_def node_live_def)
  show "cluster_nodes ref_content ref_late_world =
     [idle [(''a'', ''x'')], \<lparr>as_data = [(''m'', ''z'')], as_logs = [LOG_of PUT ''m'' ''y'']\<rparr>]"
    using live by (simp add: cluster_nodes_def ref_late_world_def)
qed

lemma ref_late_facts:
  "cluster_data ref_restart_metas (cluster_nodes ref_content ref_late_world)"
  "owner (map min_str ref_restart_metas) ''m'' = 1"
  "settled (late (cluster_nodes ref_content ref_late_world) 1 (LOG_of PUT ''m'' ''y'') [] (LOG_of DELETE ''m'' []))"
  by (auto simp: cluster_data_def ref_late_nodes(2) metas_ok_def ref_restart_metas_def Control_meta_of_def good_meta_def good_str_def
      nul_free_def NUL_def separators_def less_Suc_eq nth_Cons' owner_def settled_def late_def node_fine_def LOG_of_def apply_log_def)

theorem update_after_crash_is_not_made_witness:
  "\<exists>c c' said shown rest. control_impl_open ref_restart_db (cluster_os ref_restart_db) (\<lambda>n. n + 24) (\<lambda>_. replicate MAXLINE NUL)
      ''control_meta'' ref_restart_nodes ref_late_world = Inr c \<and>
    control_run ref_restart_db (cluster_os ref_restart_db) c [get_DEL, ''m'', get_GET, ''m'', ''quit''] = Some (Inr (c', [])) \<and>
    c_out c' = c_out c @ [said, ''log ok'', shown, ''log commit''] @ rest @ [''get y'']"
proof -
  have cmd: "command_ok (Cmd_del ''m'')" "log_of (Cmd_del ''m'') = Some (LOG_of DELETE ''m'' [])" "log_key (LOG_of DELETE ''m'' []) = ''m''"
    by (simp_all add: good_str_def nul_free_def NUL_def LOG_of_def)
  have nodes: "length ref_restart_nodes < 2 ^ 31" "4 * length ref_restart_nodes \<le> length ref_restart_nodes + 24"
    by (simp_all add: ref_restart_nodes_def)
  have i: "1 = owner (map min_str ref_restart_metas) (log_key (LOG_of DELETE ''m'' []))"
    using ref_late_facts(2) cmd(3) by simp
  have logs: "as_logs (cluster_nodes ref_content ref_late_world ! 1) = [LOG_of PUT ''m'' ''y'']"
    by (simp add: ref_late_nodes(2))
  have buff: "\<forall>n. length (replicate MAXLINE NUL) = MAXLINE"
    by simp
  have answer: "(case kv_get (log_key (LOG_of DELETE ''m'' [])) (apply_log (LOG_of PUT ''m'' ''y'')
      (as_data (cluster_nodes ref_content ref_late_world ! 1))) of Some v \<Rightarrow> v | None \<Rightarrow> []) = ''y''"
    by (simp add: cmd(3) ref_late_nodes(2)) (simp add: apply_log_def LOG_of_def kv_get_def)
  have words: "words_of (Cmd_del ''m'') @ [get_GET, log_key (LOG_of DELETE ''m'' []), ''quit''] = [get_DEL, ''m'', get_GET, ''m'', ''quit'']"
    by (simp add: cmd(3))
  have get: "''get '' @ ''y'' = ''get y''"
    by simp
  from update_after_crash_is_not_made [where usable = "\<lambda>n. n + 24" and fresh = "\<lambda>_. replicate MAXLINE NUL",
      OF ref_restart_reliable ref_late_nodes(1) ref_restart_facts(3) ref_late_facts(1) nodes buff cmd(1,2) i logs
        put_record_before_delete ref_late_facts(3), unfolded answer words get]
  show ?thesis
    by blast
qed

end
