(* ===== verification/Store_Node.thy ===== *)
theory Store_Node
  imports Store_Impl "HOL-Library.Multiset"
begin

text \<open>
  A store node as a process (\<open>main_cpp/store_node.cpp\<close>): from the databases on its disk through the
  constructor and the request loop to \<open>quit\<close>, including a restart that finds log records which were
  written but not committed, and what these do to later updates. The last part is about a network that
  cuts a request in two.
\<close>

section \<open>Sequences of requests\<close>

text \<open>The promised answers to a list of requests, where \<open>after\<close> tells the state behind each.\<close>

fun serve :: "(request \<Rightarrow> astore \<Rightarrow> astore) \<Rightarrow> request list \<Rightarrow> astore \<Rightarrow> bytes list \<times> astore" where
  "serve after [] a = ([], a)"
| "serve after (r # rs) a =
     (let (outs, b) = serve after rs (after r a) in
      ((if has_reply r then fst (store_spec r a) # outs else outs), b))"

abbreviation serve_spec :: "request list \<Rightarrow> astore \<Rightarrow> bytes list \<times> astore" where
  "serve_spec \<equiv> serve (\<lambda>req a. snd (store_spec req a))"

text \<open>The two databases of a node that is started: its entries and the records that are pending.\<close>

definition node_disk :: "('db, 'it) rocksdb \<Rightarrow> ('db \<Rightarrow> kv) \<Rightarrow> c_int \<Rightarrow> astore \<Rightarrow> bool" where
  "node_disk R content port a \<longleftrightarrow>
     disk_holds R content (''data'' @ to_string_int (sint port)) (as_data a) \<and>
     disk_holds R content (''log'' @ to_string_int (sint port))
       (log_kv (as_logs a))"

lemma pipe_connect: "net_file_connect pipe_os FROM port [] w = (\<lparr>connect_fd = 4\<rparr>, [connected_text], w)"
  by (simp add: net_file_connect_def Ip_location_receive_from_def pipe_os_def Let_def)

context rocksdb_readable
begin

lemma store_open_run:
  assumes disk: "node_disk R content port a" and ok: "astore_ok a" and buff: "\<And>n. length (fresh n) = MAXLINE"
  shows "\<exists>s. store_impl_open R pipe_os fresh (''data'' @ to_string_int (sint port)) (''log'' @ to_string_int (sint port)) port w =
      Inr (s, [connected_text], w) \<and> store_rel content s a"
proof -
  obtain h where h: "DB_Handle_open R (''data'' @ to_string_int (sint port)) = Inr h" "handle_ok h" "hcontent content h = as_data a"
    using open_content disk by (auto simp: node_disk_def)
  obtain g where g: "DB_Handle_open R (''log'' @ to_string_int (sint port)) = Inr g" "handle_ok g"
    "hcontent content g = log_kv (as_logs a)"
    using open_content disk by (auto simp: node_disk_def)
  have "values_nonempty (as_data a)"
    using ok by (auto simp: astore_ok_def kv_good_def values_nonempty_def good_str_def)
  then show ?thesis
    using h g get_size_run [OF h(2)] ok buff
    by (simp add: store_impl_open_def store_data_open_def Store_Log_open_def pipe_connect store_rel_def
        sd_ok_def data_content_def log_content_def slog_ok_def)
qed

lemma quit_turn:
  assumes "store_rel content s a"
  shows "\<exists>s' out. store_impl_turn R pipe_os s ([enc_str get_QUIT], gone) = Inr (False, s', out, ([], gone)) \<and> store_rel content s' a"
proof -
  let ?s = "s\<lparr>si_receive_buff := enc_str get_QUIT @ drop (length (enc_str get_QUIT)) (si_receive_buff s)\<rparr>"
  have len: "length (enc_str get_QUIT) \<le> MAXLINE" "length (si_receive_buff s) = MAXLINE"
    using store_rel_buffers(1) [OF assms] by (simp_all add: command_defs MAXLINE_def)
  have "get_string_from_buff (si_receive_buff ?s) 0 = Inr (get_QUIT, length (enc_str get_QUIT))"
    by (rule command_at) (simp_all add: short_str_def nul_free_def NUL_def get_QUIT_def)
  then have "store_impl_handle R ?s = Inr (False, ?s, None, [])"
    unfolding store_impl_handle_def by (simp only: bindr.simps prod.case if_True refl)
  moreover have "store_rel content ?s a"
    using assms len by (simp add: store_rel_def)
  ultimately show ?thesis
    using receive_from_front [of pipe_os "([enc_str get_QUIT], gone)" "si_connection s" _ "enc_str get_QUIT" "([], gone)" "si_receive_buff s"] len
    by (auto simp: store_impl_turn_def)
qed

end

text \<open>The loop serves one request per turn and ends with \<open>quit\<close>.\<close>

context node_service
begin

lemma run_requests:
  assumes "store_rel content s a" "holds a" "list_all request_ok rs"
  shows "\<exists>s' out. store_impl_run R pipe_os s (map enc_request rs @ [enc_str get_QUIT], gone) printed =
      Some (Inr (s', ([], gone @ fst (serve after rs a)), printed @ out)) \<and> store_rel content s' (snd (serve after rs a))"
  using assms
proof (induction rs arbitrary: s a gone printed)
  case Nil
  then show ?case
    using quit_turn [OF Nil(1), of gone] by (subst store_impl_run.simps) auto
next
  case (Cons r rs)
  let ?w = "(map enc_request (r # rs) @ [enc_str get_QUIT], gone)" and ?a = "after r a"
  let ?gone = "if has_reply r then gone @ [fst (store_spec r a)] else gone"
  note len = length_enc_request [of r]
  obtain s1 out where s1: "store_impl_turn R pipe_os s ?w = Inr (True, s1, out, (map enc_request rs @ [enc_str get_QUIT], ?gone))"
    "store_rel content s1 ?a"
    using turn_run_chunk [OF Cons.prems(1,2), of r pipe_os ?w _ "[]"] Cons.prems(3) len by (auto simp: turn_spec_def)
  obtain s2 out2 where s2: "store_impl_run R pipe_os s1 (map enc_request rs @ [enc_str get_QUIT], ?gone) (printed @ out) =
      Some (Inr (s2, ([], ?gone @ fst (serve after rs ?a)), (printed @ out) @ out2))" "store_rel content s2 (snd (serve after rs ?a))"
    using Cons.IH [OF s1(2), of ?gone "printed @ out"] Cons.prems kept [OF Cons.prems(2), of r] by auto
  show ?case
    using s2 s1(1) by (subst store_impl_run.simps) (auto simp: case_prod_unfold Let_def)
qed

lemma main_run:
  assumes "node_disk R content port a" "astore_ok a" "holds a" "\<forall>n. length (fresh n) = MAXLINE" "list_all request_ok rs"
  shows "\<exists>s printed. store_node_main R pipe_os fresh port (map enc_request rs @ [enc_str get_QUIT], []) =
      Some (Inr (s, ([], fst (serve after rs a)), printed)) \<and> store_rel content s (snd (serve after rs a))"
proof -
  have "length (fresh n) = MAXLINE" for n
    using assms(4) by simp
  then obtain s where s: "store_impl_open R pipe_os fresh (''data'' @ to_string_int (sint port)) (''log'' @ to_string_int (sint port)) port
      (map enc_request rs @ [enc_str get_QUIT], []) = Inr (s, [connected_text], (map enc_request rs @ [enc_str get_QUIT], []))"
    "store_rel content s a"
    using store_open_run [OF assms(1,2)] by metis
  from run_requests [OF s(2) assms(3,5), of "[]" "[connected_text]"] s(1) show ?thesis
    by (auto simp: store_node_main_def)
qed

end

context rocksdb_reliable
begin

lemmas main_run = steady.main_run [OF _ _ TrueI]

end

section \<open>Updates over pending records\<close>

text \<open>The requests with which the control node makes each of a list of updates.\<close>

fun rounds :: "LOG list \<Rightarrow> request list" where
  "rounds [] = []"
| "rounds (l # ls) = Req_log l # Req_commit # rounds ls"

lemma rounds_ok: "list_all good_log ls \<Longrightarrow> list_all request_ok (rounds ls)"
  by (induction ls rule: rounds.induct) simp_all

lemma mset_add_log: "enc_log l \<notin> enc_log ` set ls \<Longrightarrow> mset (add_log l ls) = add_mset l (mset ls)"
  by (induction l ls rule: add_log.induct) auto

lemma add_log_nonempty [simp]: "add_log l ls \<noteq> []"
  by (cases ls) simp_all

lemma serve_round:
  assumes "enc_log l \<notin> enc_log ` set (as_logs a)"
  shows "\<exists>m ms out. serve_spec (rounds (l # ls)) a =
      (let (outs, b) = serve_spec (rounds ls) \<lparr>as_data = apply_log m (as_data a), as_logs = ms\<rparr> in
       ((enc_str get_OK @ out) # enc_str get_OK # outs, b)) \<and>
    mset (m # ms) = mset (l # as_logs a)"
proof -
  obtain m ms where m: "add_log l (as_logs a) = m # ms"
    using add_log_nonempty by (meson neq_Nil_conv)
  have "mset (m # ms) = mset (l # as_logs a)"
    using mset_add_log [OF assms] m by simp
  then show ?thesis
    using m by (intro exI [of _ m] exI [of _ ms]) (auto simp: Let_def split: prod.split)
qed

lemma serve_rounds:
  "distinct (map enc_log (as_logs a @ ls)) \<Longrightarrow>
    \<exists>applied. as_data (snd (serve_spec (rounds ls) a)) = fold apply_log applied (as_data a) \<and> length applied = length ls \<and>
      mset applied + mset (as_logs (snd (serve_spec (rounds ls) a))) = mset (as_logs a @ ls) \<and>
      length (fst (serve_spec (rounds ls) a)) = 2 * length ls \<and>
      (\<forall>ans \<in> set (fst (serve_spec (rounds ls) a)). \<exists>rest. ans = enc_str get_OK @ rest)"
proof (induction ls arbitrary: a)
  case (Cons l ls)
  then obtain m ms out where r: "serve_spec (rounds (l # ls)) a =
      (let (outs, b) = serve_spec (rounds ls) \<lparr>as_data = apply_log m (as_data a), as_logs = ms\<rparr> in
       ((enc_str get_OK @ out) # enc_str get_OK # outs, b))" "mset (m # ms) = mset (l # as_logs a)"
    using serve_round [of l a ls] by auto
  have same: "mset (m # ms @ ls) = mset (as_logs a @ l # ls)"
    using r(2) by simp
  have "distinct (map enc_log (m # ms @ ls))"
    using Cons.prems mset_eq_imp_distinct_iff [of "map enc_log (m # ms @ ls)" "map enc_log (as_logs a @ l # ls)"] same
    by (metis mset_map)
  then obtain applied where "as_data (snd (serve_spec (rounds ls) \<lparr>as_data = apply_log m (as_data a), as_logs = ms\<rparr>)) =
      fold apply_log applied (apply_log m (as_data a))" "length applied = length ls"
    "mset applied + mset (as_logs (snd (serve_spec (rounds ls) \<lparr>as_data = apply_log m (as_data a), as_logs = ms\<rparr>))) = mset (ms @ ls)"
    "length (fst (serve_spec (rounds ls) \<lparr>as_data = apply_log m (as_data a), as_logs = ms\<rparr>)) = 2 * length ls"
    "\<forall>ans \<in> set (fst (serve_spec (rounds ls) \<lparr>as_data = apply_log m (as_data a), as_logs = ms\<rparr>)). \<exists>rest. ans = enc_str get_OK @ rest"
    using Cons.IH [of "\<lparr>as_data = apply_log m (as_data a), as_logs = ms\<rparr>"] by auto
  then show ?case
    using r same by (intro exI [of _ "m # applied"]) (auto simp: Let_def split_beta)
qed simp

section \<open>Properties\<close>

text \<open>
  C8: the store program does what it is for: started over databases with any entries and any pending
  log records, and sent any sequence of requests of the protocol one message at a time and then
  \<open>quit\<close>, \<open>main\<close> returns, has sent exactly the specified answers in order, and leaves the specified
  entries and pending records. Records that were pending survive the restart.
\<close>

theorem store_node_serves:
  assumes "rocksdb_reliable R content cursor" "node_disk R content port a" "astore_ok a" "\<forall>n. length (fresh n) = MAXLINE"
    "list_all request_ok rs"
  shows "\<exists>s printed. store_node_main R pipe_os fresh port (map enc_request rs @ [enc_str get_QUIT], []) =
      Some (Inr (s, ([], fst (serve_spec rs a)), printed)) \<and>
    data_content content (si_storeData s) = as_data (snd (serve_spec rs a)) \<and>
    log_content content (si_storeLog s) = log_kv (as_logs (snd (serve_spec rs a)))"
  using rocksdb_reliable.main_run [OF assms] by (auto simp: store_rel_def)

text \<open>A disk with two entries and the log record of a deletion that was not committed.\<close>

definition ref_node_disk :: "string \<Rightarrow> kv" where
  "ref_node_disk path = (if take 4 path = ''data'' then [(''a'', ''x''), (''b'', ''y'')] else [(enc_log (LOG_of DELETE ''a'' []), [])])"

definition ref_node_R :: "(kv, kv \<times> nat option) rocksdb" where
  "ref_node_R = ref_db ref_node_disk (DBOptions_ctor ref_R) (ColumnFamilyOptions_ctor ref_R)"

theorem store_node_serves_witness:
  "\<exists>s printed. store_node_main ref_node_R pipe_os (\<lambda>_. replicate MAXLINE NUL) 6666
      (map enc_request [Req_commit, Req_get ''a'', Req_get ''b''] @ [enc_str get_QUIT], []) =
      Some (Inr (s, ([], [enc_str ''ok'', enc_str [], enc_str ''y'']), printed)) \<and>
    data_content ref_content (si_storeData s) = [(''b'', ''y'')] \<and> log_content ref_content (si_storeLog s) = []"
proof -
  let ?a = "\<lparr>as_data = [(''a'', ''x''), (''b'', ''y'')], as_logs = [LOG_of DELETE ''a'' []]\<rparr>"
  have R: "rocksdb_reliable ref_node_R ref_content ref_cursor"
    unfolding ref_node_R_def by (rule ref.rocksdb_reliable_axioms)
  have disk: "node_disk ref_node_R ref_content 6666 ?a"
    by (simp add: node_disk_def disk_holds_def ref_node_R_def ref_db_def ref_node_disk_def ref_content_def)
  have good: "good_str ''a''" "good_str ''b''" "good_str ''x''" "good_str ''y''"
    by (simp_all add: good_str_def nul_free_def NUL_def)
  have ok: "astore_ok ?a" "list_all request_ok [Req_commit, Req_get ''a'', Req_get ''b'']"
    using good by (simp_all add: astore_ok_def kv_good_def good_log_def LOG_of_def)
  from store_node_serves [OF R disk ok(1) _ ok(2), of "\<lambda>_. replicate MAXLINE NUL"] show ?thesis
    by (simp add: apply_log_def LOG_of_def kv_get_def kv_del_def get_OK_def)
qed

text \<open>
  C30: records that a crash left in the log are never made up for: started over a log with \<open>n\<close> pending
  records and sent any number of updates whose records differ from each other and from the pending
  ones, each as a log and a commit request, the node answers every request with \<open>ok\<close>, but every commit
  applies the record that comes first in the order of the log. In the end as many records are pending
  as there were at the start. (An update whose record is pending already merges with it.)
\<close>

theorem pending_records_never_drain:
  assumes "rocksdb_reliable R content cursor" "node_disk R content port a" "astore_ok a" "\<forall>n. length (fresh n) = MAXLINE"
    "list_all good_log ls" "distinct (map enc_log (as_logs a @ ls))"
  shows "\<exists>s printed answers applied pending.
    store_node_main R pipe_os fresh port (map enc_request (rounds ls) @ [enc_str get_QUIT], []) = Some (Inr (s, ([], answers), printed)) \<and>
    length answers = 2 * length ls \<and> (\<forall>ans \<in> set answers. \<exists>rest. ans = enc_str get_OK @ rest) \<and>
    data_content content (si_storeData s) = fold apply_log applied (as_data a) \<and>
    log_content content (si_storeLog s) = log_kv pending \<and> mset applied + mset pending = mset (as_logs a @ ls) \<and>
    length pending = length (as_logs a)"
proof -
  obtain s printed where s: "store_node_main R pipe_os fresh port (map enc_request (rounds ls) @ [enc_str get_QUIT], []) =
      Some (Inr (s, ([], fst (serve_spec (rounds ls) a)), printed))" "store_rel content s (snd (serve_spec (rounds ls) a))"
    using rocksdb_reliable.main_run [OF assms(1-4) rounds_ok [OF assms(5)]] by blast
  obtain applied where applied: "as_data (snd (serve_spec (rounds ls) a)) = fold apply_log applied (as_data a)" "length applied = length ls"
    "mset applied + mset (as_logs (snd (serve_spec (rounds ls) a))) = mset (as_logs a @ ls)"
    "length (fst (serve_spec (rounds ls) a)) = 2 * length ls"
    "\<forall>ans \<in> set (fst (serve_spec (rounds ls) a)). \<exists>rest. ans = enc_str get_OK @ rest"
    using serve_rounds [OF assms(6)] by blast
  have "length (as_logs (snd (serve_spec (rounds ls) a))) = length (as_logs a)"
    using arg_cong [OF applied(3), of size] applied(2) by simp
  then show ?thesis
    using s applied by (intro exI [of _ s] exI [of _ printed] exI [of _ "fst (serve_spec (rounds ls) a)"] exI [of _ applied]
      exI [of _ "as_logs (snd (serve_spec (rounds ls) a))"]) (simp add: store_rel_def)
qed

text \<open>A disk with the record of a \<open>put\<close> that was logged and not committed.\<close>

definition ref_crashed_R :: "(kv, kv \<times> nat option) rocksdb" where
  "ref_crashed_R = ref_db (\<lambda>path. if take 4 path = ''data'' then [(''a'', ''x'')] else log_kv [LOG_of PUT ''a'' ''1''])
     (DBOptions_ctor ref_R) (ColumnFamilyOptions_ctor ref_R)"

lemma ref_crashed:
  "rocksdb_reliable ref_crashed_R ref_content ref_cursor"
  "node_disk ref_crashed_R ref_content 6666 \<lparr>as_data = [(''a'', ''x'')], as_logs = [LOG_of PUT ''a'' ''1'']\<rparr>"
  "astore_ok \<lparr>as_data = [(''a'', ''x'')], as_logs = [LOG_of PUT ''a'' ''1'']\<rparr>"
  unfolding ref_crashed_R_def by (rule ref.rocksdb_reliable_axioms)
    (simp_all add: node_disk_def disk_holds_def ref_db_def ref_content_def astore_ok_def kv_good_def good_log_def LOG_of_def
      good_str_def nul_free_def NUL_def)

lemma append_less_same: "xs @ ys < xs @ zs \<longleftrightarrow> ys < (zs :: string)"
  by (induction xs) simp_all

lemma ref_crashed_order: "enc_log (LOG_of PUT ''a'' ''1'') < enc_log (LOG_of PUT ''b'' ''2'')"
  by (simp add: enc_log_def LOG_of_def enc_str_def append_less_same)

theorem pending_records_never_drain_witness:
  "\<exists>s printed answers pending. store_node_main ref_crashed_R pipe_os (\<lambda>_. replicate MAXLINE NUL) 6666
      (map enc_request (rounds [LOG_of PUT ''b'' ''2'', LOG_of DELETE ''a'' []]) @ [enc_str get_QUIT], []) =
      Some (Inr (s, ([], answers), printed)) \<and>
    length answers = 4 \<and> log_content ref_content (si_storeLog s) = log_kv pending \<and> length pending = 1"
proof -
  have "list_all good_log [LOG_of PUT ''b'' ''2'', LOG_of DELETE ''a'' []]"
    by (simp add: good_log_def LOG_of_def good_str_def nul_free_def NUL_def)
  moreover have "distinct (map enc_log ([LOG_of PUT ''a'' ''1''] @ [LOG_of PUT ''b'' ''2'', LOG_of DELETE ''a'' []]))"
    using ref_crashed_order put_record_before_delete [of "''a''" "''1''" "''a''" "[]"] put_record_before_delete [of "''b''" "''2''" "''a''" "[]"]
    by auto
  ultimately show ?thesis
    using pending_records_never_drain [OF ref_crashed, of "\<lambda>_. replicate MAXLINE NUL" "[LOG_of PUT ''b'' ''2'', LOG_of DELETE ''a'' []]"]
    by fastforce
qed

text \<open>
  An update that is acknowledged is not made: over a log in which a crash left one record, an update
  whose record comes later in the order of the log is answered \<open>ok\<close> twice, and still the key is
  answered with the value the old record leaves; the new record stays in the log.
\<close>

lemma acknowledged_update_is_not_made:
  assumes "rocksdb_reliable R content cursor" "node_disk R content port \<lparr>as_data = xs, as_logs = [l]\<rparr>" "kv_good xs" "good_log l"
    "good_log l'" "enc_log l < enc_log l'" "\<forall>n. length (fresh n) = MAXLINE"
  shows "\<exists>s printed answer.
    store_node_main R pipe_os fresh port (map enc_request [Req_log l', Req_commit, Req_get (log_key l')] @ [enc_str get_QUIT], []) =
      Some (Inr (s, ([], [enc_str get_OK @ answer, enc_str get_OK,
        enc_str (case kv_get (log_key l') (apply_log l xs) of Some v \<Rightarrow> v | None \<Rightarrow> [])]), printed)) \<and>
    data_content content (si_storeData s) = apply_log l xs \<and> log_content content (si_storeLog s) = log_kv [l']"
proof -
  let ?a = "\<lparr>as_data = xs, as_logs = [l]\<rparr>" and ?rs = "[Req_log l', Req_commit, Req_get (log_key l')]"
  have ok: "astore_ok ?a" "list_all request_ok ?rs"
    using assms(3-5) by (auto simp: astore_ok_def good_log_def)
  have order: "\<not> enc_log l' < enc_log l" "enc_log l' \<noteq> enc_log l"
    using assms(6) by auto
  from rocksdb_reliable.main_run [OF assms(1,2) ok(1) _ ok(2)] assms(7) order show ?thesis
    by (auto simp: Let_def store_rel_def) blast
qed

lemma acknowledged_update_is_not_made_witness:
  "\<exists>s printed answer. store_node_main ref_crashed_R pipe_os (\<lambda>_. replicate MAXLINE NUL) 6666
      (map enc_request [Req_log (LOG_of PUT ''b'' ''2''), Req_commit, Req_get ''b''] @ [enc_str get_QUIT], []) =
      Some (Inr (s, ([], [enc_str ''ok'' @ answer, enc_str ''ok'', enc_str []]), printed)) \<and>
    data_content ref_content (si_storeData s) = [(''a'', ''1'')]"
proof -
  have good: "kv_good [(''a'', ''x'')]" "good_log (LOG_of PUT ''a'' ''1'')" "good_log (LOG_of PUT ''b'' ''2'')"
    by (simp_all add: kv_good_def good_log_def LOG_of_def good_str_def nul_free_def NUL_def)
  from acknowledged_update_is_not_made [OF ref_crashed(1,2) good ref_crashed_order, of "\<lambda>_. replicate MAXLINE NUL"] show ?thesis
    by (auto simp: LOG_of_def apply_log_def kv_get_def get_OK_def simp del: enc_request.simps)
qed

text \<open>
  C35: the node does not know where a message ends. If the network delivers a log request up to a
  point inside the text of its value, the rest of the value is taken from what the buffer holds there
  from earlier requests: a value that nobody sent is logged under the key, and the node answers \<open>ok\<close>
  with the keys this update leads to. Hypotheses: the old bytes at that place end where the value was
  to end, and the mixed value is one the protocol can carry; both hold after an earlier update with a
  key and a value of the same lengths.
\<close>

theorem split_request_logs_stale_value:
  assumes "rocksdb_reliable R content cursor" "store_rel content s a"
    "enc_request (Req_log (LOG_of PUT k (arrived @ missing))) = chunk @ missing @ [NUL]"
    "os_recv N w (connect_fd (si_connection s)) MAXLINE = Some (r, chunk, w1)"
    "drop (length chunk) (si_receive_buff s) = stale @ NUL # rest" "length stale = length missing"
    "good_str k" "good_str (arrived @ stale)"
  shows "\<exists>s' out. store_impl_turn R N s w =
      (case os_send N w1 (connect_fd (si_connection s))
          (let xs = kv_put k (arrived @ stale) (as_data a) in enc_strs [get_OK, fst (first_entry xs), fst (last_entry xs)]) of
         None \<Rightarrow> Inl Broken_pipe | Some w' \<Rightarrow> Inr (True, s', out, w')) \<and>
    store_rel content s' (a\<lparr>as_logs := add_log (LOG_of PUT k (arrived @ stale)) (as_logs a)\<rparr>)"
proof -
  let ?l = "LOG_of PUT k (arrived @ stale)"
  have req: "request_ok (Req_log ?l)"
    using assms(7,8) by (simp add: good_log_def LOG_of_def)
  obtain p where p: "enc_request (Req_log (LOG_of PUT k (arrived @ missing))) = p @ arrived @ missing @ [NUL]"
    "enc_request (Req_log ?l) = p @ arrived @ stale @ [NUL]"
    using assms(6) by (simp add: enc_log_def LOG_of_def enc_str_def [of "arrived @ missing"] enc_str_def [of "arrived @ stale"])
  then have full: "chunk = p @ arrived" "enc_request (Req_log ?l) = chunk @ stale @ [NUL]"
    using assms(3) by simp_all
  then have "chunk @ drop (length chunk) (si_receive_buff s) = enc_request (Req_log ?l) @ rest" "length chunk \<le> MAXLINE"
    using assms(5) length_enc_request [OF req] by (simp_all del: enc_request.simps)
  then obtain s' out where "store_impl_turn R N s w = turn_end (turn_spec N (si_connection s) (Req_log ?l) a w1) s' out"
    "store_rel content s' (snd (store_spec (Req_log ?l) a))"
    using rocksdb_reliable.turn_run_buffer [OF assms(1,2) req assms(4)] by blast
  then show ?thesis
    by (auto simp: Let_def turn_spec_def turn_end_def apply_log_def enc_strs_def LOG_of_def)
qed

text \<open>The buffer holds an update of the key \<open>j\<close>; of the value \<open>new\<close> only the first letter arrives.\<close>

theorem split_request_logs_stale_value_witness:
  "\<exists>s' out. store_impl_turn ref_R pipe_os
      ((ref_store [])\<lparr>si_receive_buff := enc_request (Req_log (LOG_of PUT ''j'' ''old'')) @
         replicate (MAXLINE - length (enc_request (Req_log (LOG_of PUT ''j'' ''old'')))) NUL\<rparr>)
      ([take (length (enc_request (Req_log (LOG_of PUT ''k'' ''new''))) - 3) (enc_request (Req_log (LOG_of PUT ''k'' ''new'')))], [])
      = Inr (True, s', out, ([], [enc_strs [''ok'', ''k'', ''k'']])) \<and>
    store_rel ref_content s' \<lparr>as_data = [], as_logs = [LOG_of PUT ''k'' ''nld'']\<rparr>"
proof -
  let ?old = "enc_request (Req_log (LOG_of PUT ''j'' ''old''))" and ?new = "enc_request (Req_log (LOG_of PUT ''k'' ''new''))"
  let ?s = "(ref_store [])\<lparr>si_receive_buff := ?old @ replicate (MAXLINE - length ?old) NUL\<rparr>"
  let ?chunk = "take (length ?new - 3) ?new"
  have "good_str ''j''" "good_str ''old''" and good: "good_str ''k''" "good_str (''n'' @ ''ld'')"
    by (simp_all add: good_str_def nul_free_def NUL_def)
  then have "request_ok (Req_log (LOG_of PUT ''j'' ''old''))" "request_ok (Req_log (LOG_of PUT ''k'' ''nld''))"
    by (simp_all add: good_log_def LOG_of_def)
  note len = this [THEN length_enc_request]
  have rel: "store_rel ref_content ?s \<lparr>as_data = [], as_logs = []\<rparr>"
    by (rule ref_store_buffer) (use len in \<open>simp_all add: kv_good_def\<close>)
  obtain p q where p: "?new = p @ ''n'' @ ''ew'' @ [NUL]" "?old = q @ ''ld'' @ [NUL]" "length q = length (p @ ''n'')"
    by (simp add: enc_log_def LOG_of_def enc_str_def)
  then have chunk: "?chunk = p @ ''n''" "length ?chunk \<le> MAXLINE"
    using len by (simp_all del: enc_request.simps)
  have old: "drop (length ?chunk) (si_receive_buff ?s) = ''ld'' @ NUL # replicate (MAXLINE - length ?old) NUL"
    unfolding chunk(1) using p(2,3) by (simp del: enc_request.simps)
  have new: "enc_request (Req_log (LOG_of PUT ''k'' (''n'' @ ''ew''))) = ?chunk @ ''ew'' @ [NUL]"
    using p(1) chunk(1) by (simp del: enc_request.simps)
  have "os_recv pipe_os ([?chunk], []) (connect_fd (si_connection ?s)) MAXLINE = Some (int (length ?chunk), ?chunk, ([], []))"
    by (rule pipe_os_simps(3) [OF chunk(2)])
  from split_request_logs_stale_value [OF ref_R_reliable rel new this old _ good] show ?thesis
    by (simp add: first_entry_def last_entry_def get_OK_def del: enc_request.simps)
qed

end
