(* ===== verification/Full_Disk.thy ===== *)
theory Full_Disk
  imports Store_Node
begin

text \<open>
  A store node whose databases refuse every write (\<open>rocksdb_full\<close>), as on a full disk. The program
  looks at no status, so the protocol goes on as if nothing had happened.
\<close>

section \<open>The node goes on\<close>

context rocksdb_full
begin

lemma log_refused:
  assumes rel: "store_rel content s a" and l: "good_log l" and none: "as_logs a = []"
  shows "\<exists>sl. Store_Log_write_log R (si_storeLog s) (log_kind l) (log_key l) (log_value l) = Inr sl \<and>
    store_rel content (s\<lparr>si_storeLog := sl\<rparr>) a"
proof -
  have log: "slog_ok (si_storeLog s)" "hcontent content (slog_db_handle (si_storeLog s)) = []"
    using rel none by (simp_all add: store_rel_def log_kv_def log_content_def)
  have "LOG_of (log_kind l) (log_key l) (log_value l) = l"
    by (simp add: LOG_of_def)
  then obtain sl where "Store_Log_write_log R (si_storeLog s) (log_kind l) (log_key l) (log_value l) = Inr sl" "slog_ok sl"
    "log_content content sl = []"
    using write_log_by [OF log(1), of "log_kind l" "log_key l" "log_value l" "[]"] good_log_fits [OF l]
      db_put_refused [of "slog_db_handle (si_storeLog s)"] log by (auto simp: slog_ok_def)
  then show ?thesis
    using rel none by (simp add: store_rel_def log_kv_def)
qed

lemma handle_full:
  assumes rel: "store_rel content s a" and none: "as_logs a = []" and "request_ok req" "si_receive_buff s = enc_request req @ rest"
  shows "turn_keeps content s req a a (store_impl_handle R s)"
proof (cases req)
  case (Req_log l)
  then show ?thesis
    using handle_log_by [OF rel, of l rest] log_refused [OF rel _ none, of l] assms(3,4) by (auto simp del: enc_request.simps)
next
  case Req_commit
  then show ?thesis
    using handle_commit_by [OF rel, of rest] commit_nothing_run [OF _ none] assms(4) by (simp del: enc_request.simps)
next
  case Req_del_log
  have "Store_Log_clear_log R (si_storeLog s) = Inr (si_storeLog s)"
    using rel none by (intro clear_log_empty) (simp_all add: store_rel_def log_kv_def)
  then show ?thesis
    using handle_del_log_by [OF rel, of rest "si_storeLog s"] rel assms(4) Req_del_log by (simp del: enc_request.simps)
qed (use assms in \<open>auto intro: handle_get_run handle_test_run handle_size_run handle_leo_run handle_max_run handle_min_run
    simp del: enc_request.simps\<close>)

end

sublocale rocksdb_full \<subseteq> full: node_service R content cursor "\<lambda>a. as_logs a = []" "\<lambda>_ a. a"
  by unfold_locales (auto intro: handle_full simp del: enc_request.simps)

lemma serve_full: "serve (\<lambda>_ a. a) rs a = (map (\<lambda>r. fst (store_spec r a)) (filter has_reply rs), a)"
  by (induction rs) simp_all

context rocksdb_full
begin

lemmas main_run = full.main_run [unfolded serve_full]

end

lemma rounds_replies:
  "list_all (\<lambda>ans. \<exists>rest. ans = enc_str get_OK @ rest) (map (\<lambda>r. fst (store_spec r a)) (filter has_reply (rounds ls)))"
  "length (filter has_reply (rounds ls)) = 2 * length ls"
  by (induction ls rule: rounds.induct) (simp_all add: Let_def)

section \<open>Properties\<close>

text \<open>
  C32: refused writes are acknowledged. Started over a database that refuses every write, and without
  pending records, the node answers every log and every commit request of any sequence of updates with
  \<open>ok\<close>, and nothing of them is stored: a following \<open>get\<close> is answered as at the start, and entries and
  log are what they were.
\<close>

theorem refused_writes_are_acknowledged:
  assumes "rocksdb_full R content cursor" "node_disk R content port \<lparr>as_data = xs, as_logs = []\<rparr>" "kv_good xs"
    "\<forall>n. length (fresh n) = MAXLINE" "list_all good_log ls" "good_str k"
  shows "\<exists>s printed answers.
    store_node_main R pipe_os fresh port (map enc_request (rounds ls @ [Req_get k]) @ [enc_str get_QUIT], []) =
      Some (Inr (s, ([], answers @ [enc_str (case kv_get k xs of Some v \<Rightarrow> v | None \<Rightarrow> [])]), printed)) \<and>
    length answers = 2 * length ls \<and> list_all (\<lambda>ans. \<exists>rest. ans = enc_str get_OK @ rest) answers \<and>
    data_content content (si_storeData s) = xs \<and> log_content content (si_storeLog s) = []"
proof -
  let ?a = "\<lparr>as_data = xs, as_logs = []\<rparr>" and ?rs = "rounds ls @ [Req_get k]"
  have ok: "astore_ok ?a" "as_logs ?a = []" "list_all request_ok ?rs"
    using assms(3,6) rounds_ok [OF assms(5)] by (simp_all add: astore_ok_def)
  obtain s printed where "store_node_main R pipe_os fresh port (map enc_request ?rs @ [enc_str get_QUIT], []) =
      Some (Inr (s, ([], map (\<lambda>r. fst (store_spec r ?a)) (filter has_reply ?rs)), printed))" "store_rel content s ?a"
    using rocksdb_full.main_run [OF assms(1,2) ok(1,2) assms(4) ok(3)] by auto
  then show ?thesis
    using rounds_replies(1) [of ?a ls] rounds_replies(2) [of ls]
    by - (rule exI [of _ s], rule exI [of _ printed], rule exI [of _ "map (\<lambda>r. fst (store_spec r ?a)) (filter has_reply (rounds ls))"],
      simp add: store_rel_def log_kv_def)
qed

definition ref_full_R :: "(kv, kv \<times> nat option) rocksdb" where
  "ref_full_R = ref_full_db (\<lambda>path. if take 4 path = ''data'' then [(''a'', ''x'')] else []) (DBOptions_ctor ref_R) (ColumnFamilyOptions_ctor ref_R)"

theorem refused_writes_are_acknowledged_witness:
  "\<exists>s printed answers. store_node_main ref_full_R pipe_os (\<lambda>_. replicate MAXLINE NUL) 6666
      (map enc_request (rounds [LOG_of PUT ''b'' ''y'', LOG_of DELETE ''a'' []] @ [Req_get ''a'']) @ [enc_str get_QUIT], []) =
      Some (Inr (s, ([], answers @ [enc_str ''x'']), printed)) \<and>
    length answers = 4 \<and> data_content ref_content (si_storeData s) = [(''a'', ''x'')]"
proof -
  have R: "rocksdb_full ref_full_R ref_content ref_cursor"
    unfolding ref_full_R_def by (rule ref_full.rocksdb_full_axioms)
  have disk: "node_disk ref_full_R ref_content 6666 \<lparr>as_data = [(''a'', ''x'')], as_logs = []\<rparr>"
    by (simp add: node_disk_def disk_holds_def ref_full_R_def ref_full_db_def ref_db_def ref_content_def log_kv_def)
  have good: "kv_good [(''a'', ''x'')]" "list_all good_log [LOG_of PUT ''b'' ''y'', LOG_of DELETE ''a'' []]" "good_str ''a''"
    by (simp_all add: kv_good_def good_log_def LOG_of_def good_str_def nul_free_def NUL_def)
  have val: "(case kv_get ''a'' [(''a'', ''x'')] of Some v \<Rightarrow> v | None \<Rightarrow> []) = ''x''"
    by (simp add: kv_get_def)
  have buff: "\<forall>n. length (replicate MAXLINE NUL) = MAXLINE"
    by simp
  from refused_writes_are_acknowledged [where fresh = "\<lambda>_. replicate MAXLINE NUL", OF R disk good(1) buff good(2,3), unfolded val]
  show ?thesis
    by auto
qed

text \<open>
  If the log was written and the commit is refused, the cached size is set to the size the entries
  would have had, while they stay as they are.
\<close>

lemma refused_put_changes_size:
  assumes "rocksdb_full R content cursor" "sd_ok content s"
  shows "\<exists>s'. store_data_put R s d = Inr s' \<and> data_content content s' = data_content content s \<and>
    store_data_get_size s' = word_of_nat (kv_bytes (kv_put (dat_key d) (dat_value d) (data_content content s)))"
proof -
  have "\<exists>h'. DB_Handle_put R (sd_db_handle s) (dat_key d) (dat_value d) = Inr h' \<and> handle_ok h' \<and> hcontent content h' = data_content content s"
    using rocksdb_full.db_put_refused [OF assms(1), of "sd_db_handle s"] assms(2) by (simp add: DB_Handle_put_def sd_ok_def data_content_def)
  from rocksdb_readable.sd_put_by [OF rocksdb_full.axioms(1) [OF assms(1)] assms(2) this] show ?thesis
    by (auto simp: store_data_get_size_def)
qed

lemma refused_put_changes_size_witness:
  "\<exists>s'. store_data_put ref_full_R (ref_sdata [(''a'', ''x'')]) (Data_of_strings ''b'' ''y'') = Inr s' \<and>
    data_content ref_content s' = [(''a'', ''x'')] \<and> store_data_get_size s' = 8"
proof -
  have R: "rocksdb_full ref_full_R ref_content ref_cursor"
    unfolding ref_full_R_def by (rule ref_full.rocksdb_full_axioms)
  have "sd_ok ref_content (ref_sdata [(''a'', ''x'')])"
    using ref_sdata_ok [of "[(''a'', ''x'')]"] by (simp add: values_nonempty_def ref_content_def)
  from refused_put_changes_size [OF R this, of "Data_of_strings ''b'' ''y''"] show ?thesis
    by (simp add: ref_sdata_content ref_content_def Data_of_strings_def kv_bytes_def)
qed

end
