(* ===== verification/Node_Order.thy ===== *)
theory Node_Order
  imports Cluster
begin

text \<open>
  The routing records the constructor of the control node writes into an empty meta database, for any
  number of nodes: which records there are and in which order their keys, the decimal numerals from
  \<open>1\<close> on, put them.
\<close>

section \<open>Decimal numerals as keys\<close>

definition numeral_value :: "string \<Rightarrow> nat" where
  "numeral_value = foldl (\<lambda>a d. 10 * a + (of_char d - 48)) 0"

lemma numeral_value_to_string: "numeral_value (to_string_nat n) = n"
proof (induction n rule: to_string_nat.induct)
  case (1 n)
  show ?case
    using 1 by (cases "n < 10") (simp_all add: to_string_nat.simps [of n] numeral_value_def)
qed

lemma to_string_nat_inj: "to_string_nat m = to_string_nat n \<longleftrightarrow> m = n"
  by (metis numeral_value_to_string)

lemma to_string_nat_head: "0 < n \<Longrightarrow> CHR ''1'' \<le> hd (to_string_nat n)"
proof (induction n rule: to_string_nat.induct)
  case (1 n)
  show ?case
  proof (cases "n < 10")
    case True
    then show ?thesis
      using 1(2) by (simp add: to_string_nat.simps less_eq_char_def)
  next
    case False
    then show ?thesis
      using 1(1) by (subst to_string_nat.simps) simp
  qed
qed

text \<open>\<open>1\<close> is the least numeral of a positive number, \<open>10\<close> the second.\<close>

lemma digit_ge: "d \<in> set (to_string_nat n) \<Longrightarrow> CHR ''0'' \<le> d"
  using subsetD [OF to_string_nat_digits [of n], of d] by (auto simp: less_eq_char_def)

lemma numerals_ge:
  assumes "0 < n"
  shows "''1'' \<le> to_string_nat n" "n \<noteq> 1 \<Longrightarrow> ''10'' \<le> to_string_nat n"
proof -
  obtain d ds where t: "to_string_nat n = d # ds"
    by (cases "to_string_nat n") simp_all
  have d: "CHR ''1'' \<le> d"
    using to_string_nat_head [OF assms] t by simp
  then show "''1'' \<le> to_string_nat n"
    by (auto simp: t)
  show "''10'' \<le> to_string_nat n" if "n \<noteq> 1"
  proof (cases ds)
    case Nil
    have "to_string_nat 1 = ''1''"
      by code_simp
    then have "d \<noteq> CHR ''1''"
      using that to_string_nat_inj [of n 1] t Nil by auto
    then show ?thesis
      using d by (auto simp: t)
  next
    case (Cons e es)
    then have "CHR ''0'' \<le> e"
      using digit_ge [of e n] t by simp
    then show ?thesis
      using d Cons by (auto simp: t)
  qed
qed

lemma set_kv_put_new: "k \<notin> fst ` set xs \<Longrightarrow> set (kv_put k v xs) = insert (k, v) (set xs)"
  by (induction k v xs rule: kv_put.induct) auto

section \<open>The records of a new cluster\<close>

lemma initial_keys: "min_str (initial_meta i) = to_string_nat (i + 1)" "virtual_fd (initial_meta i) = word_of_nat i"
  by (simp_all add: initial_meta_def Control_meta_of_def)

lemma initial_records:
  "kv_sorted (fold put_initial [0..<n] []) \<and> set (fold put_initial [0..<n] []) = meta_entry ` initial_meta ` {..<n}"
proof (induction n)
  case (Suc n)
  let ?xs = "fold put_initial [0..<n] []"
  have "min_str (initial_meta n) \<notin> fst ` set ?xs"
    using Suc by (auto simp: meta_entry_def initial_keys to_string_nat_inj)
  then have "set (put_initial n ?xs) = insert (meta_entry (initial_meta n)) (set ?xs)"
    by (simp add: put_initial_def meta_entry_def set_kv_put_new)
  moreover have "kv_sorted (put_initial n ?xs)"
    using Suc unfolding put_initial_def [of n] by simp
  ultimately show ?case
    using Suc by (simp add: lessThan_Suc)
qed simp

lemma initial_positions:
  "\<exists>js. fold put_initial [0..<n] [] = map meta_entry (map initial_meta js) \<and> set js = {..<n} \<and> length js = n \<and>
    sorted_wrt (<) (map (\<lambda>i. to_string_nat (i + 1)) js)"
proof -
  let ?xs = "fold put_initial [0..<n] []" and ?f = "\<lambda>i. meta_entry (initial_meta i)" and ?key = "\<lambda>i. to_string_nat (i + 1)"
  have key: "fst (?f i) = ?key i" for i
    by (simp add: meta_entry_def initial_keys)
  have "?xs \<in> lists (?f ` {..<n})"
    using initial_records [of n] by (auto simp: image_image)
  then obtain js where js: "?xs = map ?f js" "set js \<subseteq> {..<n}"
    by (auto simp: lists_image)
  have "i \<in> set js" if "i < n" for i
  proof -
    have "?f i \<in> set ?xs"
      using initial_records [of n] that by auto
    then obtain j where "j \<in> set js" "?f i = ?f j"
      using js(1) by auto
    then show ?thesis
      using key to_string_nat_inj by (metis add_right_cancel)
  qed
  then have set: "set js = {..<n}"
    using js(2) by auto
  have sorted: "sorted_wrt (<) (map ?key js)"
    using initial_records [of n] js(1) by (simp add: kv_sorted_def key comp_def)
  then have "distinct js"
    using strict_sorted_iff distinct_map by blast
  then have "length js = n"
    using set distinct_card [of js] by simp
  then show ?thesis
    using js(1) set sorted by (intro exI [of _ js]) (simp add: comp_def)
qed

lemma first_is_least:
  fixes key :: "nat \<Rightarrow> string"
  assumes "sorted_wrt (<) (map key (x # xs))" "y \<in> set (x # xs)"
  shows "key x \<le> key y"
  using assms by (cases "y = x") (simp_all add: less_imp_le)

text \<open>The records in the order of their keys, by the number of nodes.\<close>

lemma initial_order:
  "\<exists>ms. fold put_initial [0..<n] [] = map meta_entry ms \<and> length ms = n \<and> set (map virtual_fd ms) = word_of_nat ` {..<n} \<and>
    (map virtual_fd ms = map word_of_nat [0..<n] \<longleftrightarrow> n \<le> 9) \<and> (10 \<le> n \<longrightarrow> virtual_fd (ms ! 0) = 0 \<and> virtual_fd (ms ! 1) = 9)"
proof -
  let ?key = "\<lambda>i. to_string_nat (i + 1)"
  obtain js where js: "fold put_initial [0..<n] [] = map meta_entry (map initial_meta js)" "set js = {..<n}" "length js = n"
    "sorted_wrt (<) (map ?key js)"
    using initial_positions by blast
  have few: "js = [0..<n]" if "n \<le> 9"
  proof -
    have "sorted_wrt (<) (map ?key [0..<n])"
      using that by (auto simp: sorted_wrt_iff_nth_less digits_increase)
    moreover have "set (map ?key [0..<n]) = set (map ?key js)"
      using js(2) by (simp add: lessThan_atLeast0)
    ultimately have "map ?key js = map ?key [0..<n]"
      using js(4) by (intro sorted_distinct_set_unique) (auto simp: strict_sorted_iff)
    then show ?thesis
      by (rule map_injective) (simp add: inj_def to_string_nat_inj)
  qed
  have many: "js ! 0 = 0 \<and> js ! 1 = 9" if ten: "10 \<le> n"
  proof -
    have one: "?key 0 = ''1''" "?key 9 = ''10''"
      by code_simp+
    obtain j0 js1 where j0: "js = j0 # js1"
      using js(3) ten by (cases js) auto
    have "0 \<in> set js"
      using js(2) ten by simp
    then have "?key j0 \<le> ?key 0"
      unfolding j0 by (rule first_is_least [OF js(4) [unfolded j0]])
    then have "?key j0 = ?key 0"
      unfolding one(1) using numerals_ge(1) [of "j0 + 1"] by simp
    then have z: "j0 = 0"
      unfolding to_string_nat_inj by simp
    obtain j1 js2 where j1: "js1 = j1 # js2"
      using js(3) ten j0 by (cases js1) auto
    have "9 \<in> set js"
      unfolding js(2) using ten by simp
    then have nine: "9 \<in> set js1"
      unfolding j0 z by simp
    have sorted: "sorted_wrt (<) (map ?key (j1 # js2))" "?key j0 < ?key j1"
      using js(4) by (simp_all add: j0 j1)
    have "?key j1 \<le> ?key 9"
      using nine unfolding j1 by (rule first_is_least [OF sorted(1)])
    moreover have "j1 \<noteq> 0"
      using sorted(2) z by (cases "j1 = 0") simp_all
    ultimately have "?key j1 = ?key 9"
      unfolding one(2) using numerals_ge(2) [of "j1 + 1"] by simp
    then have "j1 = 9"
      unfolding to_string_nat_inj by simp
    then show ?thesis
      by (simp add: j0 j1 z)
  qed
  have fds: "map virtual_fd (map initial_meta js) = map word_of_nat js"
    by (simp add: initial_keys)
  have iff: "map word_of_nat js = (map word_of_nat [0..<n] :: c_int list) \<longleftrightarrow> n \<le> 9"
  proof
    assume same: "map word_of_nat js = (map word_of_nat [0..<n] :: c_int list)"
    show "n \<le> 9"
    proof (rule ccontr)
      assume "\<not> n \<le> 9"
      then have ten: "10 \<le> n"
        by simp
      have "(word_of_nat (js ! 1) :: c_int) = word_of_nat ([0..<n] ! 1)"
        using arg_cong [OF same, of "\<lambda>xs. xs ! 1"] js(3) ten by simp
      then show False
        using many [OF ten] ten by simp
    qed
  qed (use few in simp)
  have first: "virtual_fd (map initial_meta js ! 0) = 0 \<and> virtual_fd (map initial_meta js ! 1) = 9" if "10 \<le> n"
    using many [OF that] that js(3) by (simp add: initial_keys)
  show ?thesis
  proof (intro exI [of _ "map initial_meta js"] conjI impI)
    show "set (map virtual_fd (map initial_meta js)) = word_of_nat ` {..<n}"
      unfolding fds using js(2) by simp
    show "map virtual_fd (map initial_meta js) = map word_of_nat [0..<n] \<longleftrightarrow> n \<le> 9"
      unfolding fds by (rule iff)
  qed (use js(1,3) iff first fds in simp_all)
qed

end
