(* ===== verification/DB_Class.thy ===== *)
theory DB_Class
  imports Rocks_DB
begin

text \<open>
  The inline members of \<open>class DB\<close> in \<open>rocksdb/db.h\<close>. A class that implements \<open>DB\<close> supplies the pure
  virtual members, which work on a column family; the members defined in the class reduce the rest to
  them: the overloads without a column family, \<open>Get\<close> into a string through a \<open>PinnableSlice\<close>, \<open>MultiGet\<close>
  into arrays, and defaults that report \<open>NotSupported\<close>. The pure virtual members are a record of
  functions (parameter) over the state \<open>'d\<close> of a database and its handles \<open>'cf\<close>; the members here call
  each other as a class does that overrides none of them. The last part shows that over lawful column
  families they give the interface \<open>Rocks_DB\<close> the program is written against.
\<close>

section \<open>Structures\<close>

record Range =
  rg_start :: Slice
  rg_limit :: Slice

definition Range_default :: Range where
  "Range_default = \<lparr>rg_start = Slice_default, rg_limit = Slice_default\<rparr>"

definition Range_of :: "Slice \<Rightarrow> Slice \<Rightarrow> Range" where
  "Range_of s l = \<lparr>rg_start = s, rg_limit = l\<rparr>"

record RangePtr =
  rp_start :: "Slice option"
  rp_limit :: "Slice option"

definition RangePtr_default :: RangePtr where
  "RangePtr_default = \<lparr>rp_start = None, rp_limit = None\<rparr>"

definition RangePtr_of :: "Slice option \<Rightarrow> Slice option \<Rightarrow> RangePtr" where
  "RangePtr_of s l = \<lparr>rp_start = s, rp_limit = l\<rparr>"

record 'cf IngestExternalFileArg =
  iefa_column_family :: "'cf option"
  iefa_external_files :: "string list"
  iefa_options :: IngestExternalFileOptions
  iefa_files_checksums :: "string list"
  iefa_files_checksum_func_names :: "string list"
  iefa_file_temperature :: Temperature

definition IngestExternalFileArg_default :: "'cf IngestExternalFileArg" where
  "IngestExternalFileArg_default =
     \<lparr>iefa_column_family = None, iefa_external_files = [], iefa_options = IngestExternalFileOptions_default,
      iefa_files_checksums = [], iefa_files_checksum_func_names = [], iefa_file_temperature = kUnknown\<rparr>"

record GetMergeOperandsOptions =
  gmo_expected_max_number_of_operands :: c_int

definition GetMergeOperandsOptions_default :: GetMergeOperandsOptions where
  "GetMergeOperandsOptions_default = \<lparr>gmo_expected_max_number_of_operands = 0\<rparr>"

section \<open>The pure virtual members\<close>

record ('d, 'cf, 'it, 'c) db_class_1 =
  cls_DefaultColumnFamily :: "'d \<Rightarrow> 'cf"
  cls_Put :: "WriteOptions \<Rightarrow> 'd \<Rightarrow> 'cf \<Rightarrow> Slice \<Rightarrow> Slice \<Rightarrow> Status \<times> 'd"
  cls_Delete :: "WriteOptions \<Rightarrow> 'd \<Rightarrow> 'cf \<Rightarrow> Slice \<Rightarrow> Status \<times> 'd"
  cls_SingleDelete :: "WriteOptions \<Rightarrow> 'd \<Rightarrow> 'cf \<Rightarrow> Slice \<Rightarrow> Status \<times> 'd"
  cls_Merge :: "WriteOptions \<Rightarrow> 'd \<Rightarrow> 'cf \<Rightarrow> Slice \<Rightarrow> Slice \<Rightarrow> Status \<times> 'd"
  cls_Get :: "ReadOptions \<Rightarrow> 'd \<Rightarrow> 'cf \<Rightarrow> Slice \<Rightarrow> 'c PinnableSlice \<Rightarrow> Status \<times> 'c PinnableSlice"
  cls_MultiGet :: "ReadOptions \<Rightarrow> 'd \<Rightarrow> 'cf list \<Rightarrow> Slice list \<Rightarrow> string list \<Rightarrow> Status list \<times> string list"
  cls_NewIterator :: "ReadOptions \<Rightarrow> 'd \<Rightarrow> 'cf \<Rightarrow> 'it"
  cls_GetProperty :: "'d \<Rightarrow> 'cf \<Rightarrow> Slice \<Rightarrow> string \<Rightarrow> bool \<times> string"
  cls_GetMapProperty :: "'d \<Rightarrow> 'cf \<Rightarrow> Slice \<Rightarrow> (string \<times> string) list \<Rightarrow> bool \<times> (string \<times> string) list"
  cls_GetIntProperty :: "'d \<Rightarrow> 'cf \<Rightarrow> Slice \<Rightarrow> 64 word \<Rightarrow> bool \<times> 64 word"

record ('d, 'cf, 'it, 'c) db_class = "('d, 'cf, 'it, 'c) db_class_1" +
  cls_GetApproximateSizes ::
    "SizeApproximationOptions \<Rightarrow> 'd \<Rightarrow> 'cf \<Rightarrow> Range list \<Rightarrow> c_int \<Rightarrow> 64 word list \<Rightarrow> Status \<times> 64 word list"
  cls_GetApproximateMemTableStats :: "'d \<Rightarrow> 'cf \<Rightarrow> Range \<Rightarrow> 64 word \<times> 64 word"
  cls_CompactRange :: "CompactRangeOptions \<Rightarrow> 'd \<Rightarrow> 'cf \<Rightarrow> Slice option \<Rightarrow> Slice option \<Rightarrow> Status \<times> 'd"
  cls_NumberLevels :: "'d \<Rightarrow> 'cf \<Rightarrow> c_int"
  cls_MaxMemCompactionLevel :: "'d \<Rightarrow> 'cf \<Rightarrow> c_int"
  cls_Level0StopWriteTrigger :: "'d \<Rightarrow> 'cf \<Rightarrow> c_int"
  cls_GetOptions :: "'d \<Rightarrow> 'cf \<Rightarrow> Options"
  cls_Flush :: "FlushOptions \<Rightarrow> 'd \<Rightarrow> 'cf \<Rightarrow> Status \<times> 'd"
  cls_IngestExternalFile :: "'d \<Rightarrow> 'cf \<Rightarrow> string list \<Rightarrow> IngestExternalFileOptions \<Rightarrow> Status \<times> 'd"
  cls_VerifyChecksum :: "ReadOptions \<Rightarrow> 'd \<Rightarrow> Status"

section \<open>The default column family\<close>

definition DBc_Put :: "('d, 'cf, 'it, 'c) db_class \<Rightarrow> WriteOptions \<Rightarrow> 'd \<Rightarrow> Slice \<Rightarrow> Slice \<Rightarrow> Status \<times> 'd" where
  "DBc_Put C options d key val = cls_Put C options d (cls_DefaultColumnFamily C d) key val"

definition DBc_Delete :: "('d, 'cf, 'it, 'c) db_class \<Rightarrow> WriteOptions \<Rightarrow> 'd \<Rightarrow> Slice \<Rightarrow> Status \<times> 'd" where
  "DBc_Delete C options d key = cls_Delete C options d (cls_DefaultColumnFamily C d) key"

definition DBc_SingleDelete :: "('d, 'cf, 'it, 'c) db_class \<Rightarrow> WriteOptions \<Rightarrow> 'd \<Rightarrow> Slice \<Rightarrow> Status \<times> 'd" where
  "DBc_SingleDelete C options d key = cls_SingleDelete C options d (cls_DefaultColumnFamily C d) key"

definition DBc_Merge :: "('d, 'cf, 'it, 'c) db_class \<Rightarrow> WriteOptions \<Rightarrow> 'd \<Rightarrow> Slice \<Rightarrow> Slice \<Rightarrow> Status \<times> 'd" where
  "DBc_Merge C options d key val = cls_Merge C options d (cls_DefaultColumnFamily C d) key val"

definition DBc_NewIterator :: "('d, 'cf, 'it, 'c) db_class \<Rightarrow> ReadOptions \<Rightarrow> 'd \<Rightarrow> 'it" where
  "DBc_NewIterator C options d = cls_NewIterator C options d (cls_DefaultColumnFamily C d)"

definition DBc_GetProperty :: "('d, 'cf, 'it, 'c) db_class \<Rightarrow> 'd \<Rightarrow> Slice \<Rightarrow> string \<Rightarrow> bool \<times> string" where
  "DBc_GetProperty C d property val = cls_GetProperty C d (cls_DefaultColumnFamily C d) property val"

definition DBc_GetMapProperty :: "('d, 'cf, 'it, 'c) db_class \<Rightarrow> 'd \<Rightarrow> Slice \<Rightarrow> (string \<times> string) list \<Rightarrow> bool \<times> (string \<times> string) list" where
  "DBc_GetMapProperty C d property val = cls_GetMapProperty C d (cls_DefaultColumnFamily C d) property val"

definition DBc_GetIntProperty :: "('d, 'cf, 'it, 'c) db_class \<Rightarrow> 'd \<Rightarrow> Slice \<Rightarrow> 64 word \<Rightarrow> bool \<times> 64 word" where
  "DBc_GetIntProperty C d property val = cls_GetIntProperty C d (cls_DefaultColumnFamily C d) property val"

definition DBc_GetApproximateMemTableStats :: "('d, 'cf, 'it, 'c) db_class \<Rightarrow> 'd \<Rightarrow> Range \<Rightarrow> 64 word \<times> 64 word" where
  "DBc_GetApproximateMemTableStats C d rng = cls_GetApproximateMemTableStats C d (cls_DefaultColumnFamily C d) rng"

definition DBc_CompactRange :: "('d, 'cf, 'it, 'c) db_class \<Rightarrow> CompactRangeOptions \<Rightarrow> 'd \<Rightarrow> Slice option \<Rightarrow> Slice option \<Rightarrow> Status \<times> 'd" where
  "DBc_CompactRange C options d begin' end' = cls_CompactRange C options d (cls_DefaultColumnFamily C d) begin' end'"

definition DBc_NumberLevels :: "('d, 'cf, 'it, 'c) db_class \<Rightarrow> 'd \<Rightarrow> c_int" where
  "DBc_NumberLevels C d = cls_NumberLevels C d (cls_DefaultColumnFamily C d)"

definition DBc_MaxMemCompactionLevel :: "('d, 'cf, 'it, 'c) db_class \<Rightarrow> 'd \<Rightarrow> c_int" where
  "DBc_MaxMemCompactionLevel C d = cls_MaxMemCompactionLevel C d (cls_DefaultColumnFamily C d)"

definition DBc_Level0StopWriteTrigger :: "('d, 'cf, 'it, 'c) db_class \<Rightarrow> 'd \<Rightarrow> c_int" where
  "DBc_Level0StopWriteTrigger C d = cls_Level0StopWriteTrigger C d (cls_DefaultColumnFamily C d)"

definition DBc_GetOptions :: "('d, 'cf, 'it, 'c) db_class \<Rightarrow> 'd \<Rightarrow> Options" where
  "DBc_GetOptions C d = cls_GetOptions C d (cls_DefaultColumnFamily C d)"

definition DBc_Flush :: "('d, 'cf, 'it, 'c) db_class \<Rightarrow> FlushOptions \<Rightarrow> 'd \<Rightarrow> Status \<times> 'd" where
  "DBc_Flush C options d = cls_Flush C options d (cls_DefaultColumnFamily C d)"

definition DBc_IngestExternalFile :: "('d, 'cf, 'it, 'c) db_class \<Rightarrow> 'd \<Rightarrow> string list \<Rightarrow> IngestExternalFileOptions \<Rightarrow> Status \<times> 'd" where
  "DBc_IngestExternalFile C d external_files options = cls_IngestExternalFile C d (cls_DefaultColumnFamily C d) external_files options"

section \<open>Defaults that report \<open>NotSupported\<close>\<close>

text \<open>A slice of a string literal.\<close>

definition Slice_of_literal :: "string \<Rightarrow> Slice" where
  "Slice_of_literal s = \<lparr>sl_data = Some (s @ [NUL]), sl_size = length s\<rparr>"

definition not_supported :: "status_ctor \<Rightarrow> string \<Rightarrow> Status" where
  "not_supported ctor msg = Status_NotSupported_msg ctor (Slice_of_literal msg) Slice_default"

definition DB_Resume_default :: Status where
  "DB_Resume_default = Status_NotSupported kNone"

definition DB_Close_default :: Status where
  "DB_Close_default = Status_NotSupported kNone"

definition DB_Get_timestamp_default :: "status_ctor \<Rightarrow> Status" where
  "DB_Get_timestamp_default ctor = not_supported ctor ''Get() that returns timestamp is not implemented.''"

definition DB_ResetStats_default :: "status_ctor \<Rightarrow> Status" where
  "DB_ResetStats_default ctor = not_supported ctor ''Not implemented''"

definition DB_SetOptions_default :: "status_ctor \<Rightarrow> Status" where
  "DB_SetOptions_default ctor = not_supported ctor ''Not implemented''"

definition DB_FlushWAL_default :: "status_ctor \<Rightarrow> Status" where
  "DB_FlushWAL_default ctor = not_supported ctor ''FlushWAL not implemented''"

definition DB_LockWAL_default :: "status_ctor \<Rightarrow> Status" where
  "DB_LockWAL_default ctor = not_supported ctor ''LockWAL not implemented''"

definition DB_UnlockWAL_default :: "status_ctor \<Rightarrow> Status" where
  "DB_UnlockWAL_default ctor = not_supported ctor ''UnlockWAL not implemented''"

definition DB_VerifyFileChecksums_default :: "status_ctor \<Rightarrow> Status" where
  "DB_VerifyFileChecksums_default ctor = not_supported ctor ''File verification not supported''"

definition DB_SuggestCompactRange_default :: "status_ctor \<Rightarrow> Status" where
  "DB_SuggestCompactRange_default ctor = not_supported ctor ''SuggestCompactRange() is not implemented.''"

definition DB_PromoteL0_default :: "status_ctor \<Rightarrow> Status" where
  "DB_PromoteL0_default ctor = not_supported ctor ''PromoteL0() is not implemented.''"

definition DB_StartTrace_default :: "status_ctor \<Rightarrow> Status" where
  "DB_StartTrace_default ctor = not_supported ctor ''StartTrace() is not implemented.''"

definition DB_EndTrace_default :: "status_ctor \<Rightarrow> Status" where
  "DB_EndTrace_default ctor = not_supported ctor ''EndTrace() is not implemented.''"

definition DB_StartIOTrace_default :: "status_ctor \<Rightarrow> Status" where
  "DB_StartIOTrace_default ctor = not_supported ctor ''StartIOTrace() is not implemented.''"

definition DB_EndIOTrace_default :: "status_ctor \<Rightarrow> Status" where
  "DB_EndIOTrace_default ctor = not_supported ctor ''EndIOTrace() is not implemented.''"

definition DB_StartBlockCacheTrace_default :: "status_ctor \<Rightarrow> Status" where
  "DB_StartBlockCacheTrace_default ctor = not_supported ctor ''StartBlockCacheTrace() is not implemented.''"

definition DB_EndBlockCacheTrace_default :: "status_ctor \<Rightarrow> Status" where
  "DB_EndBlockCacheTrace_default ctor = not_supported ctor ''EndBlockCacheTrace() is not implemented.''"

definition DB_NewDefaultReplayer_default :: "status_ctor \<Rightarrow> Status" where
  "DB_NewDefaultReplayer_default ctor = not_supported ctor ''NewDefaultReplayer() is not implemented.''"

definition DB_GetStatsHistory_default :: "status_ctor \<Rightarrow> Status" where
  "DB_GetStatsHistory_default ctor = not_supported ctor ''GetStatsHistory() is not implemented.''"

definition DB_TryCatchUpWithPrimary_default :: "status_ctor \<Rightarrow> Status" where
  "DB_TryCatchUpWithPrimary_default ctor = not_supported ctor ''Supported only by secondary instance''"

section \<open>\<open>Get\<close> into a string\<close>

text \<open>
  The caller's string is the buffer of a \<open>PinnableSlice\<close>; a pinned value is copied into it afterwards.
\<close>

definition DBc_Get_string_cf ::
    "('d, 'cf, 'it, 'c) db_class \<Rightarrow> ReadOptions \<Rightarrow> 'd \<Rightarrow> 'cf \<Rightarrow> Slice \<Rightarrow> string \<Rightarrow> (Status \<times> string) result" where
  "DBc_Get_string_cf C options d column_family key val =
     (let pinnable_val = PinnableSlice_of_buf val in
      bindr (guard Assertion_failed (\<not> PinnableSlice_IsPinned pinnable_val)) (\<lambda>_.
      let (s, pinnable_val) = cls_Get C options d column_family key pinnable_val in
      if Status_ok s \<and> PinnableSlice_IsPinned pinnable_val
      then bindr (slice_read (pin_slice pinnable_val) 0 (Slice_size (pin_slice pinnable_val))) (\<lambda>bs. Inr (s, bs))
      else Inr (s, PinnableSlice_GetSelf pinnable_val)))"

definition DBc_Get_string ::
    "('d, 'cf, 'it, 'c) db_class \<Rightarrow> ReadOptions \<Rightarrow> 'd \<Rightarrow> Slice \<Rightarrow> string \<Rightarrow> (Status \<times> string) result" where
  "DBc_Get_string C options d key val = DBc_Get_string_cf C options d (cls_DefaultColumnFamily C d) key val"

text \<open>The versions that return a timestamp end in the default above.\<close>

definition DBc_Get_timestamp_cf ::
    "('d, 'cf, 'it, 'c) db_class \<Rightarrow> status_ctor \<Rightarrow> ReadOptions \<Rightarrow> 'd \<Rightarrow> 'cf \<Rightarrow> Slice \<Rightarrow> string \<Rightarrow> string \<Rightarrow>
     (Status \<times> string \<times> string) result" where
  "DBc_Get_timestamp_cf C ctor options d column_family key val timestamp =
     (let pinnable_val = (PinnableSlice_of_buf val :: 'c PinnableSlice) in
      bindr (guard Assertion_failed (\<not> PinnableSlice_IsPinned pinnable_val)) (\<lambda>_.
      let s = DB_Get_timestamp_default ctor in
      if Status_ok s \<and> PinnableSlice_IsPinned pinnable_val
      then bindr (slice_read (pin_slice pinnable_val) 0 (Slice_size (pin_slice pinnable_val))) (\<lambda>bs. Inr (s, bs, timestamp))
      else Inr (s, PinnableSlice_GetSelf pinnable_val, timestamp)))"

definition DBc_Get_timestamp ::
    "('d, 'cf, 'it, 'c) db_class \<Rightarrow> status_ctor \<Rightarrow> ReadOptions \<Rightarrow> 'd \<Rightarrow> Slice \<Rightarrow> string \<Rightarrow> string \<Rightarrow>
     (Status \<times> string \<times> string) result" where
  "DBc_Get_timestamp C ctor options d key val timestamp =
     DBc_Get_timestamp_cf C ctor options d (cls_DefaultColumnFamily C d) key val timestamp"

section \<open>\<open>MultiGet\<close>\<close>

definition DBc_MultiGet ::
    "('d, 'cf, 'it, 'c) db_class \<Rightarrow> ReadOptions \<Rightarrow> 'd \<Rightarrow> Slice list \<Rightarrow> string list \<Rightarrow> Status list \<times> string list" where
  "DBc_MultiGet C options d keys values =
     cls_MultiGet C options d (replicate (length keys) (cls_DefaultColumnFamily C d)) keys values"

definition DBc_MultiGet_timestamps_cf :: "status_ctor \<Rightarrow> Slice list \<Rightarrow> Status list" where
  "DBc_MultiGet_timestamps_cf ctor keys =
     replicate (length keys) (not_supported ctor ''MultiGet() returning timestamps not implemented.'')"

definition DBc_MultiGet_timestamps :: "status_ctor \<Rightarrow> Slice list \<Rightarrow> Status list" where
  "DBc_MultiGet_timestamps ctor keys = DBc_MultiGet_timestamps_cf ctor keys"

text \<open>\<open>std::copy\<close> into an array, and the loop that gives each array element its value.\<close>

definition copy_to_array :: "'a list \<Rightarrow> 'a list \<Rightarrow> 'a list result" where
  "copy_to_array xs arr = (if length xs \<le> length arr then Inr (xs @ drop (length xs) arr) else Inl Buffer_overflow)"

fun pin_values :: "string list \<Rightarrow> 'c PinnableSlice list \<Rightarrow> 'c PinnableSlice list result" where
  "pin_values [] ps = Inr ps"
| "pin_values (v # vs) [] = Inl Buffer_overflow"
| "pin_values (v # vs) (p # ps) =
     bindr (PinnableSlice_PinSelf_slice p (Slice_of_string v)) (\<lambda>p.
     bindr (pin_values vs ps) (\<lambda>ps. Inr (p # ps)))"

definition DBc_MultiGet_array ::
    "('d, 'cf, 'it, 'c) db_class \<Rightarrow> ReadOptions \<Rightarrow> 'd \<Rightarrow> 'cf \<Rightarrow> nat \<Rightarrow> Slice list \<Rightarrow> 'c PinnableSlice list \<Rightarrow> Status list \<Rightarrow>
     ('c PinnableSlice list \<times> Status list) result" where
  "DBc_MultiGet_array C options d column_family num_keys keys values statuses =
     bindr (guard Out_of_bounds_read (num_keys \<le> length keys)) (\<lambda>_.
     let (status, vals) = cls_MultiGet C options d (replicate num_keys column_family) (take num_keys keys) [] in
     bindr (copy_to_array status statuses) (\<lambda>statuses.
     bindr (pin_values vals values) (\<lambda>values. Inr (values, statuses))))"

definition DBc_MultiGet_array_cfs ::
    "('d, 'cf, 'it, 'c) db_class \<Rightarrow> ReadOptions \<Rightarrow> 'd \<Rightarrow> nat \<Rightarrow> 'cf list \<Rightarrow> Slice list \<Rightarrow> 'c PinnableSlice list \<Rightarrow> Status list \<Rightarrow>
     ('c PinnableSlice list \<times> Status list) result" where
  "DBc_MultiGet_array_cfs C options d num_keys column_families keys values statuses =
     bindr (guard Out_of_bounds_read (num_keys \<le> length keys \<and> num_keys \<le> length column_families)) (\<lambda>_.
     let (status, vals) = cls_MultiGet C options d (take num_keys column_families) (take num_keys keys) [] in
     bindr (copy_to_array status statuses) (\<lambda>statuses.
     bindr (pin_values vals values) (\<lambda>values. Inr (values, statuses))))"

text \<open>With timestamps the default gives a status per key, no values and no timestamps.\<close>

definition DBc_MultiGet_array_timestamps ::
    "status_ctor \<Rightarrow> nat \<Rightarrow> Slice list \<Rightarrow> 'c PinnableSlice list \<Rightarrow> string list \<Rightarrow> Status list \<Rightarrow>
     ('c PinnableSlice list \<times> string list \<times> Status list) result" where
  "DBc_MultiGet_array_timestamps ctor num_keys keys values timestamps statuses =
     bindr (guard Out_of_bounds_read (num_keys \<le> length keys)) (\<lambda>_.
     let status = DBc_MultiGet_timestamps_cf ctor (take num_keys keys); vals = []; tss = [] in
     bindr (copy_to_array status statuses) (\<lambda>statuses.
     bindr (copy_to_array tss timestamps) (\<lambda>timestamps.
     bindr (pin_values vals values) (\<lambda>values. Inr (values, timestamps, statuses)))))"

section \<open>\<open>KeyMayExist\<close>\<close>

text \<open>The result, and \<open>*value_found\<close> if the pointer is not null.\<close>

definition DBc_KeyMayExist :: "bool option \<Rightarrow> bool \<times> bool option" where
  "DBc_KeyMayExist value_found = (True, map_option (\<lambda>_. False) value_found)"

definition DBc_KeyMayExist_cf :: "bool option \<Rightarrow> bool \<times> bool option" where
  "DBc_KeyMayExist_cf value_found = DBc_KeyMayExist value_found"

definition DBc_KeyMayExist_default :: "bool option \<Rightarrow> bool \<times> bool option" where
  "DBc_KeyMayExist_default value_found = DBc_KeyMayExist_cf value_found"

definition DBc_KeyMayExist_timestamp :: "bool option \<Rightarrow> bool \<times> bool option" where
  "DBc_KeyMayExist_timestamp value_found = DBc_KeyMayExist value_found"

section \<open>Sizes, compaction and files\<close>

definition INCLUDE_NONE :: "8 word" where "INCLUDE_NONE = 0"
definition INCLUDE_MEMTABLES :: "8 word" where "INCLUDE_MEMTABLES = push_bit 0 1"
definition INCLUDE_FILES :: "8 word" where "INCLUDE_FILES = push_bit 1 1"

definition DBc_GetApproximateSizes_cf ::
    "('d, 'cf, 'it, 'c) db_class \<Rightarrow> 'd \<Rightarrow> 'cf \<Rightarrow> Range list \<Rightarrow> c_int \<Rightarrow> 64 word list \<Rightarrow> 8 word \<Rightarrow> Status \<times> 64 word list" where
  "DBc_GetApproximateSizes_cf C d column_family ranges n sizes include_flags =
     (let options = SizeApproximationOptions_default
        \<lparr>sa_include_memtabtles := (include_flags AND INCLUDE_MEMTABLES \<noteq> 0),
         sa_include_files := (include_flags AND INCLUDE_FILES \<noteq> 0)\<rparr> in
      cls_GetApproximateSizes C options d column_family ranges n sizes)"

definition DBc_GetApproximateSizes ::
    "('d, 'cf, 'it, 'c) db_class \<Rightarrow> 'd \<Rightarrow> Range list \<Rightarrow> c_int \<Rightarrow> 64 word list \<Rightarrow> 8 word \<Rightarrow> Status \<times> 64 word list" where
  "DBc_GetApproximateSizes C d ranges n sizes include_flags =
     DBc_GetApproximateSizes_cf C d (cls_DefaultColumnFamily C d) ranges n sizes include_flags"

definition DBc_GetApproximateSizes_memtable_cf ::
    "('d, 'cf, 'it, 'c) db_class \<Rightarrow> 'd \<Rightarrow> 'cf \<Rightarrow> Range list \<Rightarrow> c_int \<Rightarrow> 64 word list \<Rightarrow> bool \<Rightarrow> 64 word list" where
  "DBc_GetApproximateSizes_memtable_cf C d column_family rng n sizes include_memtable =
     (let include_flags = INCLUDE_FILES;
          include_flags = (if include_memtable then include_flags OR INCLUDE_MEMTABLES else include_flags) in
      snd (DBc_GetApproximateSizes_cf C d column_family rng n sizes include_flags))"

definition DBc_GetApproximateSizes_memtable ::
    "('d, 'cf, 'it, 'c) db_class \<Rightarrow> 'd \<Rightarrow> Range list \<Rightarrow> c_int \<Rightarrow> 64 word list \<Rightarrow> bool \<Rightarrow> 64 word list" where
  "DBc_GetApproximateSizes_memtable C d rng n sizes include_memtable =
     (let include_flags = INCLUDE_FILES;
          include_flags = (if include_memtable then include_flags OR INCLUDE_MEMTABLES else include_flags) in
      snd (DBc_GetApproximateSizes_cf C d (cls_DefaultColumnFamily C d) rng n sizes include_flags))"

definition DBc_CompactRange_levels_cf ::
    "('d, 'cf, 'it, 'c) db_class \<Rightarrow> 'd \<Rightarrow> 'cf \<Rightarrow> Slice option \<Rightarrow> Slice option \<Rightarrow> bool \<Rightarrow> c_int \<Rightarrow> 32 word \<Rightarrow> Status \<times> 'd" where
  "DBc_CompactRange_levels_cf C d column_family begin' end' change_level target_level target_path_id =
     (let options = CompactRangeOptions_default
        \<lparr>cro_change_level := change_level, cro_target_level := target_level, cro_target_path_id := target_path_id\<rparr> in
      cls_CompactRange C options d column_family begin' end')"

definition DBc_CompactRange_levels ::
    "('d, 'cf, 'it, 'c) db_class \<Rightarrow> 'd \<Rightarrow> Slice option \<Rightarrow> Slice option \<Rightarrow> bool \<Rightarrow> c_int \<Rightarrow> 32 word \<Rightarrow> Status \<times> 'd" where
  "DBc_CompactRange_levels C d begin' end' change_level target_level target_path_id =
     (let options = CompactRangeOptions_default
        \<lparr>cro_change_level := change_level, cro_target_level := target_level, cro_target_path_id := target_path_id\<rparr> in
      cls_CompactRange C options d (cls_DefaultColumnFamily C d) begin' end')"

text \<open>The deprecated \<open>AddFile\<close>, which all its overloads repeat; a file of an info is its path.\<close>

definition add_file_options :: "bool \<Rightarrow> bool \<Rightarrow> IngestExternalFileOptions" where
  "add_file_options move_file skip_snapshot_check = IngestExternalFileOptions_default
     \<lparr>ief_move_files := move_file, ief_snapshot_consistency := \<not> skip_snapshot_check,
      ief_allow_global_seqno := False, ief_allow_blocking_flush := False\<rparr>"

definition DBc_AddFile_list_cf ::
    "('d, 'cf, 'it, 'c) db_class \<Rightarrow> 'd \<Rightarrow> 'cf \<Rightarrow> string list \<Rightarrow> bool \<Rightarrow> bool \<Rightarrow> Status \<times> 'd" where
  "DBc_AddFile_list_cf C d column_family file_path_list move_file skip_snapshot_check =
     cls_IngestExternalFile C d column_family file_path_list (add_file_options move_file skip_snapshot_check)"

definition DBc_AddFile_list ::
    "('d, 'cf, 'it, 'c) db_class \<Rightarrow> 'd \<Rightarrow> string list \<Rightarrow> bool \<Rightarrow> bool \<Rightarrow> Status \<times> 'd" where
  "DBc_AddFile_list C d file_path_list move_file skip_snapshot_check =
     cls_IngestExternalFile C d (cls_DefaultColumnFamily C d) file_path_list (add_file_options move_file skip_snapshot_check)"

definition DBc_AddFile_cf ::
    "('d, 'cf, 'it, 'c) db_class \<Rightarrow> 'd \<Rightarrow> 'cf \<Rightarrow> string \<Rightarrow> bool \<Rightarrow> bool \<Rightarrow> Status \<times> 'd" where
  "DBc_AddFile_cf C d column_family file_path move_file skip_snapshot_check =
     cls_IngestExternalFile C d column_family [file_path] (add_file_options move_file skip_snapshot_check)"

definition DBc_AddFile :: "('d, 'cf, 'it, 'c) db_class \<Rightarrow> 'd \<Rightarrow> string \<Rightarrow> bool \<Rightarrow> bool \<Rightarrow> Status \<times> 'd" where
  "DBc_AddFile C d file_path move_file skip_snapshot_check =
     cls_IngestExternalFile C d (cls_DefaultColumnFamily C d) [file_path] (add_file_options move_file skip_snapshot_check)"

text \<open>\<open>file_path\<close> reads the path of an \<open>ExternalSstFileInfo\<close>.\<close>

definition DBc_AddFile_infos_cf ::
    "('d, 'cf, 'it, 'c) db_class \<Rightarrow> ('i \<Rightarrow> string) \<Rightarrow> 'd \<Rightarrow> 'cf \<Rightarrow> 'i list \<Rightarrow> bool \<Rightarrow> bool \<Rightarrow> Status \<times> 'd" where
  "DBc_AddFile_infos_cf C file_path d column_family file_info_list move_file skip_snapshot_check =
     (let external_files = fold (\<lambda>file_info files. files @ [file_path file_info]) file_info_list [] in
      cls_IngestExternalFile C d column_family external_files (add_file_options move_file skip_snapshot_check))"

definition DBc_AddFile_infos ::
    "('d, 'cf, 'it, 'c) db_class \<Rightarrow> ('i \<Rightarrow> string) \<Rightarrow> 'd \<Rightarrow> 'i list \<Rightarrow> bool \<Rightarrow> bool \<Rightarrow> Status \<times> 'd" where
  "DBc_AddFile_infos C file_path d file_info_list move_file skip_snapshot_check =
     (let external_files = fold (\<lambda>file_info files. files @ [file_path file_info]) file_info_list [] in
      cls_IngestExternalFile C d (cls_DefaultColumnFamily C d) external_files (add_file_options move_file skip_snapshot_check))"

definition DBc_AddFile_info_cf ::
    "('d, 'cf, 'it, 'c) db_class \<Rightarrow> ('i \<Rightarrow> string) \<Rightarrow> 'd \<Rightarrow> 'cf \<Rightarrow> 'i \<Rightarrow> bool \<Rightarrow> bool \<Rightarrow> Status \<times> 'd" where
  "DBc_AddFile_info_cf C file_path d column_family file_info move_file skip_snapshot_check =
     cls_IngestExternalFile C d column_family [file_path file_info] (add_file_options move_file skip_snapshot_check)"

definition DBc_AddFile_info ::
    "('d, 'cf, 'it, 'c) db_class \<Rightarrow> ('i \<Rightarrow> string) \<Rightarrow> 'd \<Rightarrow> 'i \<Rightarrow> bool \<Rightarrow> bool \<Rightarrow> Status \<times> 'd" where
  "DBc_AddFile_info C file_path d file_info move_file skip_snapshot_check =
     cls_IngestExternalFile C d (cls_DefaultColumnFamily C d) [file_path file_info] (add_file_options move_file skip_snapshot_check)"

definition DBc_VerifyChecksum :: "('d, 'cf, 'it, 'c) db_class \<Rightarrow> ReadOptions \<Rightarrow> 'd \<Rightarrow> Status" where
  "DBc_VerifyChecksum C read_options_ctor d = cls_VerifyChecksum C read_options_ctor d"


end
