(* ===== verification/Column_Families.thy ===== *)
theory Column_Families
  imports DB_Class
begin

text \<open>
  From column families to the interface of the program: a class \<open>C\<close> whose pure virtual members treat
  every column family as an ordered map, with the inline members of \<open>DB_Class\<close> on top, is a database in
  the sense of \<open>rocksdb_api\<close>, whose entries are those of the default column family. \<open>L\<close> supplies the
  rest of the interface (opening, iterators, constructors).
\<close>

section \<open>The interface of the program out of a class\<close>

text \<open>A read that faults has no result; the laws below exclude it.\<close>

definition class_get :: "('d, 'cf, 'it, 'c) db_class \<Rightarrow> ReadOptions \<Rightarrow> 'd \<Rightarrow> Slice \<Rightarrow> string \<Rightarrow> Status \<times> string" where
  "class_get C ro d k s = (case DBc_Get_string C ro d k s of
     Inr r \<Rightarrow> r | Inl _ \<Rightarrow> (fst (cls_Get C ro d (cls_DefaultColumnFamily C d) k (PinnableSlice_of_buf s)), s))"

definition rocksdb_of :: "('d, 'cf, 'it, 'c) db_class \<Rightarrow> ('d, 'it) rocksdb \<Rightarrow> ('d, 'it) rocksdb" where
  "rocksdb_of C L = L\<lparr>DB_Put := DBc_Put C, DB_Delete := DBc_Delete C, DB_Get := class_get C, DB_NewIterator := DBc_NewIterator C\<rparr>"

lemma rocksdb_of_simps [simp]:
  "DB_Put (rocksdb_of C L) = DBc_Put C" "DB_Delete (rocksdb_of C L) = DBc_Delete C" "DB_Get (rocksdb_of C L) = class_get C"
  "DB_NewIterator (rocksdb_of C L) = DBc_NewIterator C" "DB_Open (rocksdb_of C L) = DB_Open L" "It_Valid (rocksdb_of C L) = It_Valid L"
  "It_SeekToFirst (rocksdb_of C L) = It_SeekToFirst L" "It_SeekToLast (rocksdb_of C L) = It_SeekToLast L"
  "It_Seek (rocksdb_of C L) = It_Seek L" "It_Next (rocksdb_of C L) = It_Next L" "It_Prev (rocksdb_of C L) = It_Prev L"
  "It_key (rocksdb_of C L) = It_key L" "It_value (rocksdb_of C L) = It_value L" "Slice_ToString (rocksdb_of C L) = Slice_ToString L"
  "ReadOptions_ctor (rocksdb_of C L) = ReadOptions_ctor L"
  by (simp_all add: rocksdb_of_def)

lemma GetSelf_of_buf [simp]: "PinnableSlice_GetSelf (PinnableSlice_of_buf s) = s"
  by (simp add: PinnableSlice_GetSelf_def PinnableSlice_of_buf_def)

lemma not_pinned_of_buf [simp]: "\<not> PinnableSlice_IsPinned (PinnableSlice_of_buf s)"
  by (simp add: PinnableSlice_IsPinned_def PinnableSlice_of_buf_def PinnableSlice_default_def)

lemma class_get_status: "fst (class_get C ro d k s) = fst (cls_Get C ro d (cls_DefaultColumnFamily C d) k (PinnableSlice_of_buf s))"
proof -
  obtain st p where get: "cls_Get C ro d (cls_DefaultColumnFamily C d) k (PinnableSlice_of_buf s) = (st, p)"
    by fastforce
  show ?thesis
    by (cases "slice_read (pin_slice p) 0 (Slice_size (pin_slice p))")
      (auto simp: class_get_def DBc_Get_string_def DBc_Get_string_cf_def get)
qed

section \<open>Lawful column families\<close>

text \<open>
  The documented behaviour of the pure virtual members: writes change one family and leave the handle of the default
  family alone; a value that was found is pinned or in the caller's buffer, and a key that was not
  found leaves the buffer unchanged.
\<close>

locale column_families = rocksdb_iterators L cursor
  for C :: "('d, 'cf, 'it, 'c) db_class" and L :: "('d, 'it) rocksdb" and cf_content :: "'d \<Rightarrow> 'cf \<Rightarrow> kv" and cursor +
  assumes cf_ordered: "kv_sorted (cf_content d cf)"
    and cf_put: "slice_ok k \<Longrightarrow> slice_ok v \<Longrightarrow> cls_Put C wo d cf k v = (st, d') \<Longrightarrow> Status_ok st \<Longrightarrow>
      cf_content d' = (cf_content d)(cf := kv_put (slice_bytes k) (slice_bytes v) (cf_content d cf)) \<and>
      cls_DefaultColumnFamily C d' = cls_DefaultColumnFamily C d"
    and cf_delete: "slice_ok k \<Longrightarrow> cls_Delete C wo d cf k = (st, d') \<Longrightarrow> Status_ok st \<Longrightarrow>
      cf_content d' = (cf_content d)(cf := kv_del (slice_bytes k) (cf_content d cf)) \<and>
      cls_DefaultColumnFamily C d' = cls_DefaultColumnFamily C d"
    and cf_found: "plain_read ro \<Longrightarrow> slice_ok k \<Longrightarrow> cls_Get C ro d cf k (PinnableSlice_of_buf s) = (st, p) \<Longrightarrow> Status_ok st \<Longrightarrow>
      (if PinnableSlice_IsPinned p
       then slice_ok (pin_slice p) \<and> kv_get (slice_bytes k) (cf_content d cf) = Some (slice_bytes (pin_slice p))
       else kv_get (slice_bytes k) (cf_content d cf) = Some (PinnableSlice_GetSelf p))"
    and cf_missing: "plain_read ro \<Longrightarrow> slice_ok k \<Longrightarrow> cls_Get C ro d cf k (PinnableSlice_of_buf s) = (st, p) \<Longrightarrow>
      Status_IsNotFound st \<Longrightarrow> kv_get (slice_bytes k) (cf_content d cf) = None \<and> PinnableSlice_GetSelf p = s"
    and cf_new_iterator: "plain_read ro \<Longrightarrow> fst (cursor (cls_NewIterator C ro d cf)) = cf_content d cf"
begin

lemma get_string_run:
  assumes "plain_read ro" "slice_ok k"
  shows "\<exists>st s'. DBc_Get_string_cf C ro d cf k s = Inr (st, s') \<and> st = fst (cls_Get C ro d cf k (PinnableSlice_of_buf s)) \<and>
    (Status_ok st \<longrightarrow> kv_get (slice_bytes k) (cf_content d cf) = Some s') \<and>
    (Status_IsNotFound st \<longrightarrow> kv_get (slice_bytes k) (cf_content d cf) = None \<and> s' = s)"
proof -
  obtain st p where get: "cls_Get C ro d cf k (PinnableSlice_of_buf s) = (st, p)"
    by fastforce
  have excl: "\<not> (Status_ok st \<and> Status_IsNotFound st)"
    by (auto simp: Status_ok_def Status_IsNotFound_def)
  show ?thesis
  proof (cases "Status_ok st \<and> PinnableSlice_IsPinned p")
    case True
    then show ?thesis
      using cf_found [OF assms get] get excl by (auto simp: DBc_Get_string_cf_def slice_read_ok Slice_size_def)
  next
    case False
    then show ?thesis
      using cf_found [OF assms get] cf_missing [OF assms get] get by (auto simp: DBc_Get_string_cf_def)
  qed
qed

end

sublocale column_families \<subseteq> class_db: rocksdb_api "rocksdb_of C L" "\<lambda>d. cf_content d (cls_DefaultColumnFamily C d)" cursor
proof unfold_locales
  fix ro k d s st s'
  assume "plain_read ro" "slice_ok k" "DB_Get (rocksdb_of C L) ro d k s = (st, s')"
  then show "Status_ok st \<Longrightarrow> kv_get (slice_bytes k) (cf_content d (cls_DefaultColumnFamily C d)) = Some s'"
    "Status_IsNotFound st \<Longrightarrow> kv_get (slice_bytes k) (cf_content d (cls_DefaultColumnFamily C d)) = None \<and> s' = s"
    using get_string_run [of ro k d "cls_DefaultColumnFamily C d" s] by (auto simp: class_get_def DBc_Get_string_def)
qed (auto simp: cf_ordered valid in_range seek_first seek_last seek nxt prev key_at value_at to_string read_defaults cf_new_iterator
    DBc_NewIterator_def DBc_Put_def DBc_Delete_def dest: cf_put cf_delete)

text \<open>No I/O failure, for every column family.\<close>

locale column_families_reliable = column_families +
  assumes cf_put_ok: "Status_ok (fst (cls_Put C wo d cf k v))"
    and cf_delete_ok: "Status_ok (fst (cls_Delete C wo d cf k))"
    and cf_get_ok: "Status_ok (fst (cls_Get C ro d cf k p)) \<or> Status_IsNotFound (fst (cls_Get C ro d cf k p))"
    and cf_open_ok: "db_create_if_missing (opt_db opts) \<Longrightarrow> Status_ok (fst (DB_Open L opts n)) \<and> snd (DB_Open L opts n) \<noteq> None"
begin

lemma get_string_value:
  assumes "plain_read ro" "slice_ok k"
  shows "\<exists>st. DBc_Get_string_cf C ro d cf k s =
    Inr (st, case kv_get (slice_bytes k) (cf_content d cf) of Some v \<Rightarrow> v | None \<Rightarrow> s)"
proof -
  obtain st s' where get: "DBc_Get_string_cf C ro d cf k s = Inr (st, s')" "st = fst (cls_Get C ro d cf k (PinnableSlice_of_buf s))"
    and r: "Status_ok st \<longrightarrow> kv_get (slice_bytes k) (cf_content d cf) = Some s'"
      "Status_IsNotFound st \<longrightarrow> kv_get (slice_bytes k) (cf_content d cf) = None \<and> s' = s"
    using get_string_run [OF assms, of d cf s] by blast
  show ?thesis
    using get r cf_get_ok [of ro d cf k "PinnableSlice_of_buf s"] by auto
qed

lemma put_content_cf:
  "slice_ok k \<Longrightarrow> slice_ok v \<Longrightarrow> cf_content (snd (cls_Put C wo d cf k v)) =
    (cf_content d)(cf := kv_put (slice_bytes k) (slice_bytes v) (cf_content d cf))"
  using cf_put cf_put_ok by (metis prod.collapse)

end

sublocale column_families_reliable \<subseteq> class_db: rocksdb_reliable "rocksdb_of C L" "\<lambda>d. cf_content d (cls_DefaultColumnFamily C d)" cursor
proof unfold_locales
  fix ro k d s
  show "Status_ok (fst (DB_Get (rocksdb_of C L) ro d k s)) \<or> Status_IsNotFound (fst (DB_Get (rocksdb_of C L) ro d k s))"
    using cf_get_ok [of ro d "cls_DefaultColumnFamily C d" k "PinnableSlice_of_buf s"]
    by (simp add: class_get_status)
qed (auto simp: DBc_Put_def DBc_Delete_def cf_put_ok cf_delete_ok cf_open_ok)

context column_families_reliable
begin

lemma reliable_class_db: "rocksdb_reliable (rocksdb_of C L) (\<lambda>d. cf_content d (cls_DefaultColumnFamily C d)) cursor"
  by unfold_locales

end

section \<open>An instance\<close>

text \<open>
  Families are numbered, the default one is 0. A value of more than three bytes is returned pinned,
  a shorter one in the caller's buffer.
\<close>

definition ref_found :: "string \<Rightarrow> 'c PinnableSlice \<Rightarrow> 'c PinnableSlice" where
  "ref_found v p = (if 3 < length v then p\<lparr>pinned := True, pin_slice := Slice_of_string v\<rparr> else pin_set_buf p v)"

definition ref_class :: "(nat \<Rightarrow> kv, nat, kv \<times> nat option, unit) db_class" where
  "ref_class =
    \<lparr>cls_DefaultColumnFamily = (\<lambda>d. 0),
     cls_Put = (\<lambda>wo d cf k v. (Status_OK, d(cf := kv_put (slice_bytes k) (slice_bytes v) (ref_content (d cf))))),
     cls_Delete = (\<lambda>wo d cf k. (Status_OK, d(cf := kv_del (slice_bytes k) (ref_content (d cf))))),
     cls_SingleDelete = (\<lambda>wo d cf k. (Status_OK, d(cf := kv_del (slice_bytes k) (ref_content (d cf))))),
     cls_Merge = (\<lambda>wo d cf k v. (Status_NotFound kNone, d)),
     cls_Get = (\<lambda>ro d cf k p. case kv_get (slice_bytes k) (ref_content (d cf)) of
        None \<Rightarrow> (Status_NotFound kNone, p) | Some v \<Rightarrow> (Status_OK, ref_found v p)),
     cls_MultiGet = (\<lambda>ro d cfs ks vs.
        let gets = map2 (\<lambda>cf k. kv_get (slice_bytes k) (ref_content (d cf))) cfs ks in
        (map (\<lambda>g. case g of None \<Rightarrow> Status_NotFound kNone | Some v \<Rightarrow> Status_OK) gets,
         map (\<lambda>g. case g of None \<Rightarrow> [] | Some v \<Rightarrow> v) gets)),
     cls_NewIterator = (\<lambda>ro d cf. (ref_content (d cf), None)),
     cls_GetProperty = (\<lambda>d cf p s. (False, s)), cls_GetMapProperty = (\<lambda>d cf p m. (False, m)),
     cls_GetIntProperty = (\<lambda>d cf p w. (False, w)),
     cls_GetApproximateSizes = (\<lambda>so d cf rs n ws. (Status_OK, ws)), cls_GetApproximateMemTableStats = (\<lambda>d cf rng. (0, 0)),
     cls_CompactRange = (\<lambda>co d cf b e. (Status_OK, d)), cls_NumberLevels = (\<lambda>d cf. 1),
     cls_MaxMemCompactionLevel = (\<lambda>d cf. 0), cls_Level0StopWriteTrigger = (\<lambda>d cf. 0),
     cls_GetOptions = (\<lambda>d cf. \<lparr>opt_db = DBOptions_ctor ref_R, opt_cf = ColumnFamilyOptions_ctor ref_R\<rparr>),
     cls_Flush = (\<lambda>fo d cf. (Status_OK, d)), cls_IngestExternalFile = (\<lambda>d cf fs io. (Status_OK, d)),
     cls_VerifyChecksum = (\<lambda>ro d. Status_OK)\<rparr>"

definition ref_lib :: "(nat \<Rightarrow> kv, kv \<times> nat option) rocksdb" where
  "ref_lib =
    \<lparr>DB_Open = (\<lambda>opts n. (Status_OK, Some (\<lambda>_. []))), DB_Put = (\<lambda>wo d k v. (Status_OK, d)),
     DB_Delete = (\<lambda>wo d k. (Status_OK, d)), DB_Get = (\<lambda>ro d k s. (Status_OK, s)), DB_NewIterator = (\<lambda>ro d. ([], None)),
     It_Valid = It_Valid ref_R, It_SeekToFirst = It_SeekToFirst ref_R, It_SeekToLast = It_SeekToLast ref_R,
     It_Seek = It_Seek ref_R, It_Next = It_Next ref_R, It_Prev = It_Prev ref_R, It_key = It_key ref_R,
     It_value = It_value ref_R, Slice_ToString = Slice_ToString ref_R, DBOptions_ctor = DBOptions_ctor ref_R,
     ColumnFamilyOptions_ctor = ColumnFamilyOptions_ctor ref_R, ReadOptions_ctor = ReadOptions_ctor ref_R\<rparr>"

lemma ref_lib_iterators: "rocksdb_iterators ref_lib ref_cursor"
  by unfold_locales (auto simp: ref_lib_def ref_R_def ref_db_def ref_cursor_def ref_at_def seek_pos_def Let_def
      ref_read_options_plain split: option.splits if_splits)

lemma ref_content_put [simp]: "ref_content (kv_put k v (ref_content d)) = kv_put k v (ref_content d)"
  by (simp add: ref_content_def)

lemma ref_content_del [simp]: "ref_content (kv_del k (ref_content d)) = kv_del k (ref_content d)"
  by (simp add: ref_content_def)

lemma ref_found_cases:
  "PinnableSlice_IsPinned (ref_found v (PinnableSlice_of_buf s)) \<longleftrightarrow> 3 < length v"
  "3 < length v \<Longrightarrow> pin_slice (ref_found v p) = Slice_of_string v"
  "length v \<le> 3 \<Longrightarrow> PinnableSlice_GetSelf (ref_found v (PinnableSlice_of_buf s)) = v"
  by (simp_all add: ref_found_def PinnableSlice_IsPinned_def pin_set_buf_def PinnableSlice_of_buf_def
      PinnableSlice_default_def PinnableSlice_GetSelf_def)

interpretation ref_families: column_families_reliable ref_class ref_lib "\<lambda>d cf. ref_content (d cf)" ref_cursor
proof (intro column_families_reliable.intro column_families.intro ref_lib_iterators, goal_cases)
  case 1
  show ?case
    by unfold_locales (auto simp: ref_class_def ref_found_cases not_less ref_cursor_def split: option.splits if_splits,
      simp add: ref_content_def)
next
  case 2
  show ?case
    by unfold_locales (auto simp: ref_class_def ref_lib_def split: option.splits)
qed

section \<open>The loop of \<open>MultiGet\<close>\<close>

lemma GetSelf_set_buf: "PinnableSlice_GetSelf (pin_set_buf p v) = v"
  by (simp add: PinnableSlice_GetSelf_def pin_set_buf_def split: option.splits)

lemma GetSelf_pin_slice: "PinnableSlice_GetSelf (p\<lparr>pin_slice := x\<rparr>) = PinnableSlice_GetSelf p"
  by (simp add: PinnableSlice_GetSelf_def split: option.split)

lemma pin_values_result:
  "length vs \<le> length ps \<Longrightarrow>
    if \<exists>p \<in> set (take (length vs) ps). PinnableSlice_IsPinned p then pin_values vs ps = Inl Assertion_failed
    else \<exists>ps'. pin_values vs ps = Inr ps' \<and> map PinnableSlice_GetSelf (take (length vs) ps') = vs \<and>
      map (slice_bytes \<circ> pin_slice) (take (length vs) ps') = vs \<and> drop (length vs) ps' = drop (length vs) ps"
proof (induction vs ps rule: pin_values.induct)
  case (3 v vs p ps)
  have read: "slice_read (Slice_of_string v) 0 (Slice_size (Slice_of_string v)) = Inr v"
    using slice_read_ok [of "Slice_of_string v" 0 "length v"] by (simp add: Slice_size_def) (simp add: Slice_of_string_def)
  show ?case
    using 3 read by (cases "pinned p")
      (auto simp: PinnableSlice_PinSelf_slice_def PinnableSlice_IsPinned_def GetSelf_set_buf GetSelf_pin_slice comp_def split: if_splits)
qed auto

section \<open>Properties\<close>

text \<open>
  C25: if the pure virtual members of the database class treat every column family as an ordered map,
  the inline members make it the database the program is written against: \<open>Get\<close> into a string never
  faults and returns the value, pinned or not, or leaves the string alone, in every family; the
  overloads without a family are writes and reads of the default family; and the resulting record
  meets the laws of \<open>rocksdb_reliable\<close> with the entries of the default family.
\<close>

theorem column_families_give_the_interface:
  assumes "column_families_reliable C L cf_content cursor" "plain_read ro" "slice_ok k" "slice_ok v"
  shows "(\<exists>st. DBc_Get_string_cf C ro d cf k s = Inr (st, case kv_get (slice_bytes k) (cf_content d cf) of Some v \<Rightarrow> v | None \<Rightarrow> s)) \<and>
    (\<exists>st. DBc_Get_string C ro (snd (DBc_Put C wo d k v)) k s = Inr (st, slice_bytes v)) \<and>
    (\<exists>st. DBc_Get_string C ro (snd (DBc_Delete C wo d k)) k s = Inr (st, s)) \<and>
    rocksdb_reliable (rocksdb_of C L) (\<lambda>d. cf_content d (cls_DefaultColumnFamily C d)) cursor"
proof -
  note held = column_families_reliable.get_string_value [OF assms(1-3)]
  note lib = column_families_reliable.reliable_class_db [OF assms(1)]
  have get: "\<exists>st. DBc_Get_string C ro d k s =
      Inr (st, case kv_get (slice_bytes k) (cf_content d (cls_DefaultColumnFamily C d)) of Some v \<Rightarrow> v | None \<Rightarrow> s)" for d s
    unfolding DBc_Get_string_def by (rule held)
  have put: "\<exists>st. DBc_Get_string C ro (snd (DBc_Put C wo d k v)) k s = Inr (st, slice_bytes v)"
    using get [of "snd (DBc_Put C wo d k v)" s] rocksdb_reliable.put_run [OF lib assms(3,4), of wo d]
    by (simp add: kv_get_put)
  have del: "\<exists>st. DBc_Get_string C ro (snd (DBc_Delete C wo d k)) k s = Inr (st, s)"
    using get [of "snd (DBc_Delete C wo d k)" s] rocksdb_reliable.delete_run [OF lib assms(3), of wo d]
    by (simp add: kv_get_del)
  show ?thesis
    using held put del lib by blast
qed

theorem column_families_give_the_interface_witness:
  "\<exists>st. DBc_Get_string ref_class ref_read_options
      (snd (DBc_Put ref_class WriteOptions_default (\<lambda>_. []) (Slice_of_string ''k'') (Slice_of_string ''pinned value''))) (Slice_of_string ''k'') ''old'' =
    Inr (st, ''pinned value'')"
  using column_families_give_the_interface [OF ref_families.column_families_reliable_axioms ref_read_options_plain
      slice_of_string_ok(1) slice_of_string_ok(1), of "\<lambda>_. []" 0 "''k''" "''old''" WriteOptions_default "''pinned value''"]
  by simp

text \<open>
  \<open>MultiGet\<close> into arrays: when the arrays are large enough and no value slice is pinned yet, the first
  statuses and values are those the library returns, each value lying in its slice's own buffer, and the rest of the arrays
  is untouched; a pinned slice among the first ones is caught by the assert of \<open>PinSelf\<close>.
\<close>

lemma multi_get_fills_arrays:
  assumes "n \<le> length keys" "cls_MultiGet C ro d (replicate n cf) (take n keys) [] = (status, vals)"
    "length status \<le> length statuses" "length vals \<le> length ps"
  shows "if \<exists>p \<in> set (take (length vals) ps). PinnableSlice_IsPinned p
    then DBc_MultiGet_array C ro d cf n keys ps statuses = Inl Assertion_failed
    else \<exists>ps'. DBc_MultiGet_array C ro d cf n keys ps statuses = Inr (ps', status @ drop (length status) statuses) \<and>
      map PinnableSlice_GetSelf (take (length vals) ps') = vals \<and> map (slice_bytes \<circ> pin_slice) (take (length vals) ps') = vals \<and>
      drop (length vals) ps' = drop (length vals) ps"
  using assms pin_values_result [OF assms(4)] by (auto simp: DBc_MultiGet_array_def copy_to_array_def)

lemma multi_get_fills_arrays_witness:
  "\<exists>ps'. DBc_MultiGet_array ref_class ref_read_options (\<lambda>_. [(''a'', ''1''), (''b'', ''2'')]) 0 2 [Slice_of_string ''b'', Slice_of_string ''a'']
      [PinnableSlice_default, PinnableSlice_default, PinnableSlice_default] [Status_default, Status_default] =
      Inr (ps', [Status_OK, Status_OK]) \<and> map PinnableSlice_GetSelf (take 2 ps') = [''2'', ''1'']"
  using multi_get_fills_arrays [of 2 "[Slice_of_string ''b'', Slice_of_string ''a'']" ref_class ref_read_options
      "\<lambda>_. [(''a'', ''1''), (''b'', ''2'')]" 0 "[Status_OK, Status_OK]" "[''2'', ''1'']" "[Status_default, Status_default]"
      "[PinnableSlice_default, PinnableSlice_default, PinnableSlice_default]"]
  by (simp add: ref_class_def numeral_2_eq_2 kv_get_def ref_content_def PinnableSlice_IsPinned_def PinnableSlice_default_def)
   fastforce

end
