(* ===== verification/Env_Files.thy ===== *)
theory Env_Files
  imports DB_Class
begin

text \<open>
  The inline code of \<open>rocksdb/env.h\<close>: the options for opening a file, the default bodies of \<open>Env\<close> and of
  the file classes, and the two with logic: \<open>RandomAccessFile::MultiRead\<close> and
  \<open>WritableFile::PrepareWrite\<close>, which preallocates whole blocks ahead of the writes. Virtual members
  without a body are parameters; what they do to files is a world \<open>'w\<close>.
\<close>

section \<open>Options and hints\<close>

definition kDefaultPageSize :: "64 word" where
  "kDefaultPageSize = 4 * 1024"

datatype CpuPriority = kIdle | kLow | kNormal | kHigh

record EnvOptions =
  eo_use_mmap_reads :: bool
  eo_use_mmap_writes :: bool
  eo_use_direct_reads :: bool
  eo_use_direct_writes :: bool
  eo_allow_fallocate :: bool
  eo_set_fd_cloexec :: bool
  eo_bytes_per_sync :: "64 word"
  eo_strict_bytes_per_sync :: bool
  eo_fallocate_with_keep_size :: bool
  eo_compaction_readahead_size :: "64 word"
  eo_random_access_max_buffer_size :: "64 word"
  eo_writable_file_max_buffer_size :: "64 word"
  eo_rate_limiter :: "handle option"

text \<open>The default member initialisers; the bodies of the constructors are library code.\<close>

definition EnvOptions_inits :: EnvOptions where
  "EnvOptions_inits =
     \<lparr>eo_use_mmap_reads = False, eo_use_mmap_writes = True, eo_use_direct_reads = False, eo_use_direct_writes = False,
      eo_allow_fallocate = True, eo_set_fd_cloexec = True, eo_bytes_per_sync = 0, eo_strict_bytes_per_sync = False,
      eo_fallocate_with_keep_size = True, eo_compaction_readahead_size = 0, eo_random_access_max_buffer_size = 0,
      eo_writable_file_max_buffer_size = 1024 * 1024, eo_rate_limiter = None\<rparr>"

record FileAttributes =
  fa_name :: string
  fa_size_bytes :: "64 word"

datatype WriteLifeTimeHint = WLTH_NOT_SET | WLTH_NONE | WLTH_SHORT | WLTH_MEDIUM | WLTH_LONG | WLTH_EXTREME

datatype IOPriority = IO_LOW | IO_MID | IO_HIGH | IO_USER | IO_TOTAL

section \<open>Default bodies of \<open>Env\<close>\<close>

definition Env_RegisterDbPaths_default :: "string list \<Rightarrow> Status" where
  "Env_RegisterDbPaths_default paths = Status_OK"

definition Env_UnregisterDbPaths_default :: "string list \<Rightarrow> Status" where
  "Env_UnregisterDbPaths_default paths = Status_OK"

definition Env_ReopenWritableFile_default :: "status_ctor \<Rightarrow> Status" where
  "Env_ReopenWritableFile_default ctor = not_supported ctor ''Env::ReopenWritableFile() not supported.''"

definition Env_NewRandomRWFile_default :: "status_ctor \<Rightarrow> Status" where
  "Env_NewRandomRWFile_default ctor = not_supported ctor ''RandomRWFile is not implemented in this Env''"

definition Env_NewMemoryMappedFileBuffer_default :: "status_ctor \<Rightarrow> Status" where
  "Env_NewMemoryMappedFileBuffer_default ctor = not_supported ctor ''MemoryMappedFileBuffer is not implemented in this Env''"

definition Env_Truncate_default :: "status_ctor \<Rightarrow> Status" where
  "Env_Truncate_default ctor = not_supported ctor ''Truncate is not supported for this Env''"

definition Env_LinkFile_default :: "status_ctor \<Rightarrow> Status" where
  "Env_LinkFile_default ctor = not_supported ctor ''LinkFile is not supported for this Env''"

definition Env_NumFileLinks_default :: "status_ctor \<Rightarrow> Status" where
  "Env_NumFileLinks_default ctor = not_supported ctor ''Getting number of file links is not supported for this Env''"

definition Env_AreFilesSame_default :: "status_ctor \<Rightarrow> Status" where
  "Env_AreFilesSame_default ctor = not_supported ctor ''AreFilesSame is not supported for this Env''"

definition Env_LoadLibrary_default :: "status_ctor \<Rightarrow> Status" where
  "Env_LoadLibrary_default ctor = not_supported ctor ''LoadLibrary is not implemented in this Env''"

definition Env_UnSchedule_default :: c_int where
  "Env_UnSchedule_default = 0"

definition Env_GetThreadPoolQueueLen_default :: "32 word" where
  "Env_GetThreadPoolQueueLen_default = 0"

text \<open>\<open>NowNanos\<close> from the microseconds \<open>NowMicros\<close> returns.\<close>

definition Env_NowNanos_default :: "64 word \<Rightarrow> 64 word" where
  "Env_NowNanos_default micros = micros * 1000"

definition Env_NowCPUNanos_default :: "64 word" where
  "Env_NowCPUNanos_default = 0"

definition Env_SetAllowNonOwnerAccess_default :: "status_ctor \<Rightarrow> Status" where
  "Env_SetAllowNonOwnerAccess_default ctor = not_supported ctor ''Env::SetAllowNonOwnerAccess() not supported.''"

definition Env_LowerThreadPoolCPUPriority_default :: "status_ctor \<Rightarrow> Status" where
  "Env_LowerThreadPoolCPUPriority_default ctor =
     not_supported ctor ''Env::LowerThreadPoolCPUPriority(Priority, CpuPriority) not supported''"

definition Env_GetThreadList_default :: "status_ctor \<Rightarrow> Status" where
  "Env_GetThreadList_default ctor = not_supported ctor ''Env::GetThreadList() not supported.''"

definition Env_GetFreeSpace_default :: "status_ctor \<Rightarrow> Status" where
  "Env_GetFreeSpace_default ctor = not_supported ctor ''Env::GetFreeSpace() not supported.''"

definition Env_IsDirectory_default :: "status_ctor \<Rightarrow> Status" where
  "Env_IsDirectory_default ctor = not_supported ctor ''Env::IsDirectory() not supported.''"

section \<open>Reading\<close>

definition SequentialFile_InvalidateCache_default :: "status_ctor \<Rightarrow> Status" where
  "SequentialFile_InvalidateCache_default ctor = not_supported ctor ''SequentialFile::InvalidateCache not supported.''"

definition SequentialFile_PositionedRead_default :: "status_ctor \<Rightarrow> Status" where
  "SequentialFile_PositionedRead_default ctor = not_supported ctor ''SequentialFile::PositionedRead() not supported.''"

record 's read_request =
  rr_offset :: "64 word"
  rr_len :: "64 word"
  rr_scratch :: "bytes option"
  rr_result :: Slice
  rr_status :: 's

type_synonym ReadRequest = "Status read_request"

text \<open>\<open>Read\<close> gets the offset, the length, the result slice and the scratch buffer.\<close>

type_synonym 's read_fun = "64 word \<Rightarrow> 64 word \<Rightarrow> Slice \<Rightarrow> bytes option \<Rightarrow> 's \<times> Slice \<times> bytes option"

definition read_one :: "'s read_fun \<Rightarrow> 's read_request \<Rightarrow> 's read_request" where
  "read_one Read req =
     (let (status, res, scratch) = Read (rr_offset req) (rr_len req) (rr_result req) (rr_scratch req) in
      req\<lparr>rr_status := status, rr_result := res, rr_scratch := scratch\<rparr>)"

fun multi_read_loop :: "'s read_fun \<Rightarrow> nat \<Rightarrow> nat \<Rightarrow> 's read_request list \<Rightarrow> 's read_request list result" where
  "multi_read_loop Read i 0 reqs = Inr reqs"
| "multi_read_loop Read i (Suc k) reqs =
     (if i < length reqs then multi_read_loop Read (i + 1) k (reqs[i := read_one Read (reqs ! i)]) else Inl Out_of_bounds_read)"

definition RandomAccessFile_MultiRead :: "Status read_fun \<Rightarrow> ReadRequest list option \<Rightarrow> nat \<Rightarrow> (Status \<times> ReadRequest list) result" where
  "RandomAccessFile_MultiRead Read reqs num_reqs =
     (case reqs of None \<Rightarrow> Inl Assertion_failed
      | Some reqs \<Rightarrow> bindr (multi_read_loop Read 0 num_reqs reqs) (\<lambda>reqs. Inr (Status_OK, reqs)))"

definition RandomAccessFile_Prefetch_default :: Status where
  "RandomAccessFile_Prefetch_default = Status_OK"

datatype AccessPattern = NORMAL | RANDOM | SEQUENTIAL | WILLNEED | DONTNEED

definition RandomAccessFile_InvalidateCache_default :: "status_ctor \<Rightarrow> Status" where
  "RandomAccessFile_InvalidateCache_default ctor = not_supported ctor ''RandomAccessFile::InvalidateCache not supported.''"

section \<open>Writing\<close>

record WritableFile =
  wf_last_preallocated_block :: "64 word"
  wf_preallocation_block_size :: "64 word"
  wf_io_priority :: IOPriority
  wf_write_hint :: WriteLifeTimeHint
  wf_strict_bytes_per_sync :: bool

definition WritableFile_default :: WritableFile where
  "WritableFile_default =
     \<lparr>wf_last_preallocated_block = 0, wf_preallocation_block_size = 0, wf_io_priority = IO_TOTAL,
      wf_write_hint = WLTH_NOT_SET, wf_strict_bytes_per_sync = False\<rparr>"

definition WritableFile_of_options :: "EnvOptions \<Rightarrow> WritableFile" where
  "WritableFile_of_options options =
     \<lparr>wf_last_preallocated_block = 0, wf_preallocation_block_size = 0, wf_io_priority = IO_TOTAL,
      wf_write_hint = WLTH_NOT_SET, wf_strict_bytes_per_sync = eo_strict_bytes_per_sync options\<rparr>"

text \<open>The overload with verification data calls the plain \<open>Append\<close>.\<close>

definition WritableFile_Append_verified :: "(Slice \<Rightarrow> 'w \<Rightarrow> Status \<times> 'w) \<Rightarrow> Slice \<Rightarrow> Slice \<Rightarrow> 'w \<Rightarrow> Status \<times> 'w" where
  "WritableFile_Append_verified Append data verification_info w = Append data w"

definition WritableFile_PositionedAppend_default :: "status_ctor \<Rightarrow> Status" where
  "WritableFile_PositionedAppend_default ctor = not_supported ctor ''WritableFile::PositionedAppend() not supported.''"

definition WritableFile_PositionedAppend_verified_default :: "status_ctor \<Rightarrow> Status" where
  "WritableFile_PositionedAppend_verified_default ctor = not_supported ctor ''PositionedAppend''"

definition WritableFile_Truncate_default :: Status where
  "WritableFile_Truncate_default = Status_OK"

definition WritableFile_Fsync_default :: "('w \<Rightarrow> Status \<times> 'w) \<Rightarrow> 'w \<Rightarrow> Status \<times> 'w" where
  "WritableFile_Fsync_default Sync w = Sync w"

definition WritableFile_SetIOPriority :: "WritableFile \<Rightarrow> IOPriority \<Rightarrow> WritableFile" where
  "WritableFile_SetIOPriority f pri = f\<lparr>wf_io_priority := pri\<rparr>"

definition WritableFile_GetIOPriority :: "WritableFile \<Rightarrow> IOPriority" where
  "WritableFile_GetIOPriority f = wf_io_priority f"

definition WritableFile_SetWriteLifeTimeHint :: "WritableFile \<Rightarrow> WriteLifeTimeHint \<Rightarrow> WritableFile" where
  "WritableFile_SetWriteLifeTimeHint f hint = f\<lparr>wf_write_hint := hint\<rparr>"

definition WritableFile_GetWriteLifeTimeHint :: "WritableFile \<Rightarrow> WriteLifeTimeHint" where
  "WritableFile_GetWriteLifeTimeHint f = wf_write_hint f"

definition WritableFile_SetPreallocationBlockSize :: "WritableFile \<Rightarrow> 64 word \<Rightarrow> WritableFile" where
  "WritableFile_SetPreallocationBlockSize f sz = f\<lparr>wf_preallocation_block_size := sz\<rparr>"

text \<open>The block size and the last allocated block.\<close>

definition WritableFile_GetPreallocationStatus :: "WritableFile \<Rightarrow> 64 word \<times> 64 word" where
  "WritableFile_GetPreallocationStatus f = (wf_preallocation_block_size f, wf_last_preallocated_block f)"

definition WritableFile_InvalidateCache_default :: "status_ctor \<Rightarrow> Status" where
  "WritableFile_InvalidateCache_default ctor = not_supported ctor ''WritableFile::InvalidateCache not supported.''"

definition WritableFile_RangeSync :: "('w \<Rightarrow> Status \<times> 'w) \<Rightarrow> WritableFile \<Rightarrow> 'w \<Rightarrow> Status \<times> 'w" where
  "WritableFile_RangeSync Sync f w = (if wf_strict_bytes_per_sync f then Sync w else (Status_OK, w))"

definition WritableFile_Allocate_default :: Status where
  "WritableFile_Allocate_default = Status_OK"

text \<open>\<open>size_t\<close> is a 64-bit word, so the sum may wrap around. The status of \<open>Allocate\<close> is ignored.\<close>

definition WritableFile_PrepareWrite ::
    "(64 word \<Rightarrow> 64 word \<Rightarrow> 'w \<Rightarrow> 's \<times> 'w) \<Rightarrow> WritableFile \<Rightarrow> 64 word \<Rightarrow> 64 word \<Rightarrow> 'w \<Rightarrow> WritableFile \<times> 'w" where
  "WritableFile_PrepareWrite Allocate f offset len w =
     (if wf_preallocation_block_size f = 0 then (f, w)
      else
        let block_size = wf_preallocation_block_size f;
            new_last_preallocated_block = (offset + len + block_size - 1) div block_size in
        if new_last_preallocated_block > wf_last_preallocated_block f then
          let num_spanned_blocks = new_last_preallocated_block - wf_last_preallocated_block f;
              (_, w) = Allocate (block_size * wf_last_preallocated_block f) (block_size * num_spanned_blocks) w in
          (f\<lparr>wf_last_preallocated_block := new_last_preallocated_block\<rparr>, w)
        else (f, w))"

definition RandomRWFile_Fsync_default :: "('w \<Rightarrow> Status \<times> 'w) \<Rightarrow> 'w \<Rightarrow> Status \<times> 'w" where
  "RandomRWFile_Fsync_default Sync w = Sync w"

section \<open>Other classes\<close>

record MemoryMappedFileBuffer =
  mm_base :: "nat option"
  mm_length :: "64 word"

definition MemoryMappedFileBuffer_of :: "nat option \<Rightarrow> 64 word \<Rightarrow> MemoryMappedFileBuffer" where
  "MemoryMappedFileBuffer_of base len = \<lparr>mm_base = base, mm_length = len\<rparr>"

definition MemoryMappedFileBuffer_GetBase :: "MemoryMappedFileBuffer \<Rightarrow> nat option" where
  "MemoryMappedFileBuffer_GetBase b = mm_base b"

definition MemoryMappedFileBuffer_GetLen :: "MemoryMappedFileBuffer \<Rightarrow> 64 word" where
  "MemoryMappedFileBuffer_GetLen b = mm_length b"

record Logger =
  lg_kDoNotSupportGetLogFileSize :: "64 word"
  lg_closed :: bool
  lg_log_level :: InfoLogLevel

definition Logger_of :: "InfoLogLevel \<Rightarrow> Logger" where
  "Logger_of log_level = \<lparr>lg_kDoNotSupportGetLogFileSize = - 1, lg_closed = False, lg_log_level = log_level\<rparr>"

definition Logger_default :: Logger where
  "Logger_default = Logger_of INFO_LEVEL"

definition Logger_LogHeader :: "(InfoLogLevel \<Rightarrow> 'a \<Rightarrow> 'w \<Rightarrow> 'w) \<Rightarrow> 'a \<Rightarrow> 'w \<Rightarrow> 'w" where
  "Logger_LogHeader Logv args w = Logv INFO_LEVEL args w"

definition Logger_Logv_default :: "'w \<Rightarrow> 'w result" where
  "Logger_Logv_default w = Inl Assertion_failed"

definition Logger_GetLogFileSize :: "Logger \<Rightarrow> 64 word" where
  "Logger_GetLogFileSize l = lg_kDoNotSupportGetLogFileSize l"

definition Logger_GetInfoLogLevel :: "Logger \<Rightarrow> InfoLogLevel" where
  "Logger_GetInfoLogLevel l = lg_log_level l"

definition Logger_SetInfoLogLevel :: "Logger \<Rightarrow> InfoLogLevel \<Rightarrow> Logger" where
  "Logger_SetInfoLogLevel l log_level = l\<lparr>lg_log_level := log_level\<rparr>"

section \<open>Facts\<close>

text \<open>\<open>MultiRead\<close> is a separate \<open>Read\<close> for each of the first requests; its own status says nothing about them.\<close>

lemma multi_read_loop_result:
  "i + k \<le> length reqs \<Longrightarrow>
     multi_read_loop Read i k reqs = Inr (take i reqs @ map (read_one Read) (take k (drop i reqs)) @ drop (i + k) reqs)"
proof (induction k arbitrary: i reqs)
  case (Suc k)
  then have "drop i reqs = reqs ! i # drop (Suc i) reqs"
    by (simp add: Cons_nth_drop_Suc)
  with Suc show ?case
    by (simp add: take_Suc_conv_app_nth)
qed simp

lemma MultiRead_result:
  "n \<le> length reqs \<Longrightarrow>
     RandomAccessFile_MultiRead Read (Some reqs) n = Inr (Status_OK, map (read_one Read) (take n reqs) @ drop n reqs)"
  by (simp add: RandomAccessFile_MultiRead_def multi_read_loop_result)

lemma MultiRead_beyond: "multi_read_loop Read i k reqs = Inr reqs' \<Longrightarrow> i \<le> length reqs \<Longrightarrow> i + k \<le> length reqs"
  by (induction Read i k reqs rule: multi_read_loop.induct) (auto split: if_splits)

section \<open>Preallocation\<close>

text \<open>A sequence of \<open>PrepareWrite\<close> calls, and a list of extents that go from \<open>a\<close> to \<open>b\<close> without gap or overlap.\<close>

fun prepare_writes ::
    "(64 word \<Rightarrow> 64 word \<Rightarrow> 'w \<Rightarrow> 's \<times> 'w) \<Rightarrow> WritableFile \<Rightarrow> (64 word \<times> 64 word) list \<Rightarrow> 'w \<Rightarrow> WritableFile \<times> 'w" where
  "prepare_writes Allocate f [] w = (f, w)"
| "prepare_writes Allocate f ((offset, len) # ws) w =
     (let (f, w) = WritableFile_PrepareWrite Allocate f offset len w in prepare_writes Allocate f ws w)"

definition log_extent :: "'s \<Rightarrow> 64 word \<Rightarrow> 64 word \<Rightarrow> (64 word \<times> 64 word) list \<Rightarrow> 's \<times> (64 word \<times> 64 word) list" where
  "log_extent st offset len ext = (st, ext @ [(offset, len)])"

fun extents_from :: "nat \<Rightarrow> (64 word \<times> 64 word) list \<Rightarrow> nat \<Rightarrow> bool" where
  "extents_from a [] b \<longleftrightarrow> a = b"
| "extents_from a ((offset, len) # ext) b \<longleftrightarrow> unat offset = a \<and> 0 < unat len \<and> extents_from (a + unat len) ext b"

lemma extents_from_append: "extents_from a (xs @ ys) c \<longleftrightarrow> (\<exists>b. extents_from a xs b \<and> extents_from b ys c)"
  by (induction a xs c rule: extents_from.induct) auto

lemma unat_mult_small: "unat (x :: 64 word) * unat y < 2 ^ 64 \<Longrightarrow> unat (x * y) = unat x * unat y"
  by (simp add: unat_word_ariths)

lemma blocks_needed:
  fixes offset len bs :: "64 word"
  assumes "bs \<noteq> 0" "unat offset + unat len + unat bs \<le> 2 ^ 64"
  defines "n \<equiv> (offset + len + bs - 1) div bs"
  shows "unat bs * unat n < 2 ^ 64 \<and> unat offset + unat len \<le> unat bs * unat n \<and>
    unat bs * unat n < unat offset + unat len + unat bs"
proof -
  let ?e = "unat offset + unat len"
  have pos: "0 < unat bs"
    using assms(1) by (simp add: unat_gt_0)
  have "offset + len + bs - 1 = word_of_nat (?e + (unat bs - 1))"
    using pos by (simp add: of_nat_diff)
  then have "unat (offset + len + bs - 1) = ?e + (unat bs - 1)"
    using assms(2) pos by (simp only: unat_of_nat) simp
  then have n: "unat n = (?e + (unat bs - 1)) div unat bs"
    unfolding n_def by (simp add: unat_div)
  have split: "unat bs * unat n + (?e + (unat bs - 1)) mod unat bs = ?e + (unat bs - 1)"
    unfolding n by (rule mult_div_mod_eq)
  moreover have "(?e + (unat bs - 1)) mod unat bs < unat bs"
    using pos by simp
  ultimately show ?thesis
    using assms(2) pos by linarith
qed

lemma PrepareWrite_step:
  assumes bs: "bs \<noteq> 0" "wf_preallocation_block_size f = bs" "unat bs * unat (wf_last_preallocated_block f) < 2 ^ 64"
    and fits: "unat offset + unat len + unat bs \<le> 2 ^ 64"
    and ext: "extents_from 0 ext (unat bs * unat (wf_last_preallocated_block f))"
    and run: "WritableFile_PrepareWrite (log_extent st) f offset len ext = (f', ext')"
  shows "wf_preallocation_block_size f' = bs" "unat bs * unat (wf_last_preallocated_block f') < 2 ^ 64"
    "extents_from 0 ext' (unat bs * unat (wf_last_preallocated_block f'))"
    "unat bs * unat (wf_last_preallocated_block f) \<le> unat bs * unat (wf_last_preallocated_block f')"
    "unat offset + unat len \<le> unat bs * unat (wf_last_preallocated_block f')"
    "wf_last_preallocated_block f' = wf_last_preallocated_block f \<or>
     unat bs * unat (wf_last_preallocated_block f') < unat offset + unat len + unat bs"
proof -
  let ?l = "wf_last_preallocated_block f" and ?n = "(offset + len + bs - 1) div bs"
  note need = blocks_needed [OF bs(1) fits]
  have "wf_preallocation_block_size f' = bs \<and> unat bs * unat (wf_last_preallocated_block f') < 2 ^ 64 \<and>
    extents_from 0 ext' (unat bs * unat (wf_last_preallocated_block f')) \<and>
    unat bs * unat ?l \<le> unat bs * unat (wf_last_preallocated_block f') \<and>
    unat offset + unat len \<le> unat bs * unat (wf_last_preallocated_block f') \<and>
    (wf_last_preallocated_block f' = ?l \<or> unat bs * unat (wf_last_preallocated_block f') < unat offset + unat len + unat bs)"
  proof (cases "?n > ?l")
    case False
    then have "f' = f" "ext' = ext" "unat ?n \<le> unat ?l"
      using run bs by (simp_all add: WritableFile_PrepareWrite_def word_less_nat_alt)
    moreover from this(3) have "unat offset + unat len \<le> unat bs * unat ?l"
      using need mult_le_mono2 [of "unat ?n" "unat ?l" "unat bs"] by linarith
    ultimately show ?thesis
      using bs ext by simp
  next
    case True
    then have "f' = f\<lparr>wf_last_preallocated_block := ?n\<rparr>" "ext' = ext @ [(bs * ?l, bs * (?n - ?l))]"
      using run bs by (simp_all add: WritableFile_PrepareWrite_def log_extent_def Let_def)
    moreover have lt: "unat ?l < unat ?n"
      using True by (simp add: word_less_nat_alt)
    moreover have sub: "unat (?n - ?l) = unat ?n - unat ?l"
      using lt by (intro unat_sub) (simp add: word_le_nat_alt)
    moreover have "unat bs * (unat ?n - unat ?l) = unat bs * unat ?n - unat bs * unat ?l"
      by (rule diff_mult_distrib2)
    moreover have "unat bs * unat ?l < unat bs * unat ?n"
      using lt bs(1) by (simp add: unat_gt_0)
    ultimately show ?thesis
      using need bs ext by (auto simp: extents_from_append unat_mult_small)
  qed
  then show "wf_preallocation_block_size f' = bs" "unat bs * unat (wf_last_preallocated_block f') < 2 ^ 64"
    "extents_from 0 ext' (unat bs * unat (wf_last_preallocated_block f'))"
    "unat bs * unat ?l \<le> unat bs * unat (wf_last_preallocated_block f')"
    "unat offset + unat len \<le> unat bs * unat (wf_last_preallocated_block f')"
    "wf_last_preallocated_block f' = ?l \<or> unat bs * unat (wf_last_preallocated_block f') < unat offset + unat len + unat bs"
    by blast+
qed

lemma prepare_writes_block_size:
  "prepare_writes Allocate f ws w = (f', w') \<Longrightarrow> wf_preallocation_block_size f' = wf_preallocation_block_size f"
  by (induction Allocate f ws w rule: prepare_writes.induct)
    (auto simp: WritableFile_PrepareWrite_def Let_def split: if_splits prod.splits)

lemma prepare_writes_run:
  assumes "bs \<noteq> 0" "wf_preallocation_block_size f = bs" "unat bs * unat (wf_last_preallocated_block f) < 2 ^ 64"
    "\<forall>(offset, len) \<in> set ws. unat offset + unat len + unat bs \<le> 2 ^ 64"
    "extents_from 0 ext (unat bs * unat (wf_last_preallocated_block f))"
    "prepare_writes (log_extent st) f ws ext = (f', ext')"
  shows "extents_from 0 ext' (unat bs * unat (wf_last_preallocated_block f')) \<and>
    unat bs * unat (wf_last_preallocated_block f) \<le> unat bs * unat (wf_last_preallocated_block f') \<and>
    (\<forall>(offset, len) \<in> set ws. unat offset + unat len \<le> unat bs * unat (wf_last_preallocated_block f')) \<and>
    (wf_last_preallocated_block f' = wf_last_preallocated_block f \<or>
     (\<exists>(offset, len) \<in> set ws. unat bs * unat (wf_last_preallocated_block f') < unat offset + unat len + unat bs))"
  using assms(2-)
proof (induction ws arbitrary: f ext)
  case (Cons a ws)
  obtain offset len where a: "a = (offset, len)"
    by fastforce
  obtain f1 ext1 where one: "WritableFile_PrepareWrite (log_extent st) f offset len ext = (f1, ext1)"
    by fastforce
  have fits: "unat offset + unat len + unat bs \<le> 2 ^ 64"
    using Cons.prems(3) a by simp
  note step = PrepareWrite_step [OF assms(1) Cons.prems(1,2) fits Cons.prems(4) one]
  have "prepare_writes (log_extent st) f1 ws ext1 = (f', ext')"
    using Cons.prems(5) one a by simp
  from Cons.IH [OF step(1,2) _ step(3) this] Cons.prems(3)
  have rest: "extents_from 0 ext' (unat bs * unat (wf_last_preallocated_block f'))"
    "unat bs * unat (wf_last_preallocated_block f1) \<le> unat bs * unat (wf_last_preallocated_block f')"
    "\<forall>(offset, len) \<in> set ws. unat offset + unat len \<le> unat bs * unat (wf_last_preallocated_block f')"
    "wf_last_preallocated_block f' = wf_last_preallocated_block f1 \<or>
     (\<exists>(offset, len) \<in> set ws. unat bs * unat (wf_last_preallocated_block f') < unat offset + unat len + unat bs)"
    by simp_all
  have "unat offset + unat len \<le> unat bs * unat (wf_last_preallocated_block f')"
    "unat bs * unat (wf_last_preallocated_block f) \<le> unat bs * unat (wf_last_preallocated_block f')"
    using rest(2) step(4,5) by linarith+
  moreover have "wf_last_preallocated_block f' = wf_last_preallocated_block f \<or>
     unat bs * unat (wf_last_preallocated_block f') < unat offset + unat len + unat bs \<or>
     (\<exists>(offset, len) \<in> set ws. unat bs * unat (wf_last_preallocated_block f') < unat offset + unat len + unat bs)"
    using rest(4) step(6) by auto
  ultimately show ?case
    using rest(1,3) a by (simp only: list.set ball_simps bex_simps prod.case)
qed auto

text \<open>
  C23: preallocation. Whatever writes are prepared on a new file with block size \<open>bs\<close> (below the
  \<open>size_t\<close> range), the extents \<open>PrepareWrite\<close> asks \<open>Allocate\<close> for follow each other from offset 0 to
  the end of the last block without gap or overlap, they cover every prepared write, and they end less than one block
  behind the end of some prepared write; whatever status \<open>Allocate\<close> gives.
\<close>

theorem prepare_write_preallocates:
  assumes "bs \<noteq> 0" "\<forall>(offset, len) \<in> set ws. unat offset + unat len + unat bs \<le> 2 ^ 64"
    and "f = WritableFile_SetPreallocationBlockSize (WritableFile_of_options options) bs"
    and "prepare_writes (log_extent st) f ws [] = (f', ext)"
    and "E = unat (fst (WritableFile_GetPreallocationStatus f')) * unat (snd (WritableFile_GetPreallocationStatus f'))"
  shows "extents_from 0 ext E \<and> (\<forall>(offset, len) \<in> set ws. unat offset + unat len \<le> E) \<and>
    (E = 0 \<or> (\<exists>(offset, len) \<in> set ws. E < unat offset + unat len + unat bs))"
proof -
  have f: "wf_preallocation_block_size f = bs" "wf_last_preallocated_block f = 0"
    using assms(3) by (simp_all add: WritableFile_SetPreallocationBlockSize_def WritableFile_of_options_def)
  have "wf_preallocation_block_size f' = bs"
    using prepare_writes_block_size [OF assms(4)] f by simp
  then have "E = unat bs * unat (wf_last_preallocated_block f')"
    using assms(5) by (simp add: WritableFile_GetPreallocationStatus_def)
  then show ?thesis
    using prepare_writes_run [OF assms(1) f(1) _ assms(2) _ assms(4)] f(2) by auto
qed

theorem prepare_write_preallocates_witness:
  "extents_from 0 [(0, 8), (8, 4)] 12 \<and>
    snd (prepare_writes (log_extent ()) (WritableFile_SetPreallocationBlockSize (WritableFile_of_options EnvOptions_inits) 4)
      [(0, 5), (6, 2), (9, 1)] []) = [(0, 8), (8, 4)]"
proof -
  let ?f = "WritableFile_SetPreallocationBlockSize (WritableFile_of_options EnvOptions_inits) 4"
  have run: "prepare_writes (log_extent ()) ?f [(0, 5), (6, 2), (9, 1)] [] = (?f\<lparr>wf_last_preallocated_block := 3\<rparr>, [(0, 8), (8, 4)])"
    by (simp add: WritableFile_PrepareWrite_def WritableFile_SetPreallocationBlockSize_def WritableFile_of_options_def log_extent_def)
  show ?thesis
    using prepare_write_preallocates [OF _ _ refl run, of 12] run
    by (simp add: WritableFile_SetPreallocationBlockSize_def WritableFile_of_options_def WritableFile_GetPreallocationStatus_def)
qed

end
