(* ===== verification/File_Metadata.thy ===== *)
theory File_Metadata
  imports Env_Files
begin

text \<open>
  \<open>rocksdb/metadata.h\<close>, \<open>rocksdb/utilities/backup_engine.h\<close> and \<open>rocksdb/utilities/transaction_db.h\<close>: the
  descriptions of files, the options of backups with the naming of shared files as bits of a 32-bit
  word, the older overloads of the backup calls, and the data of the transaction database. Asserts
  are guards.
\<close>

section \<open>Descriptions of files\<close>

record FileStorageInfo =
  fsi_relative_filename :: string
  fsi_directory :: string
  fsi_file_number :: "64 word"
  fsi_file_type :: FileType
  fsi_size :: "64 word"
  fsi_temperature :: Temperature
  fsi_file_checksum :: string
  fsi_file_checksum_func_name :: string

definition FileStorageInfo_default :: FileStorageInfo where
  "FileStorageInfo_default =
     \<lparr>fsi_relative_filename = [], fsi_directory = [], fsi_file_number = 0, fsi_file_type = kTempFile, fsi_size = 0,
      fsi_temperature = kUnknown, fsi_file_checksum = [], fsi_file_checksum_func_name = []\<rparr>"

record LiveFileStorageInfo = FileStorageInfo +
  lfs_replacement_contents :: string
  lfs_trim_to_size :: bool

definition LiveFileStorageInfo_default :: LiveFileStorageInfo where
  "LiveFileStorageInfo_default =
     FileStorageInfo.extend FileStorageInfo_default (LiveFileStorageInfo.fields [] False)"

record SstFileMetaData = FileStorageInfo +
  sst_smallest_seqno :: SequenceNumber
  sst_largest_seqno :: SequenceNumber
  sst_smallestkey :: string
  sst_largestkey :: string
  sst_num_reads_sampled :: "64 word"
  sst_being_compacted :: bool
  sst_num_entries :: "64 word"
  sst_num_deletions :: "64 word"
  sst_oldest_blob_file_number :: "64 word"
  sst_oldest_ancester_time :: "64 word"
  sst_file_creation_time :: "64 word"
  sst_name :: string
  sst_db_path :: string

definition SstFileMetaData_default :: SstFileMetaData where
  "SstFileMetaData_default =
     FileStorageInfo.extend FileStorageInfo_default (SstFileMetaData.fields 0 0 [] [] 0 False 0 0 0 0 0 [] [])"

text \<open>
  The relative file name and the deprecated name with a leading slash. Indexing a \<open>std::string\<close> at its
  size gives NUL.
\<close>

definition first_char :: "string \<Rightarrow> char" where
  "first_char s = (case s of [] \<Rightarrow> NUL | c # _ \<Rightarrow> c)"

definition sst_file_names :: "string \<Rightarrow> (string \<times> string) result" where
  "sst_file_names file_name =
     (if file_name \<noteq> [] then
        let (relative_filename, name) =
          (if first_char file_name = CHR ''/'' then (drop 1 file_name, file_name) else (file_name, ''/'' @ file_name)) in
        bindr (guard Assertion_failed (length relative_filename + 1 = length name)) (\<lambda>_.
        bindr (guard Assertion_failed (first_char relative_filename \<noteq> CHR ''/'')) (\<lambda>_.
        bindr (guard Assertion_failed (first_char name = CHR ''/'')) (\<lambda>_. Inr (relative_filename, name))))
      else Inr ([], []))"

definition SstFileMetaData_of ::
    "string \<Rightarrow> 64 word \<Rightarrow> string \<Rightarrow> 64 word \<Rightarrow> SequenceNumber \<Rightarrow> SequenceNumber \<Rightarrow> string \<Rightarrow> string \<Rightarrow> 64 word \<Rightarrow> bool \<Rightarrow>
     Temperature \<Rightarrow> 64 word \<Rightarrow> 64 word \<Rightarrow> 64 word \<Rightarrow> string \<Rightarrow> string \<Rightarrow> SstFileMetaData result" where
  "SstFileMetaData_of file_name file_number directory sz smallest_seqno largest_seqno smallestkey largestkey
       num_reads_sampled being_compacted temperature oldest_blob_file_number oldest_ancester_time file_creation_time
       file_checksum file_checksum_func_name =
     bindr (sst_file_names file_name) (\<lambda>(relative_filename, name).
     Inr \<lparr>fsi_relative_filename = relative_filename, fsi_directory = directory, fsi_file_number = file_number,
          fsi_file_type = kTableFile, fsi_size = sz, fsi_temperature = temperature, fsi_file_checksum = file_checksum,
          fsi_file_checksum_func_name = file_checksum_func_name, sst_smallest_seqno = smallest_seqno,
          sst_largest_seqno = largest_seqno, sst_smallestkey = smallestkey, sst_largestkey = largestkey,
          sst_num_reads_sampled = num_reads_sampled, sst_being_compacted = being_compacted, sst_num_entries = 0,
          sst_num_deletions = 0, sst_oldest_blob_file_number = oldest_blob_file_number,
          sst_oldest_ancester_time = oldest_ancester_time, sst_file_creation_time = file_creation_time,
          sst_name = name, sst_db_path = directory\<rparr>)"

record LiveFileMetaData = SstFileMetaData +
  lfm_column_family_name :: string
  lfm_level :: c_int

definition LiveFileMetaData_default :: LiveFileMetaData where
  "LiveFileMetaData_default = SstFileMetaData.extend SstFileMetaData_default (LiveFileMetaData.fields [] 0)"

record BlobMetaData =
  blob_file_number :: "64 word"
  blob_file_name :: string
  blob_file_path :: string
  blob_file_size :: "64 word"
  blob_total_blob_count :: "64 word"
  blob_total_blob_bytes :: "64 word"
  blob_garbage_blob_count :: "64 word"
  blob_garbage_blob_bytes :: "64 word"
  blob_checksum_method :: string
  blob_checksum_value :: string

definition BlobMetaData_default :: BlobMetaData where
  "BlobMetaData_default =
     \<lparr>blob_file_number = 0, blob_file_name = [], blob_file_path = [], blob_file_size = 0, blob_total_blob_count = 0,
      blob_total_blob_bytes = 0, blob_garbage_blob_count = 0, blob_garbage_blob_bytes = 0, blob_checksum_method = [],
      blob_checksum_value = []\<rparr>"

definition BlobMetaData_of ::
    "64 word \<Rightarrow> string \<Rightarrow> string \<Rightarrow> 64 word \<Rightarrow> 64 word \<Rightarrow> 64 word \<Rightarrow> 64 word \<Rightarrow> 64 word \<Rightarrow> string \<Rightarrow> string \<Rightarrow> BlobMetaData" where
  "BlobMetaData_of file_number file_name file_path file_size total_blob_count total_blob_bytes garbage_blob_count
       garbage_blob_bytes file_checksum file_checksum_func_name =
     \<lparr>blob_file_number = file_number, blob_file_name = file_name, blob_file_path = file_path, blob_file_size = file_size,
      blob_total_blob_count = total_blob_count, blob_total_blob_bytes = total_blob_bytes,
      blob_garbage_blob_count = garbage_blob_count, blob_garbage_blob_bytes = garbage_blob_bytes,
      blob_checksum_method = file_checksum, blob_checksum_value = file_checksum_func_name\<rparr>"

record LevelMetaData =
  lvl_level :: c_int
  lvl_size :: "64 word"
  lvl_files :: "SstFileMetaData list"

definition LevelMetaData_of :: "c_int \<Rightarrow> 64 word \<Rightarrow> SstFileMetaData list \<Rightarrow> LevelMetaData" where
  "LevelMetaData_of level sz files = \<lparr>lvl_level = level, lvl_size = sz, lvl_files = files\<rparr>"

record ColumnFamilyMetaData =
  cfm_size :: "64 word"
  cfm_file_count :: "64 word"
  cfm_name :: string
  cfm_levels :: "LevelMetaData list"
  cfm_blob_file_size :: "64 word"
  cfm_blob_file_count :: "64 word"
  cfm_blob_files :: "BlobMetaData list"

definition ColumnFamilyMetaData_default :: ColumnFamilyMetaData where
  "ColumnFamilyMetaData_default =
     \<lparr>cfm_size = 0, cfm_file_count = 0, cfm_name = [], cfm_levels = [], cfm_blob_file_size = 0, cfm_blob_file_count = 0,
      cfm_blob_files = []\<rparr>"

text \<open>\<open>file_count\<close> has no initialiser and is left as it is in the memory of the object.\<close>

definition ColumnFamilyMetaData_of :: "64 word \<Rightarrow> string \<Rightarrow> 64 word \<Rightarrow> LevelMetaData list \<Rightarrow> ColumnFamilyMetaData" where
  "ColumnFamilyMetaData_of memory name sz levels =
     \<lparr>cfm_size = sz, cfm_file_count = memory, cfm_name = name, cfm_levels = levels, cfm_blob_file_size = 0,
      cfm_blob_file_count = 0, cfm_blob_files = []\<rparr>"

record ExportImportFilesMetaData =
  eif_db_comparator_name :: string
  eif_files :: "LiveFileMetaData list"

text \<open>A leading slash makes no difference, two are an assertion failure; the name is the relative one behind a slash.\<close>

lemma sst_file_names_result:
  "sst_file_names (CHR ''/'' # f) = (if first_char f = CHR ''/'' then Inl Assertion_failed else Inr (f, CHR ''/'' # f))"
  "f \<noteq> [] \<Longrightarrow> first_char f \<noteq> CHR ''/'' \<Longrightarrow> sst_file_names f = Inr (f, CHR ''/'' # f)"
  by (auto simp: sst_file_names_def first_char_def split: list.splits)

section \<open>Options of backups\<close>

text \<open>\<open>ShareFilesNaming\<close> is used as a set of bits.\<close>

type_synonym ShareFilesNaming = "32 word"

definition kLegacyCrc32cAndFileSize :: ShareFilesNaming where
  "kLegacyCrc32cAndFileSize = 1"

definition kUseDbSessionId :: ShareFilesNaming where
  "kUseDbSessionId = 2"

definition kMaskNoNamingFlags :: ShareFilesNaming where
  "kMaskNoNamingFlags = 0xffff"

definition kFlagIncludeFileSize :: ShareFilesNaming where
  "kFlagIncludeFileSize = push_bit 31 1"

definition kMaskNamingFlags :: ShareFilesNaming where
  "kMaskNamingFlags = not kMaskNoNamingFlags"

record BackupEngineOptions =
  beo_backup_dir :: string
  beo_backup_env :: "handle option"
  beo_share_table_files :: bool
  beo_info_log :: "handle option"
  beo_sync :: bool
  beo_destroy_old_data :: bool
  beo_backup_log_files :: bool
  beo_backup_rate_limit :: "64 word"
  beo_backup_rate_limiter :: "handle option"
  beo_restore_rate_limit :: "64 word"
  beo_restore_rate_limiter :: "handle option"
  beo_share_files_with_checksum :: bool
  beo_max_background_operations :: c_int
  beo_callback_trigger_interval_size :: "64 word"
  beo_max_valid_backups_to_open :: c_int
  beo_share_files_with_checksum_naming :: ShareFilesNaming

definition BackupEngineOptions_of ::
    "string \<Rightarrow> handle option \<Rightarrow> bool \<Rightarrow> handle option \<Rightarrow> bool \<Rightarrow> bool \<Rightarrow> bool \<Rightarrow> 64 word \<Rightarrow> 64 word \<Rightarrow> c_int \<Rightarrow> 64 word \<Rightarrow> c_int \<Rightarrow>
     ShareFilesNaming \<Rightarrow> BackupEngineOptions result" where
  "BackupEngineOptions_of backup_dir backup_env share_table_files info_log sync destroy_old_data backup_log_files
       backup_rate_limit restore_rate_limit max_background_operations callback_trigger_interval_size
       max_valid_backups_to_open share_files_with_checksum_naming =
     (let share_files_with_checksum = True in
      bindr (guard Assertion_failed (share_table_files \<or> \<not> share_files_with_checksum)) (\<lambda>_.
      bindr (guard Assertion_failed (and share_files_with_checksum_naming kMaskNoNamingFlags \<noteq> 0)) (\<lambda>_.
      Inr \<lparr>beo_backup_dir = backup_dir, beo_backup_env = backup_env, beo_share_table_files = share_table_files,
           beo_info_log = info_log, beo_sync = sync, beo_destroy_old_data = destroy_old_data,
           beo_backup_log_files = backup_log_files, beo_backup_rate_limit = backup_rate_limit, beo_backup_rate_limiter = None,
           beo_restore_rate_limit = restore_rate_limit, beo_restore_rate_limiter = None,
           beo_share_files_with_checksum = share_files_with_checksum,
           beo_max_background_operations = max_background_operations,
           beo_callback_trigger_interval_size = callback_trigger_interval_size,
           beo_max_valid_backups_to_open = max_valid_backups_to_open,
           beo_share_files_with_checksum_naming = share_files_with_checksum_naming\<rparr>)))"

text \<open>The default arguments.\<close>

definition BackupEngineOptions_default :: "string \<Rightarrow> BackupEngineOptions result" where
  "BackupEngineOptions_default backup_dir =
     BackupEngineOptions_of backup_dir None True None True False True 0 0 1 (4 * 1024 * 1024) 0x7FFFFFFF
       (or kUseDbSessionId kFlagIncludeFileSize)"

definition naming_and :: "ShareFilesNaming \<Rightarrow> ShareFilesNaming \<Rightarrow> ShareFilesNaming result" where
  "naming_and l r =
     bindr (guard Assertion_failed (r = kMaskNoNamingFlags \<or> and r kMaskNoNamingFlags = 0)) (\<lambda>_. Inr (and l r))"

definition naming_or :: "ShareFilesNaming \<Rightarrow> ShareFilesNaming \<Rightarrow> ShareFilesNaming result" where
  "naming_or l r = bindr (guard Assertion_failed (and r kMaskNoNamingFlags = 0)) (\<lambda>_. Inr (or l r))"

text \<open>The callback acts on the world; the default one does nothing.\<close>

record 'w CreateBackupOptions =
  cbo_flush_before_backup :: bool
  cbo_progress_callback :: "'w \<Rightarrow> 'w"
  cbo_decrease_background_thread_cpu_priority :: bool
  cbo_background_thread_cpu_priority :: CpuPriority

definition CreateBackupOptions_default :: "'w CreateBackupOptions" where
  "CreateBackupOptions_default =
     \<lparr>cbo_flush_before_backup = False, cbo_progress_callback = (\<lambda>w. w), cbo_decrease_background_thread_cpu_priority = False,
      cbo_background_thread_cpu_priority = kNormal\<rparr>"

record RestoreOptions =
  rso_keep_log_files :: bool

definition RestoreOptions_of :: "bool \<Rightarrow> RestoreOptions" where
  "RestoreOptions_of keep_log_files = \<lparr>rso_keep_log_files = keep_log_files\<rparr>"

type_synonym BackupID = "32 word"

record BackupInfo =
  bki_backup_id :: BackupID
  bki_timestamp :: "64 word"
  bki_size :: "64 word"
  bki_number_files :: "32 word"
  bki_app_metadata :: string
  bki_file_details :: "FileStorageInfo list"
  bki_name_for_open :: string
  bki_env_for_open :: "handle option"

definition BackupInfo_default :: BackupInfo where
  "BackupInfo_default =
     \<lparr>bki_backup_id = 0, bki_timestamp = 0, bki_size = 0, bki_number_files = 0, bki_app_metadata = [], bki_file_details = [],
      bki_name_for_open = [], bki_env_for_open = None\<rparr>"

definition BackupInfo_of :: "BackupID \<Rightarrow> 64 word \<Rightarrow> 64 word \<Rightarrow> 32 word \<Rightarrow> string \<Rightarrow> BackupInfo" where
  "BackupInfo_of backup_id timestamp sz number_files app_metadata =
     BackupInfo_default\<lparr>bki_backup_id := backup_id, bki_timestamp := timestamp, bki_size := sz,
       bki_number_files := number_files, bki_app_metadata := app_metadata\<rparr>"

record BackupStatistics =
  bks_number_success_backup :: "32 word"
  bks_number_fail_backup :: "32 word"

definition BackupStatistics_default :: BackupStatistics where
  "BackupStatistics_default = \<lparr>bks_number_success_backup = 0, bks_number_fail_backup = 0\<rparr>"

definition BackupStatistics_of :: "32 word \<Rightarrow> 32 word \<Rightarrow> BackupStatistics" where
  "BackupStatistics_of success fail = \<lparr>bks_number_success_backup = success, bks_number_fail_backup = fail\<rparr>"

text \<open>The older overloads, over the members they call.\<close>

definition RestoreDBFromBackup_old ::
    "(RestoreOptions \<Rightarrow> BackupID \<Rightarrow> string \<Rightarrow> string \<Rightarrow> 'w \<Rightarrow> 's \<times> 'w) \<Rightarrow> BackupID \<Rightarrow> string \<Rightarrow> string \<Rightarrow> RestoreOptions \<Rightarrow> 'w \<Rightarrow> 's \<times> 'w" where
  "RestoreDBFromBackup_old Restore backup_id db_dir wal_dir options w = Restore options backup_id db_dir wal_dir w"

definition RestoreDBFromLatestBackup_old ::
    "(RestoreOptions \<Rightarrow> string \<Rightarrow> string \<Rightarrow> 'w \<Rightarrow> 's \<times> 'w) \<Rightarrow> string \<Rightarrow> string \<Rightarrow> RestoreOptions \<Rightarrow> 'w \<Rightarrow> 's \<times> 'w" where
  "RestoreDBFromLatestBackup_old Restore db_dir wal_dir options w = Restore options db_dir wal_dir w"

type_synonym ('db, 's, 'w) create_backup = "'w CreateBackupOptions \<Rightarrow> 'db \<Rightarrow> string \<Rightarrow> BackupID option \<Rightarrow> 'w \<Rightarrow> 's \<times> 'w"

definition CreateNewBackupWithMetadata_old ::
    "('db, 's, 'w) create_backup \<Rightarrow> 'db \<Rightarrow> string \<Rightarrow> bool \<Rightarrow> ('w \<Rightarrow> 'w) \<Rightarrow> 'w \<Rightarrow> 's \<times> 'w" where
  "CreateNewBackupWithMetadata_old create db app_metadata flush_before_backup progress_callback w =
     (let options = CreateBackupOptions_default;
          options = options\<lparr>cbo_flush_before_backup := flush_before_backup\<rparr>;
          options = options\<lparr>cbo_progress_callback := progress_callback\<rparr> in
      create options db app_metadata None w)"

definition CreateNewBackup :: "('db, 's, 'w) create_backup \<Rightarrow> 'w CreateBackupOptions \<Rightarrow> 'db \<Rightarrow> BackupID option \<Rightarrow> 'w \<Rightarrow> 's \<times> 'w" where
  "CreateNewBackup create options db new_backup_id w = create options db [] new_backup_id w"

definition CreateNewBackup_old :: "('db, 's, 'w) create_backup \<Rightarrow> 'db \<Rightarrow> bool \<Rightarrow> ('w \<Rightarrow> 'w) \<Rightarrow> 'w \<Rightarrow> 's \<times> 'w" where
  "CreateNewBackup_old create db flush_before_backup progress_callback w =
     (let options = CreateBackupOptions_default;
          options = options\<lparr>cbo_flush_before_backup := flush_before_backup\<rparr>;
          options = options\<lparr>cbo_progress_callback := progress_callback\<rparr> in
      CreateNewBackup create options db None w)"

text \<open>
  The constructor sets \<open>share_files_with_checksum\<close> before it asserts, so no caller can ask for backups
  that share no files, the documented use of \<open>share_table_files = false\<close>; otherwise it takes every naming that has a base.
\<close>

lemma unshared_backups_assert:
  "BackupEngineOptions_of dir env False logger sync destroy logs brl rrl ops trigger mx naming = Inl Assertion_failed"
  by (simp add: BackupEngineOptions_of_def)

lemma shared_backups_options:
  "and naming kMaskNoNamingFlags \<noteq> 0 \<Longrightarrow>
     \<exists>o'. BackupEngineOptions_of dir env True logger sync destroy logs brl rrl ops trigger mx naming = Inr o' \<and>
       beo_share_files_with_checksum o' \<and> beo_share_files_with_checksum_naming o' = naming"
  by (simp add: BackupEngineOptions_of_def)

lemma default_backup_options: "\<exists>o'. BackupEngineOptions_default dir = Inr o'"
  by (simp add: BackupEngineOptions_default_def BackupEngineOptions_of_def kUseDbSessionId_def kFlagIncludeFileSize_def
      kMaskNoNamingFlags_def)

text \<open>A flag added to a naming leaves its base as it is and can be read back.\<close>

lemma naming_flag_round_trip:
  assumes "and flag kMaskNoNamingFlags = 0"
  shows "\<exists>n. naming_or l flag = Inr n \<and> naming_and n kMaskNoNamingFlags = Inr (and l kMaskNoNamingFlags) \<and>
    naming_and n kMaskNamingFlags = Inr (or (and l kMaskNamingFlags) flag)"
proof -
  have "and (or l flag) kMaskNoNamingFlags = and l kMaskNoNamingFlags"
    using assms by (simp add: bit.conj_disj_distrib2)
  moreover have "and flag kMaskNamingFlags = flag"
    unfolding kMaskNamingFlags_def using assms
    by (intro bit_word_eqI) (auto simp: bit_and_iff bit_not_iff dest: arg_cong [of _ 0 "\<lambda>w. bit w n" for n])
  moreover have "and kMaskNamingFlags kMaskNoNamingFlags = 0"
    by (simp add: kMaskNamingFlags_def)
  ultimately show ?thesis
    using assms by (simp add: naming_or_def naming_and_def bit.conj_disj_distrib2)
qed

section \<open>Transaction databases\<close>

definition kInitialMaxDeadlocks :: "32 word" where
  "kInitialMaxDeadlocks = 5"

datatype TxnDBWritePolicy = WRITE_COMMITTED | WRITE_PREPARED | WRITE_UNPREPARED

type_synonym TransactionID = "64 word"

record EndpointWithString =
  ep_slice :: string
  ep_inf_suffix :: bool

record RangeDeadlockInfo =
  rdi_m_txn_id :: TransactionID
  rdi_m_cf_id :: "32 word"
  rdi_m_exclusive :: bool
  rdi_m_start :: EndpointWithString
  rdi_m_end :: EndpointWithString

record DeadlockInfo =
  dli_m_txn_id :: TransactionID
  dli_m_cf_id :: "32 word"
  dli_m_exclusive :: bool
  dli_m_waiting_key :: string

text \<open>\<open>RangeDeadlockPath\<close> and \<open>DeadlockPath\<close> differ in the type of their entries.\<close>

record 'i DeadlockPath =
  dlp_path :: "'i list"
  dlp_limit_exceeded :: bool
  dlp_deadlock_time :: "64 word"

definition DeadlockPath_of_path :: "'i list \<Rightarrow> 64 word \<Rightarrow> 'i DeadlockPath" where
  "DeadlockPath_of_path path_entry dl_time = \<lparr>dlp_path = path_entry, dlp_limit_exceeded = False, dlp_deadlock_time = dl_time\<rparr>"

definition DeadlockPath_of_time :: "64 word \<Rightarrow> bool \<Rightarrow> 'i DeadlockPath" where
  "DeadlockPath_of_time dl_time limit = \<lparr>dlp_path = [], dlp_limit_exceeded = limit, dlp_deadlock_time = dl_time\<rparr>"

definition DeadlockPath_empty :: "'i DeadlockPath \<Rightarrow> bool" where
  "DeadlockPath_empty p \<longleftrightarrow> dlp_path p = [] \<and> \<not> dlp_limit_exceeded p"

record KeyLockInfo =
  kli_key :: string
  kli_ids :: "TransactionID list"
  kli_exclusive :: bool

record RangeLockInfo =
  rli_start :: EndpointWithString
  rli_end :: EndpointWithString
  rli_ids :: "TransactionID list"
  rli_exclusive :: bool

record TransactionDBOptions =
  tdo_max_num_locks :: "64 word"
  tdo_max_num_deadlocks :: "32 word"
  tdo_num_stripes :: "64 word"
  tdo_transaction_lock_timeout :: "64 word"
  tdo_default_lock_timeout :: "64 word"
  tdo_custom_mutex_factory :: "handle option"
  tdo_write_policy :: TxnDBWritePolicy
  tdo_rollback_merge_operands :: bool
  tdo_lock_mgr_handle :: "handle option"
  tdo_skip_concurrency_control :: bool
  tdo_default_write_batch_flush_threshold :: "64 word"
  tdo_wp_snapshot_cache_bits :: "64 word"
  tdo_wp_commit_cache_bits :: "64 word"
  tdo_autogenerate_name :: bool

definition TransactionDBOptions_default :: TransactionDBOptions where
  "TransactionDBOptions_default =
     \<lparr>tdo_max_num_locks = - 1, tdo_max_num_deadlocks = kInitialMaxDeadlocks, tdo_num_stripes = 16,
      tdo_transaction_lock_timeout = 1000, tdo_default_lock_timeout = 1000, tdo_custom_mutex_factory = None,
      tdo_write_policy = WRITE_COMMITTED, tdo_rollback_merge_operands = False, tdo_lock_mgr_handle = None,
      tdo_skip_concurrency_control = False, tdo_default_write_batch_flush_threshold = 0,
      tdo_wp_snapshot_cache_bits = 7, tdo_wp_commit_cache_bits = 23, tdo_autogenerate_name = False\<rparr>"

record TransactionOptions =
  txo_set_snapshot :: bool
  txo_deadlock_detect :: bool
  txo_use_only_the_last_commit_time_batch_for_recovery :: bool
  txo_lock_timeout :: "64 word"
  txo_expiration :: "64 word"
  txo_deadlock_detect_depth :: "64 word"
  txo_max_write_batch_size :: "64 word"
  txo_skip_concurrency_control :: bool
  txo_skip_prepare :: bool
  txo_write_batch_flush_threshold :: "64 word"

definition TransactionOptions_default :: TransactionOptions where
  "TransactionOptions_default =
     \<lparr>txo_set_snapshot = False, txo_deadlock_detect = False, txo_use_only_the_last_commit_time_batch_for_recovery = False,
      txo_lock_timeout = - 1, txo_expiration = - 1, txo_deadlock_detect_depth = 50, txo_max_write_batch_size = 0,
      txo_skip_concurrency_control = False, txo_skip_prepare = True, txo_write_batch_flush_threshold = - 1\<rparr>"

record TransactionDBWriteOptimizations =
  two_skip_concurrency_control :: bool
  two_skip_duplicate_key_check :: bool

definition TransactionDBWriteOptimizations_default :: TransactionDBWriteOptimizations where
  "TransactionDBWriteOptimizations_default = \<lparr>two_skip_concurrency_control = False, two_skip_duplicate_key_check = False\<rparr>"

text \<open>The overload of \<open>Write\<close> ignores its optimizations; ranges cannot be deleted in transactions.\<close>

definition TransactionDB_Write ::
    "(WriteOptions \<Rightarrow> 'b \<Rightarrow> 'w \<Rightarrow> Status \<times> 'w) \<Rightarrow> WriteOptions \<Rightarrow> TransactionDBWriteOptimizations \<Rightarrow> 'b \<Rightarrow> 'w \<Rightarrow> Status \<times> 'w" where
  "TransactionDB_Write Write opts optimizations updates w = Write opts updates w"

definition TransactionDB_DeleteRange :: Status where
  "TransactionDB_DeleteRange = Status_NotSupported kNone"

end
