(* ===== verification/Stackable.thy ===== *)
theory Stackable
  imports Column_Families File_Metadata
begin

text \<open>
  \<open>rocksdb/utilities/stackable_db.h\<close>: a database that forwards its virtual members to another one it owns,
  alone or together with others. The members of \<open>db_class\<close> and a second record \<open>db_vtable\<close> with the
  virtual members outside a column family's reads and writes are forwarded one by one; those the class
  does not override keep the defaults of \<open>DB\<close>. The properties say what a stacked database keeps of the
  database below it and which calls it loses.
\<close>

section \<open>The object\<close>

text \<open>
  \<open>db_\<close> and \<open>shared_db_ptr_\<close> as addresses (\<open>None\<close> is null), and the object \<open>db_\<close> points to, which the
  calls read and change.
\<close>

record 'd StackableDB =
  sdb_db :: "nat option"
  sdb_shared_db_ptr :: "nat option"
  sdb_object :: 'd

definition StackableDB_of :: "nat option \<Rightarrow> 'd \<Rightarrow> 'd StackableDB" where
  "StackableDB_of db d = \<lparr>sdb_db = db, sdb_shared_db_ptr = None, sdb_object = d\<rparr>"

definition StackableDB_of_shared :: "nat option \<Rightarrow> 'd \<Rightarrow> 'd StackableDB" where
  "StackableDB_of_shared db d = \<lparr>sdb_db = db, sdb_shared_db_ptr = db, sdb_object = d\<rparr>"

text \<open>The destructor, with the addresses it deletes; deleting null does nothing.\<close>

definition StackableDB_dtor :: "'d StackableDB \<Rightarrow> (nat list \<times> 'd StackableDB) result" where
  "StackableDB_dtor s =
     (if sdb_shared_db_ptr s = None
      then Inr (case sdb_db s of None \<Rightarrow> [] | Some p \<Rightarrow> [p], s\<lparr>sdb_db := None\<rparr>)
      else bindr (guard Assertion_failed (sdb_shared_db_ptr s = sdb_db s)) (\<lambda>_. Inr ([], s\<lparr>sdb_db := None\<rparr>)))"

definition StackableDB_GetBaseDB :: "'d StackableDB \<Rightarrow> nat option" where
  "StackableDB_GetBaseDB s = sdb_db s"

text \<open>A call through \<open>db_\<close> that changes the database below.\<close>

definition on_base :: "('d \<Rightarrow> 'r \<times> 'd) \<Rightarrow> 'd StackableDB \<Rightarrow> 'r \<times> 'd StackableDB" where
  "on_base f s = (let (r, d) = f (sdb_object s) in (r, s\<lparr>sdb_object := d\<rparr>))"

lemma on_base_result [simp]: "fst (on_base f s) = fst (f (sdb_object s))"
  "sdb_object (snd (on_base f s)) = snd (f (sdb_object s))"
  by (simp_all add: on_base_def split_beta)

lemma on_base_owner [simp]: "sdb_db (snd (on_base f s)) = sdb_db s" "sdb_shared_db_ptr (snd (on_base f s)) = sdb_shared_db_ptr s"
  by (simp_all add: on_base_def split_beta)

section \<open>The members of a column family\<close>

type_synonym ('d, 'cf, 'it, 'c) cls = "('d, 'cf, 'it, 'c) db_class"

definition StackableDB_DefaultColumnFamily :: "('d, 'cf, 'it, 'c) cls \<Rightarrow> 'd StackableDB \<Rightarrow> 'cf" where
  "StackableDB_DefaultColumnFamily C s = cls_DefaultColumnFamily C (sdb_object s)"

definition StackableDB_Put :: "('d, 'cf, 'it, 'c) cls \<Rightarrow> WriteOptions \<Rightarrow> 'd StackableDB \<Rightarrow> 'cf \<Rightarrow> Slice \<Rightarrow> Slice \<Rightarrow> Status \<times> 'd StackableDB" where
  "StackableDB_Put C options s column_family key val = on_base (\<lambda>d. cls_Put C options d column_family key val) s"

definition StackableDB_Delete :: "('d, 'cf, 'it, 'c) cls \<Rightarrow> WriteOptions \<Rightarrow> 'd StackableDB \<Rightarrow> 'cf \<Rightarrow> Slice \<Rightarrow> Status \<times> 'd StackableDB" where
  "StackableDB_Delete C wopts s column_family key = on_base (\<lambda>d. cls_Delete C wopts d column_family key) s"

definition StackableDB_SingleDelete :: "('d, 'cf, 'it, 'c) cls \<Rightarrow> WriteOptions \<Rightarrow> 'd StackableDB \<Rightarrow> 'cf \<Rightarrow> Slice \<Rightarrow> Status \<times> 'd StackableDB" where
  "StackableDB_SingleDelete C wopts s column_family key = on_base (\<lambda>d. cls_SingleDelete C wopts d column_family key) s"

definition StackableDB_Merge :: "('d, 'cf, 'it, 'c) cls \<Rightarrow> WriteOptions \<Rightarrow> 'd StackableDB \<Rightarrow> 'cf \<Rightarrow> Slice \<Rightarrow> Slice \<Rightarrow> Status \<times> 'd StackableDB" where
  "StackableDB_Merge C options s column_family key val = on_base (\<lambda>d. cls_Merge C options d column_family key val) s"

definition StackableDB_Get ::
    "('d, 'cf, 'it, 'c) cls \<Rightarrow> ReadOptions \<Rightarrow> 'd StackableDB \<Rightarrow> 'cf \<Rightarrow> Slice \<Rightarrow> 'c PinnableSlice \<Rightarrow> Status \<times> 'c PinnableSlice" where
  "StackableDB_Get C options s column_family key val = cls_Get C options (sdb_object s) column_family key val"

definition StackableDB_MultiGet ::
    "('d, 'cf, 'it, 'c) cls \<Rightarrow> ReadOptions \<Rightarrow> 'd StackableDB \<Rightarrow> 'cf list \<Rightarrow> Slice list \<Rightarrow> string list \<Rightarrow> Status list \<times> string list" where
  "StackableDB_MultiGet C options s column_family keys values = cls_MultiGet C options (sdb_object s) column_family keys values"

definition StackableDB_NewIterator :: "('d, 'cf, 'it, 'c) cls \<Rightarrow> ReadOptions \<Rightarrow> 'd StackableDB \<Rightarrow> 'cf \<Rightarrow> 'it" where
  "StackableDB_NewIterator C opts s column_family = cls_NewIterator C opts (sdb_object s) column_family"

definition StackableDB_GetProperty :: "('d, 'cf, 'it, 'c) cls \<Rightarrow> 'd StackableDB \<Rightarrow> 'cf \<Rightarrow> Slice \<Rightarrow> string \<Rightarrow> bool \<times> string" where
  "StackableDB_GetProperty C s column_family property val = cls_GetProperty C (sdb_object s) column_family property val"

definition StackableDB_GetMapProperty ::
    "('d, 'cf, 'it, 'c) cls \<Rightarrow> 'd StackableDB \<Rightarrow> 'cf \<Rightarrow> Slice \<Rightarrow> (string \<times> string) list \<Rightarrow> bool \<times> (string \<times> string) list" where
  "StackableDB_GetMapProperty C s column_family property val = cls_GetMapProperty C (sdb_object s) column_family property val"

definition StackableDB_GetIntProperty :: "('d, 'cf, 'it, 'c) cls \<Rightarrow> 'd StackableDB \<Rightarrow> 'cf \<Rightarrow> Slice \<Rightarrow> 64 word \<Rightarrow> bool \<times> 64 word" where
  "StackableDB_GetIntProperty C s column_family property val = cls_GetIntProperty C (sdb_object s) column_family property val"

definition StackableDB_GetApproximateSizes ::
    "('d, 'cf, 'it, 'c) cls \<Rightarrow> SizeApproximationOptions \<Rightarrow> 'd StackableDB \<Rightarrow> 'cf \<Rightarrow> Range list \<Rightarrow> c_int \<Rightarrow> 64 word list \<Rightarrow> Status \<times> 64 word list" where
  "StackableDB_GetApproximateSizes C options s column_family r n sizes =
     cls_GetApproximateSizes C options (sdb_object s) column_family r n sizes"

definition StackableDB_GetApproximateMemTableStats :: "('d, 'cf, 'it, 'c) cls \<Rightarrow> 'd StackableDB \<Rightarrow> 'cf \<Rightarrow> Range \<Rightarrow> 64 word \<times> 64 word" where
  "StackableDB_GetApproximateMemTableStats C s column_family rng = cls_GetApproximateMemTableStats C (sdb_object s) column_family rng"

definition StackableDB_CompactRange ::
    "('d, 'cf, 'it, 'c) cls \<Rightarrow> CompactRangeOptions \<Rightarrow> 'd StackableDB \<Rightarrow> 'cf \<Rightarrow> Slice option \<Rightarrow> Slice option \<Rightarrow> Status \<times> 'd StackableDB" where
  "StackableDB_CompactRange C options s column_family begin' end' = on_base (\<lambda>d. cls_CompactRange C options d column_family begin' end') s"

definition StackableDB_NumberLevels :: "('d, 'cf, 'it, 'c) cls \<Rightarrow> 'd StackableDB \<Rightarrow> 'cf \<Rightarrow> c_int" where
  "StackableDB_NumberLevels C s column_family = cls_NumberLevels C (sdb_object s) column_family"

definition StackableDB_MaxMemCompactionLevel :: "('d, 'cf, 'it, 'c) cls \<Rightarrow> 'd StackableDB \<Rightarrow> 'cf \<Rightarrow> c_int" where
  "StackableDB_MaxMemCompactionLevel C s column_family = cls_MaxMemCompactionLevel C (sdb_object s) column_family"

definition StackableDB_Level0StopWriteTrigger :: "('d, 'cf, 'it, 'c) cls \<Rightarrow> 'd StackableDB \<Rightarrow> 'cf \<Rightarrow> c_int" where
  "StackableDB_Level0StopWriteTrigger C s column_family = cls_Level0StopWriteTrigger C (sdb_object s) column_family"

definition StackableDB_GetOptions :: "('d, 'cf, 'it, 'c) cls \<Rightarrow> 'd StackableDB \<Rightarrow> 'cf \<Rightarrow> Options" where
  "StackableDB_GetOptions C s column_family = cls_GetOptions C (sdb_object s) column_family"

definition StackableDB_Flush :: "('d, 'cf, 'it, 'c) cls \<Rightarrow> FlushOptions \<Rightarrow> 'd StackableDB \<Rightarrow> 'cf \<Rightarrow> Status \<times> 'd StackableDB" where
  "StackableDB_Flush C fopts s column_family = on_base (\<lambda>d. cls_Flush C fopts d column_family) s"

definition StackableDB_IngestExternalFile ::
    "('d, 'cf, 'it, 'c) cls \<Rightarrow> 'd StackableDB \<Rightarrow> 'cf \<Rightarrow> string list \<Rightarrow> IngestExternalFileOptions \<Rightarrow> Status \<times> 'd StackableDB" where
  "StackableDB_IngestExternalFile C s column_family external_files options =
     on_base (\<lambda>d. cls_IngestExternalFile C d column_family external_files options) s"

definition StackableDB_VerifyChecksum :: "('d, 'cf, 'it, 'c) cls \<Rightarrow> ReadOptions \<Rightarrow> 'd StackableDB \<Rightarrow> Status" where
  "StackableDB_VerifyChecksum C options s = cls_VerifyChecksum C options (sdb_object s)"

text \<open>\<open>StackableDB\<close> as a class over the column families of the database below.\<close>

definition StackableDB_class :: "('d, 'cf, 'it, 'c) cls \<Rightarrow> ('d StackableDB, 'cf, 'it, 'c) cls" where
  "StackableDB_class C =
    \<lparr>cls_DefaultColumnFamily = StackableDB_DefaultColumnFamily C, cls_Put = StackableDB_Put C, cls_Delete = StackableDB_Delete C,
     cls_SingleDelete = StackableDB_SingleDelete C, cls_Merge = StackableDB_Merge C, cls_Get = StackableDB_Get C,
     cls_MultiGet = StackableDB_MultiGet C, cls_NewIterator = StackableDB_NewIterator C, cls_GetProperty = StackableDB_GetProperty C,
     cls_GetMapProperty = StackableDB_GetMapProperty C, cls_GetIntProperty = StackableDB_GetIntProperty C,
     cls_GetApproximateSizes = StackableDB_GetApproximateSizes C,
     cls_GetApproximateMemTableStats = StackableDB_GetApproximateMemTableStats C, cls_CompactRange = StackableDB_CompactRange C,
     cls_NumberLevels = StackableDB_NumberLevels C, cls_MaxMemCompactionLevel = StackableDB_MaxMemCompactionLevel C,
     cls_Level0StopWriteTrigger = StackableDB_Level0StopWriteTrigger C, cls_GetOptions = StackableDB_GetOptions C,
     cls_Flush = StackableDB_Flush C, cls_IngestExternalFile = StackableDB_IngestExternalFile C,
     cls_VerifyChecksum = StackableDB_VerifyChecksum C\<rparr>"

lemma StackableDB_class_simps [simp]:
  "cls_DefaultColumnFamily (StackableDB_class C) = StackableDB_DefaultColumnFamily C"
  "cls_Put (StackableDB_class C) = StackableDB_Put C" "cls_Delete (StackableDB_class C) = StackableDB_Delete C"
  "cls_Get (StackableDB_class C) = StackableDB_Get C" "cls_MultiGet (StackableDB_class C) = StackableDB_MultiGet C"
  "cls_NewIterator (StackableDB_class C) = StackableDB_NewIterator C"
  by (simp_all add: StackableDB_class_def)

section \<open>The other virtual members\<close>

text \<open>
  \<open>'b\<close> is a write batch, \<open>'h\<close> an iterator over the history of statistics, \<open>'p\<close> a pointer to a database.
\<close>

record ('d, 'cf, 'b, 'p) db_vtable_1 =
  vt_Close :: "'d \<Rightarrow> Status \<times> 'd"
  vt_GetRootDB :: "'d \<Rightarrow> 'p"
  vt_CreateColumnFamily :: "ColumnFamilyOptions \<Rightarrow> string \<Rightarrow> 'd \<Rightarrow> (Status \<times> 'cf option) \<times> 'd"
  vt_DropColumnFamily :: "'cf \<Rightarrow> 'd \<Rightarrow> Status \<times> 'd"
  vt_DropColumnFamilies :: "'cf list \<Rightarrow> 'd \<Rightarrow> Status \<times> 'd"
  vt_DestroyColumnFamilyHandle :: "'cf \<Rightarrow> 'd \<Rightarrow> Status \<times> 'd"
  vt_IngestExternalFiles :: "'cf IngestExternalFileArg list \<Rightarrow> 'd \<Rightarrow> Status \<times> 'd"
  vt_VerifyFileChecksums :: "ReadOptions \<Rightarrow> 'd \<Rightarrow> Status"
  vt_KeyMayExist :: "ReadOptions \<Rightarrow> 'd \<Rightarrow> 'cf \<Rightarrow> Slice \<Rightarrow> string \<Rightarrow> bool option \<Rightarrow> bool \<times> string \<times> bool option"
  vt_Write :: "WriteOptions \<Rightarrow> 'b \<Rightarrow> 'd \<Rightarrow> (Status \<times> 'b) \<times> 'd"
  vt_PauseBackgroundWork :: "'d \<Rightarrow> Status \<times> 'd"
  vt_ContinueBackgroundWork :: "'d \<Rightarrow> Status \<times> 'd"
  vt_EnableAutoCompaction :: "'cf list \<Rightarrow> 'd \<Rightarrow> Status \<times> 'd"
  vt_EnableManualCompaction :: "'d \<Rightarrow> unit \<times> 'd"
  vt_DisableManualCompaction :: "'d \<Rightarrow> unit \<times> 'd"
  vt_GetName :: "'d \<Rightarrow> string"
  vt_GetDBOptions :: "'d \<Rightarrow> DBOptions"
  vt_Flush_list :: "FlushOptions \<Rightarrow> 'cf list \<Rightarrow> 'd \<Rightarrow> Status \<times> 'd"

record ('d, 'cf, 'b, 'p, 'c, 'h) db_vtable = "('d, 'cf, 'b, 'p) db_vtable_1" +
  vt_SyncWAL :: "'d \<Rightarrow> Status \<times> 'd"
  vt_FlushWAL :: "bool \<Rightarrow> 'd \<Rightarrow> Status \<times> 'd"
  vt_LockWAL :: "'d \<Rightarrow> Status \<times> 'd"
  vt_UnlockWAL :: "'d \<Rightarrow> Status \<times> 'd"
  vt_DisableFileDeletions :: "'d \<Rightarrow> Status \<times> 'd"
  vt_EnableFileDeletions :: "bool \<Rightarrow> 'd \<Rightarrow> Status \<times> 'd"
  vt_GetLatestSequenceNumber :: "'d \<Rightarrow> SequenceNumber"
  vt_SetPreserveDeletesSequenceNumber :: "SequenceNumber \<Rightarrow> 'd \<Rightarrow> bool \<times> 'd"
  vt_IncreaseFullHistoryTsLow :: "'cf \<Rightarrow> string \<Rightarrow> 'd \<Rightarrow> Status \<times> 'd"
  vt_GetFullHistoryTsLow :: "'d \<Rightarrow> 'cf \<Rightarrow> string \<Rightarrow> Status \<times> string"
  vt_DeleteFile :: "string \<Rightarrow> 'd \<Rightarrow> Status \<times> 'd"
  vt_SetOptions :: "'cf \<Rightarrow> (string \<times> string) list \<Rightarrow> 'd \<Rightarrow> Status \<times> 'd"
  vt_ResetStats :: "'d \<Rightarrow> Status \<times> 'd"
  vt_SuggestCompactRange :: "'cf \<Rightarrow> Slice option \<Rightarrow> Slice option \<Rightarrow> 'd \<Rightarrow> Status \<times> 'd"
  vt_PromoteL0 :: "'cf \<Rightarrow> c_int \<Rightarrow> 'd \<Rightarrow> Status \<times> 'd"
  vt_TryCatchUpWithPrimary :: "'d \<Rightarrow> Status \<times> 'd"
  vt_Resume :: "'d \<Rightarrow> Status \<times> 'd"
  vt_Get_timestamp :: "ReadOptions \<Rightarrow> 'd \<Rightarrow> 'cf \<Rightarrow> Slice \<Rightarrow> 'c PinnableSlice \<Rightarrow> string \<Rightarrow> Status \<times> 'c PinnableSlice \<times> string"
  vt_GetAllColumnFamilyMetaData :: "'d \<Rightarrow> ColumnFamilyMetaData list \<Rightarrow> ColumnFamilyMetaData list"
  vt_GetStatsHistory :: "64 word \<Rightarrow> 64 word \<Rightarrow> 'd \<Rightarrow> 'h option \<Rightarrow> Status \<times> 'h option"

definition StackableDB_Close ::
    "('d, 'cf, 'b, 'p, 'c, 'h) db_vtable \<Rightarrow> 'd StackableDB \<Rightarrow> Status \<times> 'd StackableDB" where
  "StackableDB_Close V s = on_base (vt_Close V) s"

definition StackableDB_GetRootDB :: "('d, 'cf, 'b, 'p, 'c, 'h) db_vtable \<Rightarrow> 'd StackableDB \<Rightarrow> 'p" where
  "StackableDB_GetRootDB V s = vt_GetRootDB V (sdb_object s)"

definition StackableDB_CreateColumnFamily ::
    "('d, 'cf, 'b, 'p, 'c, 'h) db_vtable \<Rightarrow> ColumnFamilyOptions \<Rightarrow> string \<Rightarrow> 'd StackableDB \<Rightarrow> (Status \<times> 'cf option) \<times> 'd StackableDB" where
  "StackableDB_CreateColumnFamily V options column_family_name s = on_base (vt_CreateColumnFamily V options column_family_name) s"

definition StackableDB_DropColumnFamily ::
    "('d, 'cf, 'b, 'p, 'c, 'h) db_vtable \<Rightarrow> 'cf \<Rightarrow> 'd StackableDB \<Rightarrow> Status \<times> 'd StackableDB" where
  "StackableDB_DropColumnFamily V column_family s = on_base (vt_DropColumnFamily V column_family) s"

definition StackableDB_DropColumnFamilies ::
    "('d, 'cf, 'b, 'p, 'c, 'h) db_vtable \<Rightarrow> 'cf list \<Rightarrow> 'd StackableDB \<Rightarrow> Status \<times> 'd StackableDB" where
  "StackableDB_DropColumnFamilies V families s = on_base (vt_DropColumnFamilies V families) s"

definition StackableDB_DestroyColumnFamilyHandle ::
    "('d, 'cf, 'b, 'p, 'c, 'h) db_vtable \<Rightarrow> 'cf \<Rightarrow> 'd StackableDB \<Rightarrow> Status \<times> 'd StackableDB" where
  "StackableDB_DestroyColumnFamilyHandle V column_family s = on_base (vt_DestroyColumnFamilyHandle V column_family) s"

definition StackableDB_IngestExternalFiles ::
    "('d, 'cf, 'b, 'p, 'c, 'h) db_vtable \<Rightarrow> 'cf IngestExternalFileArg list \<Rightarrow> 'd StackableDB \<Rightarrow> Status \<times> 'd StackableDB" where
  "StackableDB_IngestExternalFiles V args s = on_base (vt_IngestExternalFiles V args) s"

definition StackableDB_VerifyFileChecksums ::
    "('d, 'cf, 'b, 'p, 'c, 'h) db_vtable \<Rightarrow> ReadOptions \<Rightarrow> 'd StackableDB \<Rightarrow> Status" where
  "StackableDB_VerifyFileChecksums V read_opts s = vt_VerifyFileChecksums V read_opts (sdb_object s)"

definition StackableDB_KeyMayExist ::
    "('d, 'cf, 'b, 'p, 'c, 'h) db_vtable \<Rightarrow> ReadOptions \<Rightarrow> 'd StackableDB \<Rightarrow> 'cf \<Rightarrow> Slice \<Rightarrow> string \<Rightarrow> bool option \<Rightarrow> bool \<times> string \<times> bool option" where
  "StackableDB_KeyMayExist V options s column_family key val value_found = vt_KeyMayExist V options (sdb_object s) column_family key val value_found"

definition StackableDB_Write ::
    "('d, 'cf, 'b, 'p, 'c, 'h) db_vtable \<Rightarrow> WriteOptions \<Rightarrow> 'b \<Rightarrow> 'd StackableDB \<Rightarrow> (Status \<times> 'b) \<times> 'd StackableDB" where
  "StackableDB_Write V opts updates s = on_base (vt_Write V opts updates) s"

definition StackableDB_PauseBackgroundWork ::
    "('d, 'cf, 'b, 'p, 'c, 'h) db_vtable \<Rightarrow> 'd StackableDB \<Rightarrow> Status \<times> 'd StackableDB" where
  "StackableDB_PauseBackgroundWork V s = on_base (vt_PauseBackgroundWork V) s"

definition StackableDB_ContinueBackgroundWork ::
    "('d, 'cf, 'b, 'p, 'c, 'h) db_vtable \<Rightarrow> 'd StackableDB \<Rightarrow> Status \<times> 'd StackableDB" where
  "StackableDB_ContinueBackgroundWork V s = on_base (vt_ContinueBackgroundWork V) s"

definition StackableDB_EnableAutoCompaction ::
    "('d, 'cf, 'b, 'p, 'c, 'h) db_vtable \<Rightarrow> 'cf list \<Rightarrow> 'd StackableDB \<Rightarrow> Status \<times> 'd StackableDB" where
  "StackableDB_EnableAutoCompaction V column_family_handles s = on_base (vt_EnableAutoCompaction V column_family_handles) s"

definition StackableDB_EnableManualCompaction ::
    "('d, 'cf, 'b, 'p, 'c, 'h) db_vtable \<Rightarrow> 'd StackableDB \<Rightarrow> unit \<times> 'd StackableDB" where
  "StackableDB_EnableManualCompaction V s = on_base (vt_EnableManualCompaction V) s"

definition StackableDB_DisableManualCompaction ::
    "('d, 'cf, 'b, 'p, 'c, 'h) db_vtable \<Rightarrow> 'd StackableDB \<Rightarrow> unit \<times> 'd StackableDB" where
  "StackableDB_DisableManualCompaction V s = on_base (vt_DisableManualCompaction V) s"

definition StackableDB_GetName :: "('d, 'cf, 'b, 'p, 'c, 'h) db_vtable \<Rightarrow> 'd StackableDB \<Rightarrow> string" where
  "StackableDB_GetName V s = vt_GetName V (sdb_object s)"

definition StackableDB_GetDBOptions :: "('d, 'cf, 'b, 'p, 'c, 'h) db_vtable \<Rightarrow> 'd StackableDB \<Rightarrow> DBOptions" where
  "StackableDB_GetDBOptions V s = vt_GetDBOptions V (sdb_object s)"

definition StackableDB_Flush_list ::
    "('d, 'cf, 'b, 'p, 'c, 'h) db_vtable \<Rightarrow> FlushOptions \<Rightarrow> 'cf list \<Rightarrow> 'd StackableDB \<Rightarrow> Status \<times> 'd StackableDB" where
  "StackableDB_Flush_list V fopts families s = on_base (vt_Flush_list V fopts families) s"

definition StackableDB_SyncWAL ::
    "('d, 'cf, 'b, 'p, 'c, 'h) db_vtable \<Rightarrow> 'd StackableDB \<Rightarrow> Status \<times> 'd StackableDB" where
  "StackableDB_SyncWAL V s = on_base (vt_SyncWAL V) s"

definition StackableDB_FlushWAL ::
    "('d, 'cf, 'b, 'p, 'c, 'h) db_vtable \<Rightarrow> bool \<Rightarrow> 'd StackableDB \<Rightarrow> Status \<times> 'd StackableDB" where
  "StackableDB_FlushWAL V sync s = on_base (vt_FlushWAL V sync) s"

definition StackableDB_LockWAL ::
    "('d, 'cf, 'b, 'p, 'c, 'h) db_vtable \<Rightarrow> 'd StackableDB \<Rightarrow> Status \<times> 'd StackableDB" where
  "StackableDB_LockWAL V s = on_base (vt_LockWAL V) s"

definition StackableDB_UnlockWAL ::
    "('d, 'cf, 'b, 'p, 'c, 'h) db_vtable \<Rightarrow> 'd StackableDB \<Rightarrow> Status \<times> 'd StackableDB" where
  "StackableDB_UnlockWAL V s = on_base (vt_UnlockWAL V) s"

definition StackableDB_DisableFileDeletions ::
    "('d, 'cf, 'b, 'p, 'c, 'h) db_vtable \<Rightarrow> 'd StackableDB \<Rightarrow> Status \<times> 'd StackableDB" where
  "StackableDB_DisableFileDeletions V s = on_base (vt_DisableFileDeletions V) s"

definition StackableDB_EnableFileDeletions ::
    "('d, 'cf, 'b, 'p, 'c, 'h) db_vtable \<Rightarrow> bool \<Rightarrow> 'd StackableDB \<Rightarrow> Status \<times> 'd StackableDB" where
  "StackableDB_EnableFileDeletions V force s = on_base (vt_EnableFileDeletions V force) s"

definition StackableDB_GetLatestSequenceNumber ::
    "('d, 'cf, 'b, 'p, 'c, 'h) db_vtable \<Rightarrow> 'd StackableDB \<Rightarrow> SequenceNumber" where
  "StackableDB_GetLatestSequenceNumber V s = vt_GetLatestSequenceNumber V (sdb_object s)"

definition StackableDB_SetPreserveDeletesSequenceNumber ::
    "('d, 'cf, 'b, 'p, 'c, 'h) db_vtable \<Rightarrow> SequenceNumber \<Rightarrow> 'd StackableDB \<Rightarrow> bool \<times> 'd StackableDB" where
  "StackableDB_SetPreserveDeletesSequenceNumber V seqnum s = on_base (vt_SetPreserveDeletesSequenceNumber V seqnum) s"

definition StackableDB_IncreaseFullHistoryTsLow ::
    "('d, 'cf, 'b, 'p, 'c, 'h) db_vtable \<Rightarrow> 'cf \<Rightarrow> string \<Rightarrow> 'd StackableDB \<Rightarrow> Status \<times> 'd StackableDB" where
  "StackableDB_IncreaseFullHistoryTsLow V column_family ts_low s = on_base (vt_IncreaseFullHistoryTsLow V column_family ts_low) s"

definition StackableDB_GetFullHistoryTsLow ::
    "('d, 'cf, 'b, 'p, 'c, 'h) db_vtable \<Rightarrow> 'd StackableDB \<Rightarrow> 'cf \<Rightarrow> string \<Rightarrow> Status \<times> string" where
  "StackableDB_GetFullHistoryTsLow V s column_family ts_low = vt_GetFullHistoryTsLow V (sdb_object s) column_family ts_low"

definition StackableDB_DeleteFile ::
    "('d, 'cf, 'b, 'p, 'c, 'h) db_vtable \<Rightarrow> string \<Rightarrow> 'd StackableDB \<Rightarrow> Status \<times> 'd StackableDB" where
  "StackableDB_DeleteFile V name s = on_base (vt_DeleteFile V name) s"

definition StackableDB_SetOptions ::
    "('d, 'cf, 'b, 'p, 'c, 'h) db_vtable \<Rightarrow> 'cf \<Rightarrow> (string \<times> string) list \<Rightarrow> 'd StackableDB \<Rightarrow> Status \<times> 'd StackableDB" where
  "StackableDB_SetOptions V column_family_handle new_options s = on_base (vt_SetOptions V column_family_handle new_options) s"

definition StackableDB_ResetStats ::
    "('d, 'cf, 'b, 'p, 'c, 'h) db_vtable \<Rightarrow> 'd StackableDB \<Rightarrow> Status \<times> 'd StackableDB" where
  "StackableDB_ResetStats V s = on_base (vt_ResetStats V) s"

definition StackableDB_SuggestCompactRange ::
    "('d, 'cf, 'b, 'p, 'c, 'h) db_vtable \<Rightarrow> 'cf \<Rightarrow> Slice option \<Rightarrow> Slice option \<Rightarrow> 'd StackableDB \<Rightarrow> Status \<times> 'd StackableDB" where
  "StackableDB_SuggestCompactRange V column_family begin' end' s = on_base (vt_SuggestCompactRange V column_family begin' end') s"

definition StackableDB_PromoteL0 ::
    "('d, 'cf, 'b, 'p, 'c, 'h) db_vtable \<Rightarrow> 'cf \<Rightarrow> c_int \<Rightarrow> 'd StackableDB \<Rightarrow> Status \<times> 'd StackableDB" where
  "StackableDB_PromoteL0 V column_family target_level s = on_base (vt_PromoteL0 V column_family target_level) s"

definition StackableDB_TryCatchUpWithPrimary ::
    "('d, 'cf, 'b, 'p, 'c, 'h) db_vtable \<Rightarrow> 'd StackableDB \<Rightarrow> Status \<times> 'd StackableDB" where
  "StackableDB_TryCatchUpWithPrimary V s = on_base (vt_TryCatchUpWithPrimary V) s"

text \<open>
  The virtual members the class does not override: \<open>DB\<close> reports \<open>NotSupported\<close>, and leaves the list of
  meta data as it is.
\<close>

definition DB_GetAllColumnFamilyMetaData_default :: "ColumnFamilyMetaData list \<Rightarrow> ColumnFamilyMetaData list" where
  "DB_GetAllColumnFamilyMetaData_default metadata = metadata"

definition StackableDB_vtable ::
    "status_ctor \<Rightarrow> ('d, 'cf, 'b, 'p, 'c, 'h) db_vtable \<Rightarrow> ('d StackableDB, 'cf, 'b, 'p, 'c, 'h) db_vtable" where
  "StackableDB_vtable ctor V =
    \<lparr>vt_Close = StackableDB_Close V, vt_GetRootDB = StackableDB_GetRootDB V,
     vt_CreateColumnFamily = StackableDB_CreateColumnFamily V, vt_DropColumnFamily = StackableDB_DropColumnFamily V,
     vt_DropColumnFamilies = StackableDB_DropColumnFamilies V, vt_DestroyColumnFamilyHandle = StackableDB_DestroyColumnFamilyHandle V,
     vt_IngestExternalFiles = StackableDB_IngestExternalFiles V, vt_VerifyFileChecksums = StackableDB_VerifyFileChecksums V,
     vt_KeyMayExist = StackableDB_KeyMayExist V, vt_Write = StackableDB_Write V,
     vt_PauseBackgroundWork = StackableDB_PauseBackgroundWork V, vt_ContinueBackgroundWork = StackableDB_ContinueBackgroundWork V,
     vt_EnableAutoCompaction = StackableDB_EnableAutoCompaction V, vt_EnableManualCompaction = StackableDB_EnableManualCompaction V,
     vt_DisableManualCompaction = StackableDB_DisableManualCompaction V, vt_GetName = StackableDB_GetName V,
     vt_GetDBOptions = StackableDB_GetDBOptions V, vt_Flush_list = StackableDB_Flush_list V, vt_SyncWAL = StackableDB_SyncWAL V,
     vt_FlushWAL = StackableDB_FlushWAL V, vt_LockWAL = StackableDB_LockWAL V, vt_UnlockWAL = StackableDB_UnlockWAL V,
     vt_DisableFileDeletions = StackableDB_DisableFileDeletions V, vt_EnableFileDeletions = StackableDB_EnableFileDeletions V,
     vt_GetLatestSequenceNumber = StackableDB_GetLatestSequenceNumber V,
     vt_SetPreserveDeletesSequenceNumber = StackableDB_SetPreserveDeletesSequenceNumber V,
     vt_IncreaseFullHistoryTsLow = StackableDB_IncreaseFullHistoryTsLow V, vt_GetFullHistoryTsLow = StackableDB_GetFullHistoryTsLow V,
     vt_DeleteFile = StackableDB_DeleteFile V, vt_SetOptions = StackableDB_SetOptions V, vt_ResetStats = StackableDB_ResetStats V,
     vt_SuggestCompactRange = StackableDB_SuggestCompactRange V, vt_PromoteL0 = StackableDB_PromoteL0 V,
     vt_TryCatchUpWithPrimary = StackableDB_TryCatchUpWithPrimary V,
     vt_Resume = (\<lambda>s. (DB_Resume_default, s)),
     vt_Get_timestamp = (\<lambda>options s column_family key val timestamp. (DB_Get_timestamp_default ctor, val, timestamp)),
     vt_GetAllColumnFamilyMetaData = (\<lambda>s metadata. DB_GetAllColumnFamilyMetaData_default metadata),
     vt_GetStatsHistory = (\<lambda>start_time end_time s stats_iterator. (DB_GetStatsHistory_default ctor, stats_iterator))\<rparr>"

section \<open>What a stacked database keeps\<close>

text \<open>The library for a stacked database: a database is opened and then wrapped, the rest is as before.\<close>

definition StackableDB_lib :: "('d, 'it) rocksdb \<Rightarrow> ('d StackableDB, 'it) rocksdb" where
  "StackableDB_lib L =
    \<lparr>DB_Open = (\<lambda>opts n. map_prod id (map_option (StackableDB_of (Some 0))) (DB_Open L opts n)),
     DB_Put = (\<lambda>wo s k v. on_base (\<lambda>d. DB_Put L wo d k v) s), DB_Delete = (\<lambda>wo s k. on_base (\<lambda>d. DB_Delete L wo d k) s),
     DB_Get = (\<lambda>ro s. DB_Get L ro (sdb_object s)), DB_NewIterator = (\<lambda>ro s. DB_NewIterator L ro (sdb_object s)),
     It_Valid = It_Valid L, It_SeekToFirst = It_SeekToFirst L, It_SeekToLast = It_SeekToLast L, It_Seek = It_Seek L,
     It_Next = It_Next L, It_Prev = It_Prev L, It_key = It_key L, It_value = It_value L, Slice_ToString = Slice_ToString L,
     DBOptions_ctor = DBOptions_ctor L, ColumnFamilyOptions_ctor = ColumnFamilyOptions_ctor L,
     ReadOptions_ctor = ReadOptions_ctor L\<rparr>"

lemma stacked_put: "StackableDB_Put C wo s cf k v = (st, s') \<Longrightarrow>
    cls_Put C wo (sdb_object s) cf k v = (st, sdb_object s')"
  by (auto simp: StackableDB_Put_def on_base_def split: prod.splits)

lemma stacked_delete: "StackableDB_Delete C wo s cf k = (st, s') \<Longrightarrow>
    cls_Delete C wo (sdb_object s) cf k = (st, sdb_object s')"
  by (auto simp: StackableDB_Delete_def on_base_def split: prod.splits)

lemmas stacked_members = StackableDB_DefaultColumnFamily_def StackableDB_Get_def StackableDB_MultiGet_def
  StackableDB_NewIterator_def StackableDB_lib_def

context rocksdb_iterators
begin

lemma stacked_iterators: "rocksdb_iterators (StackableDB_lib R) cursor"
  by unfold_locales (auto simp: StackableDB_lib_def valid in_range seek_first seek_last seek nxt prev key_at value_at
      to_string read_defaults)

end

context column_families
begin

lemma stacked_families: "column_families (StackableDB_class C) (StackableDB_lib L) (\<lambda>s. cf_content (sdb_object s)) cursor"
proof (rule column_families.intro [OF stacked_iterators], unfold_locales, goal_cases)
  case 2 then show ?case
    using cf_put stacked_put by (fastforce simp: stacked_members)
next
  case 3 then show ?case
    using cf_delete stacked_delete by (fastforce simp: stacked_members)
next
  case 4 then show ?case
    using cf_found by (simp add: stacked_members)
next
  case 5 then show ?case
    using cf_missing by (simp add: stacked_members)
qed (auto simp: stacked_members cf_ordered cf_new_iterator)

end

context column_families_reliable
begin

lemma stacked_reliable: "column_families_reliable (StackableDB_class C) (StackableDB_lib L) (\<lambda>s. cf_content (sdb_object s)) cursor"
  by (rule column_families_reliable.intro [OF stacked_families], unfold_locales)
    (use cf_open_ok in \<open>auto simp: StackableDB_Put_def StackableDB_Delete_def StackableDB_Get_def StackableDB_lib_def
      cf_put_ok cf_delete_ok cf_get_ok split: prod.splits\<close>)

end

interpretation stacked_ref: column_families_reliable "StackableDB_class ref_class" "StackableDB_lib ref_lib"
    "\<lambda>s cf. ref_content (sdb_object s cf)" ref_cursor
  by (rule ref_families.stacked_reliable)

text \<open>The inline members of \<open>DB\<close> that are not virtual in the class above run on the database below.\<close>

lemma stacked_inline_reads:
  "DBc_Get_string (StackableDB_class C) ro s k v = DBc_Get_string C ro (sdb_object s) k v"
  "DBc_MultiGet_array (StackableDB_class C) ro s cf n ks ps sts = DBc_MultiGet_array C ro (sdb_object s) cf n ks ps sts"
  "DBc_MultiGet_array_cfs (StackableDB_class C) ro s n cfs ks ps sts = DBc_MultiGet_array_cfs C ro (sdb_object s) n cfs ks ps sts"
  "DBc_GetApproximateSizes_memtable (StackableDB_class C) s rs i szs b = DBc_GetApproximateSizes_memtable C (sdb_object s) rs i szs b"
  by (simp_all add: DBc_Get_string_def DBc_Get_string_cf_def DBc_MultiGet_array_def DBc_MultiGet_array_cfs_def stacked_members
      DBc_GetApproximateSizes_memtable_def DBc_GetApproximateSizes_cf_def StackableDB_class_def StackableDB_GetApproximateSizes_def)

lemma stacked_inline_writes:
  "DBc_Put (StackableDB_class C) wo s k v = on_base (\<lambda>d. DBc_Put C wo d k v) s"
  "DBc_Delete (StackableDB_class C) wo s k = on_base (\<lambda>d. DBc_Delete C wo d k) s"
  "DBc_CompactRange_levels (StackableDB_class C) s b e chg lvl pth = on_base (\<lambda>d. DBc_CompactRange_levels C d b e chg lvl pth) s"
  "DBc_AddFile_infos (StackableDB_class C) fp s infos mv sk = on_base (\<lambda>d. DBc_AddFile_infos C fp d infos mv sk) s"
  by (simp_all add: DBc_Put_def DBc_Delete_def DBc_CompactRange_levels_def DBc_AddFile_infos_def StackableDB_class_def
      StackableDB_Put_def StackableDB_Delete_def StackableDB_CompactRange_def StackableDB_IngestExternalFile_def
      StackableDB_DefaultColumnFamily_def on_base_def Let_def)

section \<open>Properties\<close>

text \<open>
  C26: stacking is transparent: over lawful, reliable column families a \<open>StackableDB\<close> is again a lawful,
  reliable database, with the entries of the database below; so a value put through the stack is read
  back through the stack and through the database below, in the same way through two levels of stacking, and the
  owner of the database below does not change.
\<close>

theorem stacking_is_transparent:
  assumes "column_families_reliable C L cf_content cursor" "plain_read ro" "slice_ok k" "slice_ok v"
  shows "rocksdb_reliable (rocksdb_of (StackableDB_class C) (StackableDB_lib L))
      (\<lambda>s. cf_content (sdb_object s) (cls_DefaultColumnFamily C (sdb_object s))) cursor \<and>
    (let s' = snd (DBc_Put (StackableDB_class C) wo s k v) in
      sdb_db s' = sdb_db s \<and>
      (\<exists>st. DBc_Get_string (StackableDB_class C) ro s' k old = Inr (st, slice_bytes v)) \<and>
      (\<exists>st. DBc_Get_string C ro (sdb_object s') k old = Inr (st, slice_bytes v))) \<and>
    (\<exists>st. DBc_Get_string (StackableDB_class (StackableDB_class C)) ro
      (snd (DBc_Put (StackableDB_class (StackableDB_class C)) wo ss k v)) k old = Inr (st, slice_bytes v))"
proof -
  note stacked = column_families_reliable.stacked_reliable [OF assms(1)]
  have lib: "rocksdb_reliable (rocksdb_of (StackableDB_class C) (StackableDB_lib L))
      (\<lambda>s. cf_content (sdb_object s) (cls_DefaultColumnFamily C (sdb_object s))) cursor"
    using column_families_reliable.reliable_class_db [OF stacked] by (simp add: StackableDB_DefaultColumnFamily_def)
  have put: "\<exists>st. DBc_Get_string D ro (snd (DBc_Put D wo d k v)) k old = Inr (st, slice_bytes v)"
    if "column_families_reliable D M content cursor" for D :: "('x, 'b, 'c, 'd) cls" and M content d
    using column_families_reliable.get_string_value [OF that assms(2,3), of "snd (DBc_Put D wo d k v)"
        "cls_DefaultColumnFamily D (snd (DBc_Put D wo d k v))" old]
      rocksdb_reliable.put_run [OF column_families_reliable.reliable_class_db [OF that] assms(3,4), of wo d]
    by (simp add: kv_get_put DBc_Get_string_def)
  show ?thesis
    using lib put [OF assms(1), of "sdb_object s"] put [OF column_families_reliable.stacked_reliable [OF stacked], of ss]
    by (simp add: Let_def stacked_inline_writes stacked_inline_reads)
qed

theorem stacking_is_transparent_witness:
  "\<exists>st. DBc_Get_string (StackableDB_class ref_class) ref_read_options
      (snd (DBc_Put (StackableDB_class ref_class) WriteOptions_default (StackableDB_of (Some 1) (\<lambda>_. []))
        (Slice_of_string ''k'') (Slice_of_string ''pinned value''))) (Slice_of_string ''k'') ''old'' = Inr (st, ''pinned value'')"
  using stacking_is_transparent [OF ref_families.column_families_reliable_axioms ref_read_options_plain
      slice_of_string_ok(1) slice_of_string_ok(1), of WriteOptions_default "StackableDB_of (Some 1) (\<lambda>_. [])" "''k''" "''pinned value''" "''old''"]
  by (simp add: Let_def)

text \<open>
  The ownership of the database below: the destructor never fails for an object of either constructor,
  and deletes the database exactly when it was passed as a plain pointer.
\<close>

lemma StackableDB_dtor_owner:
  "StackableDB_dtor (StackableDB_of (Some p) d) = Inr ([p], StackableDB_of None d)"
  "map_sum id fst (StackableDB_dtor (StackableDB_of_shared (Some p) d)) = Inr []"
  by (simp_all add: StackableDB_dtor_def StackableDB_of_def StackableDB_of_shared_def)

text \<open>
  The calls a stacked database loses: \<open>StackableDB\<close> forwards \<open>Close\<close>, \<open>Write\<close>, the WAL calls and the
  rest, but not \<open>Resume\<close>, \<open>GetStatsHistory\<close>, \<open>Get\<close> with a timestamp or \<open>GetAllColumnFamilyMetaData\<close>:
  whatever the database below does, these report \<open>NotSupported\<close> or return nothing and leave it alone.
\<close>

lemma stacking_loses_calls:
  "vt_Write (StackableDB_vtable ctor V) wo b s = on_base (vt_Write V wo b) s \<and>
   vt_FlushWAL (StackableDB_vtable ctor V) sync s = on_base (vt_FlushWAL V sync) s \<and>
   Status_IsNotSupported (fst (vt_Resume (StackableDB_vtable ctor V) s)) \<and> snd (vt_Resume (StackableDB_vtable ctor V) s) = s \<and>
   vt_GetAllColumnFamilyMetaData (StackableDB_vtable ctor V) s metadata = metadata \<and>
   vt_GetStatsHistory (StackableDB_vtable ctor V) t1 t2 s it = (not_supported ctor ''GetStatsHistory() is not implemented.'', it) \<and>
   vt_Get_timestamp (StackableDB_vtable ctor V) ro s cf k p ts =
     (not_supported ctor ''Get() that returns timestamp is not implemented.'', p, ts)"
  by (simp add: StackableDB_vtable_def StackableDB_Write_def StackableDB_FlushWAL_def DB_Resume_default_def
      DB_GetStatsHistory_default_def DB_Get_timestamp_default_def DB_GetAllColumnFamilyMetaData_default_def
      Status_IsNotSupported_def Status_code_def Status_NotSupported_def Status_code_subcode_def)

end
