(* ===== verification/Option_Types.thy ===== *)
theory Option_Types
  imports Statuses
begin

unbundle bit_operations_syntax

text \<open>
  \<open>rocksdb/utilities/options_type.h\<close> with \<open>ConfigOptions\<close> of \<open>convenience.h\<close>: how options are
  converted to and from strings and compared. The option at an untyped address is a value of type
  \<open>'a\<close>; a callback returns the new value. An \<open>unordered_map\<close> is an association list in the order of
  its iteration. \<open>OptionTypeInfo::Parse\<close>, \<open>Serialize\<close>, \<open>AreEqual\<close>, \<open>NextToken\<close> and the functions on
  structs are library code: parameters.
\<close>

section \<open>ConfigOptions\<close>

type_synonym SanityLevel = "8 word"

definition kSanityLevelNone :: SanityLevel where "kSanityLevelNone = 0x01"
definition kSanityLevelLooselyCompatible :: SanityLevel where "kSanityLevelLooselyCompatible = 0x02"
definition kSanityLevelExactMatch :: SanityLevel where "kSanityLevelExactMatch = 0xFF"

datatype Depth = kDepthDefault | kDepthShallow | kDepthDetailed

record ConfigOptions =
  co_ignore_unknown_options :: bool
  co_ignore_unsupported_options :: bool
  co_input_strings_escaped :: bool
  co_invoke_prepare_options :: bool
  co_mutable_options_only :: bool
  co_delimiter :: string
  co_depth :: Depth
  co_sanity_level :: SanityLevel
  co_file_readahead_size :: "64 word"
  co_env :: "nat option"
  co_registry :: "nat option"

definition ConfigOptions_inits :: "nat option \<Rightarrow> ConfigOptions" where
  "ConfigOptions_inits default_env =
     \<lparr>co_ignore_unknown_options = False, co_ignore_unsupported_options = True, co_input_strings_escaped = True,
      co_invoke_prepare_options = True, co_mutable_options_only = False, co_delimiter = '';'',
      co_depth = kDepthDefault, co_sanity_level = kSanityLevelExactMatch, co_file_readahead_size = 512 * 1024,
      co_env = default_env, co_registry = None\<rparr>"

definition ConfigOptions_IsShallow :: "ConfigOptions \<Rightarrow> bool" where
  "ConfigOptions_IsShallow c \<longleftrightarrow> co_depth c = kDepthShallow"

definition ConfigOptions_IsDetailed :: "ConfigOptions \<Rightarrow> bool" where
  "ConfigOptions_IsDetailed c \<longleftrightarrow> co_depth c = kDepthDetailed"

definition ConfigOptions_IsCheckDisabled :: "ConfigOptions \<Rightarrow> bool" where
  "ConfigOptions_IsCheckDisabled c \<longleftrightarrow> co_sanity_level c = kSanityLevelNone"

definition ConfigOptions_IsCheckEnabled :: "ConfigOptions \<Rightarrow> SanityLevel \<Rightarrow> bool" where
  "ConfigOptions_IsCheckEnabled c level \<longleftrightarrow> level > kSanityLevelNone \<and> level \<le> co_sanity_level c"

section \<open>Enumerations and flags\<close>

datatype OptionType =
    ot_kBoolean | ot_kInt | ot_kInt32T | ot_kInt64T | ot_kUInt | ot_kUInt8T | ot_kUInt32T | ot_kUInt64T | ot_kSizeT
  | ot_kString | ot_kDouble | ot_kCompactionStyle | ot_kCompactionPri | ot_kCompressionType | ot_kCompactionStopStyle
  | ot_kFilterPolicy | ot_kChecksumType | ot_kEncodingType | ot_kEnv | ot_kEnum | ot_kStruct | ot_kVector
  | ot_kConfigurable | ot_kCustomizable | ot_kEncodedString | ot_kUnknown

datatype OptionVerificationType =
    ov_kNormal | ov_kByName | ov_kByNameAllowNull | ov_kByNameAllowFromNull | ov_kDeprecated | ov_kAlias

type_synonym OptionTypeFlags = "32 word"

definition otf_kNone :: OptionTypeFlags where "otf_kNone = 0x00"
definition otf_kCompareDefault :: OptionTypeFlags where "otf_kCompareDefault = 0x0"
definition otf_kCompareNever :: OptionTypeFlags where "otf_kCompareNever = ucast kSanityLevelNone"
definition otf_kCompareLoose :: OptionTypeFlags where "otf_kCompareLoose = ucast kSanityLevelLooselyCompatible"
definition otf_kCompareExact :: OptionTypeFlags where "otf_kCompareExact = ucast kSanityLevelExactMatch"
definition otf_kMutable :: OptionTypeFlags where "otf_kMutable = 0x0100"
definition otf_kRawPointer :: OptionTypeFlags where "otf_kRawPointer = 0x0200"
definition otf_kShared :: OptionTypeFlags where "otf_kShared = 0x0400"
definition otf_kUnique :: OptionTypeFlags where "otf_kUnique = 0x0800"
definition otf_kAllowNull :: OptionTypeFlags where "otf_kAllowNull = 0x1000"
definition otf_kDontSerialize :: OptionTypeFlags where "otf_kDontSerialize = 0x2000"
definition otf_kDontPrepare :: OptionTypeFlags where "otf_kDontPrepare = 0x4000"
definition otf_kStringNameOnly :: OptionTypeFlags where "otf_kStringNameOnly = 0x8000"

lemmas option_flags =
  otf_kNone_def otf_kCompareDefault_def otf_kCompareNever_def otf_kCompareLoose_def otf_kCompareExact_def otf_kMutable_def
  otf_kRawPointer_def otf_kShared_def otf_kUnique_def otf_kAllowNull_def otf_kDontSerialize_def otf_kDontPrepare_def
  otf_kStringNameOnly_def kSanityLevelNone_def kSanityLevelLooselyCompatible_def kSanityLevelExactMatch_def

definition OptionTypeFlags_or :: "OptionTypeFlags \<Rightarrow> OptionTypeFlags \<Rightarrow> OptionTypeFlags" where
  "OptionTypeFlags_or a b = a OR b"

definition OptionTypeFlags_and :: "OptionTypeFlags \<Rightarrow> OptionTypeFlags \<Rightarrow> OptionTypeFlags" where
  "OptionTypeFlags_and a b = a AND b"

section \<open>Enums as strings\<close>

definition ParseEnum :: "(string \<times> 'a) list \<Rightarrow> string \<Rightarrow> 'a \<Rightarrow> bool \<times> 'a" where
  "ParseEnum type_map type val = (case map_of type_map type of Some v \<Rightarrow> (True, v) | None \<Rightarrow> (False, val))"

fun SerializeEnum :: "(string \<times> 'a) list \<Rightarrow> 'a \<Rightarrow> string \<Rightarrow> bool \<times> string" where
  "SerializeEnum [] type val = (False, val)"
| "SerializeEnum ((k, v) # type_map) type val = (if v = type then (True, k) else SerializeEnum type_map type val)"

section \<open>OptionTypeInfo\<close>

type_synonym 'a ParseFunc = "ConfigOptions \<Rightarrow> string \<Rightarrow> string \<Rightarrow> 'a \<Rightarrow> Status \<times> 'a"
type_synonym 'a SerializeFunc = "ConfigOptions \<Rightarrow> string \<Rightarrow> 'a \<Rightarrow> string \<Rightarrow> Status \<times> string"
type_synonym 'a EqualsFunc = "ConfigOptions \<Rightarrow> string \<Rightarrow> 'a \<Rightarrow> 'a \<Rightarrow> string \<Rightarrow> bool \<times> string"

record 'a OptionTypeInfo =
  oti_offset :: c_int
  oti_parse_func :: "'a ParseFunc option"
  oti_serialize_func :: "'a SerializeFunc option"
  oti_equals_func :: "'a EqualsFunc option"
  oti_type :: OptionType
  oti_verification :: OptionVerificationType
  oti_flags :: OptionTypeFlags

definition OptionTypeInfo_simple :: "c_int \<Rightarrow> OptionType \<Rightarrow> 'a OptionTypeInfo" where
  "OptionTypeInfo_simple offset type =
     \<lparr>oti_offset = offset, oti_parse_func = None, oti_serialize_func = None, oti_equals_func = None,
      oti_type = type, oti_verification = ov_kNormal, oti_flags = otf_kNone\<rparr>"

definition OptionTypeInfo_flags :: "c_int \<Rightarrow> OptionType \<Rightarrow> OptionVerificationType \<Rightarrow> OptionTypeFlags \<Rightarrow> 'a OptionTypeInfo" where
  "OptionTypeInfo_flags offset type verification flags =
     \<lparr>oti_offset = offset, oti_parse_func = None, oti_serialize_func = None, oti_equals_func = None,
      oti_type = type, oti_verification = verification, oti_flags = flags\<rparr>"

definition OptionTypeInfo_parse ::
    "c_int \<Rightarrow> OptionType \<Rightarrow> OptionVerificationType \<Rightarrow> OptionTypeFlags \<Rightarrow> 'a ParseFunc \<Rightarrow> 'a OptionTypeInfo" where
  "OptionTypeInfo_parse offset type verification flags parse_func =
     \<lparr>oti_offset = offset, oti_parse_func = Some parse_func, oti_serialize_func = None, oti_equals_func = None,
      oti_type = type, oti_verification = verification, oti_flags = flags\<rparr>"

definition OptionTypeInfo_full ::
    "c_int \<Rightarrow> OptionType \<Rightarrow> OptionVerificationType \<Rightarrow> OptionTypeFlags \<Rightarrow> 'a ParseFunc option \<Rightarrow> 'a SerializeFunc option \<Rightarrow>
     'a EqualsFunc option \<Rightarrow> 'a OptionTypeInfo" where
  "OptionTypeInfo_full offset type verification flags parse_func serialize_func equals_func =
     \<lparr>oti_offset = offset, oti_parse_func = parse_func, oti_serialize_func = serialize_func, oti_equals_func = equals_func,
      oti_type = type, oti_verification = verification, oti_flags = flags\<rparr>"

definition no_enum_mapping :: "status_ctor \<Rightarrow> string \<Rightarrow> Status" where
  "no_enum_mapping ctor name = Status_NotSupported_msg ctor (Slice_of_string ''No enum mapping '') (Slice_of_string name)"

definition no_mapping_for_enum :: "status_ctor \<Rightarrow> string \<Rightarrow> Status" where
  "no_mapping_for_enum ctor name = Status_InvalidArgument_msg ctor (Slice_of_string ''No mapping for enum '') (Slice_of_string name)"

definition OptionTypeInfo_Enum ::
    "status_ctor \<Rightarrow> c_int \<Rightarrow> (string \<times> 'a) list option \<Rightarrow> OptionTypeFlags \<Rightarrow> 'a OptionTypeInfo" where
  "OptionTypeInfo_Enum ctor offset enum_map flags =
     OptionTypeInfo_full offset ot_kEnum ov_kNormal flags
       (Some (\<lambda>_ name val addr. case enum_map of
            None \<Rightarrow> (no_enum_mapping ctor name, addr)
          | Some m \<Rightarrow> (let (found, addr) = ParseEnum m val addr in
                       (if found then Status_OK else no_mapping_for_enum ctor name, addr))))
       (Some (\<lambda>_ name addr val. case enum_map of
            None \<Rightarrow> (no_enum_mapping ctor name, val)
          | Some m \<Rightarrow> (let (found, val) = SerializeEnum m addr val in
                       (if found then Status_OK else no_mapping_for_enum ctor name, val))))
       (Some (\<lambda>_ _ addr1 addr2 mismatch. (addr1 = addr2, mismatch)))"

text \<open>The functions on structs are library code; \<open>'m\<close> is the map of the fields' infos.\<close>

record ('m, 'a) struct_lib =
  sl_ParseStruct :: "ConfigOptions \<Rightarrow> string \<Rightarrow> 'm \<Rightarrow> string \<Rightarrow> string \<Rightarrow> 'a \<Rightarrow> Status \<times> 'a"
  sl_SerializeStruct :: "ConfigOptions \<Rightarrow> string \<Rightarrow> 'm \<Rightarrow> string \<Rightarrow> 'a \<Rightarrow> string \<Rightarrow> Status \<times> string"
  sl_StructsAreEqual :: "ConfigOptions \<Rightarrow> string \<Rightarrow> 'm \<Rightarrow> string \<Rightarrow> 'a \<Rightarrow> 'a \<Rightarrow> string \<Rightarrow> bool \<times> string"

definition OptionTypeInfo_Struct_parse ::
    "('m, 'a) struct_lib \<Rightarrow> string \<Rightarrow> 'm \<Rightarrow> c_int \<Rightarrow> OptionVerificationType \<Rightarrow> OptionTypeFlags \<Rightarrow> 'a ParseFunc \<Rightarrow> 'a OptionTypeInfo" where
  "OptionTypeInfo_Struct_parse L struct_name struct_map offset verification flags parse_func =
     OptionTypeInfo_full offset ot_kStruct verification flags (Some parse_func)
       (Some (\<lambda>opts name addr val. sl_SerializeStruct L opts struct_name struct_map name addr val))
       (Some (\<lambda>opts name addr1 addr2 mismatch. sl_StructsAreEqual L opts struct_name struct_map name addr1 addr2 mismatch))"

definition OptionTypeInfo_Struct ::
    "('m, 'a) struct_lib \<Rightarrow> string \<Rightarrow> 'm \<Rightarrow> c_int \<Rightarrow> OptionVerificationType \<Rightarrow> OptionTypeFlags \<Rightarrow> 'a OptionTypeInfo" where
  "OptionTypeInfo_Struct L struct_name struct_map offset verification flags =
     OptionTypeInfo_full offset ot_kStruct verification flags
       (Some (\<lambda>opts name val addr. sl_ParseStruct L opts struct_name struct_map name val addr))
       (Some (\<lambda>opts name addr val. sl_SerializeStruct L opts struct_name struct_map name addr val))
       (Some (\<lambda>opts name addr1 addr2 mismatch. sl_StructsAreEqual L opts struct_name struct_map name addr1 addr2 mismatch))"

definition kIdPropName :: string where
  "kIdPropName = ''id''"

definition kIdPropSuffix :: string where
  "kIdPropSuffix = ''.id''"

text \<open>
  The three kinds of pointers to customizable objects differ in their flag; a pointer is an optional
  object and \<open>create\<close> is the class's \<open>CreateFromString\<close>.
\<close>

definition custom_parse :: "(ConfigOptions \<Rightarrow> string \<Rightarrow> 'o option \<Rightarrow> Status \<times> 'o option) \<Rightarrow> 'o option ParseFunc" where
  "custom_parse create opts name val addr =
     (if name = kIdPropName \<and> val = [] then (Status_OK, None) else create opts val addr)"

definition OptionTypeInfo_AsCustomSharedPtr ::
    "(ConfigOptions \<Rightarrow> string \<Rightarrow> 'o option \<Rightarrow> Status \<times> 'o option) \<Rightarrow> c_int \<Rightarrow> OptionVerificationType \<Rightarrow> OptionTypeFlags \<Rightarrow>
     'o option SerializeFunc option \<Rightarrow> 'o option EqualsFunc option \<Rightarrow> 'o option OptionTypeInfo" where
  "OptionTypeInfo_AsCustomSharedPtr create offset ovt flags serialize_func equals_func =
     OptionTypeInfo_full offset ot_kCustomizable ovt (OptionTypeFlags_or flags otf_kShared)
       (Some (custom_parse create)) serialize_func equals_func"

definition OptionTypeInfo_AsCustomUniquePtr ::
    "(ConfigOptions \<Rightarrow> string \<Rightarrow> 'o option \<Rightarrow> Status \<times> 'o option) \<Rightarrow> c_int \<Rightarrow> OptionVerificationType \<Rightarrow> OptionTypeFlags \<Rightarrow>
     'o option SerializeFunc option \<Rightarrow> 'o option EqualsFunc option \<Rightarrow> 'o option OptionTypeInfo" where
  "OptionTypeInfo_AsCustomUniquePtr create offset ovt flags serialize_func equals_func =
     OptionTypeInfo_full offset ot_kCustomizable ovt (OptionTypeFlags_or flags otf_kUnique)
       (Some (custom_parse create)) serialize_func equals_func"

definition OptionTypeInfo_AsCustomRawPtr ::
    "(ConfigOptions \<Rightarrow> string \<Rightarrow> 'o option \<Rightarrow> Status \<times> 'o option) \<Rightarrow> c_int \<Rightarrow> OptionVerificationType \<Rightarrow> OptionTypeFlags \<Rightarrow>
     'o option SerializeFunc option \<Rightarrow> 'o option EqualsFunc option \<Rightarrow> 'o option OptionTypeInfo" where
  "OptionTypeInfo_AsCustomRawPtr create offset ovt flags serialize_func equals_func =
     OptionTypeInfo_full offset ot_kCustomizable ovt (OptionTypeFlags_or flags otf_kRawPointer)
       (Some (custom_parse create)) serialize_func equals_func"

section \<open>Predicates on infos\<close>

definition oti_IsEnabled :: "'a OptionTypeInfo \<Rightarrow> OptionTypeFlags \<Rightarrow> bool" where
  "oti_IsEnabled t otf \<longleftrightarrow> OptionTypeFlags_and (oti_flags t) otf = otf"

definition oti_IsEnabled_ver :: "'a OptionTypeInfo \<Rightarrow> OptionVerificationType \<Rightarrow> bool" where
  "oti_IsEnabled_ver t ovf \<longleftrightarrow> oti_verification t = ovf"

definition oti_IsMutable :: "'a OptionTypeInfo \<Rightarrow> bool" where
  "oti_IsMutable t \<longleftrightarrow> oti_IsEnabled t otf_kMutable"

definition oti_IsEditable :: "'a OptionTypeInfo \<Rightarrow> ConfigOptions \<Rightarrow> bool" where
  "oti_IsEditable t opts = (if co_mutable_options_only opts then oti_IsMutable t else True)"

definition oti_IsDeprecated :: "'a OptionTypeInfo \<Rightarrow> bool" where
  "oti_IsDeprecated t \<longleftrightarrow> oti_IsEnabled_ver t ov_kDeprecated"

definition oti_IsAlias :: "'a OptionTypeInfo \<Rightarrow> bool" where
  "oti_IsAlias t \<longleftrightarrow> oti_IsEnabled_ver t ov_kAlias"

definition oti_GetSanityLevel :: "'a OptionTypeInfo \<Rightarrow> SanityLevel" where
  "oti_GetSanityLevel t =
     (if oti_IsDeprecated t \<or> oti_IsAlias t then kSanityLevelNone
      else
        let match = OptionTypeFlags_and (oti_flags t) otf_kCompareExact in
        if match = otf_kCompareDefault then kSanityLevelExactMatch else ucast match)"

definition oti_ShouldSerialize :: "'a OptionTypeInfo \<Rightarrow> bool" where
  "oti_ShouldSerialize t =
     (if oti_IsDeprecated t \<or> oti_IsAlias t then False
      else if oti_IsEnabled t otf_kDontSerialize then False else True)"

definition oti_CanBeNull :: "'a OptionTypeInfo \<Rightarrow> bool" where
  "oti_CanBeNull t \<longleftrightarrow> oti_IsEnabled t otf_kAllowNull \<or> oti_IsEnabled_ver t ov_kByNameAllowNull \<or>
     oti_IsEnabled_ver t ov_kByNameAllowFromNull"

definition oti_IsSharedPtr :: "'a OptionTypeInfo \<Rightarrow> bool" where
  "oti_IsSharedPtr t \<longleftrightarrow> oti_IsEnabled t otf_kShared"

definition oti_IsUniquePtr :: "'a OptionTypeInfo \<Rightarrow> bool" where
  "oti_IsUniquePtr t \<longleftrightarrow> oti_IsEnabled t otf_kUnique"

definition oti_IsRawPtr :: "'a OptionTypeInfo \<Rightarrow> bool" where
  "oti_IsRawPtr t \<longleftrightarrow> oti_IsEnabled t otf_kRawPointer"

definition oti_IsByName :: "'a OptionTypeInfo \<Rightarrow> bool" where
  "oti_IsByName t \<longleftrightarrow> oti_verification t = ov_kByName \<or> oti_verification t = ov_kByNameAllowNull \<or>
     oti_verification t = ov_kByNameAllowFromNull"

definition oti_IsStruct :: "'a OptionTypeInfo \<Rightarrow> bool" where
  "oti_IsStruct t \<longleftrightarrow> oti_type t = ot_kStruct"

definition oti_IsConfigurable :: "'a OptionTypeInfo \<Rightarrow> bool" where
  "oti_IsConfigurable t \<longleftrightarrow> oti_type t = ot_kConfigurable \<or> oti_type t = ot_kCustomizable"

definition oti_IsCustomizable :: "'a OptionTypeInfo \<Rightarrow> bool" where
  "oti_IsCustomizable t \<longleftrightarrow> oti_type t = ot_kCustomizable"

text \<open>What the memory holds at an address, read as each kind of pointer.\<close>

record pointer_memory =
  pm_unique :: "int \<Rightarrow> int option"
  pm_shared :: "int \<Rightarrow> int option"
  pm_raw :: "int \<Rightarrow> int option"

definition oti_AsRawPointer :: "'a OptionTypeInfo \<Rightarrow> pointer_memory \<Rightarrow> int option \<Rightarrow> int option" where
  "oti_AsRawPointer t M base_addr =
     (case base_addr of
        None \<Rightarrow> None
      | Some b \<Rightarrow>
          let opt_addr = b + sint (oti_offset t) in
          if oti_IsUniquePtr t then pm_unique M opt_addr
          else if oti_IsSharedPtr t then pm_shared M opt_addr
          else if oti_IsRawPtr t then pm_raw M opt_addr
          else Some opt_addr)"

section \<open>Vectors\<close>

text \<open>What the templates call of the library, for elements of type \<open>'a\<close>.\<close>

record 'a elem_lib =
  el_NextToken :: "string \<Rightarrow> char \<Rightarrow> nat \<Rightarrow> nat \<Rightarrow> string \<Rightarrow> Status \<times> nat \<times> string"
  el_Parse :: "'a OptionTypeInfo \<Rightarrow> ConfigOptions \<Rightarrow> string \<Rightarrow> string \<Rightarrow> 'a \<Rightarrow> Status \<times> 'a"
  el_Serialize :: "'a OptionTypeInfo \<Rightarrow> ConfigOptions \<Rightarrow> string \<Rightarrow> 'a \<Rightarrow> string \<Rightarrow> Status \<times> string"
  el_AreEqual :: "'a OptionTypeInfo \<Rightarrow> ConfigOptions \<Rightarrow> string \<Rightarrow> 'a \<Rightarrow> 'a \<Rightarrow> string \<Rightarrow> bool \<times> string"

definition npos :: nat where
  "npos = 2 ^ 64 - 1"

text \<open>
  The body of the loop: the new status, the new \<open>end\<close> and the vector. \<open>elem0\<close> is what the local
  variable \<open>elem\<close> starts with.
\<close>

definition parse_vector_step ::
    "'a elem_lib \<Rightarrow> 'a \<Rightarrow> 'a OptionTypeInfo \<Rightarrow> ConfigOptions \<Rightarrow> char \<Rightarrow> string \<Rightarrow> string \<Rightarrow> nat \<Rightarrow> nat \<Rightarrow> 'a list \<Rightarrow>
     Status \<times> nat \<times> 'a list" where
  "parse_vector_step L elem0 elem_info config_options separator name val start end' result =
     (let (status, end', token) = el_NextToken L val separator start end' [] in
      if Status_ok status then
        let (status, elem) = el_Parse L elem_info (config_options\<lparr>co_ignore_unsupported_options := False\<rparr>) name token elem0 in
        if Status_ok status then (status, end', result @ [elem])
        else if co_ignore_unsupported_options config_options \<and> Status_IsNotSupported status then (Status_OK, end', result)
        else (status, end', result)
      else (status, end', result))"

partial_function (option) parse_vector_loop ::
    "'a elem_lib \<Rightarrow> 'a \<Rightarrow> 'a OptionTypeInfo \<Rightarrow> ConfigOptions \<Rightarrow> char \<Rightarrow> string \<Rightarrow> string \<Rightarrow> Status \<Rightarrow> nat \<Rightarrow> nat \<Rightarrow> 'a list \<Rightarrow>
     (Status \<times> 'a list) option" where
  "parse_vector_loop L elem0 elem_info config_options separator name val status start end' result =
     (if Status_ok status \<and> start < length val \<and> end' \<noteq> npos then
        (case parse_vector_step L elem0 elem_info config_options separator name val start end' result of
           (status', end'', result') \<Rightarrow>
             parse_vector_loop L elem0 elem_info config_options separator name val status' ((end'' + 1) mod 2 ^ 64) end'' result')
      else Some (status, result))"

definition ParseVector ::
    "'a elem_lib \<Rightarrow> 'a \<Rightarrow> ConfigOptions \<Rightarrow> 'a OptionTypeInfo \<Rightarrow> char \<Rightarrow> string \<Rightarrow> string \<Rightarrow> (Status \<times> 'a list) option" where
  "ParseVector L elem0 config_options elem_info separator name val =
     parse_vector_loop L elem0 elem_info config_options separator name val Status_default 0 0 []"

text \<open>The serialising loop returns early with a status that is not OK.\<close>

fun serialize_vector_loop ::
    "'a elem_lib \<Rightarrow> 'a OptionTypeInfo \<Rightarrow> ConfigOptions \<Rightarrow> char \<Rightarrow> string \<Rightarrow> 'a list \<Rightarrow> string \<Rightarrow> c_int \<Rightarrow> Status + string \<times> c_int" where
  "serialize_vector_loop L elem_info embedded separator name [] result printed = Inr (result, printed)"
| "serialize_vector_loop L elem_info embedded separator name (elem # vec) result printed =
     (let (s, elem_str) = el_Serialize L elem_info embedded name elem [] in
      if \<not> Status_ok s then Inl s
      else if elem_str \<noteq> [] then
        let result = (if sint printed > 0 then result @ [separator] else result);
            result = result @ (if separator \<in> set elem_str then ''{'' @ elem_str @ ''}'' else elem_str) in
        serialize_vector_loop L elem_info embedded separator name vec result (printed + 1)
      else serialize_vector_loop L elem_info embedded separator name vec result printed)"

definition SerializeVector ::
    "'a elem_lib \<Rightarrow> ConfigOptions \<Rightarrow> 'a OptionTypeInfo \<Rightarrow> char \<Rightarrow> string \<Rightarrow> 'a list \<Rightarrow> string \<Rightarrow> (Status \<times> string) result" where
  "SerializeVector L config_options elem_info separator name vec val =
     (case serialize_vector_loop L elem_info (config_options\<lparr>co_delimiter := '';''\<rparr>) separator name vec [] 0 of
        Inl s \<Rightarrow> Inr (s, val)
      | Inr (result, printed) \<Rightarrow>
          if CHR ''='' \<in> set result then Inr (Status_OK, ''{'' @ result @ ''}'')
          else if sint printed > 1 then
            bindr (guard Out_of_bounds_read (result \<noteq> [])) (\<lambda>_.
            Inr (Status_OK, if hd result = CHR ''{'' then ''{'' @ result @ ''}'' else result))
          else Inr (Status_OK, result))"

fun vectors_equal_loop ::
    "'a elem_lib \<Rightarrow> ConfigOptions \<Rightarrow> 'a OptionTypeInfo \<Rightarrow> string \<Rightarrow> ('a \<times> 'a) list \<Rightarrow> string \<Rightarrow> bool \<times> string" where
  "vectors_equal_loop L config_options elem_info name [] mismatch = (True, mismatch)"
| "vectors_equal_loop L config_options elem_info name ((x, y) # xys) mismatch =
     (let (eq, mismatch) = el_AreEqual L elem_info config_options name x y mismatch in
      if \<not> eq then (False, mismatch) else vectors_equal_loop L config_options elem_info name xys mismatch)"

definition VectorsAreEqual ::
    "'a elem_lib \<Rightarrow> ConfigOptions \<Rightarrow> 'a OptionTypeInfo \<Rightarrow> string \<Rightarrow> 'a list \<Rightarrow> 'a list \<Rightarrow> string \<Rightarrow> bool \<times> string" where
  "VectorsAreEqual L config_options elem_info name vec1 vec2 mismatch =
     (if length vec1 \<noteq> length vec2 then (False, name)
      else vectors_equal_loop L config_options elem_info name (zip vec1 vec2) mismatch)"

text \<open>
  The info of a vector. A loop or an access that does not return normally has no result to give to
  the caller: \<open>undef_parse\<close> and \<open>undef_ser\<close> stand for it.
\<close>

definition OptionTypeInfo_Vector ::
    "'a elem_lib \<Rightarrow> 'a \<Rightarrow> Status \<times> 'a list \<Rightarrow> Status \<times> string \<Rightarrow> c_int \<Rightarrow> OptionVerificationType \<Rightarrow> OptionTypeFlags \<Rightarrow>
     'a OptionTypeInfo \<Rightarrow> char \<Rightarrow> 'a list OptionTypeInfo" where
  "OptionTypeInfo_Vector L elem0 undef_parse undef_ser offset verification flags elem_info separator =
     OptionTypeInfo_full offset ot_kVector verification flags
       (Some (\<lambda>opts name val addr.
          case ParseVector L elem0 opts elem_info separator name val of Some r \<Rightarrow> r | None \<Rightarrow> undef_parse))
       (Some (\<lambda>opts name addr val.
          case SerializeVector L opts elem_info separator name addr val of Inr r \<Rightarrow> r | Inl _ \<Rightarrow> undef_ser))
       (Some (\<lambda>opts name addr1 addr2 mismatch. VectorsAreEqual L opts elem_info name addr1 addr2 mismatch))"

section \<open>The documented tokeniser\<close>

text \<open>A token without the separator, braces or white space.\<close>

definition plain_token :: "char \<Rightarrow> string \<Rightarrow> bool" where
  "plain_token separator t \<longleftrightarrow> t \<noteq> [] \<and> (\<forall>c \<in> set t. c \<noteq> separator \<and> c \<notin> set ''{} '' \<and> 32 < (of_char c :: nat))"

text \<open>
  What the comments say of \<open>NextToken\<close> on strings without braces, white space and escapes. They leave
  open where \<open>end\<close> points after an inner token: the example at the function itself puts it on the
  character behind the delimiter (\<open>gap = 1\<close>), the example at \<open>ParseVector\<close>, which goes on at \<open>end + 1\<close>,
  needs it on the delimiter (\<open>gap = 0\<close>).
\<close>

locale tokeniser =
  fixes gap :: nat
    and next_token :: "string \<Rightarrow> char \<Rightarrow> nat \<Rightarrow> nat \<Rightarrow> string \<Rightarrow> Status \<times> nat \<times> string"
  assumes inner: "plain_token sep t \<Longrightarrow> next_token (pre @ t @ sep # rest) sep (length pre) e tk = (st, e', t') \<Longrightarrow>
      Status_ok st \<and> e' = length pre + length t + gap \<and> t' = t"
    and final: "plain_token sep t \<Longrightarrow> next_token (pre @ t) sep (length pre) e tk = (st, e', t') \<Longrightarrow>
      Status_ok st \<and> (e' = npos \<or> e' = length pre + length t) \<and> t' = t"

fun join_tokens :: "char \<Rightarrow> string list \<Rightarrow> string" where
  "join_tokens sep [] = []"
| "join_tokens sep [t] = t"
| "join_tokens sep (t # ts) = t @ sep # join_tokens sep ts"

text \<open>The tokens a loop gets that goes on one character behind \<open>end\<close>.\<close>

fun tokens_seen :: "nat \<Rightarrow> string list \<Rightarrow> string list" where
  "tokens_seen gap [] = []"
| "tokens_seen gap (t # ts) = t # map (drop gap) ts"

lemma tokens_seen_0 [simp]: "tokens_seen 0 ts = ts"
  by (cases ts) (simp_all add: drop_0 [abs_def])

lemma join_tokens_drop:
  "join_tokens sep (t # ts) = take gap t @ join_tokens sep (drop gap t # ts)"
  by (cases ts) simp_all

lemma join_tokens_Cons: "ts \<noteq> [] \<Longrightarrow> join_tokens sep (t # ts) = t @ sep # join_tokens sep ts"
  by (cases ts) simp_all




lemma plain_tokenD:
  assumes "plain_token sep t"
  shows "t \<noteq> []" "sep \<notin> set t" "hd t \<noteq> CHR ''{''"
  using assms hd_in_set [of t] by (auto simp: plain_token_def)

lemma plain_token_drop: "plain_token sep t \<Longrightarrow> gap < length t \<Longrightarrow> plain_token sep (drop gap t)"
  by (auto simp: plain_token_def dest: in_set_dropD)

lemma fresh_status_ok [simp]: "Status_ok Status_OK" "Status_ok Status_default"
  by (simp_all add: Status_ok_def Status_OK_def Status_default_def Status_code_def)



definition reads_as :: "'a elem_lib \<Rightarrow> 'a \<Rightarrow> 'a OptionTypeInfo \<Rightarrow> ConfigOptions \<Rightarrow> string \<Rightarrow> string \<Rightarrow> 'a \<Rightarrow> bool" where
  "reads_as L elem0 elem_info config_options name t x \<longleftrightarrow>
     (case el_Parse L elem_info (config_options\<lparr>co_ignore_unsupported_options := False\<rparr>) name t elem0 of
        (st, y) \<Rightarrow> Status_ok st \<and> y = x)"


lemma parse_loop_stop:
  "start \<ge> length val \<or> end' = npos \<Longrightarrow>
     parse_vector_loop L elem0 elem_info config_options sep name val st start end' res = Some (st, res)"
  by (subst parse_vector_loop.simps) auto

context tokeniser
begin

lemma parse_step:
  assumes "el_NextToken L = next_token" and "reads_as L elem0 elem_info config_options name t x" and "plain_token sep t"
    and "val = pre @ t @ sep # rest \<or> val = pre @ t"
  obtains st e where
    "parse_vector_step L elem0 elem_info config_options sep name val (length pre) end' res = (st, e, res @ [x])"
    and "Status_ok st" and "val = pre @ t @ sep # rest \<and> e = length pre + length t + gap \<or>
      val = pre @ t \<and> (e = npos \<or> e = length val)"
proof -
  obtain nst e t' where nt: "next_token val sep (length pre) end' [] = (nst, e, t')"
    by (metis prod_cases3)
  then have tok: "Status_ok nst" "t' = t" "val = pre @ t @ sep # rest \<and> e = length pre + length t + gap \<or>
      val = pre @ t \<and> (e = npos \<or> e = length val)"
    using assms(4) inner [OF assms(3)] final [OF assms(3)] by (metis length_append)+
  then show thesis
    using that assms(1,2) nt by (auto simp: parse_vector_step_def reads_as_def split: prod.splits)
qed

lemma parse_loop:
  assumes "list_all2 (\<lambda>t x. reads_as L elem0 elem_info config_options name t x \<and> plain_token sep t) (tokens_seen gap ts) xs"
    and "\<forall>t \<in> set ts. plain_token sep t" "\<forall>t \<in> set (tl ts). gap < length t"
    and "el_NextToken L = next_token" and "val = pre @ join_tokens sep ts" and "length val < npos"
    and "Status_ok st" and "end' \<noteq> npos"
  shows "\<exists>st'. Status_ok st' \<and>
    parse_vector_loop L elem0 elem_info config_options sep name val st (length pre) end' res = Some (st', res @ xs)"
  using assms
proof (induction xs arbitrary: ts pre st end' res rule: list.induct)
  case Nil
  then have "ts = []" by (cases ts) auto
  then show ?case using Nil by (auto simp: parse_loop_stop)
next
  case (Cons x xs)
  then obtain t ts' where ts: "ts = t # ts'" by (cases ts) auto
  have t: "reads_as L elem0 elem_info config_options name t x" "plain_token sep t"
    and tail: "list_all2 (\<lambda>t x. reads_as L elem0 elem_info config_options name t x \<and> plain_token sep t) (map (drop gap) ts') xs"
    using Cons.prems(1) ts by simp_all
  define rest where "rest = join_tokens sep ts'"
  have split: "val = (if ts' = [] then pre @ t else pre @ t @ sep # rest)"
    using Cons.prems(5) ts by (auto simp: rest_def join_tokens_Cons)
  obtain st' e where stp: "parse_vector_step L elem0 elem_info config_options sep name val (length pre) end' res = (st', e, res @ [x])"
      and ok: "Status_ok st'" and e: "val = pre @ t @ sep # rest \<and> e = length pre + length t + gap \<or>
        val = pre @ t \<and> (e = npos \<or> e = length val)"
    by (rule parse_step [OF Cons.prems(4) t, of val pre rest]) (use split in \<open>auto split: if_splits\<close>)
  have "length pre < length val"
    using plain_tokenD(1) [OF t(2)] split by (simp split: if_splits)
  then have run: "parse_vector_loop L elem0 elem_info config_options sep name val st (length pre) end' res =
      parse_vector_loop L elem0 elem_info config_options sep name val st' ((e + 1) mod 2 ^ 64) e (res @ [x])"
    using Cons.prems(7,8) by (subst parse_vector_loop.simps) (simp add: stp)
  show ?case
  proof (cases ts')
    case Nil
    then have "e = npos \<or> e = length val" using e split by auto
    then have "(e + 1) mod 2 ^ 64 \<ge> length val \<or> e = npos"
      using Cons.prems(6) by (auto simp: npos_def)
    then show ?thesis
      using Nil tail ok by (auto simp: run parse_loop_stop)
  next
    case (Cons t2 ts2)
    have v: "val = pre @ t @ sep # rest" "e = length pre + length t + gap" using e split Cons by auto
    have long: "plain_token sep t2" "gap < length t2"
      using Cons.prems(2,3) ts Cons by simp_all
    have pre': "val = (pre @ t @ [sep] @ take gap t2) @ join_tokens sep (drop gap t2 # ts2)"
      using v(1) join_tokens_drop [of sep t2 ts2 gap] Cons by (simp add: rest_def)
    then have "length (pre @ t @ [sep] @ take gap t2) \<le> length val"
      by (metis length_append le_add1)
    then have "(e + 1) mod 2 ^ 64 = length (pre @ t @ [sep] @ take gap t2)" "e \<noteq> npos"
      using Cons.prems(6) v(2) long(2) by (simp_all add: npos_def)
    then show ?thesis
      using Cons.IH [of "drop gap t2 # ts2" "pre @ t @ [sep] @ take gap t2" st' e "res @ [x]"]
        Cons.prems(2,3,4,6) tail ts Cons pre' ok plain_token_drop [OF long] unfolding run by simp
  qed
qed

end

text \<open>
  Tokenisers as documented, for strings without braces: the next token ends at the separator, or \<open>gap\<close>
  characters behind it, and the last one at the end of the string.
\<close>

definition next_plain_token :: "nat \<Rightarrow> string \<Rightarrow> char \<Rightarrow> nat \<Rightarrow> nat \<Rightarrow> string \<Rightarrow> Status \<times> nat \<times> string" where
  "next_plain_token gap opts sep start e tk =
     (let t = takeWhile (\<lambda>c. c \<noteq> sep) (drop start opts) in
      (Status_OK, if start + length t < length opts then start + length t + gap else npos, t))"

lemma next_plain_token_tokeniser: "tokeniser gap (next_plain_token gap)"
proof
  fix sep t pre rest e tk st e' t'
  assume "plain_token sep t"
  then have tw: "takeWhile (\<lambda>c. c \<noteq> sep) t = t" "takeWhile (\<lambda>c. c \<noteq> sep) (t @ sep # rest) = t"
    using plain_tokenD(2) [of sep t] by (auto simp: takeWhile_eq_all_conv takeWhile_append)
  show "next_plain_token gap (pre @ t @ sep # rest) sep (length pre) e tk = (st, e', t') \<Longrightarrow>
      Status_ok st \<and> e' = length pre + length t + gap \<and> t' = t"
    using tw by (auto simp: next_plain_token_def)
  show "next_plain_token gap (pre @ t) sep (length pre) e tk = (st, e', t') \<Longrightarrow>
      Status_ok st \<and> (e' = npos \<or> e' = length pre + length t) \<and> t' = t"
    using tw by (auto simp: next_plain_token_def)
qed

interpretation at_delimiter: tokeniser 0 "next_plain_token 0"
  by (rule next_plain_token_tokeniser)

interpretation behind_delimiter: tokeniser 1 "next_plain_token 1"
  by (rule next_plain_token_tokeniser)


definition string_lib :: "nat \<Rightarrow> string elem_lib" where
  "string_lib gap = \<lparr>el_NextToken = next_plain_token gap, el_Parse = (\<lambda>_ _ _ val _. (Status_OK, val)),
     el_Serialize = (\<lambda>_ _ _ x _. (Status_OK, x)),
     el_AreEqual = (\<lambda>_ _ name x y mismatch. if x = y then (True, mismatch) else (False, name))\<rparr>"



section \<open>Comparing vectors\<close>

lemma vectors_equal_loop_find:
  assumes "\<And>x y m. el_AreEqual L elem_info config_options name x y m = (eqv x y, if eqv x y then m else mis x y)"
  shows "vectors_equal_loop L config_options elem_info name xys m =
    (case find (\<lambda>(x, y). \<not> eqv x y) xys of None \<Rightarrow> (True, m) | Some (x, y) \<Rightarrow> (False, mis x y))"
  by (induction xys) (auto simp: assms)

text \<open>
  C19: \<open>VectorsAreEqual\<close> is the element-wise comparison. When the comparison of two elements
  answers \<open>eqv\<close> and reports \<open>mis\<close> where they differ, the answer for two vectors is whether they have
  the same length and equal elements at every position; the mismatch reported is the option's name
  when the lengths differ, what the first differing pair reports otherwise, and is left alone
  when the vectors are equal.
\<close>

theorem vectors_are_equal_elementwise:
  assumes "\<And>x y m. el_AreEqual L elem_info config_options name x y m = (eqv x y, if eqv x y then m else mis x y)"
  shows "VectorsAreEqual L config_options elem_info name vec1 vec2 mismatch =
    (list_all2 eqv vec1 vec2,
     if length vec1 \<noteq> length vec2 then name
     else case find (\<lambda>(x, y). \<not> eqv x y) (zip vec1 vec2) of None \<Rightarrow> mismatch | Some (x, y) \<Rightarrow> mis x y)"
proof -
  have "find (\<lambda>(x, y). \<not> eqv x y) (zip vec1 vec2) = None \<longleftrightarrow> list_all2 eqv vec1 vec2" if "length vec1 = length vec2"
    using that by (auto simp: find_None_iff list_all2_iff)
  then show ?thesis
    by (auto simp: VectorsAreEqual_def vectors_equal_loop_find [OF assms] list_all2_lengthD split: option.splits)
qed

theorem vectors_are_equal_elementwise_witness:
  "VectorsAreEqual (string_lib 0) (ConfigOptions_inits None) (OptionTypeInfo_simple 0 ot_kString) ''v'' [''a'', ''b''] [''a'', ''c''] [] =
     (False, ''v'')"
  by (subst vectors_are_equal_elementwise [where eqv = "(=)" and mis = "\<lambda>_ _. ''v''"]) (simp_all add: string_lib_def)

section \<open>Enums and pointers\<close>

lemma serialize_enum_lookup:
  "v \<in> snd ` set m \<Longrightarrow> distinct (map fst m) \<Longrightarrow> \<exists>k. SerializeEnum m v s = (True, k) \<and> map_of m k = Some v"
proof (induction m)
  case (Cons kv m)
  obtain a b where kv: "kv = (a, b)" by (cases kv)
  show ?case
  proof (cases "b = v")
    case False
    then obtain k where k: "SerializeEnum m v s = (True, k)" "map_of m k = Some v"
      using Cons kv by auto
    then have "k \<noteq> a" using Cons.prems(2) kv by (force dest: map_of_SomeD)
    then show ?thesis using k False kv by simp
  qed (simp add: kv)
qed simp

text \<open>The callbacks of \<open>OptionTypeInfo::Enum\<close> agree: parsing what was serialised gives the value again.\<close>

lemma enum_round_trip:
  assumes "distinct (map fst m)" "v \<in> snd ` set m"
    and "oti_parse_func (OptionTypeInfo_Enum ctor offset (Some m) flags) = Some parse"
    and "oti_serialize_func (OptionTypeInfo_Enum ctor offset (Some m) flags) = Some serialize"
  shows "\<exists>t. serialize opts name v out = (Status_OK, t) \<and> parse opts name t w = (Status_OK, v)"
proof -
  obtain k where "SerializeEnum m v out = (True, k)" "map_of m k = Some v"
    using serialize_enum_lookup [OF assms(2,1)] by blast
  then show ?thesis
    using assms(3,4) by (auto simp: OptionTypeInfo_Enum_def OptionTypeInfo_full_def ParseEnum_def)
qed

lemmas pointer_preds = oti_IsSharedPtr_def oti_IsUniquePtr_def oti_IsRawPtr_def oti_IsEnabled_def OptionTypeFlags_and_def

lemmas custom_infos = OptionTypeInfo_AsCustomSharedPtr_def OptionTypeInfo_AsCustomUniquePtr_def OptionTypeInfo_AsCustomRawPtr_def
  OptionTypeInfo_full_def OptionTypeFlags_or_def

text \<open>
  C20: the three makers of infos for pointers to customizable objects. When the caller's flags name
  no kind of pointer, the info is customizable and configurable, and of the three tests for a kind of
  pointer exactly the maker's own is true, so that \<open>AsRawPointer\<close> reads the memory at base address
  plus offset as that kind of pointer, and reads nothing from a null base address.
\<close>

theorem custom_pointer_kinds:
  assumes "\<forall>k \<in> {otf_kShared, otf_kUnique, otf_kRawPointer}. OptionTypeFlags_and flags k = otf_kNone"
  shows "map (\<lambda>t. (oti_IsCustomizable t \<and> oti_IsConfigurable t, oti_IsSharedPtr t, oti_IsUniquePtr t, oti_IsRawPtr t,
      oti_AsRawPointer t M (Some b), oti_AsRawPointer t M None))
    [OptionTypeInfo_AsCustomSharedPtr create offset ovt flags serialize_func equals_func,
     OptionTypeInfo_AsCustomUniquePtr create offset ovt flags serialize_func equals_func,
     OptionTypeInfo_AsCustomRawPtr create offset ovt flags serialize_func equals_func] =
    [(True, True, False, False, pm_shared M (b + sint offset), None),
     (True, False, True, False, pm_unique M (b + sint offset), None),
     (True, False, False, True, pm_raw M (b + sint offset), None)]"
  using assms
  by (simp add: custom_infos pointer_preds option_flags oti_IsCustomizable_def oti_IsConfigurable_def oti_AsRawPointer_def
      bit.conj_disj_distrib2)

definition some_memory :: pointer_memory where
  "some_memory = \<lparr>pm_unique = Some, pm_shared = (\<lambda>a. Some (a + 1)), pm_raw = (\<lambda>_. None)\<rparr>"

theorem custom_pointer_kinds_witness:
  "oti_AsRawPointer (OptionTypeInfo_AsCustomSharedPtr (\<lambda>_ _ a. (Status_OK, a :: nat option)) 8 ov_kNormal otf_kAllowNull None None)
     some_memory (Some 100) = Some 109"
  using custom_pointer_kinds [of otf_kAllowNull some_memory 100 "\<lambda>_ _ a. (Status_OK, a :: nat option)" 8 ov_kNormal None None]
  by (simp add: option_flags some_memory_def OptionTypeFlags_and_def)

end
