(* ===== verification/Object_Registry.thy ===== *)
theory Object_Registry
  imports Statuses
begin

text \<open>
  \<open>rocksdb/utilities/object_registry.h\<close>: libraries of object factories and the registry that
  searches them and keeps weak pointers to the objects it manages. Objects are of one type \<open>'o\<close>,
  \<open>T::Type()\<close> is a string. Factories and configuring functions change a world \<open>'w\<close>. Libraries are
  shared: a registry holds their addresses and a heap \<open>libs\<close> holds the libraries. Locks and
  destructors have no effect here. \<open>PatternEntry::Matches\<close>, the untyped \<open>GetManagedObject\<close>,
  \<open>SetManagedObject\<close> and \<open>ListManagedObjects\<close>, and the methods of \<open>Customizable\<close> are library code:
  parameters.
\<close>

section \<open>Patterns\<close>

datatype Quantifier = kMatchPattern | kMatchExact | kMatchNumeric

record PatternEntry =
  pe_name :: string
  pe_nlength :: "64 word"
  pe_names :: "string list"
  pe_optional :: bool
  pe_slength :: "64 word"
  pe_separators :: "(string \<times> Quantifier) list"

definition PatternEntry_of :: "string \<Rightarrow> bool \<Rightarrow> PatternEntry" where
  "PatternEntry_of name optional =
     \<lparr>pe_name = name, pe_nlength = of_nat (length name), pe_names = [], pe_optional = optional, pe_slength = 0,
      pe_separators = []\<rparr>"

definition AddSuffix :: "string \<Rightarrow> PatternEntry \<Rightarrow> PatternEntry" where
  "AddSuffix sfx e = e\<lparr>pe_separators := pe_separators e @ [(sfx, kMatchExact)],
     pe_slength := pe_slength e + of_nat (length sfx)\<rparr>"

definition AddSeparator :: "string \<Rightarrow> PatternEntry \<Rightarrow> PatternEntry" where
  "AddSeparator separator e = e\<lparr>pe_separators := pe_separators e @ [(separator, kMatchPattern)],
     pe_slength := pe_slength e + (of_nat (length separator) + 1)\<rparr>"

definition AddNumber :: "string \<Rightarrow> PatternEntry \<Rightarrow> PatternEntry" where
  "AddNumber separator e = e\<lparr>pe_separators := pe_separators e @ [(separator, kMatchNumeric)],
     pe_slength := pe_slength e + (of_nat (length separator) + 1)\<rparr>"

definition AnotherName :: "string \<Rightarrow> PatternEntry \<Rightarrow> PatternEntry" where
  "AnotherName alt e = e\<lparr>pe_names := pe_names e @ [alt]\<rparr>"

definition SetOptional :: "bool \<Rightarrow> PatternEntry \<Rightarrow> PatternEntry" where
  "SetOptional optional e = e\<lparr>pe_optional := optional\<rparr>"

definition AsIndividualId :: "string \<Rightarrow> PatternEntry" where
  "AsIndividualId name = AddSeparator ''#'' (AddSeparator ''@'' (PatternEntry_of name True))"

section \<open>Libraries\<close>

text \<open>
  A factory gets the target, the guard and the error message and returns the object, the guard and
  the message. A \<open>std::function\<close> may be empty.
\<close>

type_synonym ('o, 'w) FactoryFunc = "string \<Rightarrow> 'o option \<Rightarrow> string \<Rightarrow> 'w \<Rightarrow> ('o option \<times> 'o option \<times> string) \<times> 'w"

record ('o, 'w) FactoryEntry =
  fe_entry :: PatternEntry
  fe_factory :: "('o, 'w) FactoryFunc option"

record ('o, 'w) ObjectLibrary =
  ol_factories :: "string \<Rightarrow> ('o, 'w) FactoryEntry list option"
  ol_id :: string

definition ObjectLibrary_of :: "string \<Rightarrow> ('o, 'w) ObjectLibrary" where
  "ObjectLibrary_of id' = \<lparr>ol_factories = (\<lambda>_. None), ol_id = id'\<rparr>"

fun find_entry :: "(PatternEntry \<Rightarrow> string \<Rightarrow> bool) \<Rightarrow> ('o, 'w) FactoryEntry list \<Rightarrow> string \<Rightarrow> ('o, 'w) FactoryFunc option" where
  "find_entry matches [] pattern = None"
| "find_entry matches (e # es) pattern =
     (if matches (fe_entry e) pattern then fe_factory e else find_entry matches es pattern)"

definition ObjectLibrary_FindFactory ::
    "(PatternEntry \<Rightarrow> string \<Rightarrow> bool) \<Rightarrow> string \<Rightarrow> ('o, 'w) ObjectLibrary \<Rightarrow> string \<Rightarrow> ('o, 'w) FactoryFunc option" where
  "ObjectLibrary_FindFactory matches T l pattern =
     (case ol_factories l T of Some factories \<Rightarrow> find_entry matches factories pattern | None \<Rightarrow> None)"

definition ObjectLibrary_Register ::
    "string \<Rightarrow> PatternEntry \<Rightarrow> ('o, 'w) FactoryFunc option \<Rightarrow> ('o, 'w) ObjectLibrary \<Rightarrow> ('o, 'w) ObjectLibrary" where
  "ObjectLibrary_Register T pattern func l =
     (let factories = (case ol_factories l T of Some es \<Rightarrow> es | None \<Rightarrow> []) in
      l\<lparr>ol_factories := (ol_factories l)(T \<mapsto> factories @ [\<lparr>fe_entry = pattern, fe_factory = func\<rparr>])\<rparr>)"

definition ObjectLibrary_Register_string ::
    "string \<Rightarrow> string \<Rightarrow> ('o, 'w) FactoryFunc option \<Rightarrow> ('o, 'w) ObjectLibrary \<Rightarrow> ('o, 'w) ObjectLibrary" where
  "ObjectLibrary_Register_string T pattern factory l = ObjectLibrary_Register T (PatternEntry_of pattern True) factory l"

type_synonym ('o, 'w) RegistrarFunc = "('o, 'w) ObjectLibrary \<Rightarrow> string \<Rightarrow> c_int \<times> ('o, 'w) ObjectLibrary"

definition ObjectLibrary_Register_registrar ::
    "('o, 'w) RegistrarFunc \<Rightarrow> string \<Rightarrow> ('o, 'w) ObjectLibrary \<Rightarrow> c_int \<times> ('o, 'w) ObjectLibrary" where
  "ObjectLibrary_Register_registrar registrar arg l = registrar l arg"

section \<open>The registry\<close>

datatype 'o ObjectRegistry =
  ObjectRegistry (or_libraries: "nat list") (or_managed_objects: "string \<Rightarrow> 'o option") (or_parent: "'o ObjectRegistry option")

definition ObjectRegistry_of_parent :: "'o ObjectRegistry option \<Rightarrow> 'o ObjectRegistry" where
  "ObjectRegistry_of_parent parent = ObjectRegistry [] (\<lambda>_. None) parent"

definition ObjectRegistry_of_library :: "nat \<Rightarrow> 'o ObjectRegistry" where
  "ObjectRegistry_of_library l = ObjectRegistry [l] (\<lambda>_. None) None"

definition AddLibrary :: "nat \<Rightarrow> 'o ObjectRegistry \<Rightarrow> 'o ObjectRegistry" where
  "AddLibrary l r = ObjectRegistry (or_libraries r @ [l]) (or_managed_objects r) (or_parent r)"

text \<open>\<open>n\<close> is the address at which \<open>make_shared\<close> places the new library.\<close>

definition AddLibrary_id ::
    "nat \<Rightarrow> string \<Rightarrow> (nat \<Rightarrow> ('o, 'w) ObjectLibrary) \<Rightarrow> 'o ObjectRegistry \<Rightarrow> (nat \<Rightarrow> ('o, 'w) ObjectLibrary) \<times> 'o ObjectRegistry" where
  "AddLibrary_id n id' libs r = (libs(n := ObjectLibrary_of id'), AddLibrary n r)"

definition AddLibrary_registrar ::
    "nat \<Rightarrow> string \<Rightarrow> ('o, 'w) RegistrarFunc \<Rightarrow> string \<Rightarrow> (nat \<Rightarrow> ('o, 'w) ObjectLibrary) \<Rightarrow> 'o ObjectRegistry \<Rightarrow>
     (nat \<Rightarrow> ('o, 'w) ObjectLibrary) \<times> 'o ObjectRegistry" where
  "AddLibrary_registrar n id' registrar arg libs r =
     (let (libs, r) = AddLibrary_id n id' libs r;
          (_, library) = ObjectLibrary_Register_registrar registrar arg (libs n) in
      (libs(n := library), r))"

text \<open>The walk from the last library to the first.\<close>

fun find_in_libraries ::
    "(PatternEntry \<Rightarrow> string \<Rightarrow> bool) \<Rightarrow> (nat \<Rightarrow> ('o, 'w) ObjectLibrary) \<Rightarrow> string \<Rightarrow> nat list \<Rightarrow> string \<Rightarrow>
     ('o, 'w) FactoryFunc option" where
  "find_in_libraries matches libs T [] name = None"
| "find_in_libraries matches libs T (l # ls) name =
     (case ObjectLibrary_FindFactory matches T (libs l) name of
        Some factory \<Rightarrow> Some factory
      | None \<Rightarrow> find_in_libraries matches libs T ls name)"

fun ObjectRegistry_FindFactory ::
    "(PatternEntry \<Rightarrow> string \<Rightarrow> bool) \<Rightarrow> (nat \<Rightarrow> ('o, 'w) ObjectLibrary) \<Rightarrow> string \<Rightarrow> 'o ObjectRegistry \<Rightarrow> string \<Rightarrow>
     ('o, 'w) FactoryFunc option" where
  "ObjectRegistry_FindFactory matches libs T (ObjectRegistry libraries managed parent) name =
     (case find_in_libraries matches libs T (rev libraries) name of
        Some factory \<Rightarrow> Some factory
      | None \<Rightarrow> (case parent of Some p \<Rightarrow> ObjectRegistry_FindFactory matches libs T p name | None \<Rightarrow> None))"

section \<open>New objects\<close>

definition NewObject ::
    "(PatternEntry \<Rightarrow> string \<Rightarrow> bool) \<Rightarrow> (nat \<Rightarrow> ('o, 'w) ObjectLibrary) \<Rightarrow> string \<Rightarrow> 'o ObjectRegistry \<Rightarrow> string \<Rightarrow> string \<Rightarrow> 'w \<Rightarrow>
     ('o option \<times> 'o option \<times> string) \<times> 'w" where
  "NewObject matches libs T r target errmsg w =
     (case ObjectRegistry_FindFactory matches libs T r target of
        Some factory \<Rightarrow> factory target None errmsg w
      | None \<Rightarrow> ((None, None, ''Could not load '' @ T), w))"

definition NewUniqueObject ::
    "status_ctor \<Rightarrow> (PatternEntry \<Rightarrow> string \<Rightarrow> bool) \<Rightarrow> (nat \<Rightarrow> ('o, 'w) ObjectLibrary) \<Rightarrow> string \<Rightarrow> 'o ObjectRegistry \<Rightarrow> string \<Rightarrow>
     'w \<Rightarrow> (Status \<times> 'o option) \<times> 'w" where
  "NewUniqueObject ctor matches libs T r target w =
     (case NewObject matches libs T r target [] w of ((ptr, owner, errmsg), w) \<Rightarrow>
        if ptr = None then ((Status_NotSupported_msg ctor (Slice_of_string errmsg) (Slice_of_string target), owner), w)
        else if owner \<noteq> None then ((Status_OK, owner), w)
        else ((Status_InvalidArgument_msg ctor (Slice_of_string (''Cannot make a unique '' @ T @ '' from unguarded one ''))
                 (Slice_of_string target), owner), w))"

definition NewSharedObject ::
    "status_ctor \<Rightarrow> (PatternEntry \<Rightarrow> string \<Rightarrow> bool) \<Rightarrow> (nat \<Rightarrow> ('o, 'w) ObjectLibrary) \<Rightarrow> string \<Rightarrow> 'o ObjectRegistry \<Rightarrow> string \<Rightarrow>
     'o option \<Rightarrow> 'w \<Rightarrow> (Status \<times> 'o option) \<times> 'w" where
  "NewSharedObject ctor matches libs T r target result w =
     (case NewObject matches libs T r target [] w of ((ptr, owner, errmsg), w) \<Rightarrow>
        if ptr = None then ((Status_NotSupported_msg ctor (Slice_of_string errmsg) (Slice_of_string target), result), w)
        else if owner \<noteq> None then ((Status_OK, owner), w)
        else ((Status_InvalidArgument_msg ctor (Slice_of_string (''Cannot make a shared '' @ T @ '' from unguarded one ''))
                 (Slice_of_string target), result), w))"

definition NewStaticObject ::
    "status_ctor \<Rightarrow> (PatternEntry \<Rightarrow> string \<Rightarrow> bool) \<Rightarrow> (nat \<Rightarrow> ('o, 'w) ObjectLibrary) \<Rightarrow> string \<Rightarrow> 'o ObjectRegistry \<Rightarrow> string \<Rightarrow>
     'o option \<Rightarrow> 'w \<Rightarrow> (Status \<times> 'o option) \<times> 'w" where
  "NewStaticObject ctor matches libs T r target result w =
     (case NewObject matches libs T r target [] w of ((ptr, owner, errmsg), w) \<Rightarrow>
        if ptr = None then ((Status_NotSupported_msg ctor (Slice_of_string errmsg) (Slice_of_string target), result), w)
        else if owner \<noteq> None then
          ((Status_InvalidArgument_msg ctor (Slice_of_string (''Cannot make a static '' @ T @ '' from a guarded one ''))
              (Slice_of_string target), result), w)
        else ((Status_OK, ptr), w))"

section \<open>Managed objects\<close>

text \<open>
  What is called of objects and of the library: \<open>mo_lock\<close> says whether a weak pointer to the object
  still leads to it.
\<close>

record ('o, 'w) managed_env =
  mo_Name :: "'w \<Rightarrow> 'o \<Rightarrow> string"
  mo_GetId :: "'w \<Rightarrow> 'o \<Rightarrow> string"
  mo_lock :: "'w \<Rightarrow> 'o \<Rightarrow> bool"
  mo_GetManagedObject :: "'w \<Rightarrow> 'o ObjectRegistry \<Rightarrow> string \<Rightarrow> string \<Rightarrow> 'o option"
  mo_SetManagedObject :: "'w \<Rightarrow> 'o ObjectRegistry \<Rightarrow> string \<Rightarrow> string \<Rightarrow> 'o \<Rightarrow> Status \<times> 'o ObjectRegistry"
  mo_ListManagedObjects :: "'w \<Rightarrow> 'o ObjectRegistry \<Rightarrow> string \<Rightarrow> string \<Rightarrow> Status \<times> 'o list"

definition ToManagedObjectKey :: "string \<Rightarrow> string \<Rightarrow> string" where
  "ToManagedObjectKey type id' = type @ ''://'' @ id'"

definition SetManagedObject_id ::
    "('o, 'w) managed_env \<Rightarrow> string \<Rightarrow> 'w \<Rightarrow> 'o ObjectRegistry \<Rightarrow> string \<Rightarrow> 'o \<Rightarrow> Status \<times> 'o ObjectRegistry" where
  "SetManagedObject_id E T w r id' object = mo_SetManagedObject E w r T id' object"

definition SetManagedObject ::
    "('o, 'w) managed_env \<Rightarrow> string \<Rightarrow> 'w \<Rightarrow> 'o ObjectRegistry \<Rightarrow> 'o \<Rightarrow> Status \<times> 'o ObjectRegistry" where
  "SetManagedObject E T w r object = SetManagedObject_id E T w r (mo_GetId E w object) object"

definition GetManagedObject :: "('o, 'w) managed_env \<Rightarrow> string \<Rightarrow> 'w \<Rightarrow> 'o ObjectRegistry \<Rightarrow> string \<Rightarrow> 'o option" where
  "GetManagedObject E T w r id' = mo_GetManagedObject E w r T id'"

definition ListManagedObjects :: "('o, 'w) managed_env \<Rightarrow> string \<Rightarrow> 'w \<Rightarrow> 'o ObjectRegistry \<Rightarrow> string \<Rightarrow> Status \<times> 'o list" where
  "ListManagedObjects E T w r id' =
     (let (s, customizables) = mo_ListManagedObjects E w r T id' in (s, if Status_ok s then customizables else []))"

definition ListManagedObjects_all :: "('o, 'w) managed_env \<Rightarrow> string \<Rightarrow> 'w \<Rightarrow> 'o ObjectRegistry \<Rightarrow> Status \<times> 'o list" where
  "ListManagedObjects_all E T w r = ListManagedObjects E T w r []"

definition set_managed :: "string \<Rightarrow> 'o \<Rightarrow> 'o ObjectRegistry \<Rightarrow> 'o ObjectRegistry" where
  "set_managed key c r = ObjectRegistry (or_libraries r) ((or_managed_objects r)(key \<mapsto> c)) (or_parent r)"

text \<open>The part under the lock that creates an object, configures it and registers it.\<close>

definition create_managed ::
    "status_ctor \<Rightarrow> (PatternEntry \<Rightarrow> string \<Rightarrow> bool) \<Rightarrow> (nat \<Rightarrow> ('o, 'w) ObjectLibrary) \<Rightarrow> ('o, 'w) managed_env \<Rightarrow> string \<Rightarrow> string \<Rightarrow>
     'o option \<Rightarrow> ('o \<Rightarrow> 'w \<Rightarrow> Status \<times> 'w) option \<Rightarrow> 'o ObjectRegistry \<Rightarrow> 'w \<Rightarrow> (Status \<times> 'o option) \<times> 'o ObjectRegistry \<times> 'w" where
  "create_managed ctor matches libs E T id' result cfunc r w =
     (case NewSharedObject ctor matches libs T r id' None w of
        ((s, None), w) \<Rightarrow> ((s, result), r, w)
      | ((s, Some c), w) \<Rightarrow>
          let (s, w) = (case cfunc of Some f \<Rightarrow> if Status_ok s then f c w else (s, w) | None \<Rightarrow> (s, w)) in
          if Status_ok s then
            let r = (if id' \<noteq> mo_Name E w c then set_managed (ToManagedObjectKey T id') c r else r);
                r = (if id' \<noteq> mo_GetId E w c \<and> mo_GetId E w c \<noteq> mo_Name E w c
                     then set_managed (ToManagedObjectKey T (mo_GetId E w c)) c r else r) in
            ((s, Some c), r, w)
          else ((s, result), r, w))"

definition GetOrCreateManagedObject ::
    "status_ctor \<Rightarrow> (PatternEntry \<Rightarrow> string \<Rightarrow> bool) \<Rightarrow> (nat \<Rightarrow> ('o, 'w) ObjectLibrary) \<Rightarrow> ('o, 'w) managed_env \<Rightarrow> string \<Rightarrow> string \<Rightarrow>
     'o option \<Rightarrow> ('o \<Rightarrow> 'w \<Rightarrow> Status \<times> 'w) option \<Rightarrow> 'o ObjectRegistry \<Rightarrow> 'w \<Rightarrow> (Status \<times> 'o option) \<times> 'o ObjectRegistry \<times> 'w" where
  "GetOrCreateManagedObject ctor matches libs E T id' result cfunc r w =
     (case Option.bind (or_parent r) (\<lambda>p. mo_GetManagedObject E w p T id') of
        Some object \<Rightarrow> ((Status_OK, Some object), r, w)
      | None \<Rightarrow>
          (case or_managed_objects r (ToManagedObjectKey T id') of
             Some object \<Rightarrow>
               if mo_lock E w object then ((Status_OK, Some object), r, w)
               else create_managed ctor matches libs E T id' result cfunc r w
           | None \<Rightarrow> create_managed ctor matches libs E T id' result cfunc r w))"

section \<open>The order of the search\<close>

text \<open>The libraries a registry and its ancestors know, in the order in which they are searched.\<close>

fun search_order :: "'o ObjectRegistry \<Rightarrow> nat list" where
  "search_order (ObjectRegistry libraries managed parent) =
     rev libraries @ (case parent of Some p \<Rightarrow> search_order p | None \<Rightarrow> [])"

lemma find_in_libraries_append:
  "find_in_libraries matches libs T (ls @ ls') name =
     (case find_in_libraries matches libs T ls name of Some f \<Rightarrow> Some f | None \<Rightarrow> find_in_libraries matches libs T ls' name)"
  by (induction ls) (auto split: option.splits)

lemma FindFactory_search_order:
  "ObjectRegistry_FindFactory matches libs T r name = find_in_libraries matches libs T (search_order r) name"
  by (induction matches libs T r name rule: ObjectRegistry_FindFactory.induct)
    (auto simp: find_in_libraries_append split: option.splits)

lemma find_in_libraries_other:
  "n \<notin> set ls \<Longrightarrow> find_in_libraries matches (libs(n := l)) T ls name = find_in_libraries matches libs T ls name"
  by (induction ls) (auto split: option.splits)

lemma search_order_AddLibrary: "search_order (AddLibrary n r) = n # search_order r"
  by (cases r) (simp add: AddLibrary_def)

lemma find_entry_append:
  "find_entry matches (es @ es') name =
     (if \<exists>e \<in> set es. matches (fe_entry e) name then find_entry matches es name else find_entry matches es' name)"
  by (induction es) auto

text \<open>Within one library the first entry that matches decides, even when its factory is empty.\<close>

lemma Register_FindFactory:
  "ObjectLibrary_FindFactory matches T' (ObjectLibrary_Register T pattern func l) name =
     (if T' \<noteq> T \<or> (\<exists>es. ol_factories l T = Some es \<and> (\<exists>e \<in> set es. matches (fe_entry e) name))
      then ObjectLibrary_FindFactory matches T' l name
      else if matches pattern name then func else None)"
  by (auto simp: ObjectLibrary_FindFactory_def ObjectLibrary_Register_def find_entry_append split: option.splits)

lemma new_library_FindFactory:
  "ObjectLibrary_FindFactory matches T' (ObjectLibrary_Register T pattern func (ObjectLibrary_of id')) name =
     (if T' = T \<and> matches pattern name then func else None)"
  by (simp add: Register_FindFactory) (simp add: ObjectLibrary_of_def ObjectLibrary_FindFactory_def)

text \<open>
  C21: what registering a factory in a new library changes. After \<open>AddLibrary(id)\<close> on a registry that
  does not know the new library yet and \<open>Register\<close> of a pattern and a factory for a type in the
  library it returned, the registry finds that factory for exactly the names of that type which the pattern
  matches, before every factory registered earlier and before those of its parents; for every other
  name, every other type, and for an empty factory, it finds what it found before.
\<close>

theorem registered_factory_is_found:
  assumes "n \<notin> set (search_order r)" and "AddLibrary_id n id' libs r = (libs', r')"
  shows "ObjectRegistry_FindFactory matches (libs'(n := ObjectLibrary_Register T pattern func (libs' n))) T' r' name =
    (if T' = T \<and> matches pattern name \<and> func \<noteq> None then func else ObjectRegistry_FindFactory matches libs T' r name)"
  using assms
  by (auto simp: AddLibrary_id_def FindFactory_search_order search_order_AddLibrary find_in_libraries_other
      new_library_FindFactory split: option.splits)

definition exact_match :: "PatternEntry \<Rightarrow> string \<Rightarrow> bool" where
  "exact_match e target \<longleftrightarrow> pe_name e = target"

definition numbering :: "(nat, nat) FactoryFunc" where
  "numbering target owner errmsg w = ((Some w, Some w, errmsg), w + 1)"

theorem registered_factory_is_found_witness:
  "case AddLibrary_id 7 ''lib'' (\<lambda>_. ObjectLibrary_of []) (ObjectRegistry [3] (\<lambda>_. None) None) of (libs, r) \<Rightarrow>
     ObjectRegistry_FindFactory exact_match
       (libs(7 := ObjectLibrary_Register ''Cache'' (PatternEntry_of ''lru'' True) (Some numbering) (libs 7))) ''Cache'' r ''lru'' =
     Some numbering"
proof (clarsimp split: prod.splits)
  fix libs :: "nat \<Rightarrow> (nat, nat) ObjectLibrary" and r :: "nat ObjectRegistry"
  assume "AddLibrary_id 7 ''lib'' (\<lambda>_. ObjectLibrary_of []) (ObjectRegistry [3] (\<lambda>_. None) None) = (libs, r)"
  then show "ObjectRegistry_FindFactory exact_match
      (libs(7 := ObjectLibrary_Register ''Cache'' (PatternEntry_of ''lru'' True) (Some numbering) (libs 7))) ''Cache'' r ''lru'' =
      Some numbering"
    by (subst registered_factory_is_found) (simp_all add: exact_match_def PatternEntry_of_def)
qed

section \<open>Objects are created once\<close>

lemma NewSharedObject_result:
  assumes "NewSharedObject ctor matches libs T r target None w = ((s, obj), w')"
    and "\<And>c m m2. c \<noteq> kOk \<Longrightarrow> \<not> Status_ok (Status_code_msg ctor c m m2)"
  shows "Status_ok s \<longleftrightarrow> obj \<noteq> None"
  using assms
  by (auto simp: NewSharedObject_def Status_NotSupported_msg_def Status_InvalidArgument_msg_def Status_ok_def Status_OK_def
      Status_default_def Status_code_def split: prod.splits if_splits)

lemma set_managed_simps [simp]:
  "or_libraries (set_managed key c r) = or_libraries r" "or_parent (set_managed key c r) = or_parent r"
  "or_managed_objects (set_managed key c r) = (or_managed_objects r)(key \<mapsto> c)"
  by (simp_all add: set_managed_def)

lemma create_managed_registers:
  assumes "create_managed ctor matches libs E T id' None cfunc r w = ((s, Some c), r', w')" and "mo_Name E w' c \<noteq> id'"
  shows "or_managed_objects r' (ToManagedObjectKey T id') = Some c \<and> or_parent r' = or_parent r"
  using assms by (auto simp: create_managed_def Let_def split: prod.splits option.splits if_splits)

text \<open>
  \<open>GetOrCreateManagedObject\<close> creates an object once. When a call with an empty result leaves an object in it
  whose base name is not the id asked for, a later call with the same id that starts from the registry the first one left, finds the
  object alive and gets the same answer from the parent registry as the first, gives OK and the same
  object, calls no factory and no configuring function and leaves the registry and the world alone.
\<close>

lemma managed_object_is_created_once:
  assumes "GetOrCreateManagedObject ctor matches libs E T id' None cfunc r w = ((s, Some c), r', w')"
    and "mo_Name E w' c \<noteq> id'" and "mo_lock E w'' c"
    and "\<And>p. or_parent r = Some p \<Longrightarrow> mo_GetManagedObject E w'' p T id' = mo_GetManagedObject E w p T id'"
  shows "GetOrCreateManagedObject ctor matches libs' E T id' result cfunc' r' w'' = ((Status_OK, Some c), r', w'')"
proof -
  have again: ?thesis if "or_parent r' = or_parent r" "or_managed_objects r' (ToManagedObjectKey T id') = Some c"
      "Option.bind (or_parent r) (\<lambda>p. mo_GetManagedObject E w p T id') = None"
    using that assms(3,4) by (cases "or_parent r") (auto simp: GetOrCreateManagedObject_def)
  show ?thesis
  proof (cases "Option.bind (or_parent r) (\<lambda>p. mo_GetManagedObject E w p T id')")
    case None
    then consider "r' = r" "or_managed_objects r (ToManagedObjectKey T id') = Some c"
      | "create_managed ctor matches libs E T id' None cfunc r w = ((s, Some c), r', w')"
      using assms(1) by (auto simp: GetOrCreateManagedObject_def split: option.splits if_splits)
    then show ?thesis
    proof cases
      case 2
      then show ?thesis
        using again None create_managed_registers [OF 2 assms(2)] by simp
    qed (use again None in simp)
  next
    case (Some x)
    then show ?thesis
      using assms(1,4) by (auto simp: GetOrCreateManagedObject_def bind_eq_Some_conv)
  qed
qed

definition cache_env :: "(nat, nat) managed_env" where
  "cache_env = \<lparr>mo_Name = (\<lambda>_ _. ''LRU''), mo_GetId = (\<lambda>_ _. ''LRU@1''), mo_lock = (\<lambda>_ _. True), mo_GetManagedObject = (\<lambda>_ _ _ _. None),
     mo_SetManagedObject = (\<lambda>_ r _ _ _. (Status_OK, r)), mo_ListManagedObjects = (\<lambda>_ _ _ _. (Status_OK, []))\<rparr>"

definition cache_libs :: "nat \<Rightarrow> (nat, nat) ObjectLibrary" where
  "cache_libs = (\<lambda>_. ObjectLibrary_Register ''Cache'' (PatternEntry_of ''main'' True) (Some numbering) (ObjectLibrary_of []))"

lemma cache_create:
  "GetOrCreateManagedObject ctor exact_match cache_libs cache_env ''Cache'' ''main'' None None (ObjectRegistry_of_library 0) 5 =
     ((Status_OK, Some 5),
      set_managed ''Cache://LRU@1'' 5 (set_managed ''Cache://main'' 5 (ObjectRegistry_of_library 0)), 6)"
  by (simp add: GetOrCreateManagedObject_def create_managed_def NewSharedObject_def NewObject_def ObjectRegistry_of_library_def
      cache_libs_def cache_env_def ObjectLibrary_FindFactory_def ObjectLibrary_Register_def ObjectLibrary_of_def exact_match_def
      PatternEntry_of_def numbering_def ToManagedObjectKey_def Status_ok_def Status_OK_def Status_default_def Status_code_def)

lemma managed_object_is_created_once_witness:
  "GetOrCreateManagedObject (\<lambda>_ _ _ _ _. Status_OK) exact_match cache_libs cache_env ''Cache'' ''main'' None None
     (set_managed ''Cache://LRU@1'' 5 (set_managed ''Cache://main'' 5 (ObjectRegistry_of_library 0))) 9 =
   ((Status_OK, Some 5),
    set_managed ''Cache://LRU@1'' 5 (set_managed ''Cache://main'' 5 (ObjectRegistry_of_library 0)), 9)"
  by (rule managed_object_is_created_once [OF cache_create])
    (simp_all add: cache_env_def ObjectRegistry_of_library_def)

text \<open>
  An object asked for by its base name, which is also its id, is not registered: the next call with
  the same id creates another one, although the comment on the function promises the current object.
\<close>

lemma base_name_is_not_registered:
  assumes "create_managed ctor matches libs E T id' result cfunc r w = ((s, x), r', w')"
    and "\<And>v c. mo_Name E v c = id' \<and> mo_GetId E v c = id'"
  shows "r' = r"
  using assms by (auto simp: create_managed_def Let_def split: prod.splits option.splits if_splits)

end
