(* ===== verification/Customizables.thy ===== *)
theory Customizables
  imports Option_Types Object_Registry
begin

text \<open>
  \<open>rocksdb/customizable.h\<close> and \<open>rocksdb/utilities/customizable_util.h\<close>: objects that wrap others and
  are found by name, and the functions that load an object from a string. Virtual members without a
  body, \<open>Configurable\<close>, \<open>GetOptionsMap\<close> and \<open>ConfigureNewObject\<close> are library code: parameters. An
  \<open>unordered_map\<close> of options is an association list. Registries are shared, so options hold the
  address of one and \<open>regs\<close> maps addresses to registries.
\<close>

section \<open>\<open>Customizable\<close>\<close>

record 'o customizable =
  cu_Name :: "'o \<Rightarrow> string"
  cu_NickName :: "'o \<Rightarrow> string option"
  cu_Inner :: "'o \<Rightarrow> 'o option"
  cu_options :: "'o \<Rightarrow> string \<Rightarrow> nat option"

definition Customizable_GetId :: "'o customizable \<Rightarrow> 'o \<Rightarrow> string" where
  "Customizable_GetId E self = (let id' = cu_Name E self in id')"

definition Customizable_IsInstanceOf :: "'o customizable \<Rightarrow> 'o \<Rightarrow> string \<Rightarrow> bool" where
  "Customizable_IsInstanceOf E self name =
     (if name = [] then False
      else if name = cu_Name E self then True
      else
        let nickname = cu_NickName E self in
        if nickname \<noteq> None \<and> name = the nickname then True else False)"

text \<open>The default bodies of \<open>Inner\<close> and \<open>NickName\<close>.\<close>

definition Customizable_Inner_default :: "'o \<Rightarrow> 'o option" where
  "Customizable_Inner_default self = None"

definition Customizable_NickName_default :: "'o \<Rightarrow> string option" where
  "Customizable_NickName_default self = Some []"

text \<open>
  The two walks along \<open>Inner\<close>. Nothing keeps objects from wrapping each other in a circle, so both may
  not return (\<open>None\<close>).
\<close>

partial_function (option) Customizable_GetOptionsPtr :: "'o customizable \<Rightarrow> 'o \<Rightarrow> string \<Rightarrow> nat option option" where
  "Customizable_GetOptionsPtr E self name =
     (case cu_options E self name of
        Some ptr \<Rightarrow> Some (Some ptr)
      | None \<Rightarrow> (case cu_Inner E self of Some inner \<Rightarrow> Customizable_GetOptionsPtr E inner name | None \<Rightarrow> Some None))"

partial_function (option) Customizable_CheckedCast :: "'o customizable \<Rightarrow> string \<Rightarrow> 'o \<Rightarrow> 'o option option" where
  "Customizable_CheckedCast E kClassName self =
     (if Customizable_IsInstanceOf E self kClassName then Some (Some self)
      else (case cu_Inner E self of Some inner \<Rightarrow> Customizable_CheckedCast E kClassName inner | None \<Rightarrow> Some None))"

section \<open>New objects, configured\<close>

type_synonym opt_map = "(string \<times> string) list"

record ('o, 'w) loader =
  ld_ctor :: status_ctor
  ld_matches :: "PatternEntry \<Rightarrow> string \<Rightarrow> bool"
  ld_libs :: "nat \<Rightarrow> ('o, 'w) ObjectLibrary"
  ld_Type :: string
  ld_managed :: "('o, 'w) managed_env"
  ld_GetOptionsMap :: "ConfigOptions \<Rightarrow> 'w \<Rightarrow> 'o option \<Rightarrow> string \<Rightarrow> Status \<times> string \<times> opt_map"
  ld_ConfigureNewObject :: "ConfigOptions \<Rightarrow> 'o option \<Rightarrow> opt_map \<Rightarrow> 'w \<Rightarrow> Status \<times> 'w"
  ld_ConfigureFromMap :: "'o \<Rightarrow> ConfigOptions \<Rightarrow> opt_map \<Rightarrow> 'w \<Rightarrow> Status \<times> 'w"

text \<open>
  The body the shared, unique and static versions have in common; \<open>create\<close> is the registry's member
  function they call, with the caller's pointer and the world.
\<close>

definition new_configured ::
    "('o, 'w) loader \<Rightarrow> ('o ObjectRegistry \<Rightarrow> string \<Rightarrow> 'o option \<Rightarrow> 'w \<Rightarrow> (Status \<times> 'o option) \<times> 'w) \<Rightarrow>
     (nat \<Rightarrow> 'o ObjectRegistry) \<Rightarrow> ConfigOptions \<Rightarrow> string \<Rightarrow> opt_map \<Rightarrow> 'o option \<Rightarrow> 'w \<Rightarrow> ((Status \<times> 'o option) \<times> 'w) result" where
  "new_configured E create regs config_options id' opts res w =
     (if id' \<noteq> [] then
        bindr (deref (co_registry config_options)) (\<lambda>registry.
        let ((status, res), w) = create (regs registry) id' res w in
        if co_ignore_unsupported_options config_options \<and> Status_IsNotSupported status then Inr ((Status_OK, res), w)
        else if Status_ok status then
          let (status, w) = ld_ConfigureNewObject E config_options res opts w in Inr ((status, res), w)
        else Inr ((status, res), w))
      else if opts = [] then Inr ((Status_OK, None), w)
      else Inr ((Status_NotSupported_msg (ld_ctor E) (Slice_of_string ''Cannot reset object '') Slice_default, res), w))"

definition Util_NewSharedObject ::
    "('o, 'w) loader \<Rightarrow> (nat \<Rightarrow> 'o ObjectRegistry) \<Rightarrow> ConfigOptions \<Rightarrow> string \<Rightarrow> opt_map \<Rightarrow> 'o option \<Rightarrow> 'w \<Rightarrow>
     ((Status \<times> 'o option) \<times> 'w) result" where
  "Util_NewSharedObject E =
     new_configured E (\<lambda>r target res w. NewSharedObject (ld_ctor E) (ld_matches E) (ld_libs E) (ld_Type E) r target res w)"

definition Util_NewUniqueObject ::
    "('o, 'w) loader \<Rightarrow> (nat \<Rightarrow> 'o ObjectRegistry) \<Rightarrow> ConfigOptions \<Rightarrow> string \<Rightarrow> opt_map \<Rightarrow> 'o option \<Rightarrow> 'w \<Rightarrow>
     ((Status \<times> 'o option) \<times> 'w) result" where
  "Util_NewUniqueObject E =
     new_configured E (\<lambda>r target res w. NewUniqueObject (ld_ctor E) (ld_matches E) (ld_libs E) (ld_Type E) r target w)"

definition Util_NewStaticObject ::
    "('o, 'w) loader \<Rightarrow> (nat \<Rightarrow> 'o ObjectRegistry) \<Rightarrow> ConfigOptions \<Rightarrow> string \<Rightarrow> opt_map \<Rightarrow> 'o option \<Rightarrow> 'w \<Rightarrow>
     ((Status \<times> 'o option) \<times> 'w) result" where
  "Util_NewStaticObject E =
     new_configured E (\<lambda>r target res w. NewStaticObject (ld_ctor E) (ld_matches E) (ld_libs E) (ld_Type E) r target res w)"

definition Util_NewManagedObject ::
    "('o, 'w) loader \<Rightarrow> (nat \<Rightarrow> 'o ObjectRegistry) \<Rightarrow> ConfigOptions \<Rightarrow> string \<Rightarrow> opt_map \<Rightarrow> 'o option \<Rightarrow> 'w \<Rightarrow>
     ((Status \<times> 'o option) \<times> (nat \<Rightarrow> 'o ObjectRegistry) \<times> 'w) result" where
  "Util_NewManagedObject E regs config_options id' opts res w =
     (if id' \<noteq> [] then
        bindr (deref (co_registry config_options)) (\<lambda>registry.
        let ((status, res), r, w) = GetOrCreateManagedObject (ld_ctor E) (ld_matches E) (ld_libs E) (ld_managed E) (ld_Type E) id' res
              (Some (\<lambda>object. ld_ConfigureFromMap E object config_options opts)) (regs registry) w;
            regs = regs(registry := r) in
        if co_ignore_unsupported_options config_options \<and> Status_IsNotSupported status then Inr ((Status_OK, res), regs, w)
        else Inr ((status, res), regs, w))
      else Inr ((Status_NotSupported_msg (ld_ctor E) (Slice_of_string ''Cannot reset object '') Slice_default, res), regs, w))"

section \<open>Loading\<close>

text \<open>A factory function recognises the id and leaves the new object in the pointer, or not.\<close>

type_synonym ('o, 'w) PtrFactoryFunc = "string \<Rightarrow> 'o option \<Rightarrow> 'w \<Rightarrow> (bool \<times> 'o option) \<times> 'w"

definition load_with ::
    "('o, 'w) loader \<Rightarrow>
     (ConfigOptions \<Rightarrow> string \<Rightarrow> opt_map \<Rightarrow> 'o option \<Rightarrow> 'w \<Rightarrow> ((Status \<times> 'o option) \<times> 'w) result) \<Rightarrow>
     ConfigOptions \<Rightarrow> string \<Rightarrow> ('o, 'w) PtrFactoryFunc option \<Rightarrow> 'o option \<Rightarrow> 'w \<Rightarrow> ((Status \<times> 'o option) \<times> 'w) result" where
  "load_with E new_object config_options val func res w =
     (let (status, id', opts) = ld_GetOptionsMap E config_options w res val in
      if \<not> Status_ok status then Inr ((status, res), w)
      else
        let ((made, res), w) = (case func of None \<Rightarrow> ((False, res), w) | Some f \<Rightarrow> f id' res w) in
        if \<not> made then new_object config_options id' opts res w
        else let (status, w) = ld_ConfigureNewObject E config_options res opts w in Inr ((status, res), w))"

definition LoadSharedObject ::
    "('o, 'w) loader \<Rightarrow> (nat \<Rightarrow> 'o ObjectRegistry) \<Rightarrow> ConfigOptions \<Rightarrow> string \<Rightarrow> ('o, 'w) PtrFactoryFunc option \<Rightarrow> 'o option \<Rightarrow> 'w \<Rightarrow>
     ((Status \<times> 'o option) \<times> 'w) result" where
  "LoadSharedObject E regs = load_with E (Util_NewSharedObject E regs)"

definition LoadUniqueObject ::
    "('o, 'w) loader \<Rightarrow> (nat \<Rightarrow> 'o ObjectRegistry) \<Rightarrow> ConfigOptions \<Rightarrow> string \<Rightarrow> ('o, 'w) PtrFactoryFunc option \<Rightarrow> 'o option \<Rightarrow> 'w \<Rightarrow>
     ((Status \<times> 'o option) \<times> 'w) result" where
  "LoadUniqueObject E regs = load_with E (Util_NewUniqueObject E regs)"

definition LoadStaticObject ::
    "('o, 'w) loader \<Rightarrow> (nat \<Rightarrow> 'o ObjectRegistry) \<Rightarrow> ConfigOptions \<Rightarrow> string \<Rightarrow> ('o, 'w) PtrFactoryFunc option \<Rightarrow> 'o option \<Rightarrow> 'w \<Rightarrow>
     ((Status \<times> 'o option) \<times> 'w) result" where
  "LoadStaticObject E regs = load_with E (Util_NewStaticObject E regs)"

definition LoadManagedObject ::
    "('o, 'w) loader \<Rightarrow> (nat \<Rightarrow> 'o ObjectRegistry) \<Rightarrow> ConfigOptions \<Rightarrow> string \<Rightarrow> 'o option \<Rightarrow> 'w \<Rightarrow>
     ((Status \<times> 'o option) \<times> (nat \<Rightarrow> 'o ObjectRegistry) \<times> 'w) result" where
  "LoadManagedObject E regs config_options val res w =
     (let (status, id', opts) = ld_GetOptionsMap E config_options w None val in
      if \<not> Status_ok status then Inr ((status, res), regs, w)
      else if val = [] then Inr ((Status_OK, None), regs, w)
      else Util_NewManagedObject E regs config_options id' opts res w)"

section \<open>The walk along the wrapped objects\<close>

text \<open>The objects a walk from an object meets, outermost first, if it has an end.\<close>

inductive inner_chain :: "'o customizable \<Rightarrow> 'o \<Rightarrow> 'o list \<Rightarrow> bool" for E :: "'o customizable" where
  innermost: "cu_Inner E self = None \<Longrightarrow> inner_chain E self [self]"
| wraps: "cu_Inner E self = Some i \<Longrightarrow> inner_chain E i os \<Longrightarrow> inner_chain E self (self # os)"

definition wraps_inner :: "'o customizable \<Rightarrow> 'o \<Rightarrow> 'o \<Rightarrow> bool" where
  "wraps_inner E self i \<longleftrightarrow> cu_Inner E self = Some i"

lemma CheckedCast_step:
  "Customizable_IsInstanceOf E self k \<Longrightarrow> Customizable_CheckedCast E k self = Some (Some self)"
  "\<not> Customizable_IsInstanceOf E self k \<Longrightarrow> cu_Inner E self = None \<Longrightarrow> Customizable_CheckedCast E k self = Some None"
  "\<not> Customizable_IsInstanceOf E self k \<Longrightarrow> cu_Inner E self = Some i \<Longrightarrow>
     Customizable_CheckedCast E k self = Customizable_CheckedCast E k i"
  by (subst Customizable_CheckedCast.simps; simp)+

lemma GetOptionsPtr_step:
  "cu_options E self name = Some ptr \<Longrightarrow> Customizable_GetOptionsPtr E self name = Some (Some ptr)"
  "cu_options E self name = None \<Longrightarrow> cu_Inner E self = None \<Longrightarrow> Customizable_GetOptionsPtr E self name = Some None"
  "cu_options E self name = None \<Longrightarrow> cu_Inner E self = Some i \<Longrightarrow>
     Customizable_GetOptionsPtr E self name = Customizable_GetOptionsPtr E i name"
  by (subst Customizable_GetOptionsPtr.simps; simp)+

lemma CheckedCast_chain:
  "inner_chain E self os \<Longrightarrow> Customizable_CheckedCast E k self = Some (List.find (\<lambda>x. Customizable_IsInstanceOf E x k) os)"
proof (induction rule: inner_chain.induct)
  case (innermost self)
  then show ?case
    by (cases "Customizable_IsInstanceOf E self k") (simp_all add: CheckedCast_step)
next
  case (wraps self i os)
  then show ?case
    by (cases "Customizable_IsInstanceOf E self k") (simp_all add: CheckedCast_step)
qed

lemma GetOptionsPtr_chain:
  "inner_chain E self os \<Longrightarrow> Customizable_GetOptionsPtr E self name =
     Some (Option.bind (List.find (\<lambda>x. cu_options E x name \<noteq> None) os) (\<lambda>x. cu_options E x name))"
proof (induction rule: inner_chain.induct)
  case (innermost self)
  then show ?case
    by (cases "cu_options E self name") (simp_all add: GetOptionsPtr_step)
next
  case (wraps self i os)
  then show ?case
    by (cases "cu_options E self name") (simp_all add: GetOptionsPtr_step)
qed

lemma CheckedCast_returns:
  assumes "(wraps_inner E)\<^sup>*\<^sup>* self x" "Customizable_IsInstanceOf E x k \<or> cu_Inner E x = None"
  shows "Customizable_CheckedCast E k self \<noteq> None"
  using assms
proof (induction rule: converse_rtranclp_induct)
  case base
  then show ?case
    by (cases "Customizable_IsInstanceOf E x k") (simp_all add: CheckedCast_step)
next
  case (step y z)
  then show ?case
    by (cases "Customizable_IsInstanceOf E y k") (simp_all add: CheckedCast_step wraps_inner_def)
qed

lemma CheckedCast_returned:
  "Customizable_CheckedCast E k self = Some r \<Longrightarrow>
     \<exists>x. (wraps_inner E)\<^sup>*\<^sup>* self x \<and> (Customizable_IsInstanceOf E x k \<or> cu_Inner E x = None)"
proof (induction rule: Customizable_CheckedCast.raw_induct [rotated 1, consumes 1])
  case (1 cast E k self r)
  show ?case
  proof (cases "Customizable_IsInstanceOf E self k \<or> cu_Inner E self = None")
    case False
    then obtain i where i: "cu_Inner E self = Some i" "cast E k i = Some r"
      using 1(2) by (auto split: if_splits option.splits)
    then have "wraps_inner E self i"
      by (simp add: wraps_inner_def)
    then show ?thesis
      using 1(1) [OF i(2)] by (meson converse_rtranclp_into_rtranclp)
  qed auto
qed

text \<open>
  C22: \<open>CheckedCast\<close> returns exactly when the walk along \<open>Inner\<close> meets an instance of the class or an
  innermost object; on a chain that ends it gives the outermost object of the chain that answers to the
  class name, by its name or its nickname, and null if there is none; and \<open>GetOptionsPtr\<close> gives the
  options of the outermost object that has some of that name.
\<close>

theorem checked_cast_finds_outermost:
  "(Customizable_CheckedCast E k self \<noteq> None \<longleftrightarrow>
      (\<exists>x. (wraps_inner E)\<^sup>*\<^sup>* self x \<and> (Customizable_IsInstanceOf E x k \<or> cu_Inner E x = None))) \<and>
    (\<forall>os. inner_chain E self os \<longrightarrow>
       Customizable_CheckedCast E k self = Some (List.find (\<lambda>x. Customizable_IsInstanceOf E x k) os) \<and>
       Customizable_GetOptionsPtr E self name =
         Some (Option.bind (List.find (\<lambda>x. cu_options E x name \<noteq> None) os) (\<lambda>x. cu_options E x name)))"
  using CheckedCast_returns [of E self _ k] CheckedCast_returned [of E k self] CheckedCast_chain [of E self _ k]
    GetOptionsPtr_chain [of E self _ name]
  by blast

text \<open>Object 0 wraps 1, which wraps 2; object 3 wraps itself.\<close>

definition ref_customizable :: "nat customizable" where
  "ref_customizable =
     \<lparr>cu_Name = (\<lambda>n. if n = 0 then ''Shared'' else if n = 1 then ''LRU'' else ''Posix''),
      cu_NickName = (\<lambda>n. if n = 2 then Some ''default'' else Customizable_NickName_default n),
      cu_Inner = (\<lambda>n. if n < 2 then Some (n + 1) else if n = 3 then Some 3 else Customizable_Inner_default n),
      cu_options = (\<lambda>n name. if n = 1 \<and> name = ''opt'' then Some 5 else None)\<rparr>"

lemma ref_chain: "inner_chain ref_customizable 0 [0, 1, 2]"
  by (rule wraps [of _ _ 1], simp add: ref_customizable_def, rule wraps [of _ _ 2], simp add: ref_customizable_def,
      rule innermost, simp add: ref_customizable_def Customizable_Inner_default_def)

theorem checked_cast_finds_outermost_witness:
  "Customizable_CheckedCast ref_customizable ''default'' 0 = Some (Some 2) \<and>
   Customizable_GetOptionsPtr ref_customizable 0 ''opt'' = Some (Some 5)"
  using checked_cast_finds_outermost [of ref_customizable "''default''" 0 "''opt''"] ref_chain
  by (auto simp: ref_customizable_def Customizable_IsInstanceOf_def Customizable_NickName_default_def)

section \<open>Loading objects\<close>

lemma NewObject_unknown:
  "ObjectRegistry_FindFactory matches libs T r target = None \<Longrightarrow> NewObject matches libs T r target errmsg w = ((None, None, ''Could not load '' @ T), w)"
  by (simp add: NewObject_def)

text \<open>
  What loading does with an id no factory is registered for, when unsupported options are
  ignored (the default). All three loaders answer OK and configure nothing; but \<open>LoadSharedObject\<close> and
  \<open>LoadStaticObject\<close> leave the caller's pointer on the object it had, while \<open>LoadUniqueObject\<close> has
  already destroyed that object and leaves a null pointer.
\<close>

lemma unknown_id_is_ignored:
  assumes "ld_GetOptionsMap E co w res val = (s, id', opts)" "Status_ok s" "id' \<noteq> []"
    and "co_registry co = Some a" "co_ignore_unsupported_options co"
    and "ObjectRegistry_FindFactory (ld_matches E) (ld_libs E) (ld_Type E) (regs a) id' = None"
    and "\<And>m m2. Status_IsNotSupported (Status_NotSupported_msg (ld_ctor E) m m2)"
  shows "LoadSharedObject E regs co val None res w = Inr ((Status_OK, res), w) \<and>
    LoadStaticObject E regs co val None res w = Inr ((Status_OK, res), w) \<and>
    LoadUniqueObject E regs co val None res w = Inr ((Status_OK, None), w)"
  using assms
  by (simp add: LoadSharedObject_def LoadStaticObject_def LoadUniqueObject_def load_with_def Util_NewSharedObject_def
      Util_NewStaticObject_def Util_NewUniqueObject_def new_configured_def NewSharedObject_def NewStaticObject_def
      NewUniqueObject_def NewObject_unknown deref_def)

lemma GetOrCreate_failed:
  "GetOrCreateManagedObject ctor matches libs E T id' None cfunc r w = ((s, None), r', w') \<Longrightarrow> r' = r"
  by (auto simp: GetOrCreateManagedObject_def create_managed_def Let_def split: prod.splits option.splits if_splits)

text \<open>
  An object is loaded once. When \<open>LoadManagedObject\<close> from a string into an empty pointer leaves an
  object in it whose base name is not its id, loading from the same string again, while the object lives
  and the parent registry answers as before, gives OK and the same object, and neither creates nor
  configures anything: registries and world stay as they are.
\<close>

lemma managed_object_is_loaded_once:
  assumes first: "LoadManagedObject E regs co val None w = Inr ((s, Some c), regs', w')"
    and "ld_GetOptionsMap E co w None val = (st, id', opts)" "ld_GetOptionsMap E co w'' None val = (st, id', opts)"
    and "co_registry co = Some a" "mo_Name (ld_managed E) w' c \<noteq> id'" "mo_lock (ld_managed E) w'' c"
    and "\<And>p. or_parent (regs a) = Some p \<Longrightarrow>
      mo_GetManagedObject (ld_managed E) w'' p (ld_Type E) id' = mo_GetManagedObject (ld_managed E) w p (ld_Type E) id'"
  shows "LoadManagedObject E regs' co val res w'' = Inr ((Status_OK, Some c), regs', w'')"
proof -
  let ?get = "GetOrCreateManagedObject (ld_ctor E) (ld_matches E) (ld_libs E) (ld_managed E) (ld_Type E) id'"
  let ?conf = "Some (\<lambda>object. ld_ConfigureFromMap E object co opts)"
  have run: "Status_ok st" "val \<noteq> []" "id' \<noteq> []"
    using first assms(2) by (auto simp: LoadManagedObject_def Util_NewManagedObject_def split: if_splits)
  obtain s1 r1 where get: "?get None ?conf (regs a) w = ((s1, Some c), r1, w')" "regs' = regs(a := r1)"
    using first assms(2,4) run
    by (auto simp: LoadManagedObject_def Util_NewManagedObject_def deref_def Let_def split: prod.splits if_splits)
  have "?get res ?conf r1 w'' = ((Status_OK, Some c), r1, w'')"
    by (rule managed_object_is_created_once [OF get(1) assms(5,6,7)])
  then show ?thesis
    using assms(3,4) run get(2) by (simp add: LoadManagedObject_def Util_NewManagedObject_def deref_def)
qed

text \<open>Caches that are numbers; loading \<open>main\<close> creates number 5.\<close>

definition ref_loader :: "(nat, nat) loader" where
  "ref_loader =
     \<lparr>ld_ctor = (\<lambda>c sc m m2 sev. Status_code_subcode c sc), ld_matches = exact_match, ld_libs = cache_libs, ld_Type = ''Cache'',
      ld_managed = cache_env, ld_GetOptionsMap = (\<lambda>co w custom val. (Status_OK, val, [])),
      ld_ConfigureNewObject = (\<lambda>co object opts w. (Status_OK, w)), ld_ConfigureFromMap = (\<lambda>object co opts w. (Status_OK, w))\<rparr>"

definition ref_config :: ConfigOptions where
  "ref_config = (ConfigOptions_inits None)\<lparr>co_registry := Some 0\<rparr>"

lemma unknown_code [simp]: "Status_IsNotSupported (Status_NotSupported_msg (ld_ctor ref_loader) m m2)"
  by (simp add: ref_loader_def Status_NotSupported_msg_def Status_code_msg_def Status_IsNotSupported_def
      Status_code_subcode_def Status_code_def)

lemma unknown_id_is_ignored_witness:
  "LoadSharedObject ref_loader (\<lambda>_. ObjectRegistry_of_library 0) ref_config ''none'' None (Some 7) 5 = Inr ((Status_OK, Some 7), 5) \<and>
   LoadUniqueObject ref_loader (\<lambda>_. ObjectRegistry_of_library 0) ref_config ''none'' None (Some 7) 5 = Inr ((Status_OK, None), 5)"
  using unknown_id_is_ignored [of ref_loader ref_config 5 "Some 7" "''none''" Status_OK "''none''" "[]" 0 "\<lambda>_. ObjectRegistry_of_library 0"]
    unknown_code
  by (simp add: ref_loader_def ref_config_def ConfigOptions_inits_def ObjectRegistry_of_library_def cache_libs_def
      ObjectLibrary_FindFactory_def ObjectLibrary_Register_def ObjectLibrary_of_def exact_match_def PatternEntry_of_def)

lemma ref_load:
  "LoadManagedObject ref_loader (\<lambda>_. ObjectRegistry_of_library 0) ref_config ''main'' None 5 =
     Inr ((Status_OK, Some 5), (\<lambda>_. ObjectRegistry_of_library 0)
       (0 := set_managed ''Cache://LRU@1'' 5 (set_managed ''Cache://main'' 5 (ObjectRegistry_of_library 0))), 6)"
  by (simp add: LoadManagedObject_def Util_NewManagedObject_def ref_loader_def ref_config_def ConfigOptions_inits_def deref_def
      GetOrCreateManagedObject_def create_managed_def NewSharedObject_def NewObject_def ObjectRegistry_of_library_def
      cache_libs_def cache_env_def ObjectLibrary_FindFactory_def ObjectLibrary_Register_def ObjectLibrary_of_def exact_match_def
      PatternEntry_of_def numbering_def ToManagedObjectKey_def Status_ok_def Status_OK_def Status_default_def Status_code_def
      Status_IsNotSupported_def)

lemma managed_object_is_loaded_once_witness:
  "LoadManagedObject ref_loader ((\<lambda>_. ObjectRegistry_of_library 0)
       (0 := set_managed ''Cache://LRU@1'' 5 (set_managed ''Cache://main'' 5 (ObjectRegistry_of_library 0)))) ref_config ''main'' None 9 =
     Inr ((Status_OK, Some 5), (\<lambda>_. ObjectRegistry_of_library 0)
       (0 := set_managed ''Cache://LRU@1'' 5 (set_managed ''Cache://main'' 5 (ObjectRegistry_of_library 0))), 9)"
  by (rule managed_object_is_loaded_once [OF ref_load, where id' = "''main''" and st = Status_OK and opts = "[]" and a = 0])
    (simp_all add: ref_loader_def ref_config_def cache_env_def ObjectRegistry_of_library_def)

end
