(* ===== verification/File_System.thy ===== *)
theory File_System
  imports Env_Files
begin

text \<open>
  The inline code of \<open>rocksdb/file_system.h\<close>: the options and the debug context of a file request, the
  default bodies of \<open>FileSystem\<close> and of its file classes, with \<open>GetChildrenFileAttributes\<close>, which lists a
  directory while files may vanish. Members without a body are parameters over a world \<open>'w\<close>, which
  includes what an \<open>IODebugContext\<close> pointer leads to.
\<close>

section \<open>Options\<close>

datatype FS_IOPriority = kIOLow | kIOHigh | kIOTotal

datatype IOType = io_kData | io_kFilter | io_kIndex | io_kMetadata | io_kWAL | io_kManifest | io_kLog | io_kUnknown | io_kInvalid

record IOOptions =
  ioo_timeout :: int
  ioo_prio :: FS_IOPriority
  ioo_type :: IOType
  ioo_property_bag :: "(string \<times> string) list"
  ioo_force_dir_fsync :: bool

definition IOOptions_of :: "bool \<Rightarrow> IOOptions" where
  "IOOptions_of force_dir_fsync' =
     \<lparr>ioo_timeout = 0, ioo_prio = kIOLow, ioo_type = io_kUnknown, ioo_property_bag = [], ioo_force_dir_fsync = force_dir_fsync'\<rparr>"

definition IOOptions_default :: IOOptions where
  "IOOptions_default = IOOptions_of False"

datatype FsyncReason = kNewFileSynced | kFileRenamed | kDirRenamed | kFileDeleted | kDefault

record DirFsyncOptions =
  dfo_reason :: FsyncReason
  dfo_renamed_new_name :: string

datatype ChecksumType = kNoChecksum | kCRC32c | kxxHash | kxxHash64 | kXXH3

record FileOptions = EnvOptions +
  fo_io_options :: IOOptions
  fo_temperature :: Temperature
  fo_handoff_checksum_type :: ChecksumType

text \<open>\<open>EnvOptions\<close>'s own constructor is library code, so its result is an argument.\<close>

definition FileOptions_of_EnvOptions :: "EnvOptions \<Rightarrow> FileOptions" where
  "FileOptions_of_EnvOptions opts =
     EnvOptions.extend opts
       (FileOptions.fields IOOptions_default kUnknown kCRC32c)"

definition FileOptions_of :: "FileOptions \<Rightarrow> FileOptions" where
  "FileOptions_of opts =
     EnvOptions.extend (EnvOptions.truncate opts)
       (FileOptions.fields (fo_io_options opts) (fo_temperature opts) (fo_handoff_checksum_type opts))"

section \<open>The debug context\<close>

text \<open>\<open>counters\<close> is a \<open>std::map\<close>: a key-ordered list.\<close>

record IODebugContext =
  dbg_file_path :: string
  dbg_counters :: "(string \<times> 64 word) list"
  dbg_msg :: string
  dbg_request_id :: string
  dbg_trace_data :: "64 word"

definition kRequestID :: nat where
  "kRequestID = 0"

definition IODebugContext_default :: IODebugContext where
  "IODebugContext_default = \<lparr>dbg_file_path = [], dbg_counters = [], dbg_msg = [], dbg_request_id = [], dbg_trace_data = 0\<rparr>"

text \<open>\<open>emplace\<close> inserts only if the key is not there.\<close>

definition AddCounter :: "IODebugContext \<Rightarrow> string \<Rightarrow> 64 word \<Rightarrow> IODebugContext" where
  "AddCounter c name v =
     (if kv_get name (dbg_counters c) = None then c\<lparr>dbg_counters := kv_put name v (dbg_counters c)\<rparr> else c)"

definition SetRequestId :: "IODebugContext \<Rightarrow> string \<Rightarrow> IODebugContext" where
  "SetRequestId c request_id' =
     c\<lparr>dbg_request_id := request_id', dbg_trace_data := or (dbg_trace_data c) (push_bit kRequestID 1)\<rparr>"

definition counter_text :: "string \<times> 64 word \<Rightarrow> string" where
  "counter_text counter = fst counter @ '' = '' @ to_string_nat (unat (snd counter)) @ '',''"

definition IODebugContext_ToString :: "IODebugContext \<Rightarrow> string" where
  "IODebugContext_ToString c = dbg_file_path c @ '', '' @ concat (map counter_text (dbg_counters c)) @ dbg_msg c"

section \<open>Default bodies\<close>

definition io_not_supported :: "string \<Rightarrow> IOStatus result" where
  "io_not_supported msg = IOStatus_NotSupported_msg (Slice_of_literal msg) Slice_default"

definition FS_RegisterDbPaths_default :: "string list \<Rightarrow> Status" where
  "FS_RegisterDbPaths_default paths = Status_OK"

definition FS_UnregisterDbPaths_default :: "string list \<Rightarrow> Status" where
  "FS_UnregisterDbPaths_default paths = Status_OK"

definition FS_ReopenWritableFile_default :: "IOStatus result" where
  "FS_ReopenWritableFile_default = io_not_supported ''ReopenWritableFile''"

definition FS_NewRandomRWFile_default :: "IOStatus result" where
  "FS_NewRandomRWFile_default = io_not_supported ''RandomRWFile is not implemented in this FileSystem''"

definition FS_NewMemoryMappedFileBuffer_default :: "IOStatus result" where
  "FS_NewMemoryMappedFileBuffer_default = io_not_supported ''MemoryMappedFileBuffer is not implemented in this FileSystem''"

definition FS_Truncate_default :: "IOStatus result" where
  "FS_Truncate_default = io_not_supported ''Truncate is not supported for this FileSystem''"

definition FS_LinkFile_default :: "IOStatus result" where
  "FS_LinkFile_default = io_not_supported ''LinkFile is not supported for this FileSystem''"

definition FS_NumFileLinks_default :: "IOStatus result" where
  "FS_NumFileLinks_default = io_not_supported ''Getting number of file links is not supported for this FileSystem''"

definition FS_AreFilesSame_default :: "IOStatus result" where
  "FS_AreFilesSame_default = io_not_supported ''AreFilesSame is not supported for this FileSystem''"

definition FS_GetFreeSpace_default :: "IOStatus result" where
  "FS_GetFreeSpace_default = io_not_supported ''GetFreeSpace''"

definition FSSequentialFile_InvalidateCache_default :: "IOStatus result" where
  "FSSequentialFile_InvalidateCache_default = io_not_supported ''InvalidateCache not supported.''"

definition FSSequentialFile_PositionedRead_default :: "IOStatus result" where
  "FSSequentialFile_PositionedRead_default = io_not_supported ''PositionedRead''"

definition FSRandomAccessFile_Prefetch_default :: "IOStatus result" where
  "FSRandomAccessFile_Prefetch_default = io_not_supported ''Prefetch''"

definition FSRandomAccessFile_InvalidateCache_default :: "IOStatus result" where
  "FSRandomAccessFile_InvalidateCache_default = io_not_supported ''InvalidateCache not supported.''"

section \<open>Files\<close>

type_synonym FSReadRequest = "IOStatus read_request"

definition FSRandomAccessFile_MultiRead ::
    "(IOOptions \<Rightarrow> IOStatus read_fun) \<Rightarrow> FSReadRequest list option \<Rightarrow> nat \<Rightarrow> IOOptions \<Rightarrow> (IOStatus \<times> FSReadRequest list) result" where
  "FSRandomAccessFile_MultiRead Read reqs num_reqs options =
     (case reqs of None \<Rightarrow> Inl Assertion_failed
      | Some reqs \<Rightarrow> bindr (multi_read_loop (Read options) 0 num_reqs reqs) (\<lambda>reqs. Inr (IOStatus_OK, reqs)))"

datatype FS_AccessPattern = fs_kNormal | fs_kRandom | fs_kSequential | fs_kWillNeed | fs_kWontNeed

record DataVerificationInfo =
  dvi_checksum :: Slice

text \<open>The members of \<open>FSWritableFile\<close> are those of \<open>WritableFile\<close>.\<close>

type_synonym FSWritableFile = WritableFile

definition FSWritableFile_default :: FSWritableFile where
  "FSWritableFile_default =
     \<lparr>wf_last_preallocated_block = 0, wf_preallocation_block_size = 0, wf_io_priority = IO_TOTAL,
      wf_write_hint = WLTH_NOT_SET, wf_strict_bytes_per_sync = False\<rparr>"

definition FSWritableFile_of_options :: "FileOptions \<Rightarrow> FSWritableFile" where
  "FSWritableFile_of_options options =
     \<lparr>wf_last_preallocated_block = 0, wf_preallocation_block_size = 0, wf_io_priority = IO_TOTAL,
      wf_write_hint = WLTH_NOT_SET, wf_strict_bytes_per_sync = eo_strict_bytes_per_sync options\<rparr>"

definition FSWritableFile_Append_verified ::
    "(Slice \<Rightarrow> IOOptions \<Rightarrow> 'w \<Rightarrow> IOStatus \<times> 'w) \<Rightarrow> Slice \<Rightarrow> IOOptions \<Rightarrow> DataVerificationInfo \<Rightarrow> 'w \<Rightarrow> IOStatus \<times> 'w" where
  "FSWritableFile_Append_verified Append data options verification_info w = Append data options w"

definition FSWritableFile_PositionedAppend_default :: "IOStatus result" where
  "FSWritableFile_PositionedAppend_default = io_not_supported ''PositionedAppend''"

definition FSWritableFile_PositionedAppend_verified_default :: "IOStatus result" where
  "FSWritableFile_PositionedAppend_verified_default = io_not_supported ''PositionedAppend''"

definition FSWritableFile_Truncate_default :: IOStatus where
  "FSWritableFile_Truncate_default = IOStatus_OK"

definition FSWritableFile_Fsync_default :: "(IOOptions \<Rightarrow> 'w \<Rightarrow> IOStatus \<times> 'w) \<Rightarrow> IOOptions \<Rightarrow> 'w \<Rightarrow> IOStatus \<times> 'w" where
  "FSWritableFile_Fsync_default Sync options w = Sync options w"

definition FSWritableFile_SetWriteLifeTimeHint :: "FSWritableFile \<Rightarrow> WriteLifeTimeHint \<Rightarrow> FSWritableFile" where
  "FSWritableFile_SetWriteLifeTimeHint f hint = f\<lparr>wf_write_hint := hint\<rparr>"

definition FSWritableFile_SetIOPriority :: "FSWritableFile \<Rightarrow> IOPriority \<Rightarrow> FSWritableFile" where
  "FSWritableFile_SetIOPriority f pri = f\<lparr>wf_io_priority := pri\<rparr>"

definition FSWritableFile_GetIOPriority :: "FSWritableFile \<Rightarrow> IOPriority" where
  "FSWritableFile_GetIOPriority f = wf_io_priority f"

definition FSWritableFile_GetWriteLifeTimeHint :: "FSWritableFile \<Rightarrow> WriteLifeTimeHint" where
  "FSWritableFile_GetWriteLifeTimeHint f = wf_write_hint f"

definition FSWritableFile_SetPreallocationBlockSize :: "FSWritableFile \<Rightarrow> 64 word \<Rightarrow> FSWritableFile" where
  "FSWritableFile_SetPreallocationBlockSize f sz = f\<lparr>wf_preallocation_block_size := sz\<rparr>"

definition FSWritableFile_GetPreallocationStatus :: "FSWritableFile \<Rightarrow> 64 word \<times> 64 word" where
  "FSWritableFile_GetPreallocationStatus f = (wf_preallocation_block_size f, wf_last_preallocated_block f)"

definition FSWritableFile_InvalidateCache_default :: "IOStatus result" where
  "FSWritableFile_InvalidateCache_default = io_not_supported ''InvalidateCache not supported.''"

definition FSWritableFile_RangeSync :: "(IOOptions \<Rightarrow> 'w \<Rightarrow> IOStatus \<times> 'w) \<Rightarrow> FSWritableFile \<Rightarrow> IOOptions \<Rightarrow> 'w \<Rightarrow> IOStatus \<times> 'w" where
  "FSWritableFile_RangeSync Sync f options w = (if wf_strict_bytes_per_sync f then Sync options w else (IOStatus_OK, w))"

definition FSWritableFile_PrepareWrite ::
    "(64 word \<Rightarrow> 64 word \<Rightarrow> IOOptions \<Rightarrow> 'w \<Rightarrow> IOStatus \<times> 'w) \<Rightarrow> FSWritableFile \<Rightarrow> 64 word \<Rightarrow> 64 word \<Rightarrow> IOOptions \<Rightarrow> 'w \<Rightarrow>
     FSWritableFile \<times> 'w" where
  "FSWritableFile_PrepareWrite Allocate f offset len options w =
     (if wf_preallocation_block_size f = 0 then (f, w)
      else
        let block_size = wf_preallocation_block_size f;
            new_last_preallocated_block = (offset + len + block_size - 1) div block_size in
        if new_last_preallocated_block > wf_last_preallocated_block f then
          let num_spanned_blocks = new_last_preallocated_block - wf_last_preallocated_block f;
              (_, w) = Allocate (block_size * wf_last_preallocated_block f) (block_size * num_spanned_blocks) options w in
          (f\<lparr>wf_last_preallocated_block := new_last_preallocated_block\<rparr>, w)
        else (f, w))"

text \<open>It is the \<open>PrepareWrite\<close> of \<open>env.h\<close>, so its preallocation is as described there.\<close>

lemma FSWritableFile_PrepareWrite_eq:
  "FSWritableFile_PrepareWrite Allocate f offset len options w =
     WritableFile_PrepareWrite (\<lambda>off n. Allocate off n options) f offset len w"
  by (simp add: FSWritableFile_PrepareWrite_def WritableFile_PrepareWrite_def)

definition FSWritableFile_Allocate_default :: IOStatus where
  "FSWritableFile_Allocate_default = IOStatus_OK"

definition FSRandomRWFile_Fsync_default :: "(IOOptions \<Rightarrow> 'w \<Rightarrow> IOStatus \<times> 'w) \<Rightarrow> IOOptions \<Rightarrow> 'w \<Rightarrow> IOStatus \<times> 'w" where
  "FSRandomRWFile_Fsync_default Sync options w = Sync options w"

definition FSDirectory_FsyncWithDirOptions_default ::
    "(IOOptions \<Rightarrow> 'w \<Rightarrow> IOStatus \<times> 'w) \<Rightarrow> IOOptions \<Rightarrow> DirFsyncOptions \<Rightarrow> 'w \<Rightarrow> IOStatus \<times> 'w" where
  "FSDirectory_FsyncWithDirOptions_default Fsync options dir_fsync_options w = Fsync options w"

section \<open>Listing a directory\<close>

record 'w file_system =
  fs_GetChildren :: "string \<Rightarrow> IOOptions \<Rightarrow> 'w \<Rightarrow> (IOStatus \<times> string list) \<times> 'w"
  fs_GetFileSize :: "string \<Rightarrow> IOOptions \<Rightarrow> 64 word \<Rightarrow> 'w \<Rightarrow> (IOStatus \<times> 64 word) \<times> 'w"
  fs_FileExists :: "string \<Rightarrow> IOOptions \<Rightarrow> 'w \<Rightarrow> IOStatus \<times> 'w"

text \<open>The predicates \<open>IOStatus\<close> inherits.\<close>

definition IOStatus_ok :: "IOStatus \<Rightarrow> bool" where
  "IOStatus_ok s = Status_ok (Status.truncate s)"

definition IOStatus_IsNotFound :: "IOStatus \<Rightarrow> bool" where
  "IOStatus_IsNotFound s = Status_IsNotFound (Status.truncate s)"

definition resize_attributes :: "nat \<Rightarrow> FileAttributes list \<Rightarrow> FileAttributes list" where
  "resize_attributes n xs = take n xs @ replicate (n - length xs) \<lparr>fa_name = [], fa_size_bytes = 0\<rparr>"

text \<open>\<open>result_size\<close> never exceeds the index of the child, so the writes are in range.\<close>

fun children_loop ::
    "'w file_system \<Rightarrow> string \<Rightarrow> IOOptions \<Rightarrow> string list \<Rightarrow> FileAttributes list \<Rightarrow> nat \<Rightarrow> 'w \<Rightarrow> (IOStatus \<times> FileAttributes list) \<times> 'w" where
  "children_loop F dir options [] res result_size w = ((IOStatus_OK, resize_attributes result_size res), w)"
| "children_loop F dir options (child # children) res result_size w =
     (let path = dir @ ''/'' @ child;
          ((s, sz), w) = fs_GetFileSize F path options (fa_size_bytes (res ! result_size)) w;
          res = res[result_size := (res ! result_size)\<lparr>fa_size_bytes := sz\<rparr>] in
      if \<not> IOStatus_ok s then
        let (e, w) = fs_FileExists F path options w in
        if IOStatus_IsNotFound e then children_loop F dir options children res result_size w else ((s, res), w)
      else
        children_loop F dir options children (res[result_size := (res ! result_size)\<lparr>fa_name := child\<rparr>]) (result_size + 1) w)"

definition GetChildrenFileAttributes ::
    "'w file_system \<Rightarrow> string \<Rightarrow> IOOptions \<Rightarrow> FileAttributes list option \<Rightarrow> 'w \<Rightarrow> ((IOStatus \<times> FileAttributes list) \<times> 'w) result" where
  "GetChildrenFileAttributes F dir options result_ptr w =
     (case result_ptr of None \<Rightarrow> Inl Assertion_failed
      | Some res \<Rightarrow>
          let ((s, child_fnames), w) = fs_GetChildren F dir options w in
          if \<not> IOStatus_ok s then Inr ((s, res), w)
          else Inr (children_loop F dir options child_fnames (resize_attributes (length child_fnames) res) 0 w))"

section \<open>Facts\<close>

text \<open>The counters stay ordered; the first value of a counter is the one that is kept, although \<open>AddCounter\<close> has no result.\<close>

lemma AddCounter_keeps_first:
  "kv_sorted (dbg_counters c) \<Longrightarrow> kv_sorted (dbg_counters (AddCounter c name v)) \<and>
    kv_get k (dbg_counters (AddCounter c name v)) =
      (case kv_get k (dbg_counters c) of Some x \<Rightarrow> Some x | None \<Rightarrow> if k = name then Some v else None)"
  by (auto simp: AddCounter_def kv_get_put split: option.splits)

lemma resize_attributes_le: "n \<le> length xs \<Longrightarrow> resize_attributes n xs = take n xs"
  by (simp add: resize_attributes_def)

lemma length_resize_attributes [simp]: "length (resize_attributes n xs) = n"
  by (simp add: resize_attributes_def)

lemma attributes_update:
  "(r :: FileAttributes)\<lparr>fa_size_bytes := x, fa_name := c\<rparr> = \<lparr>fa_name = c, fa_size_bytes = x\<rparr>"
  by (cases r) simp

definition child_path :: "string \<Rightarrow> string \<Rightarrow> string" where
  "child_path dir child = dir @ ''/'' @ child"

lemma children_loop_run:
  assumes size: "\<And>p z. fs_GetFileSize F p options z w = ((st p, if IOStatus_ok (st p) then sz p else junk p z), w)"
    and ex: "\<And>p. fs_FileExists F p options w = (ex p, w)"
  shows "n + length children \<le> length res \<Longrightarrow>
    (case List.find (\<lambda>c. \<not> IOStatus_ok (st (child_path dir c)) \<and> \<not> IOStatus_IsNotFound (ex (child_path dir c))) children of
       None \<Rightarrow> children_loop F dir options children res n w =
         ((IOStatus_OK, take n res @ map (\<lambda>c. \<lparr>fa_name = c, fa_size_bytes = sz (child_path dir c)\<rparr>)
             (filter (\<lambda>c. IOStatus_ok (st (child_path dir c))) children)), w)
     | Some c \<Rightarrow> \<exists>res'. children_loop F dir options children res n w = ((st (child_path dir c), res'), w))"
proof (induction children arbitrary: res n)
  case Nil
  then show ?case
    by (simp add: resize_attributes_le)
next
  case (Cons c cs)
  let ?p = "child_path dir c"
  have path: "dir @ CHR ''/'' # c = ?p"
    by (simp add: child_path_def)
  consider (good) "IOStatus_ok (st ?p)" | (gone) "\<not> IOStatus_ok (st ?p)" "IOStatus_IsNotFound (ex ?p)"
    | (bad) "\<not> IOStatus_ok (st ?p)" "\<not> IOStatus_IsNotFound (ex ?p)"
    by blast
  then show ?case
  proof cases
    case good
    let ?res = "res[n := \<lparr>fa_name = c, fa_size_bytes = sz ?p\<rparr>]"
    have "children_loop F dir options (c # cs) res n w = children_loop F dir options cs ?res (n + 1) w"
      using good Cons.prems by (simp add: size path attributes_update)
    moreover have "take (n + 1) ?res = take n res @ [\<lparr>fa_name = c, fa_size_bytes = sz ?p\<rparr>]"
      using Cons.prems by (simp add: take_Suc_conv_app_nth)
    ultimately show ?thesis
      using Cons.IH [of "n + 1" ?res] Cons.prems good by (simp del: children_loop.simps split: option.splits)
  next
    case gone
    let ?res = "res[n := (res ! n)\<lparr>fa_size_bytes := junk ?p (fa_size_bytes (res ! n))\<rparr>]"
    have "children_loop F dir options (c # cs) res n w = children_loop F dir options cs ?res n w"
      using gone by (simp add: size ex path)
    then show ?thesis
      using Cons.IH [of n ?res] Cons.prems gone by (simp del: children_loop.simps split: option.splits)
  next
    case bad
    then show ?thesis
      by (simp add: size ex path Let_def)
  qed
qed

section \<open>Properties\<close>

text \<open>
  C24: \<open>GetChildrenFileAttributes\<close>, in a directory that does not change under the calls, lists with
  their sizes exactly the children whose size can be read, in the order of \<open>GetChildren\<close> and whatever the
  result vector held before: a child that is not there any more is left out, and the first child that is there but has
  no readable size ends the listing with the status of \<open>GetFileSize\<close>.
\<close>

theorem children_with_sizes:
  assumes "fs_GetChildren F dir options w = ((s, names), w)" "IOStatus_ok s"
    and "\<And>p z. fs_GetFileSize F p options z w = ((st p, if IOStatus_ok (st p) then sz p else junk p z), w)"
    and "\<And>p. fs_FileExists F p options w = (ex p, w)"
  shows "case List.find (\<lambda>c. \<not> IOStatus_ok (st (child_path dir c)) \<and> \<not> IOStatus_IsNotFound (ex (child_path dir c))) names of
      None \<Rightarrow> GetChildrenFileAttributes F dir options (Some res) w =
        Inr ((IOStatus_OK, map (\<lambda>c. \<lparr>fa_name = c, fa_size_bytes = sz (child_path dir c)\<rparr>)
          (filter (\<lambda>c. IOStatus_ok (st (child_path dir c))) names)), w)
    | Some c \<Rightarrow> \<exists>res'. GetChildrenFileAttributes F dir options (Some res) w = Inr ((st (child_path dir c), res'), w)"
  using children_loop_run [where n = 0 and children = names and dir = dir and res = "resize_attributes (length names) res", OF assms(3,4)]
    assms(1,2)
  by (auto simp: GetChildrenFileAttributes_def split: option.splits)

text \<open>A directory with a file, a file that has vanished and another file; sizes are the lengths of the paths.\<close>

definition ref_file_system :: "unit file_system" where
  "ref_file_system =
     \<lparr>fs_GetChildren = (\<lambda>dir options w. ((IOStatus_OK, [''a'', ''gone'', ''bcd'']), w)),
      fs_GetFileSize = (\<lambda>p options z w. ((if p = ''d/gone'' then IOStatus_IOError kNone else IOStatus_OK,
         if p = ''d/gone'' then z else of_nat (length p)), w)),
      fs_FileExists = (\<lambda>p options w. (if p = ''d/gone'' then IOStatus_NotFound kNone else IOStatus_OK, w))\<rparr>"

lemma io_code_simps [simp]:
  "IOStatus_ok IOStatus_OK" "\<not> IOStatus_ok (IOStatus_IOError sc)" "IOStatus_IsNotFound (IOStatus_NotFound sc)"
  by (simp_all add: IOStatus_ok_def IOStatus_IsNotFound_def IOStatus_OK_def IOStatus_default_def IOStatus_IOError_def
      IOStatus_NotFound_def IOStatus_code_subcode_def Status_ok_def Status_IsNotFound_def Status_code_def Status.truncate_def)

theorem children_with_sizes_witness:
  "GetChildrenFileAttributes ref_file_system ''d'' IOOptions_default (Some [\<lparr>fa_name = ''old'', fa_size_bytes = 9\<rparr>]) () =
     Inr ((IOStatus_OK, [\<lparr>fa_name = ''a'', fa_size_bytes = 3\<rparr>, \<lparr>fa_name = ''bcd'', fa_size_bytes = 5\<rparr>]), ())"
proof -
  let ?st = "\<lambda>p. if p = ''d/gone'' then IOStatus_IOError kNone else IOStatus_OK"
  let ?ex = "\<lambda>p. if p = ''d/gone'' then IOStatus_NotFound kNone else IOStatus_OK"
  have get: "fs_GetChildren ref_file_system ''d'' IOOptions_default () = ((IOStatus_OK, [''a'', ''gone'', ''bcd'']), ())"
    and size: "fs_GetFileSize ref_file_system p IOOptions_default z () =
      ((?st p, if IOStatus_ok (?st p) then of_nat (length p) else z), ())"
    and ex: "fs_FileExists ref_file_system p IOOptions_default () = (?ex p, ())" for p z
    by (simp_all add: ref_file_system_def)
  show ?thesis
    using children_with_sizes [OF get io_code_simps(1) size ex, of "[\<lparr>fa_name = ''old'', fa_size_bytes = 9\<rparr>]"]
    by (simp add: child_path_def)
qed

end
