(* ===== verification/Table_Options.thy ===== *)
theory Table_Options
  imports File_System
begin

text \<open>
  The structures of \<open>rocksdb/table.h\<close>: how table files are laid out and checked. One record per struct,
  split where it is long, and one definition per set of in-class initialisers. A shared pointer is an
  optional opaque handle; \<open>double\<close> fields hold literals and are rationals.
\<close>

section \<open>Block-based tables\<close>

fun checksum_value :: "ChecksumType \<Rightarrow> nat" where
  "checksum_value kNoChecksum = 0"
| "checksum_value kCRC32c = 1"
| "checksum_value kxxHash = 2"
| "checksum_value kxxHash64 = 3"
| "checksum_value kXXH3 = 4"

datatype PinningTier = kFallback | pin_kNone | kFlushedAndSimilar | pin_kAll

record MetadataCacheOptions =
  mco_top_level_index_pinning :: "PinningTier"
  mco_partition_pinning :: "PinningTier"
  mco_unpartitioned_pinning :: "PinningTier"

definition MetadataCacheOptions_default :: "MetadataCacheOptions" where
  "MetadataCacheOptions_default =
    \<lparr>mco_top_level_index_pinning = kFallback, mco_partition_pinning = kFallback,
      mco_unpartitioned_pinning = kFallback\<rparr>"

datatype IndexType = kBinarySearch | kHashSearch | kTwoLevelIndexSearch | kBinarySearchWithFirstKey

datatype DataBlockIndexType = kDataBlockBinarySearch | kDataBlockBinaryAndHash

datatype IndexShorteningMode = kNoShortening | kShortenSeparators | kShortenSeparatorsAndSuccessor

datatype PrepopulateBlockCache = kDisable | kFlushOnly

record BlockBasedTableOptions_1 =
  bbt_flush_block_policy_factory :: "handle option"
  bbt_cache_index_and_filter_blocks :: "bool"
  bbt_cache_index_and_filter_blocks_with_high_priority :: "bool"
  bbt_pin_l0_filter_and_index_blocks_in_cache :: "bool"
  bbt_pin_top_level_index_and_filter :: "bool"
  bbt_metadata_cache_options :: "MetadataCacheOptions"
  bbt_index_type :: "IndexType"
  bbt_data_block_index_type :: "DataBlockIndexType"
  bbt_data_block_hash_table_util_ratio :: "rat"
  bbt_hash_index_allow_collision :: "bool"
  bbt_checksum :: "ChecksumType"
  bbt_no_block_cache :: "bool"
  bbt_block_cache :: "handle option"
  bbt_persistent_cache :: "handle option"

record BlockBasedTableOptions_2 = BlockBasedTableOptions_1 +
  bbt_block_cache_compressed :: "handle option"
  bbt_block_size :: "64 word"
  bbt_block_size_deviation :: "c_int"
  bbt_block_restart_interval :: "c_int"
  bbt_index_block_restart_interval :: "c_int"
  bbt_metadata_block_size :: "64 word"
  bbt_reserve_table_builder_memory :: "bool"
  bbt_partition_filters :: "bool"
  bbt_optimize_filters_for_memory :: "bool"
  bbt_use_delta_encoding :: "bool"
  bbt_filter_policy :: "handle option"
  bbt_whole_key_filtering :: "bool"
  bbt_verify_compression :: "bool"
  bbt_read_amp_bytes_per_bit :: "32 word"

record BlockBasedTableOptions = BlockBasedTableOptions_2 +
  bbt_format_version :: "32 word"
  bbt_enable_index_compression :: "bool"
  bbt_block_align :: "bool"
  bbt_index_shortening :: "IndexShorteningMode"
  bbt_max_auto_readahead_size :: "64 word"
  bbt_prepopulate_block_cache :: "PrepopulateBlockCache"

definition BlockBasedTableOptions_default :: "BlockBasedTableOptions" where
  "BlockBasedTableOptions_default =
    \<lparr>bbt_flush_block_policy_factory = None, bbt_cache_index_and_filter_blocks = False,
      bbt_cache_index_and_filter_blocks_with_high_priority = True,
      bbt_pin_l0_filter_and_index_blocks_in_cache = False,
      bbt_pin_top_level_index_and_filter = True,
      bbt_metadata_cache_options = MetadataCacheOptions_default, bbt_index_type = kBinarySearch,
      bbt_data_block_index_type = kDataBlockBinarySearch,
      bbt_data_block_hash_table_util_ratio = 3 / 4, bbt_hash_index_allow_collision = True,
      bbt_checksum = kCRC32c, bbt_no_block_cache = False, bbt_block_cache = None,
      bbt_persistent_cache = None, bbt_block_cache_compressed = None, bbt_block_size = 4 * 1024,
      bbt_block_size_deviation = 10, bbt_block_restart_interval = 16,
      bbt_index_block_restart_interval = 1, bbt_metadata_block_size = 4096,
      bbt_reserve_table_builder_memory = False, bbt_partition_filters = False,
      bbt_optimize_filters_for_memory = False, bbt_use_delta_encoding = True,
      bbt_filter_policy = None, bbt_whole_key_filtering = True, bbt_verify_compression = False,
      bbt_read_amp_bytes_per_bit = 0, bbt_format_version = 5, bbt_enable_index_compression = True,
      bbt_block_align = False, bbt_index_shortening = kShortenSeparators,
      bbt_max_auto_readahead_size = 256 * 1024, bbt_prepopulate_block_cache = kDisable\<rparr>"

section \<open>Plain and cuckoo tables\<close>

datatype EncodingType = kPlain | kPrefix

definition kPlainTableVariableLength :: "32 word" where
  "kPlainTableVariableLength = 0"

record PlainTableOptions =
  pto_user_key_len :: "32 word"
  pto_bloom_bits_per_key :: "c_int"
  pto_hash_table_ratio :: "rat"
  pto_index_sparseness :: "64 word"
  pto_huge_page_tlb_size :: "64 word"
  pto_encoding_type :: "EncodingType"
  pto_full_scan_mode :: "bool"
  pto_store_index_in_file :: "bool"

definition PlainTableOptions_default :: "PlainTableOptions" where
  "PlainTableOptions_default =
    \<lparr>pto_user_key_len = kPlainTableVariableLength, pto_bloom_bits_per_key = 10,
      pto_hash_table_ratio = 3 / 4, pto_index_sparseness = 16, pto_huge_page_tlb_size = 0,
      pto_encoding_type = kPlain, pto_full_scan_mode = False, pto_store_index_in_file = False\<rparr>"

record CuckooTableOptions =
  cto_hash_table_ratio :: "rat"
  cto_max_search_depth :: "32 word"
  cto_cuckoo_block_size :: "32 word"
  cto_identity_as_first_hash :: "bool"
  cto_use_module_hash :: "bool"

definition CuckooTableOptions_default :: "CuckooTableOptions" where
  "CuckooTableOptions_default =
    \<lparr>cto_hash_table_ratio = 9 / 10, cto_max_search_depth = 100, cto_cuckoo_block_size = 5,
      cto_identity_as_first_hash = False, cto_use_module_hash = True\<rparr>"

section \<open>Table factories\<close>

text \<open>The overload of \<open>NewTableReader\<close> without read options uses the default ones (library code).\<close>

definition TableFactory_NewTableReader ::
    "ReadOptions \<Rightarrow> (ReadOptions \<Rightarrow> 'o \<Rightarrow> 'f \<Rightarrow> 64 word \<Rightarrow> bool \<Rightarrow> 'r) \<Rightarrow> 'o \<Rightarrow> 'f \<Rightarrow> 64 word \<Rightarrow> bool \<Rightarrow> 'r" where
  "TableFactory_NewTableReader default_options NewTableReader table_reader_options file file_size prefetch =
     (let ro = default_options in NewTableReader ro table_reader_options file file_size prefetch)"

definition TableFactory_IsDeleteRangeSupported_default :: bool where
  "TableFactory_IsDeleteRangeSupported_default = False"

end
