(* ===== verification/Hooks.thy ===== *)
theory Hooks
  imports Env_Files
begin

text \<open>
  Classes a client of RocksDB derives from, with the bodies they inherit: \<open>WriteBatch::Handler\<close>
  (\<open>write_batch.h\<close>), \<open>CompactionFilter\<close> and its factory (\<open>compaction_filter.h\<close>), \<open>Comparator\<close>
  (\<open>comparator.h\<close>), \<open>RateLimiter\<close> (\<open>rate_limiter.h\<close>), \<open>SliceTransform\<close> (\<open>slice_transform.h\<close>), and the result
  of a command of \<open>ldb\<close> (\<open>utilities/ldb_cmd_execute_result.h\<close>). The members a derived class supplies are
  parameters.
\<close>

section \<open>Write batches\<close>

record SavePoint =
  sp_size :: "64 word"
  sp_count :: c_int
  sp_content_flags :: "32 word"

definition SavePoint_default :: SavePoint where
  "SavePoint_default = \<lparr>sp_size = 0, sp_count = 0, sp_content_flags = 0\<rparr>"

definition SavePoint_of :: "64 word \<Rightarrow> c_int \<Rightarrow> 32 word \<Rightarrow> SavePoint" where
  "SavePoint_of size' count' flags = \<lparr>sp_size = size', sp_count = count', sp_content_flags = flags\<rparr>"

definition SavePoint_clear :: "SavePoint \<Rightarrow> SavePoint" where
  "SavePoint_clear p = p\<lparr>sp_size := 0, sp_count := 0, sp_content_flags := 0\<rparr>"

definition SavePoint_is_cleared :: "SavePoint \<Rightarrow> bool" where
  "SavePoint_is_cleared p \<longleftrightarrow> or (or (sp_size p) (scast (sp_count p))) (ucast (sp_content_flags p)) = 0"

text \<open>
  The members of a handler without a status, over the state of the derived class, and the versions with a column family that
  call them.
\<close>

record 'w batch_handler =
  bh_Put :: "Slice \<Rightarrow> Slice \<Rightarrow> 'w \<Rightarrow> 'w"
  bh_Delete :: "Slice \<Rightarrow> 'w \<Rightarrow> 'w"
  bh_SingleDelete :: "Slice \<Rightarrow> 'w \<Rightarrow> 'w"
  bh_Merge :: "Slice \<Rightarrow> Slice \<Rightarrow> 'w \<Rightarrow> 'w"

definition invalid_argument :: "status_ctor \<Rightarrow> string \<Rightarrow> Status" where
  "invalid_argument ctor msg = Status_InvalidArgument_msg ctor (Slice_of_literal msg) Slice_default"

definition Handler_PutCF :: "status_ctor \<Rightarrow> 'w batch_handler \<Rightarrow> 32 word \<Rightarrow> Slice \<Rightarrow> Slice \<Rightarrow> 'w \<Rightarrow> Status \<times> 'w" where
  "Handler_PutCF ctor H column_family_id key val w =
     (if column_family_id = 0 then (Status_OK, bh_Put H key val w)
      else (invalid_argument ctor ''non-default column family and PutCF not implemented'', w))"

definition Handler_DeleteCF :: "status_ctor \<Rightarrow> 'w batch_handler \<Rightarrow> 32 word \<Rightarrow> Slice \<Rightarrow> 'w \<Rightarrow> Status \<times> 'w" where
  "Handler_DeleteCF ctor H column_family_id key w =
     (if column_family_id = 0 then (Status_OK, bh_Delete H key w)
      else (invalid_argument ctor ''non-default column family and DeleteCF not implemented'', w))"

definition Handler_SingleDeleteCF :: "status_ctor \<Rightarrow> 'w batch_handler \<Rightarrow> 32 word \<Rightarrow> Slice \<Rightarrow> 'w \<Rightarrow> Status \<times> 'w" where
  "Handler_SingleDeleteCF ctor H column_family_id key w =
     (if column_family_id = 0 then (Status_OK, bh_SingleDelete H key w)
      else (invalid_argument ctor ''non-default column family and SingleDeleteCF not implemented'', w))"

definition Handler_DeleteRangeCF :: "status_ctor \<Rightarrow> Status" where
  "Handler_DeleteRangeCF ctor = invalid_argument ctor ''DeleteRangeCF not implemented''"

definition Handler_MergeCF :: "status_ctor \<Rightarrow> 'w batch_handler \<Rightarrow> 32 word \<Rightarrow> Slice \<Rightarrow> Slice \<Rightarrow> 'w \<Rightarrow> Status \<times> 'w" where
  "Handler_MergeCF ctor H column_family_id key val w =
     (if column_family_id = 0 then (Status_OK, bh_Merge H key val w)
      else (invalid_argument ctor ''non-default column family and MergeCF not implemented'', w))"

definition Handler_PutBlobIndexCF :: "status_ctor \<Rightarrow> Status" where
  "Handler_PutBlobIndexCF ctor = invalid_argument ctor ''PutBlobIndexCF not implemented''"

definition Handler_MarkBeginPrepare :: "status_ctor \<Rightarrow> Status" where
  "Handler_MarkBeginPrepare ctor = invalid_argument ctor ''MarkBeginPrepare() handler not defined.''"

definition Handler_MarkEndPrepare :: "status_ctor \<Rightarrow> Status" where
  "Handler_MarkEndPrepare ctor = invalid_argument ctor ''MarkEndPrepare() handler not defined.''"

definition Handler_MarkNoop :: "status_ctor \<Rightarrow> Status" where
  "Handler_MarkNoop ctor = invalid_argument ctor ''MarkNoop() handler not defined.''"

definition Handler_MarkRollback :: "status_ctor \<Rightarrow> Status" where
  "Handler_MarkRollback ctor = invalid_argument ctor ''MarkRollbackPrepare() handler not defined.''"

definition Handler_MarkCommit :: "status_ctor \<Rightarrow> Status" where
  "Handler_MarkCommit ctor = invalid_argument ctor ''MarkCommit() handler not defined.''"

definition Handler_MarkCommitWithTimestamp :: "status_ctor \<Rightarrow> Status" where
  "Handler_MarkCommitWithTimestamp ctor = invalid_argument ctor ''MarkCommitWithTimestamp() handler not defined.''"

text \<open>A default handler sees exactly the updates of the default family, in order.\<close>

datatype batch_entry = Batch_put "32 word" Slice Slice | Batch_delete "32 word" Slice

fun handle_entry :: "status_ctor \<Rightarrow> 'w batch_handler \<Rightarrow> batch_entry \<Rightarrow> 'w \<Rightarrow> Status \<times> 'w" where
  "handle_entry ctor H (Batch_put cf k v) w = Handler_PutCF ctor H cf k v w"
| "handle_entry ctor H (Batch_delete cf k) w = Handler_DeleteCF ctor H cf k w"

fun entry_family :: "batch_entry \<Rightarrow> 32 word" where
  "entry_family (Batch_put cf k v) = cf"
| "entry_family (Batch_delete cf k) = cf"

lemma other_family_is_refused:
  assumes "\<And>m m2. \<not> Status_ok (Status_InvalidArgument_msg ctor m m2)"
  shows "Status_ok (fst (handle_entry ctor H e w)) \<longleftrightarrow> entry_family e = 0"
    and "entry_family e \<noteq> 0 \<Longrightarrow> snd (handle_entry ctor H e w) = w"
  by (cases e; use assms in \<open>simp add: Handler_PutCF_def Handler_DeleteCF_def invalid_argument_def\<close>)+

lemma cleared_save_point: "SavePoint_is_cleared (SavePoint_clear p)"
  by (simp add: SavePoint_is_cleared_def SavePoint_clear_def)

section \<open>Compaction filters\<close>

datatype ValueType = cf_kValue | cf_kMergeOperand | cf_kBlobIndex

datatype Decision = cf_kKeep | cf_kRemove | cf_kChangeValue | cf_kRemoveAndSkipUntil | cf_kChangeBlobIndex | cf_kIOError | cf_kUndetermined

datatype BlobDecision = bd_kKeep | bd_kChangeValue | bd_kCorruption | bd_kIOError

record FilterContext =
  fc_is_full_compaction :: bool
  fc_is_manual_compaction :: bool
  fc_column_family_id :: "32 word"
  fc_reason :: TableFileCreationReason

text \<open>\<open>Filter\<close> gets the new value and the changed flag and returns them with its answer.\<close>

type_synonym filter_fun = "c_int \<Rightarrow> Slice \<Rightarrow> Slice \<Rightarrow> string \<Rightarrow> bool \<Rightarrow> bool \<times> string \<times> bool"

definition CompactionFilter_Filter_default :: filter_fun where
  "CompactionFilter_Filter_default level key existing_value new_value value_changed = (False, new_value, value_changed)"

definition CompactionFilter_FilterMergeOperand_default :: "c_int \<Rightarrow> Slice \<Rightarrow> Slice \<Rightarrow> bool" where
  "CompactionFilter_FilterMergeOperand_default level key operand = False"

definition CompactionFilter_FilterV2 ::
    "filter_fun \<Rightarrow> (c_int \<Rightarrow> Slice \<Rightarrow> Slice \<Rightarrow> bool) \<Rightarrow> c_int \<Rightarrow> Slice \<Rightarrow> ValueType \<Rightarrow> Slice \<Rightarrow> string \<Rightarrow> Decision \<times> string" where
  "CompactionFilter_FilterV2 Filter FilterMergeOperand level key value_type existing_value new_value =
     (case value_type of
        cf_kValue \<Rightarrow>
          let (rv, new_value, value_changed) = Filter level key existing_value new_value False in
          (if rv then cf_kRemove else if value_changed then cf_kChangeValue else cf_kKeep, new_value)
      | cf_kMergeOperand \<Rightarrow> (if FilterMergeOperand level key existing_value then cf_kRemove else cf_kKeep, new_value)
      | cf_kBlobIndex \<Rightarrow> (cf_kKeep, new_value))"

definition CompactionFilter_PrepareBlobOutput_default :: BlobDecision where
  "CompactionFilter_PrepareBlobOutput_default = bd_kKeep"

definition CompactionFilter_IgnoreSnapshots_default :: bool where
  "CompactionFilter_IgnoreSnapshots_default = True"

definition CompactionFilter_FilterBlobByKey_default :: Decision where
  "CompactionFilter_FilterBlobByKey_default = cf_kUndetermined"

definition ShouldFilterTableFileCreation_default :: "TableFileCreationReason \<Rightarrow> bool" where
  "ShouldFilterTableFileCreation_default reason \<longleftrightarrow> reason = tf_kCompaction"

text \<open>A filter that overrides nothing keeps every entry.\<close>

lemma default_filter_keeps:
  "CompactionFilter_FilterV2 CompactionFilter_Filter_default CompactionFilter_FilterMergeOperand_default level key vt v s = (cf_kKeep, s)"
  by (cases vt) (simp_all add: CompactionFilter_FilterV2_def CompactionFilter_Filter_default_def
      CompactionFilter_FilterMergeOperand_default_def)

section \<open>Comparators\<close>

record Comparator =
  cmp_timestamp_size :: "64 word"

definition Comparator_default :: Comparator where
  "Comparator_default = \<lparr>cmp_timestamp_size = 0\<rparr>"

definition Comparator_of :: "64 word \<Rightarrow> Comparator" where
  "Comparator_of ts_sz = \<lparr>cmp_timestamp_size = ts_sz\<rparr>"

definition Comparator_copy :: "Comparator \<Rightarrow> Comparator" where
  "Comparator_copy orig = \<lparr>cmp_timestamp_size = cmp_timestamp_size orig\<rparr>"

text \<open>Assignment to an object that may be the same one.\<close>

definition Comparator_assign :: "bool \<Rightarrow> Comparator \<Rightarrow> Comparator \<Rightarrow> Comparator" where
  "Comparator_assign same this rhs = (if \<not> same then this\<lparr>cmp_timestamp_size := cmp_timestamp_size rhs\<rparr> else this)"

definition Comparator_timestamp_size :: "Comparator \<Rightarrow> 64 word" where
  "Comparator_timestamp_size c = cmp_timestamp_size c"

text \<open>\<open>Compare\<close> may fault; the other members are written over it.\<close>

type_synonym compare_fun = "Slice \<Rightarrow> Slice \<Rightarrow> int result"

definition Comparator_Equal :: "compare_fun \<Rightarrow> Slice \<Rightarrow> Slice \<Rightarrow> bool result" where
  "Comparator_Equal Compare a b = bindr (Compare a b) (\<lambda>r. Inr (r = 0))"

definition Comparator_CompareTimestamp_default :: "Slice \<Rightarrow> Slice \<Rightarrow> int" where
  "Comparator_CompareTimestamp_default ts1 ts2 = 0"

definition Comparator_CompareWithoutTimestamp_default :: "compare_fun \<Rightarrow> Slice \<Rightarrow> bool \<Rightarrow> Slice \<Rightarrow> bool \<Rightarrow> int result" where
  "Comparator_CompareWithoutTimestamp_default Compare a a_has_ts b b_has_ts = Compare a b"

definition Comparator_CompareWithoutTimestamp ::
    "(Slice \<Rightarrow> bool \<Rightarrow> Slice \<Rightarrow> bool \<Rightarrow> int result) \<Rightarrow> Slice \<Rightarrow> Slice \<Rightarrow> int result" where
  "Comparator_CompareWithoutTimestamp CompareWithout a b = CompareWithout a True b True"

definition Comparator_EqualWithoutTimestamp ::
    "(Slice \<Rightarrow> bool \<Rightarrow> Slice \<Rightarrow> bool \<Rightarrow> int result) \<Rightarrow> Slice \<Rightarrow> Slice \<Rightarrow> bool result" where
  "Comparator_EqualWithoutTimestamp CompareWithout a b = bindr (CompareWithout a True b True) (\<lambda>r. Inr (0 = r))"

definition Comparator_IsSameLengthImmediateSuccessor_default :: "Slice \<Rightarrow> Slice \<Rightarrow> bool" where
  "Comparator_IsSameLengthImmediateSuccessor_default s t = False"

definition Comparator_CanKeysWithDifferentByteContentsBeEqual_default :: bool where
  "Comparator_CanKeysWithDifferentByteContentsBeEqual_default = True"

text \<open>
  "A Comparator object provides a total order across slices": on the slices \<open>ok\<close>, the answers are the
  order of a key \<open>rank\<close>.
\<close>

locale comparator =
  fixes Compare :: compare_fun and ok :: "Slice \<Rightarrow> bool" and rank :: "Slice \<Rightarrow> 'k :: linorder"
  assumes compare: "ok a \<Longrightarrow> ok b \<Longrightarrow>
    \<exists>r. Compare a b = Inr r \<and> (r < 0 \<longleftrightarrow> rank a < rank b) \<and> (r = 0 \<longleftrightarrow> rank a = rank b) \<and> (r > 0 \<longleftrightarrow> rank b < rank a)"
begin

lemma Equal_rank: "ok a \<Longrightarrow> ok b \<Longrightarrow> Comparator_Equal Compare a b = Inr (rank a = rank b)"
  using compare [of a b] by (auto simp: Comparator_Equal_def)

lemma EqualWithoutTimestamp_rank:
  "ok a \<Longrightarrow> ok b \<Longrightarrow>
     Comparator_EqualWithoutTimestamp (Comparator_CompareWithoutTimestamp_default Compare) a b = Inr (rank a = rank b)"
  using compare [of a b] by (auto simp: Comparator_EqualWithoutTimestamp_def Comparator_CompareWithoutTimestamp_default_def)

end

text \<open>\<open>Slice::compare\<close> as \<open>Compare\<close>: the bytewise order.\<close>

interpretation bytewise: comparator Slice_compare slice_ok slice_bytes
  by unfold_locales (rule Slice_compare_order)

section \<open>Prefix extractors\<close>

definition SliceTransform_InRange_default :: "Slice \<Rightarrow> bool" where
  "SliceTransform_InRange_default dst = False"

definition SliceTransform_FullLengthEnabled_default :: bool where
  "SliceTransform_FullLengthEnabled_default = False"

definition SliceTransform_SameResultWhenAppended_default :: "Slice \<Rightarrow> bool" where
  "SliceTransform_SameResultWhenAppended_default prefix' = False"

section \<open>Rate limiters\<close>

datatype OpType = op_kRead | op_kWrite

datatype RateLimiterMode = rm_kReadsOnly | rm_kWritesOnly | rm_kAllIo

definition RateLimiter_IsRateLimited :: "RateLimiterMode \<Rightarrow> OpType \<Rightarrow> bool" where
  "RateLimiter_IsRateLimited mode op_type =
     (if mode = rm_kWritesOnly \<and> op_type = op_kRead \<or> mode = rm_kReadsOnly \<and> op_type = op_kWrite then False else True)"

definition RateLimiter_Request_default :: "64 word \<Rightarrow> IOPriority \<Rightarrow> 'w \<Rightarrow> 'w result" where
  "RateLimiter_Request_default bytes pri w = Inl Assertion_failed"

definition RateLimiter_Request_stats ::
    "(64 word \<Rightarrow> IOPriority \<Rightarrow> 'w \<Rightarrow> 'w result) \<Rightarrow> 64 word \<Rightarrow> IOPriority \<Rightarrow> 'w \<Rightarrow> 'w result" where
  "RateLimiter_Request_stats Request bytes pri w = Request bytes pri w"

definition RateLimiter_Request ::
    "(64 word \<Rightarrow> IOPriority \<Rightarrow> 'w \<Rightarrow> 'w result) \<Rightarrow> RateLimiterMode \<Rightarrow> 64 word \<Rightarrow> IOPriority \<Rightarrow> OpType \<Rightarrow> 'w \<Rightarrow> 'w result" where
  "RateLimiter_Request Request mode bytes pri op_type w =
     (if RateLimiter_IsRateLimited mode op_type then Request bytes pri w else Inr w)"

definition RateLimiter_GetTotalPendingRequests_default :: "64 word option \<Rightarrow> Status result" where
  "RateLimiter_GetTotalPendingRequests_default total_pending_requests =
     bindr (guard Assertion_failed (total_pending_requests \<noteq> None)) (\<lambda>_. Inr (Status_NotSupported kNone))"

text \<open>A limiter derived with no \<open>Request\<close> of its own asserts on every request it is to limit, and on no other.\<close>

lemma unlimited_request_passes:
  "RateLimiter_Request (RateLimiter_Request_stats RateLimiter_Request_default) mode bytes pri op w =
     (if mode = rm_kAllIo \<or> (mode = rm_kWritesOnly) = (op = op_kWrite) then Inl Assertion_failed else Inr w)"
  by (cases mode; cases op) (simp_all add: RateLimiter_Request_def RateLimiter_Request_stats_def RateLimiter_Request_default_def
      RateLimiter_IsRateLimited_def)

section \<open>Results of \<open>ldb\<close> commands\<close>

datatype LDB_State = EXEC_NOT_STARTED | EXEC_SUCCEED | EXEC_FAILED

record LDBCommandExecuteResult =
  ldb_state :: LDB_State
  ldb_message :: string

definition LDB_default :: LDBCommandExecuteResult where
  "LDB_default = \<lparr>ldb_state = EXEC_NOT_STARTED, ldb_message = []\<rparr>"

definition LDB_of :: "LDB_State \<Rightarrow> string \<Rightarrow> LDBCommandExecuteResult" where
  "LDB_of state msg = \<lparr>ldb_state = state, ldb_message = msg\<rparr>"

definition LDB_ToString :: "LDBCommandExecuteResult \<Rightarrow> string" where
  "LDB_ToString r =
     (let ret = [];
          ret = (case ldb_state r of EXEC_SUCCEED \<Rightarrow> ret | EXEC_FAILED \<Rightarrow> ret @ ''Failed: '' | EXEC_NOT_STARTED \<Rightarrow> ret @ ''Not started: '') in
      if ldb_message r \<noteq> [] then ret @ ldb_message r else ret)"

definition LDB_Reset :: "LDBCommandExecuteResult \<Rightarrow> LDBCommandExecuteResult" where
  "LDB_Reset r = r\<lparr>ldb_state := EXEC_NOT_STARTED, ldb_message := []\<rparr>"

definition LDB_IsSucceed :: "LDBCommandExecuteResult \<Rightarrow> bool" where
  "LDB_IsSucceed r \<longleftrightarrow> ldb_state r = EXEC_SUCCEED"

definition LDB_IsNotStarted :: "LDBCommandExecuteResult \<Rightarrow> bool" where
  "LDB_IsNotStarted r \<longleftrightarrow> ldb_state r = EXEC_NOT_STARTED"

definition LDB_IsFailed :: "LDBCommandExecuteResult \<Rightarrow> bool" where
  "LDB_IsFailed r \<longleftrightarrow> ldb_state r = EXEC_FAILED"

definition LDB_Succeed :: "string \<Rightarrow> LDBCommandExecuteResult" where
  "LDB_Succeed msg = LDB_of EXEC_SUCCEED msg"

definition LDB_Failed :: "string \<Rightarrow> LDBCommandExecuteResult" where
  "LDB_Failed msg = LDB_of EXEC_FAILED msg"

text \<open>The text of a success is its message alone, so a failure can be told from its text unless a message imitates it.\<close>

lemma LDB_texts:
  "LDB_ToString (LDB_Succeed m) = m" "LDB_ToString (LDB_Failed m) = ''Failed: '' @ m" "LDB_ToString LDB_default = ''Not started: ''"
  by (simp_all add: LDB_ToString_def LDB_Succeed_def LDB_Failed_def LDB_of_def LDB_default_def Let_def)

end
