(* ===== verification/Events.thy ===== *)
theory Events
  imports File_Metadata
begin

text \<open>
  \<open>rocksdb/table_properties.h\<close>, \<open>rocksdb/compaction_job_stats.h\<close> and \<open>rocksdb/listener.h\<close>: the properties of a
  table and their collectors, and what the library tells an event listener about files, flushes,
  compactions, stalls and errors. One record per struct; a struct derived from another extends its
  record. A member that a constructor leaves uninitialised keeps the value of an arbitrary object
  \<open>raw\<close>. The enumerations come with the values the header gives them.
\<close>

section \<open>Collectors of table properties\<close>

type_synonym UserCollectedProperties = "(string \<times> string) list"

text \<open>
  The overridable members; \<open>'c\<close> is the state of a collector. \<open>AddUserKey\<close> defaults to the deprecated \<open>Add\<close>
  of the same object.
\<close>

type_synonym 'c collector_add = "Slice \<Rightarrow> Slice \<Rightarrow> 'c \<Rightarrow> Status \<times> 'c"

definition TablePropertiesCollector_Add_default :: "status_ctor \<Rightarrow> 'c collector_add" where
  "TablePropertiesCollector_Add_default ctor key val c =
     (Status_InvalidArgument_msg ctor (Slice_of_literal ''TablePropertiesCollector::Add() deprecated.'') Slice_default, c)"

definition TablePropertiesCollector_AddUserKey_default ::
    "'c collector_add \<Rightarrow> Slice \<Rightarrow> Slice \<Rightarrow> EntryType \<Rightarrow> SequenceNumber \<Rightarrow> 64 word \<Rightarrow> 'c \<Rightarrow> Status \<times> 'c" where
  "TablePropertiesCollector_AddUserKey_default Add key val type seq file_size c = Add key val c"

definition TablePropertiesCollector_BlockAdd_default :: "64 word \<Rightarrow> 64 word \<Rightarrow> 64 word \<Rightarrow> 'c \<Rightarrow> 'c" where
  "TablePropertiesCollector_BlockAdd_default block_raw_bytes block_compressed_bytes_fast block_compressed_bytes_slow c = c"

definition TablePropertiesCollector_NeedCompact_default :: "'c \<Rightarrow> bool" where
  "TablePropertiesCollector_NeedCompact_default c = False"

text \<open>The context of a factory: the level has an initialiser, the column family has none.\<close>

record CollectorContext =
  ctx_column_family_id :: "32 word"
  ctx_level_at_creation :: c_int

definition kUnknownLevelAtCreation :: c_int where
  "kUnknownLevelAtCreation = - 1"

definition CollectorContext_inits :: "CollectorContext \<Rightarrow> CollectorContext" where
  "CollectorContext_inits raw = raw\<lparr>ctx_level_at_creation := kUnknownLevelAtCreation\<rparr>"

definition CollectorFactory_ToString_default :: "string \<Rightarrow> string" where
  "CollectorFactory_ToString_default Name = Name"

section \<open>Table properties\<close>

text \<open>\<open>kUnknownColumnFamily\<close> is defined out of line and extended to 64 bits.\<close>

record TableProperties_1 =
  tp_orig_file_number :: "64 word"
  tp_data_size :: "64 word"
  tp_index_size :: "64 word"
  tp_index_partitions :: "64 word"
  tp_top_level_index_size :: "64 word"
  tp_index_key_is_user_key :: "64 word"
  tp_index_value_is_delta_encoded :: "64 word"
  tp_filter_size :: "64 word"
  tp_raw_key_size :: "64 word"
  tp_raw_value_size :: "64 word"
  tp_num_data_blocks :: "64 word"
  tp_num_entries :: "64 word"
  tp_num_filter_entries :: "64 word"
  tp_num_deletions :: "64 word"
  tp_num_merge_operands :: "64 word"
  tp_num_range_deletions :: "64 word"
  tp_format_version :: "64 word"
  tp_fixed_key_len :: "64 word"
  tp_column_family_id :: "64 word"
  tp_creation_time :: "64 word"
  tp_oldest_key_time :: "64 word"
  tp_file_creation_time :: "64 word"
  tp_slow_compression_estimated_data_size :: "64 word"
  tp_fast_compression_estimated_data_size :: "64 word"
  tp_external_sst_file_global_seqno_offset :: "64 word"
  tp_db_id :: "string"

record TableProperties = TableProperties_1 +
  tp_db_session_id :: "string"
  tp_db_host_id :: "string"
  tp_column_family_name :: "string"
  tp_filter_policy_name :: "string"
  tp_comparator_name :: "string"
  tp_merge_operator_name :: "string"
  tp_prefix_extractor_name :: "string"
  tp_property_collectors_names :: "string"
  tp_compression_name :: "string"
  tp_compression_options :: "string"
  tp_user_collected_properties :: "UserCollectedProperties"
  tp_readable_properties :: "UserCollectedProperties"

definition TableProperties_inits :: "32 word \<Rightarrow> TableProperties" where
  "TableProperties_inits kUnknownColumnFamily =
    \<lparr>tp_orig_file_number = 0, tp_data_size = 0, tp_index_size = 0, tp_index_partitions = 0,
      tp_top_level_index_size = 0, tp_index_key_is_user_key = 0,
      tp_index_value_is_delta_encoded = 0, tp_filter_size = 0, tp_raw_key_size = 0,
      tp_raw_value_size = 0, tp_num_data_blocks = 0, tp_num_entries = 0, tp_num_filter_entries = 0,
      tp_num_deletions = 0, tp_num_merge_operands = 0, tp_num_range_deletions = 0,
      tp_format_version = 0, tp_fixed_key_len = 0,
      tp_column_family_id = ucast kUnknownColumnFamily, tp_creation_time = 0,
      tp_oldest_key_time = 0, tp_file_creation_time = 0,
      tp_slow_compression_estimated_data_size = 0, tp_fast_compression_estimated_data_size = 0,
      tp_external_sst_file_global_seqno_offset = 0, tp_db_id = [], tp_db_session_id = [],
      tp_db_host_id = [], tp_column_family_name = [], tp_filter_policy_name = [],
      tp_comparator_name = [], tp_merge_operator_name = [], tp_prefix_extractor_name = [],
      tp_property_collectors_names = [], tp_compression_name = [], tp_compression_options = [],
      tp_user_collected_properties = [], tp_readable_properties = []\<rparr>"

section \<open>Statistics of a compaction\<close>

record CompactionJobStats_1 =
  cjs_elapsed_micros :: "64 word"
  cjs_cpu_micros :: "64 word"
  cjs_num_input_records :: "64 word"
  cjs_num_blobs_read :: "64 word"
  cjs_num_input_files :: "64 word"
  cjs_num_input_files_at_output_level :: "64 word"
  cjs_num_output_records :: "64 word"
  cjs_num_output_files :: "64 word"
  cjs_num_output_files_blob :: "64 word"
  cjs_is_full_compaction :: "bool"
  cjs_is_manual_compaction :: "bool"
  cjs_total_input_bytes :: "64 word"
  cjs_total_blob_bytes_read :: "64 word"
  cjs_total_output_bytes :: "64 word"
  cjs_total_output_bytes_blob :: "64 word"
  cjs_num_records_replaced :: "64 word"
  cjs_total_input_raw_key_bytes :: "64 word"
  cjs_total_input_raw_value_bytes :: "64 word"
  cjs_num_input_deletion_records :: "64 word"

record CompactionJobStats = CompactionJobStats_1 +
  cjs_num_expired_deletion_records :: "64 word"
  cjs_num_corrupt_keys :: "64 word"
  cjs_file_write_nanos :: "64 word"
  cjs_file_range_sync_nanos :: "64 word"
  cjs_file_fsync_nanos :: "64 word"
  cjs_file_prepare_write_nanos :: "64 word"
  cjs_smallest_output_key_prefix :: "string"
  cjs_largest_output_key_prefix :: "string"
  cjs_num_single_del_fallthru :: "64 word"
  cjs_num_single_del_mismatch :: "64 word"

text \<open>The constructor initialises nothing and calls \<open>Reset\<close>, which is out of line.\<close>

definition CompactionJobStats_ctor :: "(CompactionJobStats \<Rightarrow> CompactionJobStats) \<Rightarrow> CompactionJobStats \<Rightarrow> CompactionJobStats" where
  "CompactionJobStats_ctor Reset raw = Reset raw"

section \<open>Files that are created\<close>

type_synonym TablePropertiesCollection = "(string \<times> TableProperties option) list"

record FileCreationBriefInfo =
  fcb_db_name :: "string"
  fcb_cf_name :: "string"
  fcb_file_path :: "string"
  fcb_job_id :: "c_int"

definition FileCreationBriefInfo_default :: FileCreationBriefInfo where
  "FileCreationBriefInfo_default = \<lparr>fcb_db_name = [], fcb_cf_name = [], fcb_file_path = [], fcb_job_id = 0\<rparr>"

definition FileCreationBriefInfo_of :: "string \<Rightarrow> string \<Rightarrow> string \<Rightarrow> c_int \<Rightarrow> FileCreationBriefInfo" where
  "FileCreationBriefInfo_of db_name cf_name file_path job_id =
     \<lparr>fcb_db_name = db_name, fcb_cf_name = cf_name, fcb_file_path = file_path, fcb_job_id = job_id\<rparr>"

record TableFileCreationBriefInfo = FileCreationBriefInfo +
  tcb_reason :: "TableFileCreationReason"

record TableFileCreationInfo = TableFileCreationBriefInfo +
  tci_file_size :: "64 word"
  tci_table_properties :: "TableProperties"
  tci_status :: "Status"
  tci_file_checksum :: "string"
  tci_file_checksum_func_name :: "string"

text \<open>The reason and the size of the file are left uninitialised.\<close>

definition TableFileCreationInfo_of :: "TableFileCreationInfo \<Rightarrow> TableProperties \<Rightarrow> TableFileCreationInfo" where
  "TableFileCreationInfo_of raw prop = FileCreationBriefInfo.extend FileCreationBriefInfo_default
     \<lparr>tcb_reason = tcb_reason raw, tci_file_size = tci_file_size raw, tci_table_properties = prop, tci_status = Status_default,
      tci_file_checksum = [], tci_file_checksum_func_name = []\<rparr>"

record BlobFileCreationBriefInfo = FileCreationBriefInfo +
  bcb_reason :: "BlobFileCreationReason"

definition BlobFileCreationBriefInfo_of :: "string \<Rightarrow> string \<Rightarrow> string \<Rightarrow> c_int \<Rightarrow> BlobFileCreationReason \<Rightarrow> BlobFileCreationBriefInfo" where
  "BlobFileCreationBriefInfo_of db_name cf_name file_path job_id reason =
     FileCreationBriefInfo.extend (FileCreationBriefInfo_of db_name cf_name file_path job_id) (BlobFileCreationBriefInfo.fields reason)"

record BlobFileCreationInfo = BlobFileCreationBriefInfo +
  bci_total_blob_count :: "64 word"
  bci_total_blob_bytes :: "64 word"
  bci_status :: "Status"
  bci_file_checksum :: "string"
  bci_file_checksum_func_name :: "string"

definition BlobFileCreationInfo_of ::
    "string \<Rightarrow> string \<Rightarrow> string \<Rightarrow> c_int \<Rightarrow> BlobFileCreationReason \<Rightarrow> 64 word \<Rightarrow> 64 word \<Rightarrow> Status \<Rightarrow> string \<Rightarrow> string \<Rightarrow>
     BlobFileCreationInfo" where
  "BlobFileCreationInfo_of db_name cf_name file_path job_id reason total_blob_count total_blob_bytes status file_checksum
       file_checksum_func_name =
     BlobFileCreationBriefInfo.extend (BlobFileCreationBriefInfo_of db_name cf_name file_path job_id reason)
       (BlobFileCreationInfo.fields total_blob_count total_blob_bytes status file_checksum file_checksum_func_name)"

section \<open>Why and how\<close>

datatype CompactionReason =
    cr_kUnknown | cr_kLevelL0FilesNum | cr_kLevelMaxLevelSize | cr_kUniversalSizeAmplification
    | cr_kUniversalSizeRatio | cr_kUniversalSortedRunNum | cr_kFIFOMaxSize | cr_kFIFOReduceNumFiles
    | cr_kFIFOTtl | cr_kManualCompaction | cr_kFilesMarkedForCompaction | cr_kBottommostFiles | cr_kTtl
    | cr_kFlush | cr_kExternalSstIngestion | cr_kPeriodicCompaction | cr_kChangeTemperature | cr_kForcedBlobGC
    | cr_kNumOfReasons

fun compaction_reason_value :: "CompactionReason \<Rightarrow> nat" where
  "compaction_reason_value cr_kUnknown = 0"
| "compaction_reason_value cr_kLevelL0FilesNum = 1"
| "compaction_reason_value cr_kLevelMaxLevelSize = 2"
| "compaction_reason_value cr_kUniversalSizeAmplification = 3"
| "compaction_reason_value cr_kUniversalSizeRatio = 4"
| "compaction_reason_value cr_kUniversalSortedRunNum = 5"
| "compaction_reason_value cr_kFIFOMaxSize = 6"
| "compaction_reason_value cr_kFIFOReduceNumFiles = 7"
| "compaction_reason_value cr_kFIFOTtl = 8"
| "compaction_reason_value cr_kManualCompaction = 9"
| "compaction_reason_value cr_kFilesMarkedForCompaction = 10"
| "compaction_reason_value cr_kBottommostFiles = 11"
| "compaction_reason_value cr_kTtl = 12"
| "compaction_reason_value cr_kFlush = 13"
| "compaction_reason_value cr_kExternalSstIngestion = 14"
| "compaction_reason_value cr_kPeriodicCompaction = 15"
| "compaction_reason_value cr_kChangeTemperature = 16"
| "compaction_reason_value cr_kForcedBlobGC = 17"
| "compaction_reason_value cr_kNumOfReasons = 18"

datatype FlushReason =
    fr_kOthers | fr_kGetLiveFiles | fr_kShutDown | fr_kExternalFileIngestion | fr_kManualCompaction
    | fr_kWriteBufferManager | fr_kWriteBufferFull | fr_kTest | fr_kDeleteFiles | fr_kAutoCompaction
    | fr_kManualFlush | fr_kErrorRecovery | fr_kErrorRecoveryRetryFlush | fr_kWalFull

fun flush_reason_value :: "FlushReason \<Rightarrow> nat" where
  "flush_reason_value fr_kOthers = 0"
| "flush_reason_value fr_kGetLiveFiles = 1"
| "flush_reason_value fr_kShutDown = 2"
| "flush_reason_value fr_kExternalFileIngestion = 3"
| "flush_reason_value fr_kManualCompaction = 4"
| "flush_reason_value fr_kWriteBufferManager = 5"
| "flush_reason_value fr_kWriteBufferFull = 6"
| "flush_reason_value fr_kTest = 7"
| "flush_reason_value fr_kDeleteFiles = 8"
| "flush_reason_value fr_kAutoCompaction = 9"
| "flush_reason_value fr_kManualFlush = 10"
| "flush_reason_value fr_kErrorRecovery = 11"
| "flush_reason_value fr_kErrorRecoveryRetryFlush = 12"
| "flush_reason_value fr_kWalFull = 13"

datatype BackgroundErrorReason =
    be_kFlush | be_kCompaction | be_kWriteCallback | be_kMemTable | be_kManifestWrite | be_kFlushNoWAL
    | be_kManifestWriteNoWAL

fun background_error_value :: "BackgroundErrorReason \<Rightarrow> nat" where
  "background_error_value be_kFlush = 0"
| "background_error_value be_kCompaction = 1"
| "background_error_value be_kWriteCallback = 2"
| "background_error_value be_kMemTable = 3"
| "background_error_value be_kManifestWrite = 4"
| "background_error_value be_kFlushNoWAL = 5"
| "background_error_value be_kManifestWriteNoWAL = 6"

datatype WriteStallCondition =
    ws_kNormal | ws_kDelayed | ws_kStopped

fun write_stall_value :: "WriteStallCondition \<Rightarrow> nat" where
  "write_stall_value ws_kNormal = 0"
| "write_stall_value ws_kDelayed = 1"
| "write_stall_value ws_kStopped = 2"

record WriteStallInfo =
  wsi_cf_name :: string
  wsi_cur :: WriteStallCondition
  wsi_prev :: WriteStallCondition

section \<open>Files that are deleted or read and written\<close>

record FileDeletionInfo =
  fdi_db_name :: "string"
  fdi_file_path :: "string"
  fdi_job_id :: "c_int"
  fdi_status :: "Status"

definition FileDeletionInfo_default :: FileDeletionInfo where
  "FileDeletionInfo_default = \<lparr>fdi_db_name = [], fdi_file_path = [], fdi_job_id = 0, fdi_status = Status_default\<rparr>"

definition FileDeletionInfo_of :: "string \<Rightarrow> string \<Rightarrow> c_int \<Rightarrow> Status \<Rightarrow> FileDeletionInfo" where
  "FileDeletionInfo_of db_name file_path job_id status =
     \<lparr>fdi_db_name = db_name, fdi_file_path = file_path, fdi_job_id = job_id, fdi_status = status\<rparr>"

text \<open>\<open>TableFileDeletionInfo\<close> and \<open>BlobFileDeletionInfo\<close> add no member.\<close>

type_synonym TableFileDeletionInfo = FileDeletionInfo

type_synonym BlobFileDeletionInfo = FileDeletionInfo

definition BlobFileDeletionInfo_of :: "string \<Rightarrow> string \<Rightarrow> c_int \<Rightarrow> Status \<Rightarrow> BlobFileDeletionInfo" where
  "BlobFileDeletionInfo_of db_name file_path job_id status = FileDeletionInfo_of db_name file_path job_id status"

datatype FileOperationType =
    fo_kRead | fo_kWrite | fo_kTruncate | fo_kClose | fo_kFlush | fo_kSync | fo_kFsync | fo_kRangeSync
    | fo_kAppend | fo_kPositionedAppend | fo_kOpen

fun file_operation_value :: "FileOperationType \<Rightarrow> nat" where
  "file_operation_value fo_kRead = 0"
| "file_operation_value fo_kWrite = 1"
| "file_operation_value fo_kTruncate = 2"
| "file_operation_value fo_kClose = 3"
| "file_operation_value fo_kFlush = 4"
| "file_operation_value fo_kSync = 5"
| "file_operation_value fo_kFsync = 6"
| "file_operation_value fo_kRangeSync = 7"
| "file_operation_value fo_kAppend = 8"
| "file_operation_value fo_kPositionedAppend = 9"
| "file_operation_value fo_kOpen = 10"

text \<open>
  Time points and durations count nanoseconds. The path and the start time are references in the
  code; the record holds what they refer to.
\<close>

type_synonym nanoseconds = int
type_synonym StartTimePoint = "nanoseconds \<times> nanoseconds"
type_synonym FinishTimePoint = nanoseconds

record FileOperationInfo =
  foi_type :: FileOperationType
  foi_path :: string
  foi_offset :: "64 word"
  foi_length :: "64 word"
  foi_duration :: nanoseconds
  foi_start_ts :: nanoseconds
  foi_status :: Status

definition FileOperationInfo_of ::
    "FileOperationInfo \<Rightarrow> FileOperationType \<Rightarrow> string \<Rightarrow> StartTimePoint \<Rightarrow> FinishTimePoint \<Rightarrow> Status \<Rightarrow> FileOperationInfo" where
  "FileOperationInfo_of raw type path start_ts finish_ts status =
     \<lparr>foi_type = type, foi_path = path, foi_offset = foi_offset raw, foi_length = foi_length raw,
      foi_duration = finish_ts - snd start_ts, foi_start_ts = fst start_ts, foi_status = status\<rparr>"

text \<open>The clocks are parameters.\<close>

definition FileOperationInfo_StartNow :: "nanoseconds \<Rightarrow> nanoseconds \<Rightarrow> StartTimePoint" where
  "FileOperationInfo_StartNow system_now steady_now = (system_now, steady_now)"

definition FileOperationInfo_FinishNow :: "nanoseconds \<Rightarrow> FinishTimePoint" where
  "FileOperationInfo_FinishNow steady_now = steady_now"

record BlobFileInfo =
  bfi_blob_file_path :: "string"
  bfi_blob_file_number :: "64 word"

record BlobFileAdditionInfo = BlobFileInfo +
  bfa_total_blob_count :: "64 word"
  bfa_total_blob_bytes :: "64 word"

record BlobFileGarbageInfo = BlobFileInfo +
  bfg_garbage_blob_count :: "64 word"
  bfg_garbage_blob_bytes :: "64 word"

definition BlobFileInfo_of :: "string \<Rightarrow> 64 word \<Rightarrow> BlobFileInfo" where
  "BlobFileInfo_of path number = \<lparr>bfi_blob_file_path = path, bfi_blob_file_number = number\<rparr>"

definition BlobFileAdditionInfo_of :: "string \<Rightarrow> 64 word \<Rightarrow> 64 word \<Rightarrow> 64 word \<Rightarrow> BlobFileAdditionInfo" where
  "BlobFileAdditionInfo_of path number total_blob_count total_blob_bytes =
     BlobFileInfo.extend (BlobFileInfo_of path number) (BlobFileAdditionInfo.fields total_blob_count total_blob_bytes)"

definition BlobFileGarbageInfo_of :: "string \<Rightarrow> 64 word \<Rightarrow> 64 word \<Rightarrow> 64 word \<Rightarrow> BlobFileGarbageInfo" where
  "BlobFileGarbageInfo_of path number garbage_blob_count garbage_blob_bytes =
     BlobFileInfo.extend (BlobFileInfo_of path number) (BlobFileGarbageInfo.fields garbage_blob_count garbage_blob_bytes)"

section \<open>Flushes and compactions\<close>

record FlushJobInfo =
  fji_cf_id :: "32 word"
  fji_cf_name :: "string"
  fji_file_path :: "string"
  fji_file_number :: "64 word"
  fji_oldest_blob_file_number :: "64 word"
  fji_thread_id :: "64 word"
  fji_job_id :: "c_int"
  fji_triggered_writes_slowdown :: "bool"
  fji_triggered_writes_stop :: "bool"
  fji_smallest_seqno :: "64 word"
  fji_largest_seqno :: "64 word"
  fji_table_properties :: "TableProperties"
  fji_flush_reason :: "FlushReason"
  fji_blob_compression_type :: "CompressionType"
  fji_blob_file_addition_infos :: "BlobFileAdditionInfo list"

record CompactionFileInfo =
  cfi_level :: "c_int"
  cfi_file_number :: "64 word"
  cfi_oldest_blob_file_number :: "64 word"

record CompactionJobInfo =
  cji_cf_id :: "32 word"
  cji_cf_name :: "string"
  cji_status :: "Status"
  cji_thread_id :: "64 word"
  cji_job_id :: "c_int"
  cji_base_input_level :: "c_int"
  cji_output_level :: "c_int"
  cji_input_files :: "string list"
  cji_input_file_infos :: "CompactionFileInfo list"
  cji_output_files :: "string list"
  cji_output_file_infos :: "CompactionFileInfo list"
  cji_table_properties :: "TablePropertiesCollection"
  cji_compaction_reason :: "CompactionReason"
  cji_compression :: "CompressionType"
  cji_stats :: "CompactionJobStats"
  cji_blob_compression_type :: "CompressionType"
  cji_blob_file_addition_infos :: "BlobFileAdditionInfo list"
  cji_blob_file_garbage_infos :: "BlobFileGarbageInfo list"

record MemTableInfo =
  mti_cf_name :: "string"
  mti_first_seqno :: "64 word"
  mti_earliest_seqno :: "64 word"
  mti_num_entries :: "64 word"
  mti_num_deletes :: "64 word"

record ExternalFileIngestionInfo =
  efi_cf_name :: "string"
  efi_external_file_path :: "string"
  efi_internal_file_path :: "string"
  efi_global_seqno :: "64 word"
  efi_table_properties :: "TableProperties"

record BackgroundErrorRecoveryInfo =
  ber_old_bg_error :: "Status"
  ber_new_bg_error :: "Status"

record IOErrorInfo =
  ioe_io_status :: "IOStatus"
  ioe_operation :: "FileOperationType"
  ioe_file_path :: "string"
  ioe_length :: "64 word"
  ioe_offset :: "64 word"

definition IOErrorInfo_of :: "IOStatus \<Rightarrow> FileOperationType \<Rightarrow> string \<Rightarrow> 64 word \<Rightarrow> 64 word \<Rightarrow> IOErrorInfo" where
  "IOErrorInfo_of io_status operation file_path len offset =
     \<lparr>ioe_io_status = io_status, ioe_operation = operation, ioe_file_path = file_path, ioe_length = len, ioe_offset = offset\<rparr>"

section \<open>Listeners\<close>

text \<open>
  The members of a listener that return something, or get a pointer they may write through, as the
  class defines them; the other callbacks return nothing and have empty bodies.
\<close>

definition EventListener_Name_default :: string where
  "EventListener_Name_default = []"

definition EventListener_OnBackgroundError_default :: "BackgroundErrorReason \<Rightarrow> Status \<Rightarrow> 'l \<Rightarrow> Status \<times> 'l" where
  "EventListener_OnBackgroundError_default reason bg_error l = (bg_error, l)"

definition EventListener_ShouldBeNotifiedOnFileIO_default :: "'l \<Rightarrow> bool" where
  "EventListener_ShouldBeNotifiedOnFileIO_default l = False"

definition EventListener_OnErrorRecoveryBegin_default :: "BackgroundErrorReason \<Rightarrow> Status \<Rightarrow> bool \<Rightarrow> 'l \<Rightarrow> bool \<times> 'l" where
  "EventListener_OnErrorRecoveryBegin_default reason bg_error auto_recovery l = (auto_recovery, l)"

definition EventListener_OnErrorRecoveryCompleted_default :: "Status \<Rightarrow> 'l \<Rightarrow> 'l" where
  "EventListener_OnErrorRecoveryCompleted_default old_bg_error l = l"

section \<open>Lemmas\<close>

text \<open>
  \<open>kNumOfReasons\<close> is the number of the other reasons, which have the values below it; the explicit
  values of \<open>FlushReason\<close> are all different and fill the range up to 13.
\<close>

lemma compaction_reason_range: "compaction_reason_value r \<le> compaction_reason_value cr_kNumOfReasons"
  by (cases r) simp_all

lemma compaction_reason_inj: "compaction_reason_value r = compaction_reason_value r' \<Longrightarrow> r = r'"
  by (cases r; cases r'; simp)

lemma compaction_reasons_counted: "\<exists>r. compaction_reason_value r = n" if "n \<le> compaction_reason_value cr_kNumOfReasons"
proof -
  have "n \<in> set (map compaction_reason_value [cr_kUnknown, cr_kLevelL0FilesNum, cr_kLevelMaxLevelSize, cr_kUniversalSizeAmplification, cr_kUniversalSizeRatio, cr_kUniversalSortedRunNum, cr_kFIFOMaxSize, cr_kFIFOReduceNumFiles, cr_kFIFOTtl, cr_kManualCompaction, cr_kFilesMarkedForCompaction, cr_kBottommostFiles, cr_kTtl, cr_kFlush, cr_kExternalSstIngestion, cr_kPeriodicCompaction, cr_kChangeTemperature, cr_kForcedBlobGC, cr_kNumOfReasons])"
    using that by (simp add: le_Suc_eq numeral_eq_Suc)
  then show ?thesis
    by (metis (no_types) ex_map_conv)
qed

lemma flush_reason_inj: "flush_reason_value r = flush_reason_value r' \<Longrightarrow> r = r'"
  by (cases r; cases r'; simp)

text \<open>A collector that overrides neither way of adding rejects every entry; one with the old \<open>Add\<close> gets it called.\<close>

lemma add_user_key_falls_back:
  "TablePropertiesCollector_AddUserKey_default (TablePropertiesCollector_Add_default ctor) k v t n sz c =
     (Status_InvalidArgument_msg ctor (Slice_of_literal ''TablePropertiesCollector::Add() deprecated.'') Slice_default, c)"
  "TablePropertiesCollector_AddUserKey_default add k v t n sz = add k v"
  by (simp_all add: TablePropertiesCollector_AddUserKey_default_def TablePropertiesCollector_Add_default_def fun_eq_iff)

text \<open>The duration of an operation timed with the steady clock is not negative, whatever the system clock does.\<close>

lemma operation_duration:
  "t1 \<le> t2 \<Longrightarrow> 0 \<le> foi_duration (FileOperationInfo_of raw ty path (FileOperationInfo_StartNow now t1) (FileOperationInfo_FinishNow t2) st)"
  by (simp add: FileOperationInfo_of_def FileOperationInfo_StartNow_def FileOperationInfo_FinishNow_def)

end
