(* ===== verification/Write_Buffer.thy ===== *)
theory Write_Buffer
  imports Prelude
begin

text \<open>
  The inline part of \<open>rocksdb/write_buffer_manager.h\<close>: the limits on the memory of the write buffers.
  Sizes are 64-bit words, read one after the other. Ending a stall is library code, a parameter.
\<close>

type_synonym c_size = "64 word"

record WriteBufferManager =
  wbm_buffer_size :: c_size
  wbm_mutable_limit :: c_size
  wbm_memory_used :: c_size
  wbm_memory_active :: c_size
  wbm_cache_res_mgr :: "nat option"
  wbm_queue :: "nat list"
  wbm_allow_stall :: bool
  wbm_stall_active :: bool

definition wbm_enabled :: "WriteBufferManager \<Rightarrow> bool" where
  "wbm_enabled b \<longleftrightarrow> wbm_buffer_size b > 0"

definition wbm_cost_to_cache :: "WriteBufferManager \<Rightarrow> bool" where
  "wbm_cost_to_cache b \<longleftrightarrow> wbm_cache_res_mgr b \<noteq> None"

definition wbm_SetBufferSize :: "(WriteBufferManager \<Rightarrow> WriteBufferManager) \<Rightarrow> c_size \<Rightarrow> WriteBufferManager \<Rightarrow> WriteBufferManager" where
  "wbm_SetBufferSize maybe_end_write_stall new_size b =
     maybe_end_write_stall (b\<lparr>wbm_buffer_size := new_size, wbm_mutable_limit := new_size * 7 div 8\<rparr>)"

definition wbm_ShouldFlush :: "WriteBufferManager \<Rightarrow> bool" where
  "wbm_ShouldFlush b =
     (if wbm_enabled b then
        if wbm_memory_active b > wbm_mutable_limit b then True
        else
          let local_size = wbm_buffer_size b in
          wbm_memory_used b \<ge> local_size \<and> wbm_memory_active b \<ge> local_size div 2
      else False)"

definition wbm_IsStallThresholdExceeded :: "WriteBufferManager \<Rightarrow> bool" where
  "wbm_IsStallThresholdExceeded b \<longleftrightarrow> wbm_memory_used b \<ge> wbm_buffer_size b"

definition wbm_ShouldStall :: "WriteBufferManager \<Rightarrow> bool" where
  "wbm_ShouldStall b =
     (if \<not> wbm_allow_stall b \<or> \<not> wbm_enabled b then False
      else wbm_stall_active b \<or> wbm_IsStallThresholdExceeded b)"

text \<open>
  The limit for active buffers is seven eighths of the size only for sizes below \<open>2\<^sup>6\<^sup>4 / 7\<close>; beyond,
  the product wraps around.
\<close>

lemma mutable_limit_value:
  assumes "\<And>c. wbm_mutable_limit (ends c) = wbm_mutable_limit c"
  shows "unat (wbm_mutable_limit (wbm_SetBufferSize ends s b)) = (unat s * 7) mod 2 ^ 64 div 8"
  using assms by (simp add: wbm_SetBufferSize_def unat_div unat_word_ariths)

lemma mutable_limit_wraps:
  "unat (wbm_mutable_limit (wbm_SetBufferSize id 2635249153387078803 b)) = 0"
  by (simp add: mutable_limit_value)

text \<open>
  With size 0, documented as \<open>no limit\<close>, no flush and no stall is ever asked for; the comment on the
  constructor says that \<open>ShouldFlush\<close> would always return true.
\<close>

lemma zero_size_never_flushes:
  "wbm_buffer_size b = 0 \<Longrightarrow> \<not> wbm_ShouldFlush b \<and> \<not> wbm_ShouldStall b"
  by (simp add: wbm_ShouldFlush_def wbm_ShouldStall_def wbm_enabled_def)

end
