(* ===== verification/Spec2Isabelle.thy ===== *)
theory Spec2Isabelle
  imports Degraded Pending Full_Disk Node_Order Stackable Option_Types Customizables Table_Options Hooks Events Write_Buffer
begin

text \<open>
  A distributed key-value store over RocksDB (\<open>src/my_code\<close>): one control node, fed commands on its
  standard input, and several store nodes, each a TCP server with a data and a log database. Keys are
  partitioned into consecutive ranges, one per store node. The control node keeps the ranges in a meta
  database of its own (least key of a range \<open>\<mapsto>\<close> least key, greatest key, node number), routes a key to
  the node of the greatest least key at or below it, updates a node in two requests (log, then commit),
  and after every update moves border entries between neighbours until the bytes are evenly spread.

  \<^bold>\<open>Theories and sources\<close>, in the order of use (paths below \<open>src/my_code\<close> unless said otherwise).

  \<^item> \<open>Prelude\<close>: the \<open>fault\<close>s a C++ program can run into, the result type (\<open>Inl\<close> a fault), bytes,
    memory blocks with bounds-checked \<open>memcpy\<close>, \<open>int\<close> as a 32-bit word, \<open>to_string\<close>, and key-ordered
    association lists (\<open>kv_put\<close>, \<open>kv_del\<close>, \<open>kv_get\<close>) as the view of a database.
  \<^item> \<open>Handle_Buff\<close>: \<open>const_values\<close> and \<open>handle_buff\<close>, the wire format. A pointer into a buffer is a
    block and an offset. Locale \<open>buff_codec\<close> is the contract of a writer and its reader, interpreted
    for strings (\<open>str_codec\<close>) and integers (\<open>int_codec\<close>).
  \<^item> \<open>Slices\<close>, \<open>Statuses\<close>, \<open>Rocks_Adv_Options\<close>, \<open>Rocks_Options\<close>: the inline code of the RocksDB headers
    under \<open>src/rocksdb_include/rocksdb\<close>: \<open>slice.h\<close>, \<open>cleanable.h\<close>, \<open>status.h\<close>, \<open>io_status.h\<close>, and the
    option structures with their default initialisers. Large structures are chains of records.
  \<^item> \<open>Option_Types\<close>, \<open>Object_Registry\<close>, \<open>Customizables\<close>, \<open>Write_Buffer\<close>: further inline code of these
    headers: \<open>utilities/options_type.h\<close> with \<open>ConfigOptions\<close> of \<open>convenience.h\<close> (options as strings; locale
    \<open>tokeniser\<close> is what the comments say of \<open>NextToken\<close>; they disagree on where it leaves \<open>end\<close>, so that
    is a parameter, and a splitter interprets the locale in both readings),
    \<open>utilities/object_registry.h\<close> (factories and managed objects, libraries in an explicit heap),
    \<open>customizable.h\<close> and \<open>utilities/customizable_util.h\<close> (walks along wrapped objects, which may not end,
    and objects loaded from strings), and the limits of \<open>write_buffer_manager.h\<close> on 64-bit words.
  \<^item> \<open>Env_Files\<close>, \<open>File_System\<close>, \<open>Table_Options\<close>, \<open>Hooks\<close>, \<open>File_Metadata\<close>: the default bodies and data of
    the headers around the database: \<open>env.h\<close>, \<open>file_system.h\<close> (preallocation, reads of many requests,
    listing a directory whose files vanish), \<open>table.h\<close>, the classes a client derives from (locale
    \<open>comparator\<close>, interpreted on \<open>Slice::compare\<close>), descriptions of files, backups and transactions.
    \<open>Events\<close>: what a listener is told (\<open>listener.h\<close>), with table properties and compaction statistics.
  \<^item> \<open>Rocks_DB\<close>: the RocksDB library, which is not among the sources, as a record of functions; locale
    \<open>rocksdb_api\<close> states the behaviour \<open>db.h\<close> and \<open>iterator.h\<close> document, \<open>rocksdb_readable\<close> adds that
    opening and reading do not fail, and on top of it \<open>rocksdb_reliable\<close> that writing succeeds and
    \<open>rocksdb_full\<close> that every write is refused; all are interpreted on databases of key-ordered lists
    (\<open>ref\<close>, \<open>ref_full\<close>). Their iterator laws are the locale \<open>rocksdb_iterators\<close>. \<open>DB_Class\<close>: the inline members of the class \<open>DB\<close>
    of \<open>db.h\<close> over its pure virtual ones (a record of functions). \<open>Column_Families\<close>: locale
    \<open>column_families\<close> states what the pure virtual members promise of every column family; a \<open>sublocale\<close>
    shows that the inline members on top are a \<open>rocksdb_api\<close>; \<open>ref_families\<close> interprets it.
    \<open>Stackable\<close>: \<open>utilities/stackable_db.h\<close>, a database over another one; \<open>stacked_ref\<close> interprets the laws
    on a stack over the reference families.
  \<^item> \<open>DB_Handle\<close>: \<open>db_handle\<close>. \<open>Control_Meta\<close>: \<open>control_node/control_meta\<close>. \<open>Store_Log\<close>:
    \<open>store_node/store_log\<close>. \<open>Store_Data\<close>: \<open>store_node/store_data\<close>. \<open>Net\<close>: \<open>net_connect\<close>, over the
    socket calls as a record of functions \<open>os\<close>. A \<open>send\<close> on a connection known to be closed has no
    result: flags are 0 and there is no signal handler, so \<open>SIGPIPE\<close> ends the process (\<open>Broken_pipe\<close>).
  \<^item> \<open>Store_Impl\<close>: \<open>store_node/store_impl\<close> and \<open>main_cpp/store_node.cpp\<close>; the abstract node \<open>astore\<close>
    (entries and the pending log records, in the order of the log) with \<open>store_spec\<close>, and the relation \<open>store_rel\<close>. \<open>Store_Node\<close>: the
    store program from its databases and its listening socket to \<open>quit\<close>, with any log records pending;
    what records left by a crash do to later updates (\<open>rounds\<close>), and a request that arrives in pieces.
    Locale \<open>node_service\<close> is what the request loop relies on of its database; \<open>sublocale\<close>s give it over
    reliable databases and, in \<open>Full_Disk\<close>, over full ones.
  \<^item> \<open>Doubles\<close>: IEEE double addition and division (rounding to nearest even) as used by
    \<open>not_too_much\<close>. \<open>Control_Impl\<close>: \<open>control_node/control_impl\<close> and \<open>main_cpp/control_node.cpp\<close>; the two
    mirrored halves of \<open>re_balance\<close> are one definition with a \<open>direction\<close>.
  \<^item> \<open>Routing\<close>: lists of nodes separated by least keys, and what moving a border entry does to them.
  \<^item> \<open>Control_Refine\<close>: locale \<open>store_service\<close> is what the control node relies on (a request to node
    \<open>i\<close> is answered as \<open>store_spec\<close> says and changes no other node); \<open>control_env\<close> joins it with
    \<open>rocksdb_reliable\<close>, with a number \<open>spare\<close> of further nodes the service says nothing about, and
    \<open>control_whole\<close> is the case without; there each exchange, each move, each loop and each command is
    described by its effect on meta records and nodes, with the invariant \<open>cluster_inv\<close>.
  \<^item> \<open>Cluster\<close>: the control node's socket calls instantiated by modelled store nodes (\<open>cluster_os\<close>). The
    first \<open>send\<close> to a node that is down goes through, the next one ends the control node.
    A \<open>sublocale\<close> shows that this is a \<open>control_whole\<close> over any reliable database, and \<open>ref_cluster\<close>
    interprets it on the reference database. \<open>cluster_step\<close> is the transition relation of commands.
  \<^item> \<open>Degraded\<close>: a cluster of which one node has ended. Locale \<open>control_degraded\<close> joins two \<open>control_env\<close>,
    before and after the first \<open>send\<close> on the closed connection; \<open>ref_degraded\<close> interprets it on the
    modelled nodes and the reference database.
  \<^item> \<open>Crash\<close>: processes started over the databases of others that died (\<open>restarted\<close>), whatever logs are
    pending, and the two points inside a move at which the processes may die. \<open>Pending\<close>: the commands of
    the control node over store nodes with pending records.
  \<^item> \<open>Node_Order\<close>: the records the constructor of the control node writes for any number of nodes, and
    the order their keys put them in.
  \<^item> This theory: the properties of the whole program.

  \<^bold>\<open>What is shown.\<close> C1 to C6: the cluster refines one map, from \<open>main\<close> on; every reachable state is good
  and no command faults there; \<open>re_balance\<close> ends and balances; updates are updates of one key; a restart
  serves what is stored, also with log records pending; every entry is routed to its holder. C7 to C17: the
  store node refines its specification turn by turn and, from its \<open>main\<close> over databases with any pending
  log records, for every sequence of requests; log and commit, the cached size, the log, the floor look-up,
  the round trips of the wire format and the records, extreme keys, the scans, and exactly when a write
  overruns its buffer. C18 to C26: the RocksDB headers: vectors of options written, read and compared,
  infos of pointers, the search for factories, the walk along wrapped objects, preallocation, directory
  listings, the class \<open>DB\<close> over column families, stacked databases. C27 to C40: behaviour of the code that
  its comments do not promise, each as a theorem: an entry lost by a crash between two commits, an entry
  lost together with the control node by a move to a node that has ended, a hostile length word, log records that a crash left and that no later
  update makes up for, commands of the user that are acknowledged and not made because of them, refused
  writes that are acknowledged, empty values, requests in one chunk and in two, what a store node does
  once its connection is closed, the look-ups by iterator, the constructor's array, the end of the input,
  the order of the records of ten and more nodes.

  \<^bold>\<open>Bounds.\<close> Keys and values of the protocol are \<open>good_str\<close>: not empty, without NUL bytes, at most
  20000 bytes, so that a log request with both and every answer fit \<open>MAXLINE = 40960\<close> bytes. Sizes are
  32-bit words; C3 assumes a total below \<open>2^31\<close> bytes, the range of \<open>int\<close>. A fresh meta database is
  covered for up to nine nodes (C40 shows why), the program has three. The block of
  \<open>virtual_fd_2_net_file\<close> is as large as the parameter \<open>usable\<close> says; C1 assumes the 12 bytes that three
  nodes need, which the code does not ask for (C38). Loops that may not end are
  \<open>partial_function (option)\<close> with proofs that they return, or that they do not: \<open>None\<close> is the run that
  never ends (\<open>control_run\<close> without \<open>quit\<close>, C39; \<open>store_impl_run\<close> after the end of the connection, C36).

  \<^bold>\<open>Abstractions.\<close> In \<open>Cluster\<close> a message sent is one chunk for the receiver and is served before the
  control node goes on; C34 and C35 show what other chunkings do. The reset of a connection whose other
  side has ended is known from the second \<open>send\<close> on. Printed text is a list of lines. Freeing iterators and buffers has no effect in the model. The status messages of RocksDB are opaque.

  \<^bold>\<open>Not modelled.\<close> The RocksDB library itself; the vendored headers that only declare library code, and
  those of library parts neither the program nor the modelled headers use; locks and destructors; build
  files, the test script. Failing I/O: look-ups, scans and the class \<open>DB\<close> are over \<open>rocksdb_api\<close>, the store
  node over databases that take every write or none; writes that fail now and then are not covered.

  \<^bold>\<open>To be extended\<close>: a node that answers anything but \<open>ok\<close> (the code goes on after its roll back), the
  rebalancing over store nodes with pending records (C31 assumes that nothing has to be moved), the wrapper classes of
  \<open>env.h\<close> and \<open>file_system.h\<close>, which only forward.
\<close>

section \<open>The map a cluster stands for\<close>

fun command_map :: "command \<Rightarrow> (string \<rightharpoonup> string) \<Rightarrow> (string \<rightharpoonup> string)" where
  "command_map (Cmd_put k v) m = m(k \<mapsto> v)"
| "command_map (Cmd_del k) m = m(k := None)"
| "command_map (Cmd_get k) m = m"
| "command_map (Cmd_test t) m = m"

lemma command_map_spec: "map_of (command_spec cmd xs) = command_map cmd (map_of xs)"
  by (cases cmd) simp_all

lemma commands_map_spec: "map_of (fold command_spec cmds xs) = fold command_map cmds (map_of xs)"
  by (induction cmds arbitrary: xs) (simp_all add: command_map_spec)

lemma cluster_state_out: "cluster_state content n xs (c\<lparr>c_out := out\<rparr>) = cluster_state content n xs c"
  by (simp add: cluster_state_def control_rel_def)

lemma run_get_quit:
  assumes "rocksdb_reliable R content cursor" "cluster_state content n xs c" "list_all command_ok cmds" "good_str k"
  shows "\<exists>c'. control_run R (cluster_os R) c (input_of cmds @ [get_GET, k, ''quit'']) = Some (Inr (c', [])) \<and> c_out c' \<noteq> [] \<and>
    last (c_out c') = ''get '' @ (case fold command_map cmds (map_of xs) k of Some v \<Rightarrow> v | None \<Rightarrow> [])"
proof -
  obtain c1 where c1: "control_run R (cluster_os R) c (input_of cmds @ [get_GET, k, ''quit'']) =
      control_run R (cluster_os R) c1 ([get_GET, k] @ [''quit''])" "cluster_state content n (fold command_spec cmds xs) c1"
    using rocksdb_reliable.state_commands [OF assms(1-3), of "[get_GET, k, ''quit'']"] by auto
  obtain c2 where c2: "control_get R (cluster_os R) c1 k = Inr c2"
    "c_out c2 = c_out c1 @ [''get '' @ (case kv_get k (fold command_spec cmds xs) of Some v \<Rightarrow> v | None \<Rightarrow> [])]"
    using rocksdb_reliable.state_get [OF assms(1) c1(2) assms(4)] by blast
  have "control_run R (cluster_os R) c (input_of cmds @ [get_GET, k, ''quit'']) = Some (Inr (c2, []))"
    unfolding c1(1) run_words(2) by (simp add: c2(1) run_words(5))
  then show ?thesis
    using c2(2) by (simp add: kv_get_def commands_map_spec)
qed

section \<open>Properties of the whole program\<close>

text \<open>
  C1: the program as started by its two \<open>main\<close> functions implements one map: three fresh store
  nodes and a control node without meta data, fed any sequence of \<open>put\<close>, \<open>get\<close>, \<open>del\<close> and \<open>test\<close>
  commands and then \<open>get k\<close> and \<open>quit\<close>, run to the end without a fault, and the last line printed is the
  value the sequence of updates leaves under \<open>k\<close> (empty if there is none), however the entries were
  moved between the nodes in the meantime.
\<close>

theorem cluster_refines_map:
  assumes "rocksdb_reliable R content cursor" "nodes_ready content (main_nodes (cluster_os R)) w"
    "\<forall>nd \<in> set (cw_nodes w). abs_store content (nd_store nd) = idle []" "disk_holds R content ''control_meta'' []"
    "12 \<le> usable 3" "\<forall>n. length (fresh n) = MAXLINE" "list_all command_ok cmds" "good_str k"
  shows "\<exists>c. control_node_main R (cluster_os R) usable fresh w (input_of cmds @ [get_GET, k, ''quit'']) = Some (Inr (c, [])) \<and>
    c_out c \<noteq> [] \<and> last (c_out c) = ''get '' @ (case fold command_map cmds Map.empty k of Some v \<Rightarrow> v | None \<Rightarrow> [])"
proof -
  let ?N = "cluster_os R"
  let ?ls = "map (\<lambda>port. Ip_location_of ?N ''127.0.0.1'' port) [6666, 6667, 6668]"
  have ls: "map fst ?ls = main_nodes ?N" "length (main_nodes ?N) = 3" "main_nodes ?N \<noteq> []"
    by (simp_all add: main_nodes_def)
  have "length (fresh m) = MAXLINE" for m
    using assms(6) by simp
  then obtain c where c: "control_impl_open R ?N usable fresh ''control_meta'' (main_nodes ?N) w = Inr c" "cluster_state content 3 [] c"
    using rocksdb_reliable.state_open [OF assms(1,2) ls(3), where usable = usable and fresh = fresh and path = "''control_meta''"]
      ls(2) assms(3-5) by auto
  have "cluster_state content 3 [] (c\<lparr>c_out := concat (map snd ?ls) @ c_out c\<rparr>)"
    using c(2) by (simp only: cluster_state_out)
  from run_get_quit [OF assms(1) this assms(7,8)] c(1) show ?thesis
    by (simp only: control_node_main_def Let_def ls(1) sum.case) simp
qed

theorem cluster_refines_map_witness:
  "\<exists>c. control_node_main ref_R (cluster_os ref_R) (\<lambda>n. n + 24) (\<lambda>_. replicate MAXLINE NUL) ref_world
      (input_of [Cmd_put ''b'' ''2'', Cmd_put ''a'' ''1'', Cmd_put ''b'' ''3'', Cmd_del ''a''] @ [get_GET, ''b'', ''quit'']) = Some (Inr (c, [])) \<and>
    last (c_out c) = ''get 3''"
  using cluster_refines_map [OF ref_R_reliable ref_world_ready _ ref_disk, of "\<lambda>n. n + 24" "\<lambda>_. replicate MAXLINE NUL"
      "[Cmd_put ''b'' ''2'', Cmd_put ''a'' ''1'', Cmd_put ''b'' ''3'', Cmd_del ''a'']" "''b''"]
  by (auto simp: good_str_def nul_free_def NUL_def ref_world_def ref_node_live(2))

text \<open>
  C2: no fault is reachable: from a good state of the cluster, after any commands and rebalancings,
  the state is good again and every further command with arguments the protocol can carry returns.
\<close>

theorem reachable_states_are_safe:
  assumes "rocksdb_reliable R content cursor" "cluster_state content n xs c0"
    "(cluster_step R (cluster_os R))\<^sup>*\<^sup>* c0 c" "good_str k" "good_str v"
  shows "(\<exists>xs'. cluster_state content n xs' c) \<and> (\<exists>c'. control_put R (cluster_os R) c k v = Inr c') \<and>
    (\<exists>c'. control_get R (cluster_os R) c k = Inr c') \<and> (\<exists>c'. control_del R (cluster_os R) c k = Inr c') \<and>
    (\<exists>c'. control_test (cluster_os R) c k = Inr c') \<and> (\<exists>c'. control_re_balance R (cluster_os R) c = Inr c')"
proof -
  obtain xs' where st: "cluster_state content n xs' c"
    using rocksdb_reliable.state_reach [OF assms(1,3,2)] by blast
  then show ?thesis
    using rocksdb_reliable.state_put [OF assms(1) st assms(4,5)] rocksdb_reliable.state_get [OF assms(1) st assms(4)]
      rocksdb_reliable.state_del [OF assms(1) st assms(4)] rocksdb_reliable.state_test [OF assms(1) st assms(4)]
      rocksdb_reliable.state_re_balance [OF assms(1) st] by blast
qed

text \<open>The state of the reference cluster after construction.\<close>

definition ref_control :: "(kv, kv cluster_world) control" where
  "ref_control = projr (control_impl_open ref_R (cluster_os ref_R) (\<lambda>n. n + 24) (\<lambda>_. replicate MAXLINE NUL)
     ''control_meta'' (main_nodes (cluster_os ref_R)) ref_world)"

lemma ref_control_state: "cluster_state ref_content 3 [] ref_control"
proof -
  have ls: "length (main_nodes (cluster_os ref_R)) = 3" "main_nodes (cluster_os ref_R) \<noteq> []"
    by (simp_all add: main_nodes_def)
  have "\<forall>nd \<in> set (cw_nodes ref_world). abs_store ref_content (nd_store nd) = idle []"
    by (simp add: ref_world_def ref_node_live(2))
  then show ?thesis
    using rocksdb_reliable.state_open [OF ref_R_reliable ref_world_ready ls(2), where usable = "\<lambda>n. n + 24"
        and fresh = "\<lambda>_. replicate MAXLINE NUL" and path = "''control_meta''"] ls(1) ref_disk
    by (auto simp: ref_control_def)
qed

theorem reachable_states_are_safe_witness:
  "\<exists>c'. control_put ref_R (cluster_os ref_R) ref_control ''k'' ''v'' = Inr c'"
  using reachable_states_are_safe [OF ref_R_reliable ref_control_state rtranclp.rtrancl_refl, of "''k''" "''v''"]
  by (simp add: good_str_def nul_free_def NUL_def)

text \<open>
  C3: \<open>re_balance\<close> ends, keeps the entries of the cluster, and leaves every node but the first with at
  most one entry or a share of the bytes of at most \<open>1/n\<close> plus about one per cent (the totals being
  below \<open>2^31\<close> bytes).
\<close>

theorem re_balance_balances:
  assumes "rocksdb_reliable R content cursor" "cluster_state content n xs c" "kv_bytes xs < 2 ^ 31"
  shows "\<exists>c'. control_re_balance R (cluster_os R) c = Inr c' \<and> cluster_state content n xs c' \<and>
    (\<forall>i. 1 \<le> i \<and> i < n \<longrightarrow>
      (let d = as_data (cluster_nodes content (c_world c') ! i) in
       length d \<le> 1 \<or> (of_nat (kv_bytes d) :: rat) \<le> (1 / of_nat n + 11 / 1000) * (of_nat (kv_bytes xs) + 1)))"
proof -
  obtain ms as where st: "control_rel content (cluster_nodes content) cluster_fd (cluster_live content) 0 ms as c" "cluster_inv ms as"
    "cluster_kv as = xs" "length as = n"
    using assms(2) by (auto simp: cluster_state_def)
  obtain c' ms' as' where c': "control_re_balance R (cluster_os R) c = Inr c'"
    "control_rel content (cluster_nodes content) cluster_fd (cluster_live content) 0 ms' as' c'" "cluster_inv ms' as'"
    "cluster_kv as' = xs" "length as' = n" "balanced xs as'"
    using control_whole.re_balance_run [OF control_whole.intro [OF control_env.intro [OF assms(1) rocksdb_reliable.cluster_service [OF assms(1)]]] st(1,2)]
      st(3,4) by auto
  have nodes: "cluster_nodes content (c_world c') = as'"
    using c'(2) by (simp add: control_rel_def)
  have small: "sint (word_of_nat (kv_bytes ys) :: c_int) = int (kv_bytes ys)" if "kv_bytes ys \<le> kv_bytes xs" for ys
    using that assms(3) by (intro sint_small) simp
  have share: "length (as_data (as' ! i)) \<le> 1 \<or> (of_nat (kv_bytes (as_data (as' ! i))) :: rat) \<le> (1 / of_nat n + 11 / 1000) * (of_nat (kv_bytes xs) + 1)"
    if i: "1 \<le> i" "i < n" for i
  proof -
    have "kv_bytes (as_data (as' ! i)) \<le> kv_bytes xs"
      using concat_split [of i "map as_data as'"] c'(4,5) i by (simp add: cluster_kv_def flip: c'(4))
    note S = small [OF this] small [OF order.refl]
    have "node_fine (word_of_nat (kv_bytes xs)) (dbl_div 1 (of_nat n)) (as_data (as' ! i))"
      using c'(5,6) i by (simp add: balanced_def)
    then show ?thesis
      using share_ok_bound [of "word_of_nat (kv_bytes (as_data (as' ! i)))" "word_of_nat (kv_bytes xs)" n] i
      unfolding S node_fine_def by auto
  qed
  have "cluster_state content n xs c'"
    using c'(2-5) by (auto simp: cluster_state_def)
  with c'(1) share show ?thesis
    by (simp add: nodes Let_def)
qed

theorem re_balance_balances_witness:
  "\<exists>c'. control_re_balance ref_R (cluster_os ref_R) ref_control = Inr c' \<and> cluster_state ref_content 3 [] c'"
  using re_balance_balances [OF ref_R_reliable ref_control_state] by auto

text \<open>
  C4: \<open>put\<close> and \<open>del\<close> change the entries of the cluster exactly as an update of one key of one map, and
  no other entry is lost or changed by the moves that follow.
\<close>

theorem updates_are_map_updates:
  assumes "rocksdb_reliable R content cursor" "cluster_state content n xs c" "good_str k" "good_str v"
  shows "\<exists>c1 c2 ys zs. control_put R (cluster_os R) c k v = Inr c1 \<and> cluster_state content n ys c1 \<and>
    map_of ys = (map_of xs)(k \<mapsto> v) \<and> control_del R (cluster_os R) c k = Inr c2 \<and> cluster_state content n zs c2 \<and>
    map_of zs = (map_of xs)(k := None)"
  using rocksdb_reliable.state_put [OF assms] rocksdb_reliable.state_del [OF assms(1-3)]
  by (metis map_of_kv_del map_of_kv_put)

theorem updates_are_map_updates_witness:
  "\<exists>c1 ys. control_put ref_R (cluster_os ref_R) ref_control ''k'' ''v'' = Inr c1 \<and> cluster_state ref_content 3 ys c1 \<and>
    map_of ys = [''k'' \<mapsto> ''v'']"
  using updates_are_map_updates [OF ref_R_reliable ref_control_state, of "''k''" "''v''"]
  by (auto simp: good_str_def nul_free_def NUL_def)

text \<open>
  C5: a control node restarted over the meta database of a cluster and its store nodes serves the
  entries that are there: a \<open>get\<close> prints the stored value of any key, whatever log records the nodes had not
  committed when they stopped.
\<close>

theorem restart_serves_stored_entries:
  assumes "rocksdb_reliable R content cursor" "nodes_ready content ls w" "disk_holds R content path (map meta_entry ms)"
    "cluster_data ms (cluster_nodes content w)" "length ls < 2 ^ 31" "4 * length ls \<le> usable (length ls)"
    "\<forall>n. length (fresh n) = MAXLINE" "good_str k"
  shows "\<exists>c c'. control_impl_open R (cluster_os R) usable fresh path ls w = Inr c \<and> control_get R (cluster_os R) c k = Inr c' \<and>
    last (c_out c') = ''get '' @ (case map_of (cluster_kv (cluster_nodes content w)) k of Some v \<Rightarrow> v | None \<Rightarrow> [])"
proof -
  have ms: "metas_ok ms" "length ms = length (cluster_nodes content w)" "ms \<noteq> []"
    using assms(4) separators_D(2) [of "map min_str ms" "map as_data (cluster_nodes content w)"] by (auto simp: cluster_data_def)
  from rocksdb_reliable.restart_get [where usable = usable and fresh = fresh, OF assms(1,2,3) ms assms(5,6) _ assms(8)] assms(7)
  show ?thesis
    using cluster_data_get [OF assms(4), of k] by (simp add: kv_get_def)
qed

theorem restart_serves_stored_entries_witness:
  "\<exists>c c'. control_impl_open ref_restart_db (cluster_os ref_restart_db) (\<lambda>n. n + 24) (\<lambda>_. replicate MAXLINE NUL) ''control_meta''
      ref_restart_nodes ref_restart_world = Inr c \<and>
    control_get ref_restart_db (cluster_os ref_restart_db) c ''m'' = Inr c' \<and> last (c_out c') = ''get z''"
  using restart_serves_stored_entries [OF ref_restart_reliable ref_restart_facts(1,3), of "\<lambda>n. n + 24" "\<lambda>_. replicate MAXLINE NUL" "''m''"]
    cluster_inv_data [OF ref_restart_inv(3)]
  by (simp add: ref_restart_facts(2) cluster_kv_def good_str_def nul_free_def NUL_def ref_restart_nodes_def)

text \<open>
  C6: every entry is found where it is: the routing look-up of a stored key leads to the node that
  holds it.
\<close>

theorem stored_keys_are_routed_home:
  assumes "rocksdb_reliable R content cursor" "cluster_state content n xs c" "i < n"
    "e \<in> set (as_data (cluster_nodes content (c_world c) ! i))"
  shows "\<exists>it m. route R c (fst e) = Inr (it, m) \<and> virtual_fd m = word_of_nat i \<and>
    file_at c (virtual_fd m) = Inr \<lparr>connect_fd = cluster_fd i\<rparr>"
proof -
  obtain ms as where st: "control_rel content (cluster_nodes content) cluster_fd (cluster_live content) 0 ms as c" "cluster_inv ms as" "length as = n"
    using assms(2) by (auto simp: cluster_state_def)
  note env = control_env.intro [OF assms(1) rocksdb_reliable.cluster_service [OF assms(1)]]
  note D = cluster_inv_D [OF st(2)]
  have "e \<in> set (map as_data as ! i)"
    using st(1,3) assms(3,4) by (simp add: control_rel_def)
  then have "owner (map min_str ms) (fst e) = i"
    using owner_of_entry [OF D(5), of i e] assms(3) st(3) by simp
  moreover have "virtual_fd (ms ! i) = word_of_nat i"
    using D(2,3) st(3) assms(3) by (simp add: metas_ok_def)
  ultimately show ?thesis
    using control_env.route_run [OF env st(1) D(2,4) refl, of "fst e"] control_env.file_at_run [OF env st(1), of i] st(3) assms(3)
    by auto
qed

theorem stored_keys_are_routed_home_witness:
  "\<exists>it m. route ref_restart_db ref_restart_control ''m'' = Inr (it, m) \<and> virtual_fd m = 1"
  using stored_keys_are_routed_home [OF ref_restart_reliable ref_restart_state(1), of 1 "(''m'', ''z'')"]
  by (auto simp: ref_restart_state(2))

text \<open>
  C38: the constructor of the control node asks \<open>malloc\<close> for one byte per node and stores a four-byte
  descriptor per node. Whatever the sockets do, it writes past the end of the block exactly when the
  block has fewer than four bytes per node, and returns otherwise; so with no more bytes than asked
  for it overflows as soon as there is a node.
\<close>

theorem constructor_overflows_its_array:
  assumes "rocksdb_reliable R content cursor" "\<forall>n. length (fresh n) = MAXLINE" "length ls < 2 ^ 31"
  shows "(control_impl_open R N usable fresh path ls w = Inl Buffer_overflow \<longleftrightarrow> usable (length ls) < 4 * length ls) \<and>
    ((\<exists>c. control_impl_open R N usable fresh path ls w = Inr c) \<longleftrightarrow> 4 * length ls \<le> usable (length ls))"
  using rocksdb_reliable.open_room [where usable = usable and fresh = fresh, OF assms(1) _ assms(3), of N path w] assms(2)
  by (auto split: if_splits)

theorem constructor_overflows_its_array_witness:
  "control_impl_open ref_R (cluster_os ref_R) (\<lambda>n. n) (\<lambda>_. replicate MAXLINE NUL) ''control_meta'' (main_nodes (cluster_os ref_R)) ref_world
    = Inl Buffer_overflow"
  using constructor_overflows_its_array [OF ref_R_reliable, of "\<lambda>_. replicate MAXLINE NUL" "main_nodes (cluster_os ref_R)" "cluster_os ref_R" "\<lambda>n. n"]
  by (simp add: main_nodes_def)

text \<open>
  C39: only \<open>quit\<close> ends the control node. After any sequence of commands with arguments the protocol can
  carry, \<open>run\<close> returns when \<open>quit\<close> follows; when the input ends there instead, or behind a \<open>del\<close> without
  its key, the loop never returns: every command it reads is empty and nothing it does changes that.
\<close>

theorem input_without_quit_spins:
  assumes "rocksdb_reliable R content cursor" "cluster_state content n xs c" "list_all command_ok cmds"
  shows "control_run R (cluster_os R) c (input_of cmds) = None \<and>
    control_run R (cluster_os R) c (input_of cmds @ [get_DEL]) = None \<and>
    (\<exists>c'. control_run R (cluster_os R) c (input_of cmds @ [''quit'']) = Some (Inr (c', [])) \<and>
      cluster_state content n (fold command_spec cmds xs) c')"
proof -
  have "\<exists>c'. control_run R (cluster_os R) c (input_of cmds @ ts) = control_run R (cluster_os R) c' ts \<and>
      cluster_state content n (fold command_spec cmds xs) c'" for ts
    by (rule rocksdb_reliable.state_commands [OF assms])
  from this [of "[]"] this [of "[get_DEL]"] this [of "[''quit'']"] show ?thesis
    by (auto simp: control_run_end run_words(5) run_del_cut)
qed

theorem input_without_quit_spins_witness:
  "control_run ref_R (cluster_os ref_R) ref_control (input_of [Cmd_put ''k'' ''v'']) = None"
proof -
  have "list_all command_ok [Cmd_put ''k'' ''v'']"
    by (simp add: good_str_def nul_free_def NUL_def)
  from input_without_quit_spins [OF ref_R_reliable ref_control_state this] show ?thesis
    by (rule conjunct1)
qed

text \<open>
  C40: with ten or more store nodes the meta records that the constructor writes are not in the order
  of the nodes' numbers. Over an empty meta database and whatever the sockets do, the constructor
  leaves one record per node, and in the order of their keys, in which \<open>re_balance\<close> steps from a node's
  record to its neighbour's, their node numbers are \<open>0, 1, 2, ...\<close> if there are at most nine nodes; from
  the tenth on the record behind node 0's is that of node 9, since its key \<open>10\<close> is below \<open>2\<close>.
\<close>

theorem ten_nodes_are_out_of_order:
  assumes "rocksdb_reliable R content cursor" "disk_holds R content path []" "\<forall>n. length (fresh n) = MAXLINE"
    "length ls < 2 ^ 31" "4 * length ls \<le> usable (length ls)"
  shows "\<exists>c ms. control_impl_open R N usable fresh path ls w = Inr c \<and> hcontent content (meta_db c) = map meta_entry ms \<and>
    length ms = length ls \<and> set (map virtual_fd ms) = word_of_nat ` {..<length ls} \<and>
    (map virtual_fd ms = map word_of_nat [0..<length ls] \<longleftrightarrow> length ls \<le> 9) \<and>
    (10 \<le> length ls \<longrightarrow> virtual_fd (ms ! 0) = 0 \<and> virtual_fd (ms ! 1) = 9)"
proof -
  have "\<not> usable (length ls) < 4 * length ls" "\<And>n. length (fresh n) = MAXLINE"
    using assms(3,5) by simp_all
  then obtain c where c: "control_impl_open R N usable fresh path ls w = Inr c"
    "hcontent content (meta_db c) = fold put_initial [0..<length ls] []"
    using rocksdb_reliable.open_room [where usable = usable and fresh = fresh, OF assms(1) _ assms(4), of N path w] assms(2) by auto
  obtain ms where "fold put_initial [0..<length ls] [] = map meta_entry ms" "length ms = length ls"
    "set (map virtual_fd ms) = word_of_nat ` {..<length ls}"
    "map virtual_fd ms = map word_of_nat [0..<length ls] \<longleftrightarrow> length ls \<le> 9"
    "10 \<le> length ls \<longrightarrow> virtual_fd (ms ! 0) = 0 \<and> virtual_fd (ms ! 1) = 9"
    using initial_order by blast
  with c show ?thesis
    by (intro exI [of _ c] exI [of _ ms]) simp
qed

theorem ten_nodes_are_out_of_order_witness:
  "\<exists>c ms. control_impl_open ref_R (cluster_os ref_R) (\<lambda>n. 4 * n) (\<lambda>_. replicate MAXLINE NUL) ''control_meta''
      (replicate 10 Ip_location_default) ref_world = Inr c \<and>
    hcontent ref_content (meta_db c) = map meta_entry ms \<and> length ms = 10 \<and>
    virtual_fd (ms ! 0) = 0 \<and> virtual_fd (ms ! 1) = 9"
  using ten_nodes_are_out_of_order [where fresh = "\<lambda>_. replicate MAXLINE NUL" and ls = "replicate 10 Ip_location_default" and
      usable = "\<lambda>n. 4 * n" and N = "cluster_os ref_R" and w = ref_world, OF ref_R_reliable ref_disk [where path = "''control_meta''"]]
  by auto

end
